(* ===== verification/Prelude.thy ===== *)
theory Prelude
  imports Main "HOL-Library.Word" "HOL-Library.AList" "HOL-Library.Char_ord"
    "HOL-Library.List_Lexorder" "HOL-Library.Sublist"
begin

text \<open>
  The prelude of the development: what the components share of Go itself.

  \<^item> Go strings are byte strings, here \<^typ>\<open>string\<close> (a list of 8-bit characters). The functions of
    package \<^verbatim>\<open>strings\<close> that the code calls are defined below under their Go names in lower case.
    Case mapping and white space follow ASCII; a byte outside ASCII is left alone.
  \<^item> A Go map is an association list with distinct keys (\<open>gkeys\<close>). The list's order is the order in
    which a \<^verbatim>\<open>range\<close> loop visits the map, which Go leaves open: a theorem about an arbitrary list
    therefore covers every order of one loop. \<^verbatim>\<open>m[k]\<close>, \<^verbatim>\<open>m[k] = v\<close> and \<^verbatim>\<open>delete(m, k)\<close> are
    \<^const>\<open>map_of\<close>, \<^const>\<open>AList.update\<close> and \<^const>\<open>AList.delete\<close>.
  \<^item> Decimal printing and parsing of 64-bit integers (\<^verbatim>\<open>strconv\<close>, \<^verbatim>\<open>%d\<close>).
\<close>

named_theorems go_str \<open>equations that evaluate string functions\<close>
named_theorems go_map \<open>equations about lookups in updated maps\<close>

section \<open>Definitions\<close>

subsection \<open>Strings\<close>

definition has_prefix :: "string \<Rightarrow> string \<Rightarrow> bool" where
  "has_prefix s p \<longleftrightarrow> take (length p) s = p"

definition has_suffix :: "string \<Rightarrow> string \<Rightarrow> bool" where
  "has_suffix s p \<longleftrightarrow> length p \<le> length s \<and> drop (length s - length p) s = p"

definition trim_suffix :: "string \<Rightarrow> string \<Rightarrow> string" where
  "trim_suffix s p = (if has_suffix s p then take (length s - length p) s else s)"

text \<open>\<^verbatim>\<open>strings.Index\<close>: the least position at which the pattern occurs, \<^const>\<open>None\<close> for -1.\<close>

fun str_index :: "string \<Rightarrow> string \<Rightarrow> nat option" where
  "str_index [] p = (if p = [] then Some 0 else None)"
| "str_index (c # cs) p =
     (if has_prefix (c # cs) p then Some 0 else map_option Suc (str_index cs p))"

definition str_contains :: "string \<Rightarrow> string \<Rightarrow> bool" where
  "str_contains s p \<longleftrightarrow> str_index s p \<noteq> None"

text \<open>\<^verbatim>\<open>strings.LastIndex\<close>: the greatest position.\<close>

fun str_last_index :: "string \<Rightarrow> string \<Rightarrow> nat option" where
  "str_last_index [] p = (if p = [] then Some 0 else None)"
| "str_last_index (c # cs) p =
     (case str_last_index cs p of
        Some i \<Rightarrow> Some (Suc i)
      | None \<Rightarrow> if has_prefix (c # cs) p then Some 0 else None)"

text \<open>
  \<^verbatim>\<open>strings.SplitN(s, sep, 2)\<close> and \<^verbatim>\<open>strings.Split(s, sep)\<close> for the one-character separators the code
  uses; \<open>split_char\<close> is never empty, as in Go.
\<close>

definition split_n2 :: "string \<Rightarrow> string \<Rightarrow> string list" where
  "split_n2 s sep =
     (case str_index s sep of
        None \<Rightarrow> [s]
      | Some i \<Rightarrow> [take i s, drop (i + length sep) s])"

fun split_char :: "char \<Rightarrow> string \<Rightarrow> string list" where
  "split_char d [] = [[]]"
| "split_char d (c # cs) =
     (if c = d then [] # split_char d cs
      else (case split_char d cs of
              [] \<Rightarrow> [[c]]
            | w # ws \<Rightarrow> (c # w) # ws))"

fun str_join :: "string \<Rightarrow> string list \<Rightarrow> string" where
  "str_join sep [] = []"
| "str_join sep [w] = w"
| "str_join sep (w # ws) = w @ sep @ str_join sep ws"

definition is_space :: "char \<Rightarrow> bool" where
  "is_space c \<longleftrightarrow> c \<in> set [CHR 0x09, CHR 0x0A, CHR 0x0B, CHR 0x0C, CHR 0x0D, CHR '' '']"

definition trim_space :: "string \<Rightarrow> string" where
  "trim_space s = rev (dropWhile is_space (rev (dropWhile is_space s)))"

definition upper_letters :: string where
  "upper_letters = ''ABCDEFGHIJKLMNOPQRSTUVWXYZ''"

definition lower_letters :: string where
  "lower_letters = ''abcdefghijklmnopqrstuvwxyz''"

definition lower_char :: "char \<Rightarrow> char" where
  "lower_char c = (case map_of (zip upper_letters lower_letters) c of None \<Rightarrow> c | Some d \<Rightarrow> d)"

definition upper_char :: "char \<Rightarrow> char" where
  "upper_char c = (case map_of (zip lower_letters upper_letters) c of None \<Rightarrow> c | Some d \<Rightarrow> d)"

definition is_upper :: "char \<Rightarrow> bool" where
  "is_upper c \<longleftrightarrow> c \<in> set upper_letters"

definition to_lower :: "string \<Rightarrow> string" where
  "to_lower s = map lower_char s"

definition to_upper :: "string \<Rightarrow> string" where
  "to_upper s = map upper_char s"

definition equal_fold :: "string \<Rightarrow> string \<Rightarrow> bool" where
  "equal_fold s t \<longleftrightarrow> to_lower s = to_lower t"

text \<open>\<^verbatim>\<open>strings.ContainsAny\<close>: some character of the second string occurs in the first.\<close>

definition contains_any :: "string \<Rightarrow> string \<Rightarrow> bool" where
  "contains_any s cs \<longleftrightarrow> list_ex (\<lambda>c. c \<in> set cs) s"

subsection \<open>Decimal integers\<close>

definition digit_char :: "nat \<Rightarrow> char" where
  "digit_char n = ''0123456789'' ! (n mod 10)"

definition digit_val :: "char \<Rightarrow> nat option" where
  "digit_val c = map_of (zip ''0123456789'' [0 ..< 10]) c"

fun show_nat :: "nat \<Rightarrow> string" where
  "show_nat n = (if n < 10 then [digit_char n] else show_nat (n div 10) @ [digit_char n])"

declare show_nat.simps [simp del]

definition show_int :: "int \<Rightarrow> string" where
  "show_int i = (if i < 0 then CHR ''-'' # show_nat (nat (- i)) else show_nat (nat i))"

fun parse_digits :: "nat \<Rightarrow> string \<Rightarrow> nat option" where
  "parse_digits acc [] = Some acc"
| "parse_digits acc (c # cs) =
     (case digit_val c of None \<Rightarrow> None | Some d \<Rightarrow> parse_digits (10 * acc + d) cs)"

definition int64_min :: int where
  "int64_min = - (2 ^ 63)"

definition int64_max :: int where
  "int64_max = 2 ^ 63 - 1"

definition is_int64 :: "int \<Rightarrow> bool" where
  "is_int64 i \<longleftrightarrow> int64_min \<le> i \<and> i \<le> int64_max"

definition wrap64 :: "int \<Rightarrow> int" where
  "wrap64 i = (i + 2 ^ 63) mod 2 ^ 64 - 2 ^ 63"

text \<open>
  \<^verbatim>\<open>strconv.ParseInt(s, 10, 64)\<close>: an optional sign, at least one digit, nothing else, and the value
  in range; \<^const>\<open>None\<close> is the error.
\<close>

definition parse_int :: "string \<Rightarrow> int option" where
  "parse_int s =
     (let neg = has_prefix s ''-'';
          body = (if neg \<or> has_prefix s ''+'' then tl s else s)
      in if body = [] then None
         else (case parse_digits 0 body of
                 None \<Rightarrow> None
               | Some n \<Rightarrow>
                   (let i = (if neg then - int n else int n)
                    in if is_int64 i then Some i else None)))"

subsection \<open>Maps\<close>

type_synonym 'v gmap = "(string \<times> 'v) list"

definition gkeys :: "('k \<times> 'v) list \<Rightarrow> bool" where
  "gkeys m \<longleftrightarrow> distinct (map fst m)"

abbreviation mset_key :: "'k \<Rightarrow> 'v \<Rightarrow> ('k \<times> 'v) list \<Rightarrow> ('k \<times> 'v) list" where
  "mset_key \<equiv> AList.update"

abbreviation mdel_key :: "'k \<Rightarrow> ('k \<times> 'v) list \<Rightarrow> ('k \<times> 'v) list" where
  "mdel_key \<equiv> AList.delete"

text \<open>A \<^verbatim>\<open>range\<close> loop that writes entries of one map into another: later writes win.\<close>

definition put_all :: "('k \<times> 'v) list \<Rightarrow> ('k \<times> 'v) list \<Rightarrow> ('k \<times> 'v) list" where
  "put_all kvs m = fold (\<lambda>(k, v). mset_key k v) kvs m"

definition del_all :: "'k list \<Rightarrow> ('k \<times> 'v) list \<Rightarrow> ('k \<times> 'v) list" where
  "del_all ks m = fold mdel_key ks m"

section \<open>Lemmas\<close>

subsection \<open>Strings\<close>

lemma has_prefix_iff_prefix: "has_prefix s p \<longleftrightarrow> prefix p s"
  unfolding has_prefix_def by (metis append_eq_conv_conj append_take_drop_id prefix_def)

lemma has_suffix_iff_suffix: "has_suffix s p \<longleftrightarrow> suffix p s"
proof
  assume "has_suffix s p"
  then have "s = take (length s - length p) s @ p"
    unfolding has_suffix_def by (metis append_take_drop_id)
  then show "suffix p s" by (metis suffixI)
next
  assume "suffix p s"
  then show "has_suffix s p" by (auto simp: has_suffix_def suffix_def)
qed

lemma has_prefix_append [simp]: "has_prefix (p @ s) p"
  by (simp add: has_prefix_def)

lemma has_prefix_Nil [simp]: "has_prefix s []"
  by (simp add: has_prefix_def)

lemma has_suffix_append [simp]: "has_suffix (s @ p) p"
  by (simp add: has_suffix_def)

lemma has_prefix_Cons [go_str]:
  "has_prefix (c # cs) (d # ds) \<longleftrightarrow> c = d \<and> has_prefix cs ds"
  by (simp add: has_prefix_def)

lemma has_prefix_Nil_left [go_str]: "has_prefix [] p \<longleftrightarrow> p = []"
  by (auto simp: has_prefix_def)

lemma trim_suffix_append [simp]: "trim_suffix (s @ p) p = s"
  by (simp add: trim_suffix_def)

lemma str_index_SomeD: "str_index s p = Some i \<Longrightarrow> i + length p \<le> length s \<and> has_prefix (drop i s) p"
proof (induction s arbitrary: i)
  case Nil
  then show ?case by (auto split: if_splits)
next
  case (Cons c cs)
  show ?case
  proof (cases "has_prefix (c # cs) p")
    case True
    with Cons.prems have "i = 0" by simp
    moreover from True have "length p \<le> length (c # cs)"
      by (metis has_prefix_iff_prefix prefix_length_le)
    ultimately show ?thesis using True by simp
  next
    case False
    with Cons.prems obtain j where "str_index cs p = Some j" and "i = Suc j" by auto
    with Cons.IH show ?thesis by fastforce
  qed
qed

lemma str_index_None_iff: "str_index s p = None \<longleftrightarrow> \<not> sublist p s"
proof (induction s)
  case Nil
  then show ?case by simp
next
  case (Cons c cs)
  have "sublist p (c # cs) \<longleftrightarrow> prefix p (c # cs) \<or> sublist p cs"
    by (simp add: sublist_Cons_right)
  with Cons.IH show ?case by (simp add: has_prefix_iff_prefix)
qed

lemma str_contains_iff_sublist: "str_contains s p \<longleftrightarrow> sublist p s"
  using str_index_None_iff [of s p] by (auto simp: str_contains_def)

lemma str_index_char_None: "str_index s [c] = None \<longleftrightarrow> c \<notin> set s"
  by (induction s) (auto simp: has_prefix_def)

lemma str_index_char_append:
  "c \<notin> set s \<Longrightarrow> str_index (s @ c # t) [c] = Some (length s)"
  by (induction s) (auto simp: has_prefix_def)

lemma split_n2_append:
  "c \<notin> set s \<Longrightarrow> split_n2 (s @ c # t) [c] = [s, t]"
  by (simp add: split_n2_def str_index_char_append)

lemma split_n2_no_sep: "c \<notin> set s \<Longrightarrow> split_n2 s [c] = [s]"
  by (simp add: split_n2_def str_index_char_None [THEN iffD2])

lemma split_char_ne [simp]: "split_char d s \<noteq> []"
  by (induction s) (auto split: list.splits)

lemma split_char_no_sep: "d \<notin> set s \<Longrightarrow> split_char d s = [s]"
  by (induction s) auto

lemma split_char_append:
  "d \<notin> set s \<Longrightarrow> split_char d (s @ d # t) = s # split_char d t"
  by (induction s) auto

lemma join_split_char: "str_join [d] (split_char d s) = s"
proof (induction s)
  case Nil
  then show ?case by simp
next
  case (Cons c cs)
  obtain w ws where w: "split_char d cs = w # ws"
    by (metis list.exhaust split_char_ne)
  with Cons show ?case by (cases ws) auto
qed

lemma length_split_char: "length (split_char d s) = Suc (count_list s d)"
proof (induction s)
  case Nil
  then show ?case by simp
next
  case (Cons c cs)
  then show ?case by (cases "split_char d cs") auto
qed

lemma split_char_parts: "w \<in> set (split_char d s) \<Longrightarrow> d \<notin> set w"
proof (induction s arbitrary: w)
  case Nil
  then show ?case by simp
next
  case (Cons c cs)
  then show ?case by (cases "split_char d cs") (auto split: if_splits)
qed

lemma trim_space_Nil [simp]: "trim_space [] = []"
  by (simp add: trim_space_def)

lemma trim_space_idem [simp]: "trim_space (trim_space s) = trim_space s"
proof -
  define t where "t = dropWhile is_space s"
  have t: "dropWhile is_space t = t" by (simp add: t_def dropWhile_idem)
  define u where "u = dropWhile is_space (rev t)"
  have "dropWhile is_space (rev u) = rev u"
  proof (cases "u = []")
    case True
    then show ?thesis by simp
  next
    case False
    obtain v where "rev t = v @ u" unfolding u_def by (metis takeWhile_dropWhile_id)
    then have tu: "t = rev u @ rev v" by (metis rev_append rev_rev_ident)
    from False have ne: "rev u \<noteq> []" by simp
    then obtain a as where a: "rev u = a # as" by (cases "rev u") auto
    with tu t have "\<not> is_space a" by (metis append_Cons dropWhile.simps(2) hd_dropWhile list.discI list.sel(1))
    with a show ?thesis by simp
  qed
  then show ?thesis
    by (simp add: trim_space_def t_def [symmetric] u_def [symmetric])
       (simp add: u_def dropWhile_idem)
qed

lemma trim_space_id: "s \<noteq> [] \<Longrightarrow> \<not> is_space (hd s) \<Longrightarrow> \<not> is_space (last s) \<Longrightarrow> trim_space s = s"
proof -
  assume s: "s \<noteq> []" "\<not> is_space (hd s)" "\<not> is_space (last s)"
  then have "dropWhile is_space s = s" by (cases s) auto
  moreover from s have "dropWhile is_space (rev s) = rev s"
    by (metis dropWhile_eq_self_iff hd_rev)
  ultimately show ?thesis by (simp add: trim_space_def)
qed


subsection \<open>Decimal integers\<close>

lemma digit_val_char [simp]: "d < 10 \<Longrightarrow> digit_val (digit_char d) = Some d"
proof -
  assume "d < 10"
  then have "d \<in> {0, 1, 2, 3, 4, 5, 6, 7, 8, 9}" by auto
  then show ?thesis by (auto simp: digit_val_def digit_char_def upt_rec)
qed

lemma digit_char_mod: "digit_char (n mod 10) = digit_char n"
  by (simp add: digit_char_def)

lemma digit_val_char_mod [simp]: "digit_val (digit_char n) = Some (n mod 10)"
  using digit_val_char [of "n mod 10"] by (simp add: digit_char_mod)

lemma digit_char_no_sign: "digit_char n \<noteq> CHR ''-''" "digit_char n \<noteq> CHR ''+''"
  "digit_char n \<noteq> CHR ''/''"
proof -
  have "digit_val (digit_char n) \<noteq> None" by simp
  moreover have "digit_val CHR ''-'' = None" "digit_val CHR ''+'' = None" "digit_val CHR ''/'' = None"
    by (simp_all add: digit_val_def upt_rec)
  ultimately show "digit_char n \<noteq> CHR ''-''" "digit_char n \<noteq> CHR ''+''" "digit_char n \<noteq> CHR ''/''"
    by metis+
qed

lemma parse_digits_append:
  "parse_digits acc (s @ t) =
     (case parse_digits acc s of None \<Rightarrow> None | Some n \<Rightarrow> parse_digits n t)"
  by (induction s arbitrary: acc) (auto split: option.splits)

lemma parse_digits_show_nat: "parse_digits 0 (show_nat n) = Some n"
proof (induction n rule: show_nat.induct)
  case (1 n)
  show ?case
  proof (cases "n < 10")
    case True
    then show ?thesis by (simp add: show_nat.simps [of n])
  next
    case False
    with 1 have "parse_digits 0 (show_nat (n div 10)) = Some (n div 10)" by simp
    with False show ?thesis by (simp add: show_nat.simps [of n] parse_digits_append)
  qed
qed

lemma show_nat_ne [simp]: "show_nat n \<noteq> []"
  by (simp add: show_nat.simps [of n])

lemma set_show_nat: "c \<in> set (show_nat n) \<Longrightarrow> \<exists>d. c = digit_char d"
proof (induction n rule: show_nat.induct)
  case (1 n)
  then show ?case by (subst (asm) (2) show_nat.simps) (auto split: if_splits)
qed

lemma show_int_no_slash: "CHR ''/'' \<notin> set (show_int i)"
proof -
  have "CHR ''/'' \<notin> set (show_nat n)" for n
    using set_show_nat digit_char_no_sign(3) by metis
  then show ?thesis by (simp add: show_int_def)
qed

lemma show_nat_no_sign:
  "\<not> has_prefix (show_nat n) ''-''" "\<not> has_prefix (show_nat n) ''+''"
proof -
  have "\<exists>d. hd (show_nat n) = digit_char d" using set_show_nat [of "hd (show_nat n)" n] by simp
  then have "hd (show_nat n) \<noteq> CHR ''-''" "hd (show_nat n) \<noteq> CHR ''+''"
    using digit_char_no_sign by metis+
  then show "\<not> has_prefix (show_nat n) ''-''" "\<not> has_prefix (show_nat n) ''+''"
    by (cases "show_nat n"; simp add: has_prefix_def)+
qed

lemma parse_int_show_int: "is_int64 i \<Longrightarrow> parse_int (show_int i) = Some i"
  by (auto simp: parse_int_def show_int_def Let_def parse_digits_show_nat show_nat_no_sign
      has_prefix_Cons)

lemma wrap64_id: "is_int64 i \<Longrightarrow> wrap64 i = i"
  by (simp add: wrap64_def is_int64_def int64_min_def int64_max_def)

lemma wrap64_int64: "is_int64 (wrap64 i)"
proof -
  have "0 \<le> (i + 2 ^ 63) mod 2 ^ 64" "(i + 2 ^ 63) mod 2 ^ 64 < (2 ^ 64 :: int)" by simp_all
  then show ?thesis by (simp add: wrap64_def is_int64_def int64_min_def int64_max_def)
qed

subsection \<open>Maps\<close>

lemma map_of_mset_key [go_map]: "map_of (mset_key k v m) k' = (if k' = k then Some v else map_of m k')"
  by (simp add: update_conv')

lemma map_of_mdel_key [go_map]: "map_of (mdel_key k m) k' = (if k' = k then None else map_of m k')"
  by (simp add: delete_conv')

lemma gkeys_Nil [simp]: "gkeys []"
  by (simp add: gkeys_def)

lemma gkeys_Cons: "gkeys ((k, v) # m) \<longleftrightarrow> map_of m k = None \<and> gkeys m"
  by (auto simp: gkeys_def map_of_eq_None_iff)

lemma gkeys_mset_key [simp]: "gkeys m \<Longrightarrow> gkeys (mset_key k v m)"
  by (simp add: gkeys_def distinct_update)

lemma gkeys_mdel_key [simp]: "gkeys m \<Longrightarrow> gkeys (mdel_key k m)"
  by (simp add: gkeys_def distinct_delete)

lemma put_all_Nil [simp]: "put_all [] m = m"
  by (simp add: put_all_def)

lemma put_all_Cons [simp]: "put_all ((k, v) # kvs) m = put_all kvs (mset_key k v m)"
  by (simp add: put_all_def)

lemma gkeys_put_all [simp]: "gkeys m \<Longrightarrow> gkeys (put_all kvs m)"
  by (induction kvs arbitrary: m) auto

lemma map_of_put_all_rev:
  "map_of (put_all kvs m) k = (case map_of (rev kvs) k of None \<Rightarrow> map_of m k | Some v \<Rightarrow> Some v)"
proof (induction kvs arbitrary: m)
  case Nil
  then show ?case by simp
next
  case (Cons kv kvs)
  then show ?case by (cases kv) (auto simp: go_map map_of_append map_add_def split: option.splits)
qed

lemma map_of_rev_gkeys: "gkeys kvs \<Longrightarrow> map_of (rev kvs) = map_of kvs"
  by (rule map_of_eqI) (auto simp: gkeys_def rev_map [symmetric] dest: map_of_SomeD)

lemma map_of_put_all [go_map]:
  "gkeys kvs \<Longrightarrow> map_of (put_all kvs m) k = (case map_of kvs k of None \<Rightarrow> map_of m k | Some v \<Rightarrow> Some v)"
  by (simp add: map_of_put_all_rev map_of_rev_gkeys)

lemma del_all_Nil [simp]: "del_all [] m = m"
  by (simp add: del_all_def)

lemma del_all_Cons [simp]: "del_all (k # ks) m = del_all ks (mdel_key k m)"
  by (simp add: del_all_def)

lemma map_of_del_all [go_map]: "map_of (del_all ks m) k = (if k \<in> set ks then None else map_of m k)"
  by (induction ks arbitrary: m) (auto simp: go_map)

lemma gkeys_del_all [simp]: "gkeys m \<Longrightarrow> gkeys (del_all ks m)"
  by (induction ks arbitrary: m) auto

lemma length_mdel_key_less: "map_of m k \<noteq> None \<Longrightarrow> length (mdel_key k m) < length m"
proof (induction m)
  case Nil
  then show ?case by simp
next
  case (Cons x xs)
  have "length (mdel_key k xs) \<le> length xs" by (rule length_delete_le)
  with Cons show ?case by (cases x) (auto simp: less_Suc_eq_le)
qed

section \<open>Transition systems\<close>

text \<open>
  The reachable states of a system given by its initial states and its steps, and the rule that an
  invariant of the steps holds in all of them. The stateful components interpret
  \<open>invariant_system\<close> on their own step relations.
\<close>

inductive reach :: "('s \<Rightarrow> bool) \<Rightarrow> ('s \<Rightarrow> 's \<Rightarrow> bool) \<Rightarrow> 's \<Rightarrow> bool" for init step where
  reach_init: "init s \<Longrightarrow> reach init step s"
| reach_step: "reach init step s \<Longrightarrow> step s t \<Longrightarrow> reach init step t"

locale invariant_system =
  fixes init :: "'s \<Rightarrow> bool" and step :: "'s \<Rightarrow> 's \<Rightarrow> bool" and inv :: "'s \<Rightarrow> bool"
  assumes inv_init: "init s \<Longrightarrow> inv s"
    and inv_step: "inv s \<Longrightarrow> step s t \<Longrightarrow> inv t"
begin

lemma reach_inv: "reach init step s \<Longrightarrow> inv s"
  by (induction rule: reach.induct) (auto intro: inv_init inv_step)

lemma steps_inv: "step\<^sup>*\<^sup>* s t \<Longrightarrow> inv s \<Longrightarrow> inv t"
  by (induction rule: rtranclp_induct) (auto intro: inv_step)

end

end
