(* ===== verification/Errors.thy ===== *)
theory Errors
  imports Prelude
begin

text \<open>
  The error values of the program. \<open>err\<close> has one constructor per Go type that implements
  \<^verbatim>\<open>error\<close>: the \<^verbatim>\<open>APIError\<close> of \<^verbatim>\<open>httperror/error.go\<close>, the
  \<^verbatim>\<open>MultiErrors\<close> of \<^verbatim>\<open>types/schemas.go\<close>, the \<^verbatim>\<open>ForgetError\<close> and
  \<^verbatim>\<open>handlerError\<close> of \<^verbatim>\<open>controller\<close>, the status errors of the Kubernetes client, and the
  strings of \<^verbatim>\<open>errors.New\<close> and \<^verbatim>\<open>fmt.Errorf\<close>. A Go result
  \<^verbatim>\<open>(value, error)\<close> is a \<open>res\<close>; its third constructor is a run-time panic.
\<close>

section \<open>Error codes\<close>

record error_code =
  Code :: string
  Status :: int

definition ErrorCode :: "string \<Rightarrow> int \<Rightarrow> error_code" where
  "ErrorCode c s = \<lparr>Code = c, Status = s\<rparr>"

definition ErrorCode_String :: "error_code \<Rightarrow> string" where
  "ErrorCode_String e = Code e @ '' '' @ show_int (Status e)"

abbreviation "Unauthorized \<equiv> ErrorCode ''Unauthorized'' 401"
abbreviation "PermissionDenied \<equiv> ErrorCode ''PermissionDenied'' 403"
abbreviation "NotFound \<equiv> ErrorCode ''NotFound'' 404"
abbreviation "MethodNotAllowed \<equiv> ErrorCode ''MethodNotAllow'' 405"
abbreviation "Conflict \<equiv> ErrorCode ''Conflict'' 409"
abbreviation "InvalidDateFormat \<equiv> ErrorCode ''InvalidDateFormat'' 422"
abbreviation "InvalidFormat \<equiv> ErrorCode ''InvalidFormat'' 422"
abbreviation "InvalidReference \<equiv> ErrorCode ''InvalidReference'' 422"
abbreviation "NotNullable \<equiv> ErrorCode ''NotNullable'' 422"
abbreviation "NotUnique \<equiv> ErrorCode ''NotUnique'' 422"
abbreviation "MinLimitExceeded \<equiv> ErrorCode ''MinLimitExceeded'' 422"
abbreviation "MaxLimitExceeded \<equiv> ErrorCode ''MaxLimitExceeded'' 422"
abbreviation "MinLengthExceeded \<equiv> ErrorCode ''MinLengthExceeded'' 422"
abbreviation "MaxLengthExceeded \<equiv> ErrorCode ''MaxLengthExceeded'' 422"
abbreviation "InvalidOption \<equiv> ErrorCode ''InvalidOption'' 422"
abbreviation "InvalidCharacters \<equiv> ErrorCode ''InvalidCharacters'' 422"
abbreviation "MissingRequired \<equiv> ErrorCode ''MissingRequired'' 422"
abbreviation "InvalidCSRFToken \<equiv> ErrorCode ''InvalidCSRFToken'' 422"
abbreviation "InvalidAction \<equiv> ErrorCode ''InvalidAction'' 422"
abbreviation "InvalidBodyContent \<equiv> ErrorCode ''InvalidBodyContent'' 422"
abbreviation "InvalidType \<equiv> ErrorCode ''InvalidType'' 422"
abbreviation "ActionNotAvailable \<equiv> ErrorCode ''ActionNotAvailable'' 404"
abbreviation "InvalidState \<equiv> ErrorCode ''InvalidState'' 422"
abbreviation "ServerError \<equiv> ErrorCode ''ServerError'' 500"
abbreviation "ClusterUnavailable \<equiv> ErrorCode ''ClusterUnavailable'' 503"

section \<open>Errors\<close>

text \<open>
  An \<open>APIError\<close> has its code, message, cause and field name. A \<open>StatusError\<close> has the code, reason
  and message of the status it carries.
\<close>

datatype err =
    APIError error_code string "err option" string
  | PlainErr string
  | MultiErrors "err list"
  | ForgetError err string
  | HandlerError string err
  | StatusError int string string

datatype 'a res = Ok (ok_val: 'a) | Err err | Panic

definition NewAPIError :: "error_code \<Rightarrow> string \<Rightarrow> err" where
  "NewAPIError code message = APIError code message None []"

definition NewAPIErrorLong :: "int \<Rightarrow> string \<Rightarrow> string \<Rightarrow> err" where
  "NewAPIErrorLong status code message = NewAPIError \<lparr>Code = code, Status = status\<rparr> message"

definition NewFieldAPIError :: "error_code \<Rightarrow> string \<Rightarrow> string \<Rightarrow> err" where
  "NewFieldAPIError code fieldName message = APIError code message None fieldName"

definition WrapFieldAPIError :: "err \<Rightarrow> error_code \<Rightarrow> string \<Rightarrow> string \<Rightarrow> err" where
  "WrapFieldAPIError e code fieldName message = APIError code message (Some e) fieldName"

definition WrapAPIError :: "err \<Rightarrow> error_code \<Rightarrow> string \<Rightarrow> err" where
  "WrapAPIError e code message = APIError code message (Some e) []"

text \<open>The method \<^verbatim>\<open>Error\<close> of each of the types.\<close>

fun err_string :: "err \<Rightarrow> string" where
  "err_string (APIError code message cause fieldName) =
     (if fieldName \<noteq> [] then fieldName @ ''='' @ ErrorCode_String code @ '': '' @ message
      else ErrorCode_String code @ '': '' @ message)"
| "err_string (PlainErr s) = s"
| "err_string (MultiErrors es) =
     fold (\<lambda>s buf. (if buf \<noteq> [] then buf @ '', '' else buf) @ s) (map err_string es) []"
| "err_string (ForgetError e reason) = err_string e"
| "err_string (HandlerError name e) = ''['' @ name @ ''] failed with : '' @ err_string e"
| "err_string (StatusError code reason message) = message"

definition IsAPIError :: "err \<Rightarrow> bool" where
  "IsAPIError e \<longleftrightarrow> (case e of APIError _ _ _ _ \<Rightarrow> True | _ \<Rightarrow> False)"

definition IsNotFound :: "err \<Rightarrow> bool" where
  "IsNotFound e \<longleftrightarrow> (case e of APIError c _ _ _ \<Rightarrow> Status c = 404 | _ \<Rightarrow> False)"

definition IsConflict :: "err \<Rightarrow> bool" where
  "IsConflict e \<longleftrightarrow> (case e of APIError c _ _ _ \<Rightarrow> Status c = 409 | _ \<Rightarrow> False)"

text \<open>\<^verbatim>\<open>translateError\<close> of the proxy store.\<close>

definition translateError :: "err option \<Rightarrow> err option" where
  "translateError e =
     (case e of
        Some (StatusError code reason message) \<Rightarrow> Some (NewAPIErrorLong code reason message)
      | _ \<Rightarrow> e)"

subsection \<open>Collected errors\<close>

text \<open>An argument of \<^verbatim>\<open>NewErrors\<close> may be nil.\<close>

definition non_nil :: "err option list \<Rightarrow> err list" where
  "non_nil es = map the (filter (\<lambda>e. e \<noteq> None) es)"

definition NewErrors :: "err option list \<Rightarrow> err option" where
  "NewErrors es =
     (case non_nil es of
        [] \<Rightarrow> None
      | [e] \<Rightarrow> Some e
      | errors \<Rightarrow> Some (MultiErrors errors))"

definition Errors_Add :: "err option \<Rightarrow> err list \<Rightarrow> err list" where
  "Errors_Add e errors = (case e of None \<Rightarrow> errors | Some e' \<Rightarrow> errors @ [e'])"

definition Errors_Err :: "err list \<Rightarrow> err option" where
  "Errors_Err errors = NewErrors (map Some errors)"

section \<open>Sequencing results\<close>

definition rbind :: "'a res \<Rightarrow> ('a \<Rightarrow> 'b res) \<Rightarrow> 'b res" where
  "rbind r f = (case r of Ok x \<Rightarrow> f x | Err e \<Rightarrow> Err e | Panic \<Rightarrow> Panic)"

lemma rbind_simps [simp]:
  "rbind (Ok x) f = f x" "rbind (Err e) f = Err e" "rbind Panic f = Panic"
  by (simp_all add: rbind_def)

lemma rbind_Ok_iff: "rbind r f = Ok y \<longleftrightarrow> (\<exists>x. r = Ok x \<and> f x = Ok y)"
  by (cases r) auto

lemma rbind_Panic_iff: "rbind r f = Panic \<longleftrightarrow> r = Panic \<or> (\<exists>x. r = Ok x \<and> f x = Panic)"
  by (cases r) auto

lemma rbind_Err_iff: "rbind r f = Err e \<longleftrightarrow> r = Err e \<or> (\<exists>x. r = Ok x \<and> f x = Err e)"
  by (cases r) auto

lemma rbind_assoc: "rbind (rbind r f) g = rbind r (\<lambda>x. rbind (f x) g)"
  by (cases r) auto

lemma rbind_cong [fundef_cong]:
  "r = r' \<Longrightarrow> (\<And>x. r' = Ok x \<Longrightarrow> f x = f' x) \<Longrightarrow> rbind r f = rbind r' f'"
  by (cases r') auto

text \<open>A loop that stops at the first error or panic.\<close>

fun rfold :: "('x \<Rightarrow> 's \<Rightarrow> 's res) \<Rightarrow> 'x list \<Rightarrow> 's \<Rightarrow> 's res" where
  "rfold f [] s = Ok s"
| "rfold f (x # xs) s = rbind (f x s) (rfold f xs)"

lemma rfold_append: "rfold f (xs @ ys) s = rbind (rfold f xs s) (rfold f ys)"
  by (induction xs arbitrary: s) (auto simp: rbind_assoc intro: rbind_cong)

lemma rfold_inv:
  "rfold f xs s = Ok t \<Longrightarrow> P s \<Longrightarrow> (\<And>x s t. x \<in> set xs \<Longrightarrow> P s \<Longrightarrow> f x s = Ok t \<Longrightarrow> P t) \<Longrightarrow> P t"
proof (induction xs arbitrary: s)
  case Nil
  then show ?case by simp
next
  case (Cons x xs)
  then obtain u where "f x s = Ok u" "rfold f xs u = Ok t" by (auto simp: rbind_Ok_iff)
  with Cons show ?case by (metis list.set_intros)
qed

lemma rfold_cong [fundef_cong]:
  "xs = xs' \<Longrightarrow> s = s' \<Longrightarrow> (\<And>x s. x \<in> set xs' \<Longrightarrow> f x s = f' x s) \<Longrightarrow> rfold f xs s = rfold f' xs' s'"
proof (induction xs arbitrary: xs' s s')
  case Nil
  then show ?case by auto
next
  case (Cons x xs)
  have "rfold f xs = rfold f' xs"
    by (rule ext, intro Cons.IH) (use Cons.prems in auto)
  then show ?case using Cons.prems by auto
qed

text \<open>The same for functions that may run out of fuel, which is \<^const>\<open>None\<close>.\<close>

definition fbind :: "'a res option \<Rightarrow> ('a \<Rightarrow> 'b res option) \<Rightarrow> 'b res option" where
  "fbind m f = (case m of None \<Rightarrow> None | Some (Ok x) \<Rightarrow> f x | Some (Err e) \<Rightarrow> Some (Err e) | Some Panic \<Rightarrow> Some Panic)"

fun ffold :: "('x \<Rightarrow> 's \<Rightarrow> 's res option) \<Rightarrow> 'x list \<Rightarrow> 's \<Rightarrow> 's res option" where
  "ffold f [] s = Some (Ok s)"
| "ffold f (x # xs) s = fbind (f x s) (ffold f xs)"

lemma fbind_simps [simp]:
  "fbind None f = None" "fbind (Some (Ok x)) f = f x" "fbind (Some (Err e)) f = Some (Err e)"
  "fbind (Some Panic) f = Some Panic"
  by (simp_all add: fbind_def)

lemma ffold_cong [fundef_cong]:
  "xs = xs' \<Longrightarrow> s = s' \<Longrightarrow> (\<And>x s. x \<in> set xs' \<Longrightarrow> f x s = f' x s) \<Longrightarrow> ffold f xs s = ffold f' xs' s'"
proof (induction xs arbitrary: xs' s s')
  case Nil
  then show ?case by auto
next
  case (Cons x xs)
  have "ffold f xs = ffold f' xs"
    by (rule ext, intro Cons.IH) (use Cons.prems in auto)
  then show ?case using Cons.prems by auto
qed

section \<open>Properties\<close>

lemma non_nil_simps [simp]:
  "non_nil [] = []" "non_nil (None # es) = non_nil es" "non_nil (Some e # es) = e # non_nil es"
  by (simp_all add: non_nil_def)

lemma non_nil_Some [simp]: "non_nil (map Some es) = es"
  by (induction es) auto

lemma set_non_nil: "e \<in> set (non_nil es) \<longleftrightarrow> Some e \<in> set es"
  by (induction es rule: list.induct) (auto simp: non_nil_def image_iff)

lemma NewErrors_None_iff: "NewErrors es = None \<longleftrightarrow> (\<forall>e \<in> set es. e = None)"
proof -
  have "NewErrors es = None \<longleftrightarrow> non_nil es = []"
    by (simp add: NewErrors_def split: list.splits)
  also have "\<dots> \<longleftrightarrow> (\<forall>e \<in> set es. e = None)"
    by (auto simp: non_nil_def filter_empty_conv)
  finally show ?thesis .
qed

lemma Errors_Err_None_iff: "Errors_Err errors = None \<longleftrightarrow> errors = []"
  by (auto simp: Errors_Err_def NewErrors_None_iff)

end
