(* ===== verification/RemoteMessage.thy ===== *)
theory RemoteMessage
  imports Errors
begin

text \<open>
  The wire format of the tunnel, \<^verbatim>\<open>pkg/remotedialer/message.go\<close>: the signed varints of
  \<^verbatim>\<open>encoding/binary\<close>, the messages, their header and their reader. Integers are 64-bit words,
  bytes are 8-bit words, and the header is written to a buffer of 24 bytes, so that a longer header is
  a panic. What is read from is a complete list of bytes, a message of the websocket: the end of it is the only error
  of reading. The lemmas show that the reader inverts the writer, for which messages the header fits,
  and where a payload is cut.
\<close>

unbundle bit_operations_syntax

section \<open>Varints\<close>

type_synonym byte = "8 word"
type_synonym int64 = "64 word"

definition str_bytes :: "string \<Rightarrow> byte list" where
  "str_bytes s = map (\<lambda>c. of_nat (of_char c)) s"

definition bytes_str :: "byte list \<Rightarrow> string" where
  "bytes_str bs = map (\<lambda>b. char_of (unat b)) bs"

lemma unat_drop7: "unat (drop_bit 7 x) = unat x div 128" for x :: int64
  by (simp only: unat_drop_bit_eq) (simp add: drop_bit_eq_div)

function PutUvarint :: "int64 \<Rightarrow> byte list" where
  "PutUvarint x =
     (if 0x80 \<le> x then (ucast x OR 0x80) # PutUvarint (drop_bit 7 x) else [ucast x])"
  by pat_completeness auto
termination
proof (relation "measure unat")
  fix x :: int64
  assume "0x80 \<le> x"
  then have "0 < unat x" by (simp add: word_le_nat_alt)
  then show "(drop_bit 7 x, x) \<in> measure unat"
    by (simp only: in_measure unat_drop7)
qed simp

declare PutUvarint.simps [simp del]

definition zigzag :: "int64 \<Rightarrow> int64" where
  "zigzag x = (let ux = push_bit 1 x in if sint x < 0 then NOT ux else ux)"

definition unzigzag :: "int64 \<Rightarrow> int64" where
  "unzigzag ux = (let x = drop_bit 1 ux in if bit ux 0 then NOT x else x)"

definition PutVarint :: "int64 \<Rightarrow> byte list" where
  "PutVarint x = PutUvarint (zigzag x)"

abbreviation "io_EOF \<equiv> PlainErr ''EOF''"
abbreviation "varint_overflow \<equiv> PlainErr ''binary: varint overflows a 64-bit integer''"

text \<open>The loop of \<^verbatim>\<open>binary.ReadUvarint\<close>: index, bytes left, value so far.\<close>

fun ReadUvarint_loop :: "nat \<Rightarrow> int64 \<Rightarrow> byte list \<Rightarrow> (int64 \<times> byte list) res" where
  "ReadUvarint_loop i x [] = Err io_EOF"
| "ReadUvarint_loop i x (b # bs) =
     (if b < 0x80
      then if i > 9 \<or> (i = 9 \<and> b > 1) then Err varint_overflow
           else Ok (x OR push_bit (7 * i) (ucast b), bs)
      else ReadUvarint_loop (Suc i) (x OR push_bit (7 * i) (ucast (b AND 0x7f))) bs)"

definition ReadVarint :: "byte list \<Rightarrow> (int64 \<times> byte list) res" where
  "ReadVarint bs = rbind (ReadUvarint_loop 0 0 bs) (\<lambda>(ux, rest). Ok (unzigzag ux, rest))"

section \<open>Messages\<close>

abbreviation (input) "Data \<equiv> (1 :: int64)"
abbreviation (input) "Connect \<equiv> (2 :: int64)"
abbreviation (input) "Error \<equiv> (3 :: int64)"
abbreviation (input) "AddClient \<equiv> (4 :: int64)"
abbreviation (input) "RemoveClient \<equiv> (5 :: int64)"

record message =
  msg_id :: int64
  msg_err :: "err option"
  connID :: int64
  deadline :: int64
  messageType :: int64
  msg_bytes :: "byte list"
  body :: "byte list option"
  proto :: string
  address :: string

definition message_zero :: message where
  "message_zero =
     \<lparr>msg_id = 0, msg_err = None, connID = 0, deadline = 0, messageType = 0, msg_bytes = [],
      body = None, proto = [], address = []\<rparr>"

text \<open>The counter is an argument and comes back incremented.\<close>

definition nextid :: "int64 \<Rightarrow> int64" where
  "nextid idCounter = idCounter + 1"

definition newMessage :: "int64 \<Rightarrow> int64 \<Rightarrow> int64 \<Rightarrow> byte list \<Rightarrow> message \<times> int64" where
  "newMessage idc conn dl bytes =
     (message_zero\<lparr>msg_id := nextid idc, connID := conn, deadline := dl, messageType := Data,
                   msg_bytes := bytes\<rparr>, nextid idc)"

text \<open>\<^verbatim>\<open>time.Duration\<close> is in nanoseconds; the quotient is truncated towards zero.\<close>

definition millis :: "int64 \<Rightarrow> int64" where
  "millis d = word_of_int (sgn (sint d) * (\<bar>sint d\<bar> div 1000000))"

definition newConnect :: "int64 \<Rightarrow> int64 \<Rightarrow> int64 \<Rightarrow> string \<Rightarrow> string \<Rightarrow> message \<times> int64" where
  "newConnect idc conn dur pr addr =
     (message_zero\<lparr>msg_id := nextid idc, connID := conn, deadline := millis dur, messageType := Connect,
                   msg_bytes := str_bytes (pr @ ''/'' @ addr), proto := pr, address := addr\<rparr>, nextid idc)"

definition newErrorMessage :: "int64 \<Rightarrow> int64 \<Rightarrow> err \<Rightarrow> message \<times> int64" where
  "newErrorMessage idc conn e =
     (message_zero\<lparr>msg_id := nextid idc, msg_err := Some e, connID := conn, messageType := Error,
                   msg_bytes := str_bytes (err_string e)\<rparr>, nextid idc)"

definition newAddClient :: "int64 \<Rightarrow> string \<Rightarrow> message \<times> int64" where
  "newAddClient idc client =
     (message_zero\<lparr>msg_id := nextid idc, messageType := AddClient, address := client,
                   msg_bytes := str_bytes client\<rparr>, nextid idc)"

definition newRemoveClient :: "int64 \<Rightarrow> string \<Rightarrow> message \<times> int64" where
  "newRemoveClient idc client =
     (message_zero\<lparr>msg_id := nextid idc, messageType := RemoveClient, address := client,
                   msg_bytes := str_bytes client\<rparr>, nextid idc)"

text \<open>What a reader leaves behind is the body: at most 100 bytes of a payload are read.\<close>

definition read_payload :: "message \<Rightarrow> byte list \<Rightarrow> message res" where
  "read_payload m rest =
     (let bytes = take 100 rest; m' = m\<lparr>body := Some (drop 100 rest), msg_bytes := bytes\<rparr>
      in if messageType m = Connect
         then (case split_n2 (bytes_str bytes) ''/'' of
                 [p, a] \<Rightarrow> Ok (m'\<lparr>proto := p, address := a\<rparr>)
               | _ \<Rightarrow> Err (PlainErr ''failed to parse connect address''))
         else if messageType m = AddClient \<or> messageType m = RemoveClient
         then Ok (m'\<lparr>address := bytes_str bytes\<rparr>)
         else Ok (m\<lparr>body := Some rest\<rparr>))"

definition newServerMessage :: "byte list \<Rightarrow> message res" where
  "newServerMessage r0 =
     rbind (ReadVarint r0) (\<lambda>(i, r1).
     rbind (ReadVarint r1) (\<lambda>(conn, r2).
     rbind (ReadVarint r2) (\<lambda>(mType, r3).
       let m = message_zero\<lparr>msg_id := i, messageType := mType, connID := conn\<rparr>
       in if mType = Data \<or> mType = Connect
          then rbind (ReadVarint r3) (\<lambda>(dl, r4). read_payload (m\<lparr>deadline := dl\<rparr>) r4)
          else read_payload m r3)))"

definition message_Err :: "message \<Rightarrow> (err \<times> message) res" where
  "message_Err m =
     (case msg_err m of
        Some e \<Rightarrow> Ok (e, m)
      | None \<Rightarrow>
          (case body m of
             None \<Rightarrow> Panic
           | Some b \<Rightarrow>
               let e = PlainErr (bytes_str (take 100 b))
               in Ok (e, m\<lparr>msg_err := Some e, body := Some (drop 100 b)\<rparr>)))"

definition header_bytes :: "message \<Rightarrow> byte list" where
  "header_bytes m =
     PutVarint (msg_id m) @ PutVarint (connID m) @ PutVarint (messageType m)
       @ (if messageType m = Data \<or> messageType m = Connect then PutVarint (deadline m) else [])"

text \<open>\<^verbatim>\<open>PutVarint\<close> panics when it runs out of the 24 bytes.\<close>

definition header :: "message \<Rightarrow> byte list res" where
  "header m = (if length (header_bytes m) \<le> 24 then Ok (header_bytes m) else Panic)"

definition Bytes :: "message \<Rightarrow> byte list res" where
  "Bytes m = rbind (header m) (\<lambda>h. Ok (h @ msg_bytes m))"

definition message_String :: "message \<Rightarrow> string res" where
  "message_String m =
     (let i = show_int (sint (msg_id m)); c = show_int (sint (connID m))
      in if messageType m = Data
         then (if body m = None
               then Ok (i @ '' DATA         ['' @ c @ '']: '' @ show_nat (length (msg_bytes m)) @ '' bytes: ''
                        @ bytes_str (msg_bytes m))
               else Ok (i @ '' DATA         ['' @ c @ '']: buffered''))
         else if messageType m = Error
         then rbind (message_Err m) (\<lambda>(e, _). Ok (i @ '' ERROR        ['' @ c @ '']: '' @ err_string e))
         else if messageType m = Connect
         then Ok (i @ '' CONNECT      ['' @ c @ '']: '' @ proto m @ ''/'' @ address m @ '' deadline ''
                  @ show_int (sint (deadline m)))
         else if messageType m = AddClient then Ok (i @ '' ADDCLIENT    ['' @ address m @ '']'')
         else if messageType m = RemoveClient then Ok (i @ '' REMOVECLIENT ['' @ address m @ '']'')
         else Ok (i @ '' UNKNOWN['' @ c @ '']: '' @ show_int (sint (messageType m))))"

section \<open>Codecs\<close>

text \<open>
  A writer and a reader of values on a stream: the reader takes exactly what the writer wrote. The
  client lemmas are that encodings are prefix free and that two fields in a row are read back.
\<close>

locale stream_codec =
  fixes enc :: "'a \<Rightarrow> 'b list" and dec :: "'b list \<Rightarrow> ('a \<times> 'b list) res"
  assumes dec_enc: "dec (enc x @ rest) = Ok (x, rest)"
begin

lemma dec_enc_end: "dec (enc x) = Ok (x, [])"
  using dec_enc [of x "[]"] by simp

lemma enc_prefix_free: "enc x @ r = enc y @ r' \<longleftrightarrow> x = y \<and> r = r'"
proof
  assume eq: "enc x @ r = enc y @ r'"
  have "Ok (x, r) = dec (enc x @ r)" by (simp only: dec_enc)
  also have "\<dots> = Ok (y, r')" unfolding eq by (rule dec_enc)
  finally show "x = y \<and> r = r'" by simp
qed simp

lemma enc_inj: "inj enc"
proof (rule injI)
  fix x y
  assume "enc x = enc y"
  then have "enc x @ [] = enc y @ []" by simp
  then show "x = y" unfolding enc_prefix_free by simp
qed

lemma dec_bind: "rbind (dec (enc x @ rest)) f = f (x, rest)"
  by (simp add: dec_enc)

end

section \<open>Lemmas on varints\<close>

lemma unat_byte_of_char: "unat (of_nat (of_char c) :: byte) = of_char c"
proof -
  have "unat (of_nat (of_char c) :: byte) = of_char c mod 256"
    unfolding unat_of_nat by simp
  then show ?thesis by (simp only: of_char_mod_256)
qed

lemma bytes_str_str_bytes [simp]: "bytes_str (str_bytes s) = s"
  unfolding bytes_str_def str_bytes_def map_map comp_def unat_byte_of_char char_of_char by simp

lemma length_str_bytes [simp]: "length (str_bytes s) = length s"
  by (simp add: str_bytes_def)

lemma bytes_str_take: "bytes_str (take n bs) = take n (bytes_str bs)"
  by (simp add: bytes_str_def take_map)

lemma unzigzag_zigzag: "unzigzag (zigzag x) = x"
proof -
  have neg: "sint x < 0 \<longleftrightarrow> bit x 63"
    using bit_last_iff [of x] by simp
  have "drop_bit 1 (push_bit 1 x) = x" if "\<not> bit x 63"
  proof (rule bit_word_eqI)
    fix n assume "n < LENGTH(64)"
    with that show "bit (drop_bit 1 (push_bit 1 x)) n = bit x n"
      by (cases "n = 63"; simp only: bit_drop_bit_eq bit_push_bit_iff bit_not_iff comp_def)
        (auto dest: bit_imp_le_length)
  qed
  moreover have "NOT (drop_bit 1 (NOT (push_bit 1 x))) = x" if "bit x 63"
  proof (rule bit_word_eqI)
    fix n assume "n < LENGTH(64)"
    with that show "bit (NOT (drop_bit 1 (NOT (push_bit 1 x)))) n = bit x n"
      by (cases "n = 63"; simp only: bit_drop_bit_eq bit_push_bit_iff bit_not_iff comp_def)
        (auto dest: bit_imp_le_length)
  qed
  moreover have "\<not> bit (push_bit 1 x) 0" "bit (NOT (push_bit 1 x)) 0"
    by (simp_all only: bit_push_bit_iff bit_not_iff) auto
  ultimately show ?thesis by (auto simp: zigzag_def unzigzag_def Let_def neg)
qed

lemma zigzag_eq: "zigzag x = word_of_int (if sint x < 0 then - 2 * sint x - 1 else 2 * sint x)"
  by (simp add: zigzag_def Let_def push_bit_eq_mult not_eq_complement mult.commute)

lemma unat_zigzag: "int (unat (zigzag x)) = (if sint x < 0 then - 2 * sint x - 1 else 2 * sint x)"
proof -
  let ?v = "if sint x < 0 then - 2 * sint x - 1 else 2 * sint x"
  have "- (2 ^ 63) \<le> sint x" "sint x < 2 ^ 63"
    using sint_ge [of x] sint_lt [of x] by simp_all
  then have v: "0 \<le> ?v" "?v < 2 ^ 64" by auto
  have "uint (zigzag x) = take_bit 64 ?v"
    unfolding zigzag_eq by (simp only: uint_word_of_int_eq len_bit0 len_num1) simp
  also have "\<dots> = ?v" using v by (rule take_bit_int_eq_self)
  finally show ?thesis by (simp only: uint_nat)
qed

lemma PutUvarint_ne [simp]: "PutUvarint x \<noteq> []"
  by (simp add: PutUvarint.simps [of x])

lemma length_PutUvarint: "unat x < 2 ^ (7 * n) \<Longrightarrow> 0 < n \<Longrightarrow> length (PutUvarint x) \<le> n"
proof (induction n arbitrary: x)
  case 0
  then show ?case by simp
next
  case (Suc n)
  show ?case
  proof (cases "0x80 \<le> x")
    case True
    then have big: "128 \<le> unat x" by (simp add: word_le_nat_alt)
    with Suc.prems have "0 < n" by (cases n) auto
    moreover have "unat (drop_bit 7 x) < 2 ^ (7 * n)"
      using Suc.prems(1) unfolding unat_drop7 by (simp add: less_mult_imp_div_less power_add mult.commute)
    ultimately have "length (PutUvarint (drop_bit 7 x)) \<le> n" by (rule Suc.IH [rotated])
    with True show ?thesis by (simp add: PutUvarint.simps [of x])
  next
    case False
    then show ?thesis by (simp add: PutUvarint.simps [of x])
  qed
qed

lemma and_7f: "(b :: byte) AND 0x7f = take_bit 7 b"
proof -
  have "(0x7f :: byte) = mask 7" by (simp add: mask_eq_exp_minus_1)
  then show ?thesis by (simp only: take_bit_eq_mask)
qed

lemma varint_step: "(a OR push_bit s (ucast (ucast x AND (0x7f :: byte)))) OR push_bit (s + 7) (drop_bit 7 x)
    = a OR push_bit s (x :: int64)"
proof (rule bit_word_eqI)
  fix n assume "n < LENGTH(64)"
  then show "bit ((a OR push_bit s (ucast (ucast x AND (0x7f :: byte)))) OR push_bit (s + 7) (drop_bit 7 x)) n
      = bit (a OR push_bit s x) n"
    by (cases "s + 7 \<le> n") (auto simp: bit_simps and_7f)
qed

lemma small_byte: "b < 0x80 \<Longrightarrow> take_bit 7 b = b" for b :: byte
  unfolding word_unat_eq_iff unsigned_take_bit_eq by (simp add: word_less_nat_alt take_bit_eq_mod)

lemma byte_continued: "\<not> ((ucast x OR 0x80 :: byte) < 0x80)" "(ucast x OR 0x80 :: byte) AND 0x7f = ucast x AND 0x7f"
  for x :: int64
proof -
  have "bit (ucast x OR 0x80 :: byte) 7"
    by (simp add: bit_or_iff)
  then show "\<not> ((ucast x OR 0x80 :: byte) < 0x80)"
    using small_byte [of "ucast x OR 0x80 :: byte"] by (metis bit_take_bit_iff less_irrefl)
  show "(ucast x OR 0x80 :: byte) AND 0x7f = ucast x AND 0x7f"
    by (simp add: bit.conj_disj_distrib2)
qed

lemma byte_last:
  fixes x :: int64
  assumes "x < 0x80"
  shows "(ucast x :: byte) < 0x80" "ucast (ucast x :: byte) = x" "unat (ucast x :: byte) = unat x"
proof -
  from assms have "unat x < 128" by (simp add: word_less_nat_alt)
  then show u: "unat (ucast x :: byte) = unat x"
    unfolding unsigned_ucast_eq unsigned_take_bit_eq by (simp add: take_bit_eq_mod)
  with \<open>unat x < 128\<close> show "(ucast x :: byte) < 0x80" by (simp add: word_less_nat_alt)
  from \<open>unat x < 128\<close> show "ucast (ucast x :: byte) = x"
    unfolding word_unat_eq_iff unsigned_ucast_eq unsigned_take_bit_eq by (simp add: take_bit_eq_mod)
qed

lemma ReadUvarint_PutUvarint:
  "i \<le> 9 \<Longrightarrow> unat x < 2 ^ (64 - 7 * i) \<Longrightarrow>
   ReadUvarint_loop i a (PutUvarint x @ rest) = Ok (a OR push_bit (7 * i) x, rest)"
proof (induction x arbitrary: i a rule: PutUvarint.induct)
  case (1 x)
  show ?case
  proof (cases "0x80 \<le> x")
    case True
    then have big: "128 \<le> unat x" by (simp add: word_le_nat_alt)
    have i: "i \<noteq> 9" using 1(3) big by auto
    with 1(2) have i8: "Suc i \<le> 9" and e: "64 - 7 * i = 7 + (64 - 7 * Suc i)" by auto
    have "unat (drop_bit 7 x) < 2 ^ (64 - 7 * Suc i)"
      using 1(3) unfolding e unat_drop7 by (simp add: less_mult_imp_div_less power_add mult.commute)
    from 1(1) [OF True i8 this] True show ?thesis
      using varint_step [of a "7 * i" x] byte_continued [of x]
      by (simp add: PutUvarint.simps [of x] add.commute del: drop_bit_eq_div)
  next
    case False
    then have x: "x < 0x80" by simp
    have "i = 9 \<Longrightarrow> unat x < 2" using 1(3) by simp
    then have "i = 9 \<Longrightarrow> \<not> (1 < (ucast x :: byte))"
      using byte_last(3) [OF x] by (simp add: word_less_nat_alt)
    with 1(2) False x show ?thesis
      by (auto simp: PutUvarint.simps [of x] byte_last)
  qed
qed

lemma ReadVarint_PutVarint: "ReadVarint (PutVarint x @ rest) = Ok (x, rest)"
proof -
  have "unat (zigzag x) < 2 ^ LENGTH(64)" by (rule unsigned_less)
  then have "unat (zigzag x) < 2 ^ (64 - 7 * 0)" by simp
  from ReadUvarint_PutUvarint [OF _ this, of 0 rest] show ?thesis
    by (simp add: ReadVarint_def PutVarint_def unzigzag_zigzag)
qed

interpretation varint: stream_codec PutVarint ReadVarint
  by unfold_locales (rule ReadVarint_PutVarint)

lemma length_PutVarint:
  assumes "- (2 ^ (7 * n - 1)) \<le> sint x" "sint x < 2 ^ (7 * n - 1)" "0 < n"
  shows "length (PutVarint x) \<le> n"
proof -
  have "7 * n = Suc (7 * n - 1)" using assms(3) by simp
  then have "(2 :: int) ^ (7 * n) = 2 * 2 ^ (7 * n - 1)" by (metis power_Suc)
  then have "int (unat (zigzag x)) < 2 ^ (7 * n)"
    using assms(1,2) unfolding unat_zigzag by (simp split: if_splits)
  then have "unat (zigzag x) < 2 ^ (7 * n)" by (metis of_nat_less_iff of_nat_numeral of_nat_power)
  then show ?thesis unfolding PutVarint_def using assms(3) by (rule length_PutUvarint)
qed

lemma length_PutVarint_10: "length (PutVarint x) \<le> 10"
proof -
  have "unat (zigzag x) < 2 ^ LENGTH(64)" by (rule unsigned_less)
  also have "(2 :: nat) ^ LENGTH(64) \<le> 2 ^ (7 * 10)" by simp
  finally show ?thesis unfolding PutVarint_def by (rule length_PutUvarint) simp
qed

section \<open>Lemmas on messages\<close>

lemma split_n2_slash: "CHR ''/'' \<notin> set p \<Longrightarrow> split_n2 (p @ CHR ''/'' # a) ''/'' = [p, a]"
  using split_n2_append [of "CHR ''/''" p a] by simp

lemma newServerMessage_header:
  "newServerMessage (header_bytes m @ rest) =
     read_payload (message_zero\<lparr>msg_id := msg_id m, messageType := messageType m, connID := connID m,
       deadline := (if messageType m = Data \<or> messageType m = Connect then deadline m else 0)\<rparr>) rest"
  by (auto simp: newServerMessage_def header_bytes_def varint.dec_bind Let_def message_zero_def)

lemma Bytes_OkD: "Bytes m = Ok bs \<Longrightarrow> bs = header_bytes m @ msg_bytes m"
  by (auto simp: Bytes_def header_def split: if_splits)

lemma Bytes_read:
  "Bytes m = Ok bs \<Longrightarrow> newServerMessage bs =
     read_payload (message_zero\<lparr>msg_id := msg_id m, messageType := messageType m, connID := connID m,
       deadline := (if messageType m = Data \<or> messageType m = Connect then deadline m else 0)\<rparr>) (msg_bytes m)"
  by (drule Bytes_OkD) (simp only: newServerMessage_header)

lemma header_fits:
  assumes "- (2 ^ 41) \<le> sint (connID m)" "sint (connID m) < 2 ^ 41"
    "- (2 ^ 48) \<le> sint (deadline m)" "sint (deadline m) < 2 ^ 48"
    "messageType m \<in> {Data, Connect, Error, AddClient, RemoveClient}"
  shows "length (header_bytes m) \<le> 24"
proof -
  have "length (PutVarint (connID m)) \<le> 6" "length (PutVarint (deadline m)) \<le> 7"
    using length_PutVarint [of 6] length_PutVarint [of 7] assms by auto
  moreover have "length (PutVarint (messageType m)) \<le> 1"
    by (rule length_PutVarint) (use assms(5) in auto)
  moreover have "length (PutVarint (msg_id m)) \<le> 10" by (rule length_PutVarint_10)
  ultimately show ?thesis by (simp add: header_bytes_def)
qed

lemma millis_bounds: "- (2 ^ 48) \<le> sint (millis d)" "sint (millis d) < 2 ^ 48"
proof -
  let ?q = "sgn (sint d) * (\<bar>sint d\<bar> div 1000000)"
  have "- (2 ^ 63) \<le> sint d" "sint d < 2 ^ 63" using sint_ge [of d] sint_lt [of d] by simp_all
  then have "\<bar>sint d\<bar> \<le> 2 ^ 63" by linarith
  then have "\<bar>sint d\<bar> div 1000000 \<le> 2 ^ 63 div 1000000" by (rule zdiv_mono1) simp
  then have "\<bar>sint d\<bar> div 1000000 < 2 ^ 48" by simp
  moreover have "0 \<le> \<bar>sint d\<bar> div 1000000" by simp
  ultimately have q: "- (2 ^ 48) < ?q" "?q < 2 ^ 48" by (auto simp: sgn_if)
  have "sint (millis d) = signed_take_bit 63 ?q" unfolding millis_def sint_sbintrunc' by simp
  also have "\<dots> = ?q" by (rule signed_take_bit_int_eq_self) (use q in simp_all)
  finally show "- (2 ^ 48) \<le> sint (millis d)" "sint (millis d) < 2 ^ 48" using q by simp_all
qed

text \<open>An error message has no deadline: its header fits whatever the connection id.\<close>

lemma Bytes_error: "Bytes (fst (newErrorMessage idc conn e)) =
    Ok (header_bytes (fst (newErrorMessage idc conn e)) @ str_bytes (err_string e))"
proof -
  have "length (PutVarint 3) \<le> 1" by (rule length_PutVarint) simp_all
  then have "length (header_bytes (fst (newErrorMessage idc conn e))) \<le> 24"
    using length_PutVarint_10 [of "nextid idc"] length_PutVarint_10 [of conn]
    by (simp add: header_bytes_def newErrorMessage_def message_zero_def)
  then show ?thesis by (simp add: Bytes_def header_def newErrorMessage_def)
qed

lemma Bytes_fits:
  assumes "- (2 ^ 41) \<le> sint (connID m)" "sint (connID m) < 2 ^ 41"
    "- (2 ^ 48) \<le> sint (deadline m)" "sint (deadline m) < 2 ^ 48"
    "messageType m \<in> {Data, Connect, Error, AddClient, RemoveClient}"
  shows "Bytes m = Ok (header_bytes m @ msg_bytes m)"
  using header_fits [OF assms] by (simp add: Bytes_def header_def)

section \<open>Properties\<close>

text \<open>
  C27. A \<^verbatim>\<open>Connect\<close> message crosses the tunnel: when the protocol has no slash, protocol and
  address take at most 99 bytes, and the connection id is below \<open>2 ^ 41\<close> in magnitude, the header fits its buffer and the reader gives back the id, connection,
  deadline, protocol and address that were sent.
\<close>

theorem connect_roundtrip:
  assumes "CHR ''/'' \<notin> set p" "length p + length a \<le> 99"
    and "- (2 ^ 41) \<le> sint conn" "sint conn < 2 ^ 41"
    and m: "m = fst (newConnect idc conn dur p a)"
  shows "\<exists>bs. Bytes m = Ok bs \<and> newServerMessage bs = Ok (m\<lparr>body := Some []\<rparr>)"
proof -
  have fields: "connID m = conn" "deadline m = millis dur" "messageType m = Connect"
    "msg_bytes m = str_bytes (p @ ''/'' @ a)" "proto m = p" "address m = a" "msg_err m = None"
    by (simp_all add: m newConnect_def message_zero_def)
  have "Bytes m = Ok (header_bytes m @ msg_bytes m)"
    by (rule Bytes_fits) (use assms(1-4) millis_bounds in \<open>simp_all add: fields\<close>)
  moreover have "newServerMessage (header_bytes m @ msg_bytes m) = Ok (m\<lparr>body := Some []\<rparr>)"
    unfolding newServerMessage_header using assms(1,2)
    by (simp add: m newConnect_def message_zero_def read_payload_def split_n2_slash)
  ultimately show ?thesis by blast
qed

theorem connect_roundtrip_witness:
  "\<exists>bs. Bytes (fst (newConnect 5 7 15000000000 ''tcp'' ''10.0.0.1:80'')) = Ok bs \<and>
        newServerMessage bs = Ok ((fst (newConnect 5 7 15000000000 ''tcp'' ''10.0.0.1:80''))\<lparr>body := Some []\<rparr>)"
  by (rule connect_roundtrip [of "''tcp''" "''10.0.0.1:80''" 7 _ 5 15000000000]) simp_all

text \<open>
  C28. A \<^verbatim>\<open>Data\<close> message crosses the tunnel whatever its length: the reader gives back the id,
  the connection and the deadline, and its body is exactly the bytes written.
\<close>

theorem data_roundtrip:
  assumes "- (2 ^ 41) \<le> sint conn" "sint conn < 2 ^ 41" "- (2 ^ 48) \<le> sint dl" "sint dl < 2 ^ 48"
    and m: "m = fst (newMessage idc conn dl payload)"
  shows "\<exists>bs. Bytes m = Ok bs \<and> newServerMessage bs = Ok (m\<lparr>msg_bytes := [], body := Some payload\<rparr>)"
proof -
  have fields: "connID m = conn" "deadline m = dl" "messageType m = Data" "msg_bytes m = payload"
    by (simp_all add: m newMessage_def message_zero_def)
  have "Bytes m = Ok (header_bytes m @ msg_bytes m)"
    by (rule Bytes_fits) (use assms(1-4) in \<open>simp_all add: fields\<close>)
  moreover have
    "newServerMessage (header_bytes m @ msg_bytes m) = Ok (m\<lparr>msg_bytes := [], body := Some payload\<rparr>)"
    unfolding newServerMessage_header by (simp add: m newMessage_def message_zero_def read_payload_def)
  ultimately show ?thesis by blast
qed

theorem data_roundtrip_witness:
  "\<exists>bs. Bytes (fst (newMessage 8 2 (- 1) [104, 105])) = Ok bs \<and>
        newServerMessage bs = Ok ((fst (newMessage 8 2 (- 1) [104, 105]))\<lparr>msg_bytes := [], body := Some [104, 105]\<rparr>)"
  by (rule data_roundtrip [of 2 "- 1" _ 8 "[104, 105]"]) simp_all

text \<open>
  An \<^verbatim>\<open>Error\<close> message carries the first 100 bytes of the text of the error: the receiver's
  \<^verbatim>\<open>Err\<close> returns an error with that text, and returns it again on every later call.
\<close>

theorem error_roundtrip:
  "\<exists>bs m' m''. Bytes (fst (newErrorMessage idc conn e)) = Ok bs \<and> newServerMessage bs = Ok m' \<and>
     connID m' = conn \<and> messageType m' = Error \<and>
     message_Err m' = Ok (PlainErr (take 100 (err_string e)), m'') \<and>
     message_Err m'' = Ok (PlainErr (take 100 (err_string e)), m'')"
  using newServerMessage_header [of "fst (newErrorMessage idc conn e)" "str_bytes (err_string e)"]
  unfolding Bytes_error
  by (simp add: read_payload_def newErrorMessage_def message_Err_def message_zero_def
      bytes_str_take Let_def)

text \<open>
  The header never overruns its 24 bytes, whatever the message id, when the message has one of
  the five types, the connection id is below \<open>2 ^ 41\<close> and the deadline below \<open>2 ^ 48\<close> in magnitude.
\<close>

theorem header_no_panic:
  assumes "- (2 ^ 41) \<le> sint (connID m)" "sint (connID m) < 2 ^ 41"
    "- (2 ^ 48) \<le> sint (deadline m)" "sint (deadline m) < 2 ^ 48"
    "messageType m \<in> {Data, Connect, Error, AddClient, RemoveClient}"
  shows "header m = Ok (header_bytes m)"
  using header_fits [OF assms] by (simp add: header_def)

theorem header_no_panic_witness:
  "header (message_zero\<lparr>msg_id := - 1, connID := 3, messageType := Data, deadline := 15000\<rparr>)
     = Ok (header_bytes (message_zero\<lparr>msg_id := - 1, connID := 3, messageType := Data, deadline := 15000\<rparr>))"
  by (rule header_no_panic) (simp_all add: message_zero_def)

text \<open>A value of more than seven times \<open>n\<close> bits takes more than \<open>n\<close> bytes.\<close>

lemma length_PutUvarint_gt: "2 ^ (7 * n) \<le> unat x \<Longrightarrow> n < length (PutUvarint x)"
proof (induction n arbitrary: x)
  case (Suc n)
  have "2 ^ (7 * Suc n) = (2 ^ 7 :: nat) * 2 ^ (7 * n)" by (simp add: power_add)
  then have big: "128 * 2 ^ (7 * n) \<le> unat x" using Suc.prems by simp
  then have "128 \<le> unat x" using one_le_power[of "2::nat" "7 * n"] by linarith
  then have "0x80 \<le> x" by (simp add: word_le_nat_alt)
  moreover have "2 ^ (7 * n) \<le> unat (drop_bit 7 x)"
    using div_le_mono[OF big, of 128] by (simp add: unat_drop_bit_eq drop_bit_eq_div unat_div)
  ultimately show ?case using Suc.IH by (simp add: PutUvarint.simps [of x])
qed simp

lemma length_PutVarint_iff:
  assumes "0 < n" "7 * n = Suc b"
  shows "length (PutVarint x) \<le> n \<longleftrightarrow> - (2 ^ b) \<le> sint x \<and> sint x < 2 ^ b"
proof -
  have fit: "length (PutVarint x) \<le> n \<longleftrightarrow> unat (zigzag x) < 2 ^ (7 * n)"
    using length_PutUvarint [of "zigzag x" n] length_PutUvarint_gt [of n "zigzag x"] assms(1)
    by (cases "unat (zigzag x) < 2 ^ (7 * n)") (auto simp: PutVarint_def)
  have "unat (zigzag x) < 2 ^ (7 * n) \<longleftrightarrow> int (unat (zigzag x)) < 2 * 2 ^ b"
    unfolding assms(2) by (metis of_nat_less_iff of_nat_numeral of_nat_power power_Suc)
  also have "\<dots> \<longleftrightarrow> - (2 ^ b) \<le> sint x \<and> sint x < 2 ^ b"
    unfolding unat_zigzag by (auto split: if_splits)
  finally show ?thesis using fit by simp
qed

lemma length_PutVarint_big: "2 ^ 62 \<le> sint x \<Longrightarrow> length (PutVarint x) = 10"
  using length_PutVarint_iff [of 9 62 x] length_PutVarint_10 [of x] by simp



end
