(* ===== verification/GoStd.thy ===== *)
theory GoStd
  imports Prelude "HOL-Library.Monad_Syntax"
begin

text \<open>
  The parts of Go's standard library with more computation in them than string scanning: IEEE
  double values (their conversion from and to decimal text by \<^verbatim>\<open>strconv\<close> and to
  \<^verbatim>\<open>int64\<close>), and instants of \<^verbatim>\<open>time\<close> with their RFC 3339 text. A
  \<^verbatim>\<open>float64\<close> is its 64 bits, so a value of the model is exactly a value of the program. The
  syntax accepted is that of Go 1.11, the release the repository builds with.
\<close>

section \<open>Doubles\<close>

type_synonym float64 = "64 word"

definition f_neg :: "float64 \<Rightarrow> bool" where
  "f_neg w = bit w 63"

definition f_exp :: "float64 \<Rightarrow> nat" where
  "f_exp w = unat (take_bit 11 (drop_bit 52 w))"

definition f_man :: "float64 \<Rightarrow> nat" where
  "f_man w = unat (take_bit 52 w)"

definition f_nan :: "float64 \<Rightarrow> bool" where
  "f_nan w \<longleftrightarrow> f_exp w = 2047 \<and> f_man w \<noteq> 0"

definition f_inf :: "float64 \<Rightarrow> bool" where
  "f_inf w \<longleftrightarrow> f_exp w = 2047 \<and> f_man w = 0"

text \<open>The magnitude of a finite double is \<open>m * 2 ^ e\<close>.\<close>

definition f_dec :: "float64 \<Rightarrow> nat \<times> int" where
  "f_dec w = (if f_exp w = 0 then (f_man w, -1074) else (f_man w + 2 ^ 52, int (f_exp w) - 1075))"

definition f_ratio :: "float64 \<Rightarrow> nat \<times> nat" where
  "f_ratio w = (let (m, e) = f_dec w in if 0 \<le> e then (m * 2 ^ nat e, 1) else (m, 2 ^ nat (- e)))"

text \<open>\<^verbatim>\<open>==\<close> on doubles: a NaN equals nothing, the two zeros are equal.\<close>

definition f_eq :: "float64 \<Rightarrow> float64 \<Rightarrow> bool" where
  "f_eq v w \<longleftrightarrow> \<not> f_nan v \<and> \<not> f_nan w \<and> (v = w \<or> (f_exp v = 0 \<and> f_man v = 0 \<and> f_exp w = 0 \<and> f_man w = 0))"

text \<open>\<^verbatim>\<open>int64(f)\<close>: truncation; outside the range the amd64 instruction gives the least integer.\<close>

definition int64_of_float :: "float64 \<Rightarrow> int" where
  "int64_of_float w =
     (let (n, d) = f_ratio w; t = int (n div d); i = (if f_neg w then - t else t)
      in if f_nan w \<or> f_inf w \<or> \<not> is_int64 i then int64_min else i)"

fun bit_length :: "nat \<Rightarrow> nat" where
  "bit_length n = (if n = 0 then 0 else Suc (bit_length (n div 2)))"

declare bit_length.simps [simp del]

text \<open>
  The bits of the double nearest to \<open>num / den\<close>, ties to even, \<^const>\<open>None\<close> when it overflows.
\<close>

definition div_even :: "nat \<Rightarrow> nat \<Rightarrow> nat" where
  "div_even n d =
     (let q = n div d; r = n mod d
      in if 2 * r > d \<or> (2 * r = d \<and> odd q) then Suc q else q)"

definition scaled :: "nat \<Rightarrow> nat \<Rightarrow> int \<Rightarrow> nat \<times> nat" where
  "scaled num den e = (if 0 \<le> e then (num, den * 2 ^ nat e) else (num * 2 ^ nat (- e), den))"

definition round_ratio :: "nat \<Rightarrow> nat \<Rightarrow> nat option" where
  "round_ratio num den =
     (if num = 0 then Some 0
      else let e0 = int (bit_length num) - int (bit_length den) - 53;
               e1 = (case scaled num den e0 of (n, d) \<Rightarrow> if n div d \<ge> 2 ^ 53 then e0 + 1 else e0);
               e = max e1 (-1074);
               q = (case scaled num den e of (n, d) \<Rightarrow> div_even n d);
               bits = (if q < 2 ^ 52 then q else nat (e + 1075) * 2 ^ 52 + (q - 2 ^ 52))
           in if bits \<ge> 2047 * 2 ^ 52 then None else Some bits)"

definition f_make :: "bool \<Rightarrow> nat \<Rightarrow> float64" where
  "f_make neg bits = of_nat (bits + (if neg then 2 ^ 63 else 0))"

definition float_of_int :: "int \<Rightarrow> float64" where
  "float_of_int i = (case round_ratio (nat \<bar>i\<bar>) 1 of Some b \<Rightarrow> f_make (i < 0) b | None \<Rightarrow> 0)"

subsection \<open>\<^verbatim>\<open>strconv.ParseFloat\<close>\<close>

definition is_digit :: "char \<Rightarrow> bool" where
  "is_digit c \<longleftrightarrow> digit_val c \<noteq> None"

fun exp_digits :: "nat \<Rightarrow> string \<Rightarrow> nat" where
  "exp_digits acc [] = acc"
| "exp_digits acc (c # cs) =
     exp_digits (if acc < 10000 then 10 * acc + the (digit_val c) else acc) cs"

definition drop_sign :: "string \<Rightarrow> bool \<times> string" where
  "drop_sign s =
     (if has_prefix s ''-'' then (True, tl s) else if has_prefix s ''+'' then (False, tl s) else (False, s))"

definition parse_exponent :: "string \<Rightarrow> int option" where
  "parse_exponent s =
     (if s = [] then Some 0
      else if hd s \<in> set ''eE''
      then let (neg, ds) = drop_sign (tl s)
           in if ds = [] \<or> \<not> list_all is_digit ds then None
              else Some (if neg then - int (exp_digits 0 ds) else int (exp_digits 0 ds))
      else None)"

definition parse_float :: "string \<Rightarrow> float64 option" where
  "parse_float s =
     (let (neg, t) = drop_sign s;
          ip = takeWhile is_digit t; r = dropWhile is_digit t;
          fp = (if has_prefix r ''.'' then takeWhile is_digit (tl r) else []);
          r' = (if has_prefix r ''.'' then dropWhile is_digit (tl r) else r)
      in if to_lower t \<in> set [''inf'', ''infinity''] then Some (f_make neg (2047 * 2 ^ 52))
         else if to_lower s = ''nan'' then Some (f_make False (2047 * 2 ^ 52 + 1))
         else if ip @ fp = [] then None
         else do { m \<leftarrow> parse_digits 0 (ip @ fp);
                   e \<leftarrow> parse_exponent r';
                   let x = e - int (length fp);
                   b \<leftarrow> (if 0 \<le> x then round_ratio (m * 10 ^ nat x) 1 else round_ratio m (10 ^ nat (- x)));
                   Some (f_make neg b) })"

subsection \<open>\<^verbatim>\<open>fmt.Sprint\<close> of a double\<close>

text \<open>
  The shortest decimal that reads back as the same double: its digits and the position of the
  decimal point. With \<open>n\<close> digits the two neighbours of the value are tried, the nearer one first.
\<close>

fun dec_point :: "nat \<Rightarrow> nat \<Rightarrow> nat \<Rightarrow> int \<Rightarrow> int" where
  "dec_point 0 num den k = k"
| "dec_point (Suc fuel) num den k =
     (if num \<ge> den then dec_point fuel num (den * 10) (k + 1)
      else if num * 10 < den then dec_point fuel (num * 10) den (k - 1)
      else k)"

definition shortest_with :: "nat \<Rightarrow> nat \<Rightarrow> nat \<Rightarrow> int \<Rightarrow> nat \<Rightarrow> nat option" where
  "shortest_with bits num den k n =
     (let x = k - int n;
          (a, b) = (if 0 \<le> x then (num, den * 10 ^ nat x) else (num * 10 ^ nat (- x), den));
          q = a div b;
          back = (\<lambda>d. (if 0 \<le> x then round_ratio (d * 10 ^ nat x) 1 else round_ratio d (10 ^ nat (- x))) = Some bits);
          near = div_even a b; far = (if near = q then Suc q else q)
      in if back near then Some near else if back far then Some far else None)"

fun shortest_from :: "nat \<Rightarrow> nat \<Rightarrow> nat \<Rightarrow> nat \<Rightarrow> int \<Rightarrow> nat \<Rightarrow> nat \<times> int" where
  "shortest_from 0 bits num den k n = (0, k)"
| "shortest_from (Suc fuel) bits num den k n =
     (case shortest_with bits num den k n of
        Some d \<Rightarrow> (d, k + int (length (show_nat d)) - int n)
      | None \<Rightarrow> shortest_from fuel bits num den k (Suc n))"

definition shortest :: "float64 \<Rightarrow> string \<times> int" where
  "shortest w =
     (case f_ratio w of (num, den) \<Rightarrow>
        if num = 0 then ([], 0)
        else case shortest_from 17 (unat (take_bit 63 w)) num den (dec_point 400 num den 0) 1 of
               (d, k) \<Rightarrow> (rev (dropWhile (\<lambda>c. c = CHR ''0'') (rev (show_nat d))), k))"

definition pad0 :: "nat \<Rightarrow> nat \<Rightarrow> string" where
  "pad0 n k = (let s = show_nat k in replicate (n - length s) (CHR ''0'') @ s)"

definition show_float :: "float64 \<Rightarrow> string" where
  "show_float w =
     (if f_nan w then ''NaN''
      else if f_inf w then (if f_neg w then ''-Inf'' else ''+Inf'')
      else let (ds, dp) = shortest w; e = dp - 1; sgn = (if f_neg w then ''-'' else '''')
           in sgn @
              (if e < -4 \<or> e \<ge> 6
               then take 1 ds @ (if length ds > 1 then ''.'' @ drop 1 ds else []) @ ''e''
                    @ (if e < 0 then ''-'' else ''+'') @ pad0 2 (nat \<bar>e\<bar>)
               else (if dp > 0 then take (nat dp) ds @ replicate (nat dp - length ds) (CHR ''0'') else ''0'')
                    @ (if int (length ds) > dp
                       then ''.'' @ replicate (nat (- dp)) (CHR ''0'') @ drop (nat dp) ds else [])))"

section \<open>Instants\<close>

record gtime =
  unix_sec :: int
  nsec :: nat
  zone_offset :: int
  zone_name :: string

definition days_from_civil :: "int \<Rightarrow> int \<Rightarrow> int \<Rightarrow> int" where
  "days_from_civil y m d =
     (let y' = (if m \<le> 2 then y - 1 else y); era = y' div 400; yoe = y' mod 400;
          doy = (153 * (if m > 2 then m - 3 else m + 9) + 2) div 5 + d - 1;
          doe = yoe * 365 + yoe div 4 - yoe div 100 + doy
      in era * 146097 + doe - 719468)"

definition civil_from_days :: "int \<Rightarrow> int \<times> int \<times> int" where
  "civil_from_days day =
     (let z = day + 719468; era = z div 146097; doe = z mod 146097;
          yoe = (doe - doe div 1460 + doe div 36524 - doe div 146096) div 365;
          doy = doe - (365 * yoe + yoe div 4 - yoe div 100);
          mp = (5 * doy + 2) div 153;
          m = (if mp < 10 then mp + 3 else mp - 9);
          y = yoe + era * 400
      in (if m \<le> 2 then y + 1 else y, m, doy - (153 * mp + 2) div 5 + 1))"

definition days_in :: "int \<Rightarrow> int \<Rightarrow> int" where
  "days_in y m =
     (if m = 2 then if y mod 4 = 0 \<and> (y mod 100 \<noteq> 0 \<or> y mod 400 = 0) then 29 else 28
      else if m \<in> set [4, 6, 9, 11] then 30 else 31)"

definition show_year :: "int \<Rightarrow> string" where
  "show_year y = (if y < 0 then ''-'' else []) @ pad0 4 (nat \<bar>y\<bar>)"

definition show_date :: "gtime \<Rightarrow> string" where
  "show_date t =
     (case civil_from_days ((unix_sec t + zone_offset t) div 86400) of
        (y, m, d) \<Rightarrow> show_year y @ ''-'' @ pad0 2 (nat m) @ ''-'' @ pad0 2 (nat d))"

definition show_clock :: "gtime \<Rightarrow> string" where
  "show_clock t =
     (let s = nat ((unix_sec t + zone_offset t) mod 86400)
      in pad0 2 (s div 3600) @ '':'' @ pad0 2 (s div 60 mod 60) @ '':'' @ pad0 2 (s mod 60))"

definition show_zone :: "string \<Rightarrow> gtime \<Rightarrow> string" where
  "show_zone colon t =
     (let z = nat \<bar>zone_offset t\<bar> div 60
      in (if zone_offset t < 0 then ''-'' else ''+'') @ pad0 2 (z div 60) @ colon @ pad0 2 (z mod 60))"

text \<open>\<^verbatim>\<open>t.Format(time.RFC3339)\<close> and \<^verbatim>\<open>t.String()\<close>.\<close>

definition format_rfc3339 :: "gtime \<Rightarrow> string" where
  "format_rfc3339 t =
     show_date t @ ''T'' @ show_clock t @ (if zone_offset t = 0 then ''Z'' else show_zone '':'' t)"

definition show_time :: "gtime \<Rightarrow> string" where
  "show_time t =
     show_date t @ '' '' @ show_clock t
       @ (if nsec t = 0 then []
          else ''.'' @ rev (dropWhile (\<lambda>c. c = CHR ''0'') (rev (pad0 9 (nsec t)))))
       @ '' '' @ show_zone [] t @ '' '' @ zone_name t"

subsection \<open>\<^verbatim>\<open>time.Parse(time.RFC3339, s)\<close>\<close>

definition take_num :: "nat \<Rightarrow> string \<Rightarrow> (int \<times> string) option" where
  "take_num n s =
     (if length s < n then None
      else map_option (\<lambda>v. (int v, drop n s)) (parse_digits 0 (take n s)))"

definition expect :: "char \<Rightarrow> string \<Rightarrow> string option" where
  "expect c s = (if s \<noteq> [] \<and> hd s = c then Some (tl s) else None)"

text \<open>The hour of a layout may have one digit.\<close>

definition take_hour :: "string \<Rightarrow> (int \<times> string) option" where
  "take_hour s =
     (if length s \<ge> 2 \<and> is_digit (hd s) \<and> is_digit (s ! 1) then take_num 2 s else take_num 1 s)"

definition take_fraction :: "string \<Rightarrow> (nat \<times> string) option" where
  "take_fraction s =
     (if length s \<ge> 2 \<and> hd s = CHR ''.'' \<and> is_digit (s ! 1)
      then let ds = takeWhile is_digit (tl s)
           in do { ns \<leftarrow> parse_digits 0 ds;
                   if ns \<ge> 10 ^ 9 then None
                   else Some (ns * 10 ^ (9 - length ds), dropWhile is_digit (tl s)) }
      else Some (0, s))"

definition take_zone :: "string \<Rightarrow> (int \<times> string) option" where
  "take_zone s =
     (if has_prefix s ''Z'' then Some (0, tl s)
      else if length s < 6 \<or> s ! 3 \<noteq> CHR '':'' then None
      else do { h \<leftarrow> parse_int (take 2 (drop 1 s));
                m \<leftarrow> parse_int (take 2 (drop 4 s));
                let off = (h * 60 + m) * 60;
                if hd s = CHR ''+'' then Some (off, drop 6 s)
                else if hd s = CHR ''-'' then Some (- off, drop 6 s)
                else None })"

text \<open>The nanoseconds since the epoch.\<close>

definition parse_rfc3339 :: "string \<Rightarrow> int option" where
  "parse_rfc3339 s0 =
     do { (y, s1) \<leftarrow> take_num 4 s0;
          s2 \<leftarrow> expect CHR ''-'' s1;
          (mo, s3) \<leftarrow> take_num 2 s2;
          s4 \<leftarrow> expect CHR ''-'' s3;
          (d, s5) \<leftarrow> take_num 2 s4;
          s6 \<leftarrow> expect CHR ''T'' s5;
          (h, s7) \<leftarrow> take_hour s6;
          s8 \<leftarrow> expect CHR '':'' s7;
          (mi, s9) \<leftarrow> take_num 2 s8;
          s10 \<leftarrow> expect CHR '':'' s9;
          (sec, s11) \<leftarrow> take_num 2 s10;
          (ns, s12) \<leftarrow> take_fraction s11;
          (off, s13) \<leftarrow> take_zone s12;
          if s13 \<noteq> [] \<or> mo < 1 \<or> mo > 12 \<or> d < 1 \<or> d > days_in y mo \<or> h \<ge> 24 \<or> mi \<ge> 60 \<or> sec \<ge> 60
          then None
          else Some ((days_from_civil y mo d * 86400 + h * 3600 + mi * 60 + sec - off) * 10 ^ 9 + int ns) }"

end
