(* ===== verification/Values.thy ===== *)
theory Values
  imports Errors GoStd
begin

text \<open>
  API data: the values an \<^verbatim>\<open>interface{}\<close> holds, their conversions
  (\<^verbatim>\<open>types/convert/convert.go\<close>, \<^verbatim>\<open>transform.go\<close>, \<^verbatim>\<open>value_set_string.go\<close>),
  the nested maps of \<^verbatim>\<open>types/values/values.go\<close>, and the small helpers on strings and sets
  (\<^verbatim>\<open>pkg/kv\<close>, \<^verbatim>\<open>name\<close>, \<^verbatim>\<open>types/slice\<close>, \<^verbatim>\<open>types/set\<close>,
  the deep copy of \<^verbatim>\<open>pkg/broadcast\<close>).

  The Go code mutates maps in place. The data of a request is a tree with one owner, so an operation
  here takes the map and returns it updated.
\<close>

section \<open>Values\<close>

text \<open>
  One constructor per dynamic type the sources produce or inspect. \<open>VInt\<close> is an \<^verbatim>\<open>int64\<close>,
  \<open>VGoInt\<close> an \<^verbatim>\<open>int\<close>, \<open>VNum\<close> a \<^verbatim>\<open>json.Number\<close>, \<open>VMap None\<close> a nil map in a
  non-nil interface, \<open>VMaps\<close> a \<^verbatim>\<open>[]map[string]interface{}\<close> (its elements are \<open>VMap\<close>s). Nil and
  empty slices are identified: the sources only take their length and range over them. A map is its
  list of entries in iteration order.
\<close>

datatype gval =
    VNil
  | VBool bool
  | VStr string
  | VInt int
  | VGoInt int
  | VFloat float64
  | VNum string
  | VTime gtime
  | VStrs "string list"
  | VList "gval list"
  | VMap "(string \<times> gval) list option"
  | VMaps "gval list"

type_synonym gdata = "(string \<times> gval) list option"

definition mlookup :: "gdata \<Rightarrow> string \<Rightarrow> gval option" where
  "mlookup d k = (case d of None \<Rightarrow> None | Some m \<Rightarrow> map_of m k)"

text \<open>\<^verbatim>\<open>d[k]\<close> in an expression.\<close>

definition mget :: "gdata \<Rightarrow> string \<Rightarrow> gval" where
  "mget d k = (case mlookup d k of None \<Rightarrow> VNil | Some v \<Rightarrow> v)"

text \<open>\<^verbatim>\<open>d[k] = v\<close>: an assignment to a nil map panics.\<close>

definition mput :: "gdata \<Rightarrow> string \<Rightarrow> gval \<Rightarrow> gdata res" where
  "mput d k v = (case d of None \<Rightarrow> Panic | Some m \<Rightarrow> Ok (Some (mset_key k v m)))"

definition mdelete :: "gdata \<Rightarrow> string \<Rightarrow> gdata" where
  "mdelete d k = map_option (mdel_key k) d"

definition mentries :: "gdata \<Rightarrow> (string \<times> gval) list" where
  "mentries d = (case d of None \<Rightarrow> [] | Some m \<Rightarrow> m)"

section \<open>Conversions\<close>

lemma size_snd_entry [termination_simp]: "kv \<in> set m \<Longrightarrow> size (snd kv) < Suc (size_list (size_prod (size_list size) size) m)"
proof (induction m)
  case Nil
  then show ?case by simp
next
  case (Cons x xs)
  then show ?case by (cases x) auto
qed

text \<open>\<^verbatim>\<open>fmt.Sprint\<close> of one operand.\<close>

fun sprint :: "gval \<Rightarrow> string" where
  "sprint VNil = ''<nil>''"
| "sprint (VBool b) = (if b then ''true'' else ''false'')"
| "sprint (VStr s) = s"
| "sprint (VInt i) = show_int i"
| "sprint (VGoInt i) = show_int i"
| "sprint (VFloat f) = show_float f"
| "sprint (VNum s) = s"
| "sprint (VTime t) = show_time t"
| "sprint (VStrs ss) = ''['' @ str_join '' '' ss @ '']''"
| "sprint (VList vs) = ''['' @ str_join '' '' (map sprint vs) @ '']''"
| "sprint (VMap None) = ''map[]''"
| "sprint (VMap (Some m)) = ''map['' @ str_join '' '' (map (\<lambda>kv. fst kv @ '':'' @ sprint (snd kv)) m) @ '']''"
| "sprint (VMaps vs) = ''['' @ str_join '' '' (map sprint vs) @ '']''"

definition Singular :: "gval \<Rightarrow> gval" where
  "Singular v =
     (case v of
        VStrs ss \<Rightarrow> (if ss = [] then VNil else VStr (hd ss))
      | VList vs \<Rightarrow> (if vs = [] then VNil else hd vs)
      | _ \<Rightarrow> v)"

definition ToStringNoTrim :: "gval \<Rightarrow> string" where
  "ToStringNoTrim v =
     (case v of
        VTime t \<Rightarrow> format_rfc3339 t
      | _ \<Rightarrow> (case Singular v of VNil \<Rightarrow> [] | single \<Rightarrow> sprint single))"

definition ToString :: "gval \<Rightarrow> string" where
  "ToString v = trim_space (ToStringNoTrim v)"

text \<open>\<^const>\<open>None\<close> is an error. \<^verbatim>\<open>UnixNano\<close> wraps around; the division truncates.\<close>

definition ToTimestamp :: "gval \<Rightarrow> int option" where
  "ToTimestamp v =
     (let str = ToString v
      in if str = [] then None
         else map_option (\<lambda>ns. let w = wrap64 ns in sgn w * (\<bar>w\<bar> div 1000000)) (parse_rfc3339 str))"

definition ToBool :: "gval \<Rightarrow> bool" where
  "ToBool v =
     (case Singular v of
        VBool b \<Rightarrow> b
      | s \<Rightarrow> to_lower (ToString s) \<in> set [''true'', ''t'', ''yes'', ''y''])"

text \<open>The errors of \<^verbatim>\<open>strconv\<close>, with the quoted input in their text.\<close>

definition quote_str :: "string \<Rightarrow> string" where
  "quote_str s =
     [CHR 0x22] @ concat (map (\<lambda>c. if c = CHR 0x22 \<or> c = CHR 0x5C then [CHR 0x5C, c] else [c]) s) @ [CHR 0x22]"

definition num_error :: "string \<Rightarrow> string \<Rightarrow> string \<Rightarrow> err" where
  "num_error fn s what = PlainErr (''strconv.'' @ fn @ '': parsing '' @ quote_str s @ '': '' @ what)"

text \<open>Why a string is no 64-bit integer.\<close>

definition int_error :: "string \<Rightarrow> string \<Rightarrow> err" where
  "int_error fn s =
     (let body = snd (drop_sign s)
      in num_error fn s (if body \<noteq> [] \<and> list_all is_digit body then ''value out of range'' else ''invalid syntax''))"

definition ParseInt :: "string \<Rightarrow> int res" where
  "ParseInt s = (case parse_int s of Some i \<Rightarrow> Ok i | None \<Rightarrow> Err (int_error ''ParseInt'' s))"

definition ParseFloat :: "string \<Rightarrow> float64 res" where
  "ParseFloat s =
     (case parse_float s of
        Some f \<Rightarrow> Ok f
      | None \<Rightarrow> Err (num_error ''ParseFloat'' s ''invalid syntax''))"

definition ToNumber :: "gval \<Rightarrow> int res" where
  "ToNumber v =
     (case Singular v of
        VInt i \<Rightarrow> Ok i
      | VFloat f \<Rightarrow> Ok (int64_of_float f)
      | VNum n \<Rightarrow>
          (case ParseInt n of
             Ok i \<Rightarrow> Ok i
           | _ \<Rightarrow> rbind (ParseFloat n) (\<lambda>f. Ok (int64_of_float f)))
      | s \<Rightarrow> ParseInt (ToString s))"

definition ToFloat :: "gval \<Rightarrow> float64 res" where
  "ToFloat v =
     (case Singular v of
        VFloat f \<Rightarrow> Ok f
      | VNum n \<Rightarrow>
          (case ParseInt n of
             Ok i \<Rightarrow> Ok (float_of_int i)
           | _ \<Rightarrow> ParseFloat n)
      | s \<Rightarrow> ParseFloat (ToString s))"

subsection \<open>Names\<close>

definition Capitalize :: "string \<Rightarrow> string" where
  "Capitalize s = (if length s \<le> 1 then to_upper s else to_upper (take 1 s) @ drop 1 s)"

definition Uncapitalize :: "string \<Rightarrow> string" where
  "Uncapitalize s = (if length s \<le> 1 then to_lower s else to_lower (take 1 s) @ drop 1 s)"

text \<open>The loop of \<^verbatim>\<open>LowerTitle\<close>; the flag says that the index is 0.\<close>

fun LowerTitle_loop :: "bool \<Rightarrow> string \<Rightarrow> string" where
  "LowerTitle_loop first [] = []"
| "LowerTitle_loop first (c # cs) =
     (if is_upper c \<and> (first \<or> cs = [] \<or> is_upper (hd cs))
      then lower_char c # LowerTitle_loop False cs
      else c # cs)"

definition LowerTitle :: "string \<Rightarrow> string" where
  "LowerTitle s = LowerTitle_loop True s"

text \<open>\<^verbatim>\<open>strings.Title\<close>: a letter after a separator, or at the start, in upper case.\<close>

definition is_word_char :: "char \<Rightarrow> bool" where
  "is_word_char c \<longleftrightarrow> c \<in> set upper_letters \<or> c \<in> set lower_letters \<or> is_digit c \<or> c = CHR ''_''"

fun title_from :: "bool \<Rightarrow> string \<Rightarrow> string" where
  "title_from sep [] = []"
| "title_from sep (c # cs) = (if sep then upper_char c else c) # title_from (\<not> is_word_char c) cs"

definition ToJSONKey :: "string \<Rightarrow> string" where
  "ToJSONKey str =
     (case split_char CHR ''_'' str of
        [] \<Rightarrow> []
      | p # ps \<Rightarrow> concat (p # map (title_from True) ps))"

fun ToYAMLKey_loop :: "bool \<Rightarrow> string \<Rightarrow> string" where
  "ToYAMLKey_loop cap [] = []"
| "ToYAMLKey_loop cap (r # rs) =
     (if is_upper r
      then (if cap then [lower_char r] else [CHR ''_'', lower_char r]) @ ToYAMLKey_loop cap rs
      else r # ToYAMLKey_loop False rs)"

definition ToYAMLKey :: "string \<Rightarrow> string" where
  "ToYAMLKey str =
     (case str of [] \<Rightarrow> [] | r # rs \<Rightarrow> lower_char r # ToYAMLKey_loop (is_upper r) rs)"

subsection \<open>Shapes\<close>

definition IsAPIObjectEmpty :: "gval \<Rightarrow> bool" where
  "IsAPIObjectEmpty v =
     (case v of
        VNil \<Rightarrow> True
      | VStr s \<Rightarrow> s = []
      | VGoInt i \<Rightarrow> i = 0
      | VBool b \<Rightarrow> \<not> b
      | VMap d \<Rightarrow> mentries d = []
      | VList vs \<Rightarrow> vs = []
      | _ \<Rightarrow> False)"

definition ToMapInterface :: "gval \<Rightarrow> gdata" where
  "ToMapInterface v = (case v of VMap d \<Rightarrow> d | _ \<Rightarrow> None)"

definition ToInterfaceSlice :: "gval \<Rightarrow> gval list" where
  "ToInterfaceSlice v = (case v of VList vs \<Rightarrow> vs | _ \<Rightarrow> [])"

definition is_map :: "gval \<Rightarrow> bool" where
  "is_map v \<longleftrightarrow> (case v of VMap _ \<Rightarrow> True | _ \<Rightarrow> False)"

text \<open>The maps of a slice; one item of another type and there are none.\<close>

definition ToMapSlice :: "gval \<Rightarrow> gdata list" where
  "ToMapSlice v =
     (case v of
        VMaps vs \<Rightarrow> map ToMapInterface vs
      | VList vs \<Rightarrow> (if list_all is_map vs then map ToMapInterface vs else [])
      | _ \<Rightarrow> [])"

definition ToStringSlice :: "gval \<Rightarrow> string list" where
  "ToStringSlice v =
     (case v of VStrs ss \<Rightarrow> ss | VList vs \<Rightarrow> map ToString vs | _ \<Rightarrow> [])"

definition ToValuesSlice :: "string \<Rightarrow> string list" where
  "ToValuesSlice value =
     (let v = trim_space value;
          ltrim = dropWhile is_space;
          rtrim = (\<lambda>s. rev (dropWhile is_space (rev s)))
      in if has_prefix v ''('' \<and> has_suffix v '')''
         then (case split_char CHR '','' (drop 1 (take (length v - 1) v)) of
                 [] \<Rightarrow> []
               | [p] \<Rightarrow> [p]
               | p # ps \<Rightarrow> rtrim p # map trim_space (butlast ps) @ [ltrim (last ps)])
         else [v])"

subsection \<open>Transform\<close>

abbreviation "ArrayKey \<equiv> ''{ARRAY}''"
abbreviation "MapKey \<equiv> ''{MAP}''"

text \<open>The maps a slice or a map holds, changed in place; what is not a map stays.\<close>

definition in_map :: "(gdata \<Rightarrow> gdata) \<Rightarrow> gval \<Rightarrow> gval" where
  "in_map f v = (case v of VMap d \<Rightarrow> VMap (f d) | _ \<Rightarrow> v)"

lemma in_map_cong [fundef_cong]: "v = v' \<Longrightarrow> (\<And>d. v' = VMap d \<Longrightarrow> f d = f' d) \<Longrightarrow> in_map f v = in_map f' v'"
  by (cases v') (auto simp: in_map_def)

definition in_slice :: "(gdata \<Rightarrow> gdata) \<Rightarrow> gval \<Rightarrow> gval" where
  "in_slice f v =
     (case v of
        VMaps vs \<Rightarrow> VMaps (map (in_map f) vs)
      | VList vs \<Rightarrow> (if list_all is_map vs then VList (map (in_map f) vs) else v)
      | _ \<Rightarrow> v)"

definition in_entries :: "(gdata \<Rightarrow> gdata) \<Rightarrow> gval \<Rightarrow> gval" where
  "in_entries f v =
     (case v of VMap d \<Rightarrow> VMap (map_option (map (\<lambda>(k, x). (k, in_map f x))) d) | _ \<Rightarrow> v)"

fun Transform :: "(gval \<Rightarrow> gval) \<Rightarrow> string list \<Rightarrow> gdata \<Rightarrow> gdata" where
  "Transform f [] d = d"
| "Transform f [key] d =
     (case mget d key of VNil \<Rightarrow> d | value \<Rightarrow> map_option (mset_key key (f value)) d)"
| "Transform f (key # p # path) d =
     (case mget d key of
        VNil \<Rightarrow> d
      | value \<Rightarrow>
          let upd = (\<lambda>g. map_option (mset_key key (g value)) d)
          in if path \<noteq> [] \<and> p = ArrayKey then upd (in_slice (Transform f path))
             else if path \<noteq> [] \<and> p = MapKey then upd (in_entries (Transform f path))
             else upd (in_map (Transform f (p # path))))"

section \<open>Nested maps\<close>

fun GetValue :: "gdata \<Rightarrow> string list \<Rightarrow> gval option" where
  "GetValue d [] = None"
| "GetValue d [k] = mlookup d k"
| "GetValue d (k # k' # ks) = GetValue (ToMapInterface (mget d k)) (k' # ks)"

definition GetValueN :: "gdata \<Rightarrow> string list \<Rightarrow> gval" where
  "GetValueN d ks = (case GetValue d ks of None \<Rightarrow> VNil | Some v \<Rightarrow> v)"

definition GetStringSlice :: "gdata \<Rightarrow> string list \<Rightarrow> string list option" where
  "GetStringSlice d ks =
     (case GetValue d ks of
        Some (VStrs ss) \<Rightarrow> Some ss
      | Some (VList vs) \<Rightarrow> Some (map ToString vs)
      | _ \<Rightarrow> None)"

definition GetSlice :: "gdata \<Rightarrow> string list \<Rightarrow> gdata list option" where
  "GetSlice d ks =
     (case GetValue d ks of
        Some (VMaps vs) \<Rightarrow> Some (map ToMapInterface vs)
      | Some (VList vs) \<Rightarrow> Some (map ToMapInterface (filter is_map vs))
      | _ \<Rightarrow> None)"

text \<open>The removed value, if there was one, and the map after the removal.\<close>

fun RemoveValue :: "gdata \<Rightarrow> string list \<Rightarrow> gval option \<times> gdata" where
  "RemoveValue d [] = (None, d)"
| "RemoveValue d [k] = (mlookup d k, mdelete d k)"
| "RemoveValue d (k # k' # ks) =
     (case mget d k of
        VMap sub \<Rightarrow>
          (case RemoveValue sub (k' # ks) of
             (v, sub') \<Rightarrow> (v, map_option (mset_key k (VMap sub')) d))
      | _ \<Rightarrow> (None, d))"

text \<open>
  A value that is not a map on the way stops \<^verbatim>\<open>PutValue\<close> silently; a nil map in a non-nil
  interface on the way is written to and panics.
\<close>

fun put_path :: "gval \<Rightarrow> string list \<Rightarrow> (string \<times> gval) list \<Rightarrow> (string \<times> gval) list res" where
  "put_path v [] m = Ok m"
| "put_path v [k] m = Ok (mset_key k v m)"
| "put_path v (k # k' # ks) m =
     (case map_of m k of
        None \<Rightarrow> rbind (put_path v (k' # ks) []) (\<lambda>sub. Ok (mset_key k (VMap (Some sub)) m))
      | Some (VMap (Some sub)) \<Rightarrow>
          rbind (put_path v (k' # ks) sub) (\<lambda>sub'. Ok (mset_key k (VMap (Some sub')) m))
      | Some (VMap None) \<Rightarrow> Panic
      | Some _ \<Rightarrow> Ok m)"

definition PutValue :: "gdata \<Rightarrow> gval \<Rightarrow> string list \<Rightarrow> gdata res" where
  "PutValue d v ks =
     (case d of None \<Rightarrow> Ok None | Some m \<Rightarrow> rbind (put_path v ks m) (\<lambda>m'. Ok (Some m')))"

section \<open>Lemmas on maps\<close>

lemma mlookup_simps [simp]: "mlookup None k = None" "mlookup (Some m) k = map_of m k"
  by (simp_all add: mlookup_def)

lemma mget_simps [simp]:
  "mget None k = VNil" "mget (Some m) k = (case map_of m k of None \<Rightarrow> VNil | Some v \<Rightarrow> v)"
  by (simp_all add: mget_def)

lemma mput_simps [simp]: "mput None k v = Panic" "mput (Some m) k v = Ok (Some (mset_key k v m))"
  by (simp_all add: mput_def)

lemma mdelete_simps [simp]: "mdelete None k = None" "mdelete (Some m) k = Some (mdel_key k m)"
  by (simp_all add: mdelete_def)

lemma mentries_simps [simp]: "mentries None = []" "mentries (Some m) = m"
  by (simp_all add: mentries_def)

lemma mlookup_mdelete: "mlookup (mdelete d k) k' = (if k' = k then None else mlookup d k')"
  by (cases d) (auto simp: go_map)

lemma ToMapInterface_simps [simp]:
  "ToMapInterface (VMap d) = d" "ToMapInterface VNil = None" "ToMapInterface (VStr s) = None"
  "ToMapInterface (VList vs) = None"
  by (simp_all add: ToMapInterface_def)

lemma ToMapInterface_SomeD: "ToMapInterface v = Some m \<Longrightarrow> v = VMap (Some m)"
  by (cases v) (auto simp: ToMapInterface_def)

lemma GetValue_None [simp]: "GetValue None ks = None"
  by (induction "None :: gdata" ks rule: GetValue.induct) auto

lemma GetValue_empty [simp]: "GetValue (Some []) ks = None"
  by (cases ks rule: remdups_adj.cases) auto

lemma GetValue_Cons:
  "ks \<noteq> [] \<Longrightarrow> GetValue d (k # ks) = GetValue (ToMapInterface (mget d k)) ks"
  by (cases ks) auto

lemma mget_update [simp]: "mget (Some (mset_key k v m)) k' = (if k' = k then v else mget (Some m) k')"
  by (simp add: go_map)

subsection \<open>Paths that can be written\<close>

text \<open>
  \<open>path_state\<close> follows a path the way \<^verbatim>\<open>PutValue\<close> does: \<open>Open\<close> when it reaches the last map,
  \<open>Blocked\<close> at a value that is not a map, \<open>NilMap\<close> at a nil map.
\<close>

datatype path_end = Open | Blocked | NilMap

fun path_state :: "(string \<times> gval) list \<Rightarrow> string list \<Rightarrow> path_end" where
  "path_state m (k # k' # ks) =
     (case map_of m k of
        None \<Rightarrow> Open
      | Some (VMap (Some sub)) \<Rightarrow> path_state sub (k' # ks)
      | Some (VMap None) \<Rightarrow> NilMap
      | Some _ \<Rightarrow> Blocked)"
| "path_state m ks = Open"

lemma path_state_Nil [simp]: "path_state [] ks = Open"
  by (cases ks rule: remdups_adj.cases) auto

lemma entry_cases:
  obtains (absent) "map_of m k = None"
    | (sub) s where "map_of m k = Some (VMap (Some s))"
    | (nilmap) "map_of m k = Some (VMap None)"
    | (other) x where "map_of m k = Some x" "\<not> is_map x"
proof (cases "map_of m k")
  case None
  then show ?thesis by (rule absent)
next
  case (Some x)
  then show ?thesis
    by (cases "ToMapInterface x"; cases "is_map x")
      (auto simp: is_map_def split: gval.splits intro: sub nilmap other)
qed

lemma case_not_map [simp]: "\<not> is_map x \<Longrightarrow> (case x of VMap d \<Rightarrow> f d | _ \<Rightarrow> b) = b"
  by (cases x) (simp_all add: is_map_def)

lemma put_path_blocked: "path_state m ks = Blocked \<Longrightarrow> put_path v ks m = Ok m"
proof (induction v ks m rule: put_path.induct)
  case (3 v k k' ks m)
  then show ?case by (cases rule: entry_cases [of m k]) (simp_all add: update_triv del: put_path.simps(2))
qed auto

lemma put_path_panic: "put_path v ks m = Panic \<longleftrightarrow> path_state m ks = NilMap"
proof (induction v ks m rule: put_path.induct)
  case (3 v k k' ks m)
  then show ?case by (cases rule: entry_cases [of m k]) (simp_all add: rbind_Panic_iff)
qed auto

lemma put_path_no_err: "put_path v ks m \<noteq> Err e"
proof (induction v ks m rule: put_path.induct)
  case (3 v k k' ks m)
  then show ?case by (cases rule: entry_cases [of m k]) (simp_all add: rbind_Err_iff)
qed auto

lemma put_path_open:
  "path_state m ks = Open \<Longrightarrow> ks \<noteq> [] \<Longrightarrow> \<exists>m'. put_path v ks m = Ok m' \<and> GetValue (Some m') ks = Some v"
proof (induction v ks m rule: put_path.induct)
  case (3 v k k' ks m)
  show ?case
  proof (cases rule: entry_cases [of m k])
    case absent
    with 3(1) obtain m' where "put_path v (k' # ks) [] = Ok m'" "GetValue (Some m') (k' # ks) = Some v"
      by auto
    with absent show ?thesis by (simp add: go_map)
  next
    case (sub s)
    with 3(2-3) obtain m' where "put_path v (k' # ks) s = Ok m'" "GetValue (Some m') (k' # ks) = Some v"
      by auto
    with sub show ?thesis by (simp add: go_map)
  qed (use 3 in auto)
qed (auto simp: go_map)

lemma parallel_Cons_same [simp]: "parallel (k # ks) (k # js) \<longleftrightarrow> parallel ks js"
  by (simp add: parallel_def)

lemma put_path_frame:
  "put_path v ks m = Ok m' \<Longrightarrow> parallel ks ks' \<Longrightarrow> GetValue (Some m') ks' = GetValue (Some m) ks'"
proof (induction v ks m arbitrary: ks' m' rule: put_path.induct)
  case (2 v k m)
  then obtain j js where ks': "ks' = j # js" and "j \<noteq> k" by (cases ks') auto
  with 2 show ?case by (cases js) (auto simp: go_map)
next
  case (3 v k k' ks m)
  from 3(4) obtain j js where ks': "ks' = j # js" by (cases ks') auto
  show ?case
  proof (cases "j = k")
    case False
    with 3(3) show ?thesis unfolding ks'
      by (cases js) (auto simp: rbind_Ok_iff go_map split: option.splits gval.splits)
  next
    case True
    with 3(4) ks' have par: "parallel (k' # ks) js" by simp
    then have ne: "js \<noteq> []" by auto
    show ?thesis
    proof (cases "map_of m k")
      case None
      with 3(3) obtain sub where sub: "put_path v (k' # ks) [] = Ok sub" "m' = mset_key k (VMap (Some sub)) m"
        by (auto simp: rbind_Ok_iff)
      with 3(1) [OF None sub(1) par] ne None show ?thesis
        by (simp add: ks' True GetValue_Cons go_map)
    next
      case (Some x)
      show ?thesis
      proof (cases "ToMapInterface x")
        case None
        with 3(3) Some have "m' = m" by (cases x) (auto split: option.splits)
        then show ?thesis by simp
      next
        case (Some sub)
        then have x: "x = VMap (Some sub)" by (rule ToMapInterface_SomeD)
        with 3(3) \<open>map_of m k = Some x\<close> obtain sub' where
          sub': "put_path v (k' # ks) sub = Ok sub'" "m' = mset_key k (VMap (Some sub')) m"
          by (auto simp: rbind_Ok_iff)
        with 3(2) [OF _ x refl sub'(1) par] ne x \<open>map_of m k = Some x\<close> show ?thesis
          by (simp add: ks' True GetValue_Cons go_map)
      qed
    qed
  qed
qed auto

lemma put_path_gkeys: "put_path v ks m = Ok m' \<Longrightarrow> gkeys m \<Longrightarrow> gkeys m'"
proof (induction v ks m arbitrary: m' rule: put_path.induct)
  case (3 v k k' ks m)
  from 3(3,4) show ?case by (cases rule: entry_cases [of m k]) (auto simp: rbind_Ok_iff)
qed auto

subsection \<open>Removal\<close>

lemma RemoveValue_fst: "fst (RemoveValue d ks) = GetValue d ks"
proof (induction d ks rule: RemoveValue.induct)
  case (3 d k k' ks)
  then show ?case by (cases "mget d k") (auto simp: ToMapInterface_def split: prod.splits)
qed auto

lemma RemoveValue_None [simp]: "RemoveValue None ks = (None, None)"
  by (cases ks rule: remdups_adj.cases) auto

lemma RemoveValue_get: "GetValue (snd (RemoveValue d ks)) ks = None"
proof (induction d ks rule: RemoveValue.induct)
  case (2 d k)
  then show ?case by (simp add: mlookup_mdelete)
next
  case (3 d k k' ks)
  then show ?case
    by (cases "mget d k"; cases d) (auto simp: ToMapInterface_def go_map split: prod.splits)
qed auto

lemma RemoveValue_frame:
  "parallel ks ks' \<Longrightarrow> GetValue (snd (RemoveValue d ks)) ks' = GetValue d ks'"
proof (induction d ks arbitrary: ks' rule: RemoveValue.induct)
  case (2 d k)
  then obtain j js where ks': "ks' = j # js" and "j \<noteq> k" by (cases ks') auto
  then show ?case by (cases js; cases d) (auto simp: go_map)
next
  case (3 d k k' ks)
  from 3(2) obtain j js where ks': "ks' = j # js" by (cases ks') auto
  show ?case
  proof (cases "j = k")
    case False
    then show ?thesis unfolding ks'
      by (cases js; cases "mget d k"; cases d) (auto simp: go_map split: prod.splits)
  next
    case True
    with 3(2) ks' have par: "parallel (k' # ks) js" by simp
    then have "js \<noteq> []" by auto
    with 3 par True show ?thesis unfolding ks'
      by (cases "mget d k"; cases d) (force simp: GetValue_Cons go_map split: prod.splits)+
  qed
qed auto

subsection \<open>Conversions\<close>

lemma ToString_trimmed: "trim_space (ToString v) = ToString v"
  by (simp add: ToString_def trim_space_idem)

lemma ToString_VStr [simp]: "ToString (VStr s) = trim_space s"
  by (simp add: ToString_def ToStringNoTrim_def Singular_def)

lemma ToString_VNil [simp]: "ToString VNil = []"
  by (simp add: ToString_def ToStringNoTrim_def Singular_def)

lemma ToNumber_VInt [simp]: "ToNumber (VInt i) = Ok i"
  by (simp add: ToNumber_def Singular_def)

section \<open>Properties\<close>

text \<open>
  C26. What \<^verbatim>\<open>PutValue\<close> does on every path: it writes the value where \<^verbatim>\<open>GetValue\<close>
  finds it when the path is open, leaves the data as it is when a value that is not a map is on the
  way, and panics exactly when a nil map is on the way. A path that neither extends nor is extended by
  the written one reads as before.
\<close>

theorem PutValue_GetValue:
  "(ks \<noteq> [] \<and> path_state m ks = Open \<longrightarrow>
      (\<exists>m'. PutValue (Some m) v ks = Ok (Some m') \<and> GetValue (Some m') ks = Some v \<and>
            (\<forall>ks'. parallel ks ks' \<longrightarrow> GetValue (Some m') ks' = GetValue (Some m) ks')))
   \<and> (path_state m ks = Blocked \<longrightarrow> PutValue (Some m) v ks = Ok (Some m))
   \<and> (PutValue (Some m) v ks = Panic \<longleftrightarrow> path_state m ks = NilMap)"
proof (intro conjI impI)
  assume "ks \<noteq> [] \<and> path_state m ks = Open"
  then obtain m' where "put_path v ks m = Ok m'" "GetValue (Some m') ks = Some v"
    using put_path_open by blast
  then show "\<exists>m'. PutValue (Some m) v ks = Ok (Some m') \<and> GetValue (Some m') ks = Some v \<and>
      (\<forall>ks'. parallel ks ks' \<longrightarrow> GetValue (Some m') ks' = GetValue (Some m) ks')"
    using put_path_frame by (auto simp: PutValue_def)
qed (auto simp: PutValue_def put_path_blocked rbind_Panic_iff put_path_panic)

theorem PutValue_GetValue_witness:
  "(\<exists>m'. PutValue (Some [(''a'', VMap (Some []))]) VNil [''a'', ''b''] = Ok (Some m') \<and>
          GetValue (Some m') [''a'', ''b''] = Some VNil \<and>
          (\<forall>ks'. parallel [''a'', ''b''] ks' \<longrightarrow>
             GetValue (Some m') ks' = GetValue (Some [(''a'', VMap (Some []))]) ks'))
   \<and> PutValue (Some [(''a'', VStr [])]) VNil [''a'', ''b''] = Ok (Some [(''a'', VStr [])])
   \<and> PutValue (Some [(''a'', VMap None)]) VNil [''a'', ''b''] = Panic"
  using PutValue_GetValue [of "[''a'', ''b'']" "[(''a'', VMap (Some []))]" VNil]
    PutValue_GetValue [of "[''a'', ''b'']" "[(''a'', VStr [])]" VNil]
    PutValue_GetValue [of "[''a'', ''b'']" "[(''a'', VMap None)]" VNil]
  by simp

text \<open>
  \<^verbatim>\<open>RemoveValue\<close> returns what \<^verbatim>\<open>GetValue\<close> would, removes it, and leaves every
  independent path alone; it never panics, nil maps included.
\<close>

theorem RemoveValue_GetValue:
  "fst (RemoveValue d ks) = GetValue d ks \<and> GetValue (snd (RemoveValue d ks)) ks = None \<and>
   (\<forall>ks'. parallel ks ks' \<longrightarrow> GetValue (snd (RemoveValue d ks)) ks' = GetValue d ks')"
  by (simp add: RemoveValue_fst RemoveValue_get RemoveValue_frame)

theorem RemoveValue_GetValue_witness:
  "GetValue (snd (RemoveValue (Some [(''a'', VMap (Some [(''b'', VInt 1)])), (''c'', VNil)]) [''a'', ''b''])) [''c'']
     = GetValue (Some [(''a'', VMap (Some [(''b'', VInt 1)])), (''c'', VNil)]) [''c'']"
proof -
  have "parallel [''a'', ''b''] [''c'']" by (simp add: parallel_def)
  then show ?thesis
    using RemoveValue_GetValue [of "Some [(''a'', VMap (Some [(''b'', VInt 1)])), (''c'', VNil)]" "[''a'', ''b'']"]
    by blast
qed

end
