(* ===== verification/RemoteSession.thy ===== *)
theory RemoteSession
  imports RemoteMessage Values
begin

text \<open>
  The tunnel's connections and sessions: \<^verbatim>\<open>pkg/remotedialer/connection.go\<close>,
  \<^verbatim>\<open>session.go\<close> and the ends of \<^verbatim>\<open>client_dialer.go\<close>. A connection is shared between
  its session and whoever reads and writes it, so connections live in a heap of the session and the
  session's map holds references. Locks make every operation here atomic; a blocking operation is a
  step that is taken later. Writing to the websocket either fails with the session's \<open>wsErr\<close> or
  appends the bytes of the message to \<open>sent\<close>. The counter of message ids is passed along. The lemmas
  show that a channel is closed once, that a connection delivers its bytes in order, and what a
  session does with each message.
\<close>

section \<open>Connections\<close>

text \<open>\<open>cbuf\<close> is the channel with its capacity of 1024 chunks, \<open>cclosed\<close> says it is closed.\<close>

record connection =
  cerr :: "err option"
  writeDeadline :: "int option"
  cbuf :: "byte list list"
  cclosed :: bool
  readBuf :: "byte list"
  cproto :: string
  caddress :: string
  cID :: int64

definition newConnection :: "int64 \<Rightarrow> string \<Rightarrow> string \<Rightarrow> connection" where
  "newConnection i p a =
     \<lparr>cerr = None, writeDeadline = None, cbuf = [], cclosed = False, readBuf = [],
      cproto = p, caddress = a, cID = i\<rparr>"

abbreviation "io_ErrClosedPipe \<equiv> PlainErr ''io: read/write on closed pipe''"

text \<open>Closing a closed channel panics.\<close>

definition close_chan :: "connection \<Rightarrow> connection res" where
  "close_chan c = (if cclosed c then Panic else Ok (c\<lparr>cclosed := True\<rparr>))"

definition doTunnelClose :: "err option \<Rightarrow> connection \<Rightarrow> connection res" where
  "doTunnelClose e c =
     (if cerr c \<noteq> None then Ok c
      else close_chan (c\<lparr>cerr := Some (case e of None \<Rightarrow> io_ErrClosedPipe | Some x \<Rightarrow> x)\<rparr>))"

definition copyData :: "nat \<Rightarrow> connection \<Rightarrow> byte list \<times> connection" where
  "copyData n c = (take n (readBuf c), c\<lparr>readBuf := drop n (readBuf c)\<rparr>)"

datatype read_result = ReadOk "byte list" | ReadFail err | ReadBlocks

text \<open>\<^verbatim>\<open>Read\<close> into a buffer of \<open>n\<close> bytes.\<close>

definition conn_Read :: "nat \<Rightarrow> connection \<Rightarrow> read_result \<times> connection" where
  "conn_Read n c =
     (if n = 0 then (ReadOk [], c)
      else let (got, c1) = copyData n c
           in if got \<noteq> [] then (ReadOk got, c1)
              else case cbuf c1 of
                     next # rest \<Rightarrow>
                       let (got', c2) = copyData n (c1\<lparr>cbuf := rest, readBuf := next\<rparr>)
                       in (ReadOk got', c2)
                   | [] \<Rightarrow>
                       if cclosed c1
                       then (ReadFail (case cerr c1 of None \<Rightarrow> io_EOF | Some e \<Rightarrow> e), c1)
                       else (ReadBlocks, c1))"

text \<open>
  \<^verbatim>\<open>chanWriter.Write\<close>. A full channel is the write whose wait of 15 seconds ran out; a write
  that waits and succeeds is the one taken after the reader made room. Sending on a closed channel
  panics.
\<close>

definition chan_cap :: nat where
  "chan_cap = 1024"

definition chanWriter_Write :: "byte list \<Rightarrow> connection \<Rightarrow> (err option \<times> connection) res" where
  "chanWriter_Write b c =
     (case cerr c of
        Some e \<Rightarrow> Ok (Some e, c)
      | None \<Rightarrow>
          if cclosed c then Panic
          else if length (cbuf c) < chan_cap then Ok (None, c\<lparr>cbuf := cbuf c @ [b]\<rparr>)
          else Ok (Some (PlainErr ''backed up reader''), c))"

text \<open>\<^verbatim>\<open>io.Copy\<close> into the connection: the chunks one read after the other returns.\<close>

fun copy_chunks :: "byte list list \<Rightarrow> connection \<Rightarrow> (err option \<times> connection) res" where
  "copy_chunks [] c = Ok (None, c)"
| "copy_chunks (b # bs) c =
     rbind (chanWriter_Write b c) (\<lambda>(e, c'). if e = None then copy_chunks bs c' else Ok (e, c'))"

definition SetReadDeadline :: "int \<Rightarrow> connection \<Rightarrow> connection" where
  "SetReadDeadline t c = c"

definition SetWriteDeadline :: "int \<Rightarrow> connection \<Rightarrow> connection" where
  "SetWriteDeadline t c = c\<lparr>writeDeadline := Some t\<rparr>"

definition SetDeadline :: "int \<Rightarrow> connection \<Rightarrow> connection" where
  "SetDeadline t c = SetWriteDeadline t (SetReadDeadline t c)"

section \<open>Sessions\<close>

record Session =
  nextConnID :: int64
  clientKey :: string
  sessionKey :: int
  conns :: "(int64 \<times> nat) list"
  heap :: "connection list"
  remoteClientKeys :: "(string \<times> (int \<times> bool) list) list option"
  auth :: "(string \<Rightarrow> string \<Rightarrow> bool) option"
  client :: bool
  sent :: "byte list list"
  wsErr :: "err option"
  wsClosed :: bool
  dialing :: "(nat \<times> message) list"

text \<open>The websocket \<open>conn\<close> is given by what was sent on it and whether it fails.\<close>

definition NewClientSession :: "(string \<Rightarrow> string \<Rightarrow> bool) \<Rightarrow> Session" where
  "NewClientSession au =
     \<lparr>nextConnID = 0, clientKey = ''client'', sessionKey = 0, conns = [], heap = [],
      remoteClientKeys = None, auth = Some au, client = True, sent = [], wsErr = None,
      wsClosed = False, dialing = []\<rparr>"

definition newSession :: "int \<Rightarrow> string \<Rightarrow> Session" where
  "newSession sk ck =
     \<lparr>nextConnID = 1, clientKey = ck, sessionKey = sk, conns = [], heap = [],
      remoteClientKeys = Some [], auth = None, client = False, sent = [], wsErr = None,
      wsClosed = False, dialing = []\<rparr>"

text \<open>\<^verbatim>\<open>message.WriteTo\<close> and \<^verbatim>\<open>Session.writeMessage\<close>: the bytes written or the error.\<close>

definition writeMessage :: "message \<Rightarrow> Session \<Rightarrow> ((nat \<times> err option) \<times> Session) res" where
  "writeMessage m s =
     rbind (Bytes m) (\<lambda>bs.
       Ok ((length (msg_bytes m), wsErr s), if wsErr s = None then s\<lparr>sent := sent s @ [bs]\<rparr> else s))"

text \<open>A connection's operations that reach its session.\<close>

definition writeErr :: "int64 \<Rightarrow> err option \<Rightarrow> int64 \<times> Session \<Rightarrow> (int64 \<times> Session) res" where
  "writeErr conn e st =
     (case st of (idc, s) \<Rightarrow>
        (case e of
           None \<Rightarrow> Ok (idc, s)
         | Some x \<Rightarrow>
             (case newErrorMessage idc conn x of (m, idc') \<Rightarrow>
                rbind (writeMessage m s) (\<lambda>(_, s'). Ok (idc', s')))))"

definition tunnelClose :: "nat \<Rightarrow> err option \<Rightarrow> int64 \<times> Session \<Rightarrow> (int64 \<times> Session) res" where
  "tunnelClose r e st =
     rbind (writeErr (cID (heap (snd st) ! r)) e st) (\<lambda>(idc, s).
     rbind (doTunnelClose e (heap s ! r)) (\<lambda>c. Ok (idc, s\<lparr>heap := (heap s)[r := c]\<rparr>)))"

definition conn_Write :: "int \<Rightarrow> nat \<Rightarrow> byte list \<Rightarrow> int64 \<times> Session \<Rightarrow> ((nat \<times> err option) \<times> int64 \<times> Session) res" where
  "conn_Write now r b st =
     (case st of (idc, s) \<Rightarrow>
        let c = heap s ! r
        in case cerr c of
             Some e \<Rightarrow> Ok ((0, Some e), idc, s)
           | None \<Rightarrow>
               let dl = (case writeDeadline c of None \<Rightarrow> 0 | Some t \<Rightarrow> millis (word_of_int (t - now)))
               in case newMessage idc (cID c) dl b of
                    (m, idc') \<Rightarrow> rbind (writeMessage m s) (\<lambda>(ne, s'). Ok (ne, idc', s')))"

definition closeConnection :: "int64 \<Rightarrow> err option \<Rightarrow> int64 \<times> Session \<Rightarrow> (int64 \<times> Session) res" where
  "closeConnection i e st =
     (case st of (idc, s) \<Rightarrow>
        let s' = s\<lparr>conns := mdel_key i (conns s)\<rparr>
        in case map_of (conns s) i of
             None \<Rightarrow> Ok (idc, s')
           | Some r \<Rightarrow> tunnelClose r e (idc, s'))"

definition conn_Close :: "nat \<Rightarrow> int64 \<times> Session \<Rightarrow> (int64 \<times> Session) res" where
  "conn_Close r st = closeConnection (cID (heap (snd st) ! r)) (Some io_EOF) st"

definition parseAddress :: "string \<Rightarrow> (string \<times> int) res" where
  "parseAddress addr =
     (case split_n2 addr ''/'' of
        [k, v] \<Rightarrow>
          (case parse_int v of
             Some i \<Rightarrow> Ok (k, i)
           | None \<Rightarrow> Err (int_error ''Atoi'' v))
      | _ \<Rightarrow> Err (PlainErr ''not / separated''))"

definition invalidRemote :: "string \<Rightarrow> err \<Rightarrow> err" where
  "invalidRemote addr e = PlainErr (''invalid remote Session '' @ addr @ '': '' @ err_string e)"

text \<open>
  Writing to the nil map of a client session would panic; \<^verbatim>\<open>serveMessage\<close> does not let it come
  to that.
\<close>

definition addRemoteClient :: "string \<Rightarrow> Session \<Rightarrow> (err option \<times> Session) res" where
  "addRemoteClient addr s =
     (case parseAddress addr of
        Ok (k, sk) \<Rightarrow>
          (case remoteClientKeys s of
             None \<Rightarrow> Panic
           | Some rck \<Rightarrow>
               let keys = (case map_of rck k of None \<Rightarrow> [] | Some ks \<Rightarrow> ks)
               in Ok (None, s\<lparr>remoteClientKeys := Some (mset_key k (mset_key sk True keys) rck)\<rparr>))
      | Err e \<Rightarrow> Ok (Some (invalidRemote addr e), s)
      | Panic \<Rightarrow> Panic)"

definition removeRemoteClient :: "string \<Rightarrow> Session \<Rightarrow> (err option \<times> Session) res" where
  "removeRemoteClient addr s =
     (case parseAddress addr of
        Ok (k, sk) \<Rightarrow>
          (case remoteClientKeys s of
             None \<Rightarrow> Ok (None, s)
           | Some rck \<Rightarrow>
               (case map_of rck k of
                  None \<Rightarrow> Ok (None, s)
                | Some keys \<Rightarrow>
                    let keys' = mdel_key sk keys
                    in Ok (None, s\<lparr>remoteClientKeys :=
                         Some (if keys' = [] then mdel_key k rck else mset_key k keys' rck)\<rparr>)))
      | Err e \<Rightarrow> Ok (Some (invalidRemote addr e), s)
      | Panic \<Rightarrow> Panic)"

text \<open>The new connection and the goroutine that dials for it.\<close>

definition clientConnect :: "message \<Rightarrow> Session \<Rightarrow> Session" where
  "clientConnect m s =
     s\<lparr>heap := heap s @ [newConnection (connID m) (proto m) (address m)],
       conns := mset_key (connID m) (length (heap s)) (conns s),
       dialing := dialing s @ [(length (heap s), m)]\<rparr>"

definition serverConnect ::
  "int64 \<Rightarrow> string \<Rightarrow> string \<Rightarrow> int64 \<times> Session \<Rightarrow> ((nat + err) \<times> int64 \<times> Session) res" where
  "serverConnect dur p a st =
     (case st of (idc, s) \<Rightarrow>
        let i = nextConnID s + 1; r = length (heap s);
            s1 = s\<lparr>nextConnID := i, heap := heap s @ [newConnection i p a], conns := mset_key i r (conns s)\<rparr>
        in case newConnect idc i dur p a of
             (m, idc1) \<Rightarrow>
               rbind (writeMessage m s1) (\<lambda>((_, e), s2).
                 case e of
                   None \<Rightarrow> Ok (Inl r, idc1, s2)
                 | Some x \<Rightarrow> rbind (closeConnection i (Some x) (idc1, s2)) (\<lambda>st'. Ok (Inr x, st'))))"

definition connNotFound :: "int64 \<Rightarrow> Session \<Rightarrow> err" where
  "connNotFound i s =
     PlainErr (''connection not found '' @ clientKey s @ ''/'' @ show_int (sessionKey s)
       @ ''/'' @ show_int (sint i))"

text \<open>
  \<^verbatim>\<open>serveMessage\<close>. The bytes of one websocket message come from a reader that returns them in
  chunks of its own choosing, the parameter \<open>chunk\<close>.
\<close>

definition serveMessage ::
  "(byte list \<Rightarrow> byte list list) \<Rightarrow> byte list \<Rightarrow> int64 \<times> Session \<Rightarrow> (err option \<times> int64 \<times> Session) res" where
  "serveMessage chunk reader st =
     (case st of (idc, s) \<Rightarrow>
        case newServerMessage reader of
          Err e \<Rightarrow> Ok (Some e, idc, s)
        | Panic \<Rightarrow> Panic
        | Ok m \<Rightarrow>
            if messageType m = Connect
            then (case auth s of
                    None \<Rightarrow> Ok (Some (PlainErr ''connect not allowed''), idc, s)
                  | Some au \<Rightarrow>
                      if \<not> au (proto m) (address m)
                      then Ok (Some (PlainErr ''connect not allowed''), idc, s)
                      else Ok (None, idc, clientConnect m s))
            else if messageType m = AddClient \<and> remoteClientKeys s \<noteq> None
            then rbind (addRemoteClient (address m) s) (\<lambda>(e, s'). Ok (e, idc, s'))
            else if messageType m = RemoveClient
            then rbind (removeRemoteClient (address m) s) (\<lambda>(e, s'). Ok (e, idc, s'))
            else case map_of (conns s) (connID m) of
                   None \<Rightarrow>
                     if messageType m = Data
                     then (case newErrorMessage idc (connID m) (connNotFound (connID m) s) of
                             (em, idc') \<Rightarrow> rbind (writeMessage em s) (\<lambda>(_, s'). Ok (None, idc', s')))
                     else Ok (None, idc, s)
                 | Some r \<Rightarrow>
                     if messageType m = Data
                     then rbind (copy_chunks (chunk (case body m of None \<Rightarrow> [] | Some b \<Rightarrow> b)) (heap s ! r)) (\<lambda>(e, c).
                            let s' = s\<lparr>heap := (heap s)[r := c]\<rparr>
                            in if e = None then Ok (None, idc, s')
                               else rbind (closeConnection (connID m) e (idc, s')) (\<lambda>st'. Ok (None, st')))
                     else if messageType m = Error
                     then rbind (message_Err m) (\<lambda>(e, _).
                            rbind (closeConnection (connID m) (Some e) (idc, s)) (\<lambda>st'. Ok (None, st')))
                     else Ok (None, idc, s))"

text \<open>\<^verbatim>\<open>Close\<close> ends every connection of the map; the pings are stopped first.\<close>

definition Session_Close :: "int64 \<times> Session \<Rightarrow> (int64 \<times> Session) res" where
  "Session_Close st =
     rbind (rfold (\<lambda>(_, r). tunnelClose r (Some (PlainErr ''tunnel disconnect''))) (conns (snd st)) st)
       (\<lambda>(idc, s). Ok (idc, s\<lparr>conns := []\<rparr>))"

definition client_address :: "string \<Rightarrow> int \<Rightarrow> string" where
  "client_address ck sk = ck @ ''/'' @ show_int sk"

definition sessionAdded :: "string \<Rightarrow> int \<Rightarrow> int64 \<times> Session \<Rightarrow> (int64 \<times> Session) res" where
  "sessionAdded ck sk st =
     (case newAddClient (fst st) (client_address ck sk) of
        (m, idc') \<Rightarrow> rbind (writeMessage m (snd st)) (\<lambda>((_, e), s').
          Ok (idc', if e = None then s' else s'\<lparr>wsClosed := True\<rparr>)))"

definition sessionRemoved :: "string \<Rightarrow> int \<Rightarrow> int64 \<times> Session \<Rightarrow> (int64 \<times> Session) res" where
  "sessionRemoved ck sk st =
     (case newRemoveClient (fst st) (client_address ck sk) of
        (m, idc') \<Rightarrow> rbind (writeMessage m (snd st)) (\<lambda>((_, e), s').
          Ok (idc', if e = None then s' else s'\<lparr>wsClosed := True\<rparr>)))"

text \<open>
  \<^verbatim>\<open>Serve\<close> over the websocket messages that arrive: a message that is not binary or an error of
  \<^verbatim>\<open>serveMessage\<close> ends it with a status code; \<open>None\<close> is a read error.
\<close>

datatype ws_event = WsBinary "byte list" | WsOther | WsReadErr err

fun Serve ::
  "(byte list \<Rightarrow> byte list list) \<Rightarrow> ws_event list \<Rightarrow> int64 \<times> Session \<Rightarrow> ((int \<times> err) option \<times> int64 \<times> Session) res" where
  "Serve chunk [] st = Ok (None, st)"
| "Serve chunk (WsReadErr e # evs) st = Ok (Some (400, e), st)"
| "Serve chunk (WsOther # evs) st = Ok (Some (400, PlainErr ''wrong websocket message type''), st)"
| "Serve chunk (WsBinary bs # evs) st =
     rbind (serveMessage chunk bs st) (\<lambda>(e, st').
       case e of None \<Rightarrow> Serve chunk evs st' | Some x \<Rightarrow> Ok (Some (500, x), st'))"

section \<open>Dialing for a connection\<close>

text \<open>
  The two copies of \<^verbatim>\<open>pipe\<close> end with the errors \<open>toServer\<close> and \<open>fromServer\<close> (\<open>None\<close> is a
  clean end of file), in either order; each closes the connection, and the error of the second copy
  is written to the tunnel at the end.
\<close>

definition pipe :: "bool \<Rightarrow> err option \<Rightarrow> err option \<Rightarrow> nat \<Rightarrow> int64 \<times> Session \<Rightarrow> (int64 \<times> Session) res" where
  "pipe serverFirst toServer fromServer r st =
     (let eof = (\<lambda>e. case e of None \<Rightarrow> Some io_EOF | Some x \<Rightarrow> Some x);
          close = (\<lambda>e (idc, s). rbind (doTunnelClose (eof e) (heap s ! r)) (\<lambda>c. Ok (idc, s\<lparr>heap := (heap s)[r := c]\<rparr>)))
      in rbind (if serverFirst then rbind (close fromServer st) (close toServer)
                else rbind (close toServer st) (close fromServer)) (\<lambda>st'.
         writeErr (cID (heap (snd st') ! r)) (eof fromServer) st'))"

definition clientDial ::
  "err option \<Rightarrow> bool \<Rightarrow> err option \<Rightarrow> err option \<Rightarrow> nat \<Rightarrow> int64 \<times> Session \<Rightarrow> (int64 \<times> Session) res" where
  "clientDial dialErr serverFirst toServer fromServer r st =
     rbind (case dialErr of
              Some e \<Rightarrow> tunnelClose r (Some e) st
            | None \<Rightarrow> pipe serverFirst toServer fromServer r st) (conn_Close r)"

section \<open>Lemmas on connections\<close>

text \<open>The channel is closed exactly when the connection has its error, and holds at most its capacity.\<close>

definition conn_ok :: "connection \<Rightarrow> bool" where
  "conn_ok c \<longleftrightarrow> (cclosed c \<longleftrightarrow> cerr c \<noteq> None) \<and> length (cbuf c) \<le> chan_cap"

lemma newConnection_ok [simp]: "conn_ok (newConnection i p a)" "cID (newConnection i p a) = i"
  by (simp_all add: conn_ok_def newConnection_def)

lemma doTunnelClose_ok:
  "conn_ok c \<Longrightarrow> \<exists>c'. doTunnelClose e c = Ok c' \<and> conn_ok c' \<and> cID c' = cID c \<and> cerr c' \<noteq> None"
  by (auto simp: conn_ok_def doTunnelClose_def close_chan_def)

lemma chanWriter_ok:
  "conn_ok c \<Longrightarrow> \<exists>e c'. chanWriter_Write b c = Ok (e, c') \<and> conn_ok c' \<and> cID c' = cID c"
  by (auto simp: conn_ok_def chanWriter_Write_def split: option.splits)

lemma copy_chunks_ok:
  "conn_ok c \<Longrightarrow> \<exists>e c'. copy_chunks bs c = Ok (e, c') \<and> conn_ok c' \<and> cID c' = cID c"
proof (induction bs arbitrary: c)
  case Nil
  then show ?case by simp
next
  case (Cons b bs)
  from chanWriter_ok [OF Cons.prems, of b] obtain e c1 where
    c1: "chanWriter_Write b c = Ok (e, c1)" "conn_ok c1" "cID c1 = cID c" by blast
  with Cons.IH [OF c1(2)] show ?case by auto
qed

subsection \<open>The byte stream of a connection\<close>

text \<open>
  A connection together with the bytes written into it by the tunnel and the bytes read from it.
\<close>

inductive conn_step :: "connection \<times> byte list \<times> byte list \<Rightarrow> connection \<times> byte list \<times> byte list \<Rightarrow> bool" where
  step_write: "chanWriter_Write b c = Ok (None, c') \<Longrightarrow> conn_step (c, w, r) (c', w @ b, r)"
| step_write_fail: "chanWriter_Write b c = Ok (Some e, c') \<Longrightarrow> conn_step (c, w, r) (c', w, r)"
| step_read: "conn_Read n c = (ReadOk got, c') \<Longrightarrow> conn_step (c, w, r) (c', w, r @ got)"
| step_read_fail: "conn_Read n c = (ReadFail e, c') \<Longrightarrow> conn_step (c, w, r) (c', w, r)"
| step_close: "doTunnelClose e c = Ok c' \<Longrightarrow> conn_step (c, w, r) (c', w, r)"

inductive_cases conn_stepE: "conn_step (c, w, r) t"

definition conn_start :: "connection \<times> byte list \<times> byte list \<Rightarrow> bool" where
  "conn_start s \<longleftrightarrow> (\<exists>i p a. s = (newConnection i p a, [], []))"

definition conn_inv :: "connection \<times> byte list \<times> byte list \<Rightarrow> bool" where
  "conn_inv s \<longleftrightarrow> (case s of (c, w, r) \<Rightarrow> conn_ok c \<and> w = r @ readBuf c @ concat (cbuf c))"

lemma conn_Read_ok:
  "conn_Read n c = (ReadOk got, c') \<Longrightarrow>
     readBuf c @ concat (cbuf c) = got @ readBuf c' @ concat (cbuf c') \<and> (conn_ok c \<longrightarrow> conn_ok c')"
  by (auto simp: conn_Read_def copyData_def conn_ok_def Let_def split: if_splits list.splits)

lemma conn_Read_fail:
  "conn_Read n c = (ReadFail e, c') \<Longrightarrow>
     c' = c \<and> readBuf c = [] \<and> cbuf c = [] \<and> cclosed c \<and> 0 < n \<and>
     e = (case cerr c of None \<Rightarrow> io_EOF | Some x \<Rightarrow> x)"
  by (auto simp: conn_Read_def copyData_def Let_def split: if_splits list.splits)

lemma conn_step_inv: "conn_step s t \<Longrightarrow> conn_inv s \<Longrightarrow> conn_inv t"
proof (induction s t rule: conn_step.induct)
  case (step_write b c c' w r)
  then show ?case
    by (auto simp: conn_inv_def conn_ok_def chanWriter_Write_def split: option.splits if_splits)
next
  case (step_write_fail b c e c' w r)
  then show ?case
    by (auto simp: conn_inv_def conn_ok_def chanWriter_Write_def split: option.splits if_splits)
next
  case (step_read n c got c' w r)
  with conn_Read_ok [OF step_read(1)] show ?case by (simp add: conn_inv_def)
next
  case (step_read_fail n c e c' w r)
  with conn_Read_fail [OF step_read_fail(1)] show ?case by (simp add: conn_inv_def)
next
  case (step_close e c c' w r)
  then show ?case
    by (auto simp: conn_inv_def conn_ok_def doTunnelClose_def close_chan_def split: if_splits)
qed

interpretation conn_sys: invariant_system conn_start conn_step conn_inv
proof unfold_locales
  show "conn_start s \<Longrightarrow> conn_inv s" for s
    by (auto simp: conn_start_def conn_inv_def) (auto simp: newConnection_def)
  show "conn_inv s \<Longrightarrow> conn_step s t \<Longrightarrow> conn_inv t" for s t
    using conn_step_inv by blast
qed

section \<open>Lemmas on sessions\<close>

definition sess_ok :: "Session \<Rightarrow> bool" where
  "sess_ok s \<longleftrightarrow> gkeys (conns s) \<and> (\<forall>c \<in> set (heap s). conn_ok c) \<and>
     (\<forall>i r. map_of (conns s) i = Some r \<longrightarrow> r < length (heap s) \<and> cID (heap s ! r) = i)"

lemma newSession_ok: "sess_ok (newSession sk ck)" "sess_ok (NewClientSession au)"
  by (simp_all add: sess_ok_def newSession_def NewClientSession_def)

lemma sess_ok_heap: "sess_ok s \<Longrightarrow> r < length (heap s) \<Longrightarrow> conn_ok (heap s ! r)"
  by (simp add: sess_ok_def)

lemma sess_ok_sent [simp]: "sess_ok (s\<lparr>sent := x\<rparr>) = sess_ok s"
  "sess_ok (s\<lparr>remoteClientKeys := k\<rparr>) = sess_ok s" "sess_ok (s\<lparr>wsClosed := b\<rparr>) = sess_ok s"
  by (simp_all add: sess_ok_def)

lemma sess_ok_update:
  "sess_ok s \<Longrightarrow> conn_ok c \<Longrightarrow> cID c = cID (heap s ! r) \<Longrightarrow> sess_ok (s\<lparr>heap := (heap s)[r := c]\<rparr>)"
proof -
  assume a: "sess_ok s" "conn_ok c" "cID c = cID (heap s ! r)"
  have "set ((heap s)[r := c]) \<subseteq> insert c (set (heap s))" by (rule set_update_subset_insert)
  moreover have "cID ((heap s)[r := c] ! j) = cID (heap s ! j)" for j
    using a(3) by (cases "r < length (heap s)"; cases "j = r") (auto simp: not_less list_update_beyond)
  ultimately show ?thesis using a by (auto simp: sess_ok_def)
qed

lemma sess_ok_delete: "sess_ok s \<Longrightarrow> sess_ok (s\<lparr>conns := mdel_key i (conns s)\<rparr>)"
  by (auto simp: sess_ok_def go_map split: if_splits)

lemma sess_ok_new:
  "sess_ok s \<Longrightarrow> sess_ok (s\<lparr>heap := heap s @ [newConnection i p a], conns := mset_key i (length (heap s)) (conns s)\<rparr>)"
  by (auto simp: sess_ok_def go_map nth_append split: if_splits dest: less_SucI)

lemma writeMessage_error:
  "\<exists>n ss. writeMessage (fst (newErrorMessage idc i e)) s = Ok ((n, wsErr s), s\<lparr>sent := ss\<rparr>) \<and>
     (\<forall>x. wsErr s = Some x \<longrightarrow> ss = sent s)"
proof (cases "wsErr s")
  case None
  then show ?thesis by (simp add: writeMessage_def Bytes_error) blast
next
  case (Some x)
  then have "writeMessage (fst (newErrorMessage idc i e)) s =
      Ok ((length (msg_bytes (fst (newErrorMessage idc i e))), wsErr s), s\<lparr>sent := sent s\<rparr>)"
    by (simp add: writeMessage_def Bytes_error)
  then show ?thesis by blast
qed

lemma writeErr_ok:
  "\<exists>idc' ss. writeErr i e (idc, s) = Ok (idc', s\<lparr>sent := ss\<rparr>) \<and> (e = None \<longrightarrow> ss = sent s)"
proof (cases e)
  case None
  then show ?thesis by (auto simp: writeErr_def intro: exI [of _ "sent s"])
next
  case (Some x)
  obtain m idc' where m: "newErrorMessage idc i x = (m, idc')" by fastforce
  obtain n ss where "writeMessage (fst (newErrorMessage idc i x)) s = Ok ((n, wsErr s), s\<lparr>sent := ss\<rparr>)"
    using writeMessage_error by blast
  with m have "writeErr i e (idc, s) = Ok (idc', s\<lparr>sent := ss\<rparr>)" by (simp add: writeErr_def Some)
  with Some show ?thesis by blast
qed

text \<open>Closing a connection keeps the map and everything but the heap and the bytes sent.\<close>

lemma tunnelClose_ok:
  assumes "sess_ok s" "r < length (heap s)"
  obtains idc' ss c where "tunnelClose r e (idc, s) = Ok (idc', s\<lparr>sent := ss, heap := (heap s)[r := c]\<rparr>)"
    "conn_ok c" "cID c = cID (heap s ! r)" "cerr c \<noteq> None"
proof -
  obtain idc' ss where w: "writeErr (cID (heap s ! r)) e (idc, s) = Ok (idc', s\<lparr>sent := ss\<rparr>)"
    using writeErr_ok by blast
  obtain c where "doTunnelClose e (heap s ! r) = Ok c" "conn_ok c" "cID c = cID (heap s ! r)" "cerr c \<noteq> None"
    using doTunnelClose_ok [OF sess_ok_heap [OF assms]] by blast
  with w that show ?thesis by (simp add: tunnelClose_def)
qed

lemma closeConnection_absent:
  "map_of (conns s) i = None \<Longrightarrow> closeConnection i e (idc, s) = Ok (idc, s\<lparr>conns := mdel_key i (conns s)\<rparr>)"
  by (simp add: closeConnection_def Let_def)

lemma closeConnection_present:
  assumes "sess_ok s" "map_of (conns s) i = Some r"
  shows "\<exists>idc' ss c. closeConnection i e (idc, s) =
           Ok (idc', s\<lparr>conns := mdel_key i (conns s), sent := ss, heap := (heap s)[r := c]\<rparr>) \<and>
         sess_ok (s\<lparr>conns := mdel_key i (conns s), sent := ss, heap := (heap s)[r := c]\<rparr>) \<and> cerr c \<noteq> None"
proof -
  let ?s = "s\<lparr>conns := mdel_key i (conns s)\<rparr>"
  from assms have r: "r < length (heap ?s)" by (auto simp: sess_ok_def)
  obtain idc' ss c where t: "tunnelClose r e (idc, ?s) = Ok (idc', ?s\<lparr>sent := ss, heap := (heap ?s)[r := c]\<rparr>)"
    "conn_ok c" "cID c = cID (heap ?s ! r)" "cerr c \<noteq> None"
    by (rule tunnelClose_ok [OF sess_ok_delete [OF assms(1)] r])
  have "sess_ok (?s\<lparr>heap := (heap ?s)[r := c]\<rparr>)"
    using sess_ok_update [OF sess_ok_delete [OF assms(1)] t(2,3)] .
  then have ok: "sess_ok (?s\<lparr>sent := ss, heap := (heap s)[r := c]\<rparr>)" by (simp add: sess_ok_def)
  have eq: "closeConnection i e (idc, s) = Ok (idc', ?s\<lparr>sent := ss, heap := (heap s)[r := c]\<rparr>)"
    using t(1) assms(2) by (simp add: closeConnection_def Let_def)
  show ?thesis by (intro exI conjI) (rule eq, rule ok, rule t(4))
qed

definition same_id :: "Session \<Rightarrow> Session \<Rightarrow> bool" where
  "same_id s s' \<longleftrightarrow> clientKey s' = clientKey s \<and> sessionKey s' = sessionKey s"

lemma same_id_simps [simp]: "same_id s s" "same_id s (s\<lparr>conns := a\<rparr>)" "same_id s (s\<lparr>sent := b\<rparr>)"
  "same_id s (s\<lparr>remoteClientKeys := k\<rparr>)" "same_id (s\<lparr>heap := h\<rparr>) s' = same_id s s'" "same_id s (s\<lparr>heap := h\<rparr>)"
  "same_id s (clientConnect m s)"
  by (simp_all add: same_id_def clientConnect_def)

lemma closeConnection_ok:
  "sess_ok s \<Longrightarrow> \<exists>idc' s'. closeConnection i e (idc, s) = Ok (idc', s') \<and> sess_ok s' \<and> same_id s s' \<and>
     conns s' = mdel_key i (conns s)"
proof (cases "map_of (conns s) i")
  case None
  then show "sess_ok s \<Longrightarrow> ?thesis"
    using closeConnection_absent [of s i e idc] sess_ok_delete [of s i] by simp
next
  case (Some r)
  assume "sess_ok s"
  from closeConnection_present [OF this Some, of e idc] show ?thesis
    by (elim exE conjE) (simp add: same_id_def)
qed

subsection \<open>Serving a message\<close>

lemma ReadUvarint_no_panic: "ReadUvarint_loop i x bs \<noteq> Panic"
  by (induction i x bs rule: ReadUvarint_loop.induct) auto

lemma ReadVarint_no_panic: "ReadVarint bs \<noteq> Panic"
  by (auto simp: ReadVarint_def rbind_Panic_iff ReadUvarint_no_panic)

lemma read_payload_no_panic: "read_payload m rest \<noteq> Panic"
  by (auto simp: read_payload_def Let_def split: list.splits)

lemma newServerMessage_no_panic: "newServerMessage bs \<noteq> Panic"
  by (auto simp: newServerMessage_def rbind_Panic_iff ReadVarint_no_panic read_payload_no_panic Let_def)

lemma read_payload_body: "read_payload m rest = Ok m' \<Longrightarrow> body m' \<noteq> None \<and> msg_err m' = msg_err m"
  by (auto simp: read_payload_def Let_def split: if_splits list.splits)

lemma newServerMessage_body: "newServerMessage bs = Ok m \<Longrightarrow> body m \<noteq> None \<and> msg_err m = None"
  by (auto simp: newServerMessage_def rbind_Ok_iff Let_def message_zero_def split: if_splits
      dest!: read_payload_body)

lemma message_Err_ok: "newServerMessage bs = Ok m \<Longrightarrow> \<exists>e m'. message_Err m = Ok (e, m')"
  by (drule newServerMessage_body) (auto simp: message_Err_def Let_def)

lemma serve_data_ok:
  assumes "sess_ok s" "map_of (conns s) i = Some r"
  shows "\<exists>e st'. rbind (copy_chunks bs (heap s ! r)) (\<lambda>(e, c).
           let s' = s\<lparr>heap := (heap s)[r := c]\<rparr>
           in if e = None then Ok (None, idc, s')
              else rbind (closeConnection i e (idc, s')) (\<lambda>st'. Ok (None, st'))) = Ok (e, st') \<and> sess_ok (snd st') \<and> same_id s (snd st')"
proof -
  have "r < length (heap s)" using assms by (auto simp: sess_ok_def)
  then obtain e c where c: "copy_chunks bs (heap s ! r) = Ok (e, c)" "conn_ok c" "cID c = cID (heap s ! r)"
    using copy_chunks_ok [OF sess_ok_heap [OF assms(1)]] by metis
  note ok = sess_ok_update [OF assms(1) c(2,3)]
  from closeConnection_ok [OF ok, of i e idc] c(1) ok show ?thesis
    by (cases e) (auto simp: Let_def)
qed

lemma parseAddress_no_panic: "parseAddress a \<noteq> Panic"
  by (auto simp: parseAddress_def split: list.splits option.splits)

lemma addRemoteClient_ok:
  "remoteClientKeys s \<noteq> None \<Longrightarrow> \<exists>e s'. addRemoteClient a s = Ok (e, s') \<and> sess_ok s' = sess_ok s \<and> same_id s s'"
  using parseAddress_no_panic [of a] by (cases "parseAddress a") (auto simp: addRemoteClient_def Let_def)

lemma removeRemoteClient_ok: "\<exists>e s'. removeRemoteClient a s = Ok (e, s') \<and> sess_ok s' = sess_ok s \<and> same_id s s'"
  using parseAddress_no_panic [of a]
  by (cases "parseAddress a") (auto simp: removeRemoteClient_def Let_def split: option.splits)

lemma clientConnect_ok: "sess_ok s \<Longrightarrow> sess_ok (clientConnect m s)"
  using sess_ok_new [of s "connID m" "proto m" "address m"] by (simp add: clientConnect_def sess_ok_def)

lemma not_found_ok:
  "sess_ok s \<Longrightarrow> \<exists>st'. (case newErrorMessage idc i e of
     (em, idc') \<Rightarrow> rbind (writeMessage em s) (\<lambda>(_, s'). Ok (None, idc', s'))) = Ok (None, st') \<and> sess_ok (snd st') \<and> same_id s (snd st')"
  using writeMessage_error [of idc i e s] by (cases "newErrorMessage idc i e") auto

lemma serveMessage_ok:
  assumes "sess_ok s"
  shows "\<exists>e st'. serveMessage chunk reader (idc, s) = Ok (e, st') \<and> sess_ok (snd st') \<and> same_id s (snd st')"
proof (cases "newServerMessage reader")
  case (Ok m)
  from message_Err_ok [OF Ok] obtain e m' where err: "message_Err m = Ok (e, m')" by blast
  show ?thesis
  proof (cases "map_of (conns s) (connID m)")
    case None
    with Ok show ?thesis
      using assms clientConnect_ok [OF assms, of m] addRemoteClient_ok [of s "address m"]
        removeRemoteClient_ok [of "address m" s]
        not_found_ok [OF assms, of idc "connID m" "connNotFound (connID m) s"]
      by (auto simp: serveMessage_def split: option.splits)
  next
    case (Some r)
    with Ok show ?thesis
      using assms clientConnect_ok [OF assms, of m] addRemoteClient_ok [of s "address m"]
        removeRemoteClient_ok [of "address m" s] serve_data_ok [OF assms Some, where idc = idc]
        closeConnection_ok [OF assms, of "connID m" "Some e" idc] err
      by (auto simp: serveMessage_def split: option.splits)
  qed
qed (use assms newServerMessage_no_panic in \<open>auto simp: serveMessage_def\<close>)

subsection \<open>The registry of remote clients\<close>

definition remote_has :: "Session \<Rightarrow> string \<times> int \<Rightarrow> bool" where
  "remote_has s kv =
     (case remoteClientKeys s of
        None \<Rightarrow> False
      | Some rck \<Rightarrow> (case map_of rck (fst kv) of None \<Rightarrow> False | Some ks \<Rightarrow> map_of ks (snd kv) = Some True))"

lemma parseAddress_client:
  "CHR ''/'' \<notin> set ck \<Longrightarrow> is_int64 sk \<Longrightarrow> parseAddress (client_address ck sk) = Ok (ck, sk)"
  by (simp add: parseAddress_def client_address_def split_n2_slash parse_int_show_int)

lemma addRemoteClient_has:
  assumes "parseAddress a = Ok (k, sk)" "remoteClientKeys s \<noteq> None"
  shows "\<exists>s'. addRemoteClient a s = Ok (None, s') \<and> remoteClientKeys s' \<noteq> None \<and>
           (\<forall>kv. remote_has s' kv \<longleftrightarrow> kv = (k, sk) \<or> remote_has s kv)"
proof -
  from assms obtain rck where rck: "remoteClientKeys s = Some rck" by blast
  show ?thesis
  proof (cases "map_of rck k")
    case None
    with assms rck show ?thesis
      by (auto simp: addRemoteClient_def Let_def remote_has_def go_map split: option.splits)
  next
    case (Some ks)
    with assms rck show ?thesis
      by (auto simp: addRemoteClient_def Let_def remote_has_def go_map split: option.splits)
  qed
qed

lemma removeRemoteClient_has:
  assumes "parseAddress a = Ok (k, sk)" "remoteClientKeys s \<noteq> None"
  shows "\<exists>s'. removeRemoteClient a s = Ok (None, s') \<and> remoteClientKeys s' \<noteq> None \<and>
           (\<forall>kv. remote_has s' kv \<longleftrightarrow> kv \<noteq> (k, sk) \<and> remote_has s kv)"
proof -
  from assms obtain rck where rck: "remoteClientKeys s = Some rck" by blast
  show ?thesis
  proof (cases "map_of rck k")
    case None
    with assms rck show ?thesis by (auto simp: removeRemoteClient_def remote_has_def)
  next
    case (Some ks)
    show ?thesis
    proof (cases "mdel_key sk ks = []")
      case True
      then have "map_of ks x = None" if "x \<noteq> sk" for x
        using map_of_mdel_key [of sk ks x] that by simp
      with True assms rck Some show ?thesis
        by (auto simp: removeRemoteClient_def Let_def remote_has_def go_map split: option.splits)
    next
      case False
      with assms rck Some show ?thesis
        by (auto simp: removeRemoteClient_def Let_def remote_has_def go_map split: option.splits)
    qed
  qed
qed

text \<open>What a listener is told about the clients of its server, and what its peer then knows.\<close>

datatype client_event = Added string int | Removed string int

fun announce :: "client_event \<Rightarrow> int64 \<times> Session \<Rightarrow> (int64 \<times> Session) res" where
  "announce (Added ck sk) st = sessionAdded ck sk st"
| "announce (Removed ck sk) st = sessionRemoved ck sk st"

fun live :: "(string \<times> int) set \<Rightarrow> client_event list \<Rightarrow> (string \<times> int) set" where
  "live L [] = L"
| "live L (Added ck sk # evs) = live (insert (ck, sk) L) evs"
| "live L (Removed ck sk # evs) = live (L - {(ck, sk)}) evs"

fun event_ok :: "client_event \<Rightarrow> bool" where
  "event_ok (Added ck sk) \<longleftrightarrow> CHR ''/'' \<notin> set ck \<and> is_int64 sk \<and> length (client_address ck sk) \<le> 100"
| "event_ok (Removed ck sk) \<longleftrightarrow> CHR ''/'' \<notin> set ck \<and> is_int64 sk \<and> length (client_address ck sk) \<le> 100"

lemma Bytes_client:
  "Bytes (fst (newAddClient idc a)) = Ok (header_bytes (fst (newAddClient idc a)) @ str_bytes a)"
  "Bytes (fst (newRemoveClient idc a)) = Ok (header_bytes (fst (newRemoveClient idc a)) @ str_bytes a)"
  using Bytes_fits [of "fst (newAddClient idc a)"] Bytes_fits [of "fst (newRemoveClient idc a)"]
  by (simp_all add: newAddClient_def newRemoveClient_def message_zero_def)

lemma read_client:
  assumes "length a \<le> 100"
  shows "\<exists>m. newServerMessage (header_bytes (fst (newAddClient idc a)) @ str_bytes a) = Ok m \<and>
           messageType m = AddClient \<and> address m = a"
    and "\<exists>m. newServerMessage (header_bytes (fst (newRemoveClient idc a)) @ str_bytes a) = Ok m \<and>
           messageType m = RemoveClient \<and> address m = a"
  unfolding newServerMessage_header using assms
  by (simp_all add: read_payload_def newAddClient_def newRemoveClient_def message_zero_def Let_def)

lemma announce_serve:
  assumes "event_ok ev" "wsErr l = None"
  shows "\<exists>idc' bs. announce ev (idc, l) = Ok (idc', l\<lparr>sent := sent l @ [bs]\<rparr>) \<and>
    (\<forall>idp p. remoteClientKeys p \<noteq> None \<longrightarrow>
       (\<exists>p'. serveMessage chunk bs (idp, p) = Ok (None, idp, p') \<and> remoteClientKeys p' \<noteq> None \<and>
             {kv. remote_has p' kv} = live {kv. remote_has p kv} [ev]))"
proof (cases ev)
  case (Added ck sk)
  let ?a = "client_address ck sk" and ?m = "fst (newAddClient idc (client_address ck sk))"
  from assms Added have pa: "parseAddress ?a = Ok (ck, sk)" and len: "length ?a \<le> 100"
    by (simp_all add: parseAddress_client)
  have "announce ev (idc, l) = Ok (nextid idc, l\<lparr>sent := sent l @ [header_bytes ?m @ str_bytes ?a]\<rparr>)"
    using assms Bytes_client(1) [of idc ?a]
    by (simp add: Added sessionAdded_def writeMessage_def newAddClient_def)
  moreover have "\<exists>p'. serveMessage chunk (header_bytes ?m @ str_bytes ?a) (idp, p) = Ok (None, idp, p') \<and>
      remoteClientKeys p' \<noteq> None \<and> {kv. remote_has p' kv} = live {kv. remote_has p kv} [ev]"
    if "remoteClientKeys p \<noteq> None" for idp p
    using read_client(1) [OF len, of idc] addRemoteClient_has [OF pa that] that
    by (auto simp: serveMessage_def Added)
  ultimately show ?thesis by blast
next
  case (Removed ck sk)
  let ?a = "client_address ck sk" and ?m = "fst (newRemoveClient idc (client_address ck sk))"
  from assms Removed have pa: "parseAddress ?a = Ok (ck, sk)" and len: "length ?a \<le> 100"
    by (simp_all add: parseAddress_client)
  have "announce ev (idc, l) = Ok (nextid idc, l\<lparr>sent := sent l @ [header_bytes ?m @ str_bytes ?a]\<rparr>)"
    using assms Bytes_client(2) [of idc ?a]
    by (simp add: Removed sessionRemoved_def writeMessage_def newRemoveClient_def)
  moreover have "\<exists>p'. serveMessage chunk (header_bytes ?m @ str_bytes ?a) (idp, p) = Ok (None, idp, p') \<and>
      remoteClientKeys p' \<noteq> None \<and> {kv. remote_has p' kv} = live {kv. remote_has p kv} [ev]"
    if "remoteClientKeys p \<noteq> None" for idp p
    using read_client(2) [OF len, of idc] removeRemoteClient_has [OF pa that] that
    by (auto simp: serveMessage_def Removed)
  ultimately show ?thesis by blast
qed

lemma parse_digits_bad: "c \<in> set s \<Longrightarrow> digit_val c = None \<Longrightarrow> parse_digits acc s = None"
  by (induction s arbitrary: acc) (auto split: option.splits)

lemma parse_int_slash: "CHR ''/'' \<in> set s \<Longrightarrow> parse_int s = None"
proof -
  assume slash: "CHR ''/'' \<in> set s"
  have "digit_val CHR ''/'' = None" by (simp add: digit_val_def upt_rec)
  then have bad: "CHR ''/'' \<in> set t \<Longrightarrow> parse_digits 0 t = None" for t using parse_digits_bad by blast
  have "CHR ''/'' \<in> set (tl s)" if "has_prefix s ''-'' \<or> has_prefix s ''+''"
    using that slash by (cases s) (auto simp: has_prefix_def)
  with bad slash show ?thesis by (auto simp: parse_int_def Let_def)
qed

definition tells :: "(byte list \<Rightarrow> byte list list) \<Rightarrow> byte list list \<Rightarrow> client_event list \<Rightarrow> bool" where
  "tells chunk bss evs \<longleftrightarrow>
     (\<forall>idp p. remoteClientKeys p \<noteq> None \<longrightarrow>
        (\<exists>p'. Serve chunk (map WsBinary bss) (idp, p) = Ok (None, idp, p') \<and> remoteClientKeys p' \<noteq> None \<and>
              {kv. remote_has p' kv} = live {kv. remote_has p kv} evs))"

lemma announce_tells:
  assumes "event_ok ev" "wsErr l = None"
  shows "\<exists>idc' l' bs. announce ev (idc, l) = Ok (idc', l') \<and> wsErr l' = None \<and> sent l' = sent l @ [bs] \<and>
           tells chunk [bs] [ev]"
proof -
  from announce_serve [OF assms, of idc chunk] obtain idc' bs where
    a: "announce ev (idc, l) = Ok (idc', l\<lparr>sent := sent l @ [bs]\<rparr>)" and
    srv: "\<forall>idp p. remoteClientKeys p \<noteq> None \<longrightarrow>
       (\<exists>p'. serveMessage chunk bs (idp, p) = Ok (None, idp, p') \<and> remoteClientKeys p' \<noteq> None \<and>
             {kv. remote_has p' kv} = live {kv. remote_has p kv} [ev])"
    by (elim exE conjE)
  have "tells chunk [bs] [ev]"
    unfolding tells_def
  proof (intro allI impI)
    fix idp and p :: Session
    assume "remoteClientKeys p \<noteq> None"
    with srv obtain p' where "serveMessage chunk bs (idp, p) = Ok (None, idp, p')" "remoteClientKeys p' \<noteq> None"
      "{kv. remote_has p' kv} = live {kv. remote_has p kv} [ev]" by blast
    then show "\<exists>p'. Serve chunk (map WsBinary [bs]) (idp, p) = Ok (None, idp, p') \<and> remoteClientKeys p' \<noteq> None \<and>
        {kv. remote_has p' kv} = live {kv. remote_has p kv} [ev]" by (intro exI [of _ p']) simp
  qed
  with a assms(2) show ?thesis by (intro exI conjI) (assumption, simp_all)
qed

lemma Serve_append:
  "Serve chunk (map WsBinary bss @ evs) st =
     rbind (Serve chunk (map WsBinary bss) st) (\<lambda>(r, st'). case r of None \<Rightarrow> Serve chunk evs st' | Some x \<Rightarrow> Ok (Some x, st'))"
  by (induction bss arbitrary: st) (auto simp: rbind_assoc split: option.splits intro!: rbind_cong)

lemma live_append: "live L (evs @ evs') = live (live L evs) evs'"
  by (induction L evs rule: live.induct) auto

lemma tells_append: "tells chunk bss evs \<Longrightarrow> tells chunk bss' evs' \<Longrightarrow> tells chunk (bss @ bss') (evs @ evs')"
  unfolding tells_def
proof (intro allI impI)
  fix idp and p :: Session
  assume 1: "\<forall>idp p. remoteClientKeys p \<noteq> None \<longrightarrow>
        (\<exists>p'. Serve chunk (map WsBinary bss) (idp, p) = Ok (None, idp, p') \<and> remoteClientKeys p' \<noteq> None \<and>
              {kv. remote_has p' kv} = live {kv. remote_has p kv} evs)"
    and 2: "\<forall>idp p. remoteClientKeys p \<noteq> None \<longrightarrow>
        (\<exists>p'. Serve chunk (map WsBinary bss') (idp, p) = Ok (None, idp, p') \<and> remoteClientKeys p' \<noteq> None \<and>
              {kv. remote_has p' kv} = live {kv. remote_has p kv} evs')"
    and p: "remoteClientKeys p \<noteq> None"
  from 1 p obtain p1 where p1: "Serve chunk (map WsBinary bss) (idp, p) = Ok (None, idp, p1)"
    "remoteClientKeys p1 \<noteq> None" "{kv. remote_has p1 kv} = live {kv. remote_has p kv} evs" by blast
  from 2 p1(2) obtain p2 where "Serve chunk (map WsBinary bss') (idp, p1) = Ok (None, idp, p2)"
    "remoteClientKeys p2 \<noteq> None" "{kv. remote_has p2 kv} = live {kv. remote_has p1 kv} evs'" by blast
  with p1 show "\<exists>p'. Serve chunk (map WsBinary (bss @ bss')) (idp, p) = Ok (None, idp, p') \<and>
      remoteClientKeys p' \<noteq> None \<and> {kv. remote_has p' kv} = live {kv. remote_has p kv} (evs @ evs')"
    by (intro exI [of _ p2]) (simp add: Serve_append live_append)
qed

lemma serve_events:
  assumes "list_all event_ok evs" "wsErr l = None"
  shows "\<exists>idc' l' bss. rfold announce evs (idc, l) = Ok (idc', l') \<and> sent l' = sent l @ bss \<and> tells chunk bss evs"
  using assms
proof (induction evs arbitrary: idc l)
  case Nil
  have "tells chunk [] []" by (simp add: tells_def)
  then show ?case by auto
next
  case (Cons ev evs)
  then have ok: "event_ok ev" "list_all event_ok evs" by simp_all
  from announce_tells [OF ok(1) Cons.prems(2), of idc chunk] obtain idc1 l1 bs where
    1: "announce ev (idc, l) = Ok (idc1, l1)" "wsErr l1 = None" "sent l1 = sent l @ [bs]" "tells chunk [bs] [ev]"
    by (elim exE conjE)
  from Cons.IH [OF ok(2) 1(2), of idc1] obtain idc' l' bss where
    2: "rfold announce evs (idc1, l1) = Ok (idc', l')" "sent l' = sent l1 @ bss" "tells chunk bss evs"
    by (elim exE conjE)
  show ?case
    by (rule exI [of _ idc'], rule exI [of _ l'], rule exI [of _ "bs # bss"])
      (use 1 2 tells_append [OF 1(4) 2(3)] in simp)
qed

section \<open>Properties\<close>

text \<open>
  C3. A connection is a reliable byte stream: in every reachable state the bytes the tunnel wrote are
  those read, then those buffered, in order; a read reports the error of the connection only after
  every byte was delivered; and neither closing nor writing ever panics on a closed channel.
\<close>

theorem connection_stream:
  assumes "reach conn_start conn_step (c, w, r)"
  shows "w = r @ readBuf c @ concat (cbuf c)
    \<and> (\<forall>n e c'. conn_Read n c = (ReadFail e, c') \<longrightarrow> r = w \<and> cerr c = Some e)
    \<and> (\<forall>e. doTunnelClose e c \<noteq> Panic) \<and> (\<forall>b. chanWriter_Write b c \<noteq> Panic)"
proof -
  from conn_sys.reach_inv [OF assms] have w: "w = r @ readBuf c @ concat (cbuf c)" and ok: "conn_ok c"
    by (simp_all add: conn_inv_def)
  have "r = w \<and> cerr c = Some e" if "conn_Read n c = (ReadFail e, c')" for n e c'
    using conn_Read_fail [OF that] w ok by (auto simp: conn_ok_def split: option.splits)
  then show ?thesis
    using w doTunnelClose_ok [OF ok] chanWriter_ok [OF ok] by (metis res.distinct(3))
qed

theorem connection_stream_witness:
  "\<exists>c. reach conn_start conn_step (c, [1, 2, 3], []) \<and> [1, 2, 3] = [] @ readBuf c @ concat (cbuf c)"
proof -
  let ?start = "newConnection 1 ''tcp'' ''host''"
  let ?c = "?start\<lparr>cbuf := [[1, 2, 3]]\<rparr>"
  have "reach conn_start conn_step (?start, [], [])"
    by (rule reach_init) (auto simp: conn_start_def)
  moreover have "conn_step (?start, [], []) (?c, [] @ [1, 2, 3], [])"
    by (rule step_write) (simp add: chanWriter_Write_def newConnection_def chan_cap_def)
  ultimately have "reach conn_start conn_step (?c, [] @ [1, 2, 3], [])" by (rule reach_step)
  then have r: "reach conn_start conn_step (?c, [1, 2, 3], [])" by (simp only: append_Nil)
  from connection_stream [OF r] have "[1, 2, 3] = [] @ readBuf ?c @ concat (cbuf ?c)" by (rule conjunct1)
  with r show ?thesis by (intro exI conjI)
qed

text \<open>
  C16. A session survives every websocket message: whatever bytes arrive, \<^verbatim>\<open>serveMessage\<close>
  returns without a panic, and the session stays well formed (its map refers to connections with the
  right id, channels closed exactly when they have an error).
\<close>

theorem serveMessage_total:
  assumes "sess_ok s"
  shows "\<exists>e idc' s'. serveMessage chunk reader (idc, s) = Ok (e, idc', s') \<and> sess_ok s'"
  using serveMessage_ok [OF assms, of chunk reader idc] by auto

theorem serveMessage_total_witness:
  "\<exists>e idc' s'. serveMessage (\<lambda>b. [b]) [2, 8, 2, 0, 65] (7, newSession 3 ''c'') = Ok (e, idc', s') \<and> sess_ok s'"
  by (rule serveMessage_total) (rule newSession_ok)

text \<open>
  Closing a connection tells the peer once: the id is removed, the connection keeps its first
  error, exactly one \<^verbatim>\<open>Error\<close> message for that id is sent, and an \<^verbatim>\<open>Error\<close> message that
  comes back for the id changes nothing and is not answered.
\<close>

theorem closeConnection_once:
  assumes "sess_ok s" "map_of (conns s) i = Some r" "wsErr s = None"
  shows "\<exists>idc' s' bs m. closeConnection i (Some e) (idc, s) = Ok (idc', s') \<and> map_of (conns s') i = None \<and>
    cerr (heap s' ! r) = (case cerr (heap s ! r) of None \<Rightarrow> Some e | Some x \<Rightarrow> Some x) \<and>
    sent s' = sent s @ [bs] \<and> newServerMessage bs = Ok m \<and> messageType m = Error \<and> connID m = i \<and>
    (\<forall>reader m'. newServerMessage reader = Ok m' \<and> messageType m' = Error \<and> connID m' = i \<longrightarrow>
       serveMessage chunk reader (idc', s') = Ok (None, idc', s'))"
proof -
  let ?m = "fst (newErrorMessage idc i e)"
  let ?bs = "header_bytes ?m @ str_bytes (err_string e)"
  have r: "r < length (heap s)" "cID (heap s ! r) = i" using assms by (auto simp: sess_ok_def)
  have c: "doTunnelClose (Some e) (heap s ! r) =
      Ok (if cerr (heap s ! r) \<noteq> None then heap s ! r
          else (heap s ! r)\<lparr>cerr := Some e, cclosed := True\<rparr>)" (is "_ = Ok ?c")
    using sess_ok_heap [OF assms(1) r(1)] by (auto simp: doTunnelClose_def close_chan_def conn_ok_def)
  let ?s' = "s\<lparr>conns := mdel_key i (conns s), sent := sent s @ [?bs], heap := (heap s)[r := ?c]\<rparr>"
  have w: "writeErr i (Some e) (idc, s\<lparr>conns := mdel_key i (conns s)\<rparr>) =
      Ok (nextid idc, s\<lparr>conns := mdel_key i (conns s), sent := sent s @ [?bs]\<rparr>)"
    using assms(3) Bytes_error [of idc i e] by (simp add: writeErr_def writeMessage_def newErrorMessage_def)
  have close: "closeConnection i (Some e) (idc, s) = Ok (nextid idc, ?s')"
    using assms(2) r c w by (simp add: closeConnection_def tunnelClose_def)
  have gone: "map_of (conns ?s') i = None" by (simp add: go_map)
  have read: "\<exists>m. newServerMessage ?bs = Ok m \<and> messageType m = Error \<and> connID m = i"
    unfolding newServerMessage_header by (simp add: read_payload_def newErrorMessage_def message_zero_def Let_def)
  have silent: "serveMessage chunk reader (nextid idc, ?s') = Ok (None, nextid idc, ?s')"
    if "newServerMessage reader = Ok m'" "messageType m' = Error" "connID m' = i" for reader m'
    using that gone by (simp add: serveMessage_def)
  have "cerr (heap ?s' ! r) = (case cerr (heap s ! r) of None \<Rightarrow> Some e | Some x \<Rightarrow> Some x)"
    using r by (auto split: option.splits)
  moreover have "sent ?s' = sent s @ [?bs]" by simp
  moreover obtain m where "newServerMessage ?bs = Ok m" "messageType m = Error" "connID m = i"
    using read by blast
  ultimately show ?thesis using close gone silent
    by (intro exI [of _ "nextid idc"] exI [of _ ?s'] exI [of _ ?bs] exI [of _ m] conjI) auto
qed

theorem closeConnection_once_witness:
  "\<exists>idc' s' bs m. closeConnection 2 (Some io_EOF)
       (7, (newSession 3 ''c'')\<lparr>heap := [newConnection 2 ''tcp'' ''h''], conns := [(2, 0)]\<rparr>) = Ok (idc', s') \<and>
     map_of (conns s') 2 = None \<and> cerr (heap s' ! 0) = Some io_EOF \<and>
     sent s' = [bs] \<and> newServerMessage bs = Ok m \<and> messageType m = Error \<and> connID m = 2"
proof -
  let ?s = "(newSession 3 ''c'')\<lparr>heap := [newConnection 2 ''tcp'' ''h''], conns := [(2, 0)]\<rparr>"
  have "sess_ok ?s" "map_of (conns ?s) 2 = Some 0" "wsErr ?s = None"
    by (simp_all add: sess_ok_def gkeys_def newSession_def)
  from closeConnection_once [OF this, of io_EOF 7 "\<lambda>b. [b]"] obtain idc' s' bs m where
    "closeConnection 2 (Some io_EOF) (7, ?s) = Ok (idc', s')" "map_of (conns s') 2 = None"
    "cerr (heap s' ! 0) = (case cerr (heap ?s ! 0) of None \<Rightarrow> Some io_EOF | Some x \<Rightarrow> Some x)"
    "sent s' = sent ?s @ [bs]" "newServerMessage bs = Ok m" "messageType m = Error" "connID m = 2"
    by (elim exE conjE)
  then show ?thesis
    by (intro exI [of _ idc'] exI [of _ s'] exI [of _ bs] exI [of _ m])
      (simp add: newSession_def newConnection_def)
qed

text \<open>
  C17. Peers agree on the clients of a server: when its sessions are announced to a peer by any
  sequence of additions and removals, and the peer serves the messages, no message fails and the
  peer's registry is exactly the set of sessions that were added and not removed since. Client keys
  have no slash and an address takes at most 100 bytes.
\<close>

theorem peer_registry_agrees:
  assumes "list_all event_ok evs" "wsErr l = None" "sent l = []"
  shows "\<exists>idc' l'. rfold announce evs (idc, l) = Ok (idc', l') \<and>
    (\<forall>idp sk ck. \<exists>p'. Serve chunk (map WsBinary (sent l')) (idp, newSession sk ck) = Ok (None, idp, p') \<and>
       {kv. remote_has p' kv} = live {} evs)"
proof -
  from serve_events [OF assms(1,2), of idc chunk] obtain idc' l' bss where
    r: "rfold announce evs (idc, l) = Ok (idc', l')" "sent l' = sent l @ bss" "tells chunk bss evs"
    by (elim exE conjE)
  have empty: "remoteClientKeys (newSession sk ck) \<noteq> None" "{kv. remote_has (newSession sk ck) kv} = {}" for sk ck
    by (simp_all add: newSession_def remote_has_def)
  have "\<exists>p'. Serve chunk (map WsBinary (sent l')) (idp, newSession sk ck) = Ok (None, idp, p') \<and>
       {kv. remote_has p' kv} = live {} evs" for idp sk ck
  proof -
    have "sent l' = bss" using r(2) assms(3) by simp
    moreover from r(3) empty(1) [of sk ck] obtain p' where
      "Serve chunk (map WsBinary bss) (idp, newSession sk ck) = Ok (None, idp, p')"
      "{kv. remote_has p' kv} = live {kv. remote_has (newSession sk ck) kv} evs"
      unfolding tells_def by blast
    ultimately show ?thesis unfolding empty(2) by blast
  qed
  with r(1) show ?thesis by blast
qed

theorem peer_registry_agrees_witness:
  "\<exists>idc' l'. rfold announce [Added ''a'' 1, Added ''b'' 2, Removed ''a'' 1] (0, NewClientSession (\<lambda>_ _. True)) = Ok (idc', l') \<and>
    (\<forall>idp sk ck. \<exists>p'. Serve (\<lambda>b. [b]) (map WsBinary (sent l')) (idp, newSession sk ck) = Ok (None, idp, p') \<and>
       {kv. remote_has p' kv} = live {} [Added ''a'' 1, Added ''b'' 2, Removed ''a'' 1])"
proof (rule peer_registry_agrees)
  have "length (show_int 1) = 1" "length (show_int 2) = 1" by (simp_all add: show_int_def show_nat.simps)
  then show "list_all event_ok [Added ''a'' 1, Added ''b'' 2, Removed ''a'' 1]"
    by (simp add: client_address_def is_int64_def int64_min_def int64_max_def)
qed (simp_all add: NewClientSession_def)

text \<open>
  C39. A client key with a slash breaks the announcement: the address written for it cannot be parsed
  by the peer, whose \<^verbatim>\<open>Serve\<close> ends with status 500.
\<close>

theorem slash_key_aborts_peer:
  assumes "CHR ''/'' \<in> set ck" "length (client_address ck sk) \<le> 100"
  shows "\<exists>e. Serve chunk [WsBinary (header_bytes (fst (newAddClient idc (client_address ck sk)))
             @ str_bytes (client_address ck sk))] (idp, newSession psk pck) = Ok (Some (500, e), idp, newSession psk pck)"
proof -
  from assms(1) obtain a b where ck: "ck = a @ CHR ''/'' # b" "CHR ''/'' \<notin> set a"
    using split_list_first by metis
  then have "parseAddress (client_address ck sk)
      = Err (int_error ''Atoi'' (b @ ''/'' @ show_int sk))"
    using parse_int_slash [of "b @ ''/'' @ show_int sk"]
    by (simp add: parseAddress_def client_address_def split_n2_slash)
  moreover obtain m where "newServerMessage (header_bytes (fst (newAddClient idc (client_address ck sk)))
      @ str_bytes (client_address ck sk)) = Ok m" "messageType m = AddClient" "address m = client_address ck sk"
    using read_client(1) [OF assms(2), of idc] by (elim exE conjE)
  ultimately show ?thesis
    by (simp add: serveMessage_def addRemoteClient_def newSession_def)
qed

theorem slash_key_aborts_peer_witness:
  "\<exists>e. Serve (\<lambda>b. [b]) [WsBinary (header_bytes (fst (newAddClient 0 (client_address ''a/b'' 1)))
             @ str_bytes (client_address ''a/b'' 1))] (0, newSession 3 ''p'') = Ok (Some (500, e), 0, newSession 3 ''p'')"
proof (rule slash_key_aborts_peer)
  have "length (show_int 1) = 1" by (simp add: show_int_def show_nat.simps)
  then show "length (client_address ''a/b'' 1) \<le> 100" by (simp add: client_address_def)
qed simp

end
