(* ===== verification/RemoteServer.thy ===== *)
theory RemoteServer
  imports RemoteSession
begin

text \<open>
  The server side of the tunnel: the registry of sessions
  (\<^verbatim>\<open>pkg/remotedialer/session_manager.go\<close>), the server with its authentication and peers
  (\<^verbatim>\<open>server.go\<close>, \<^verbatim>\<open>peer.go\<close>) and the dialers (\<^verbatim>\<open>dialer.go\<close>). Sessions are
  referred to by their position in \<open>store\<close>. The lemmas show that the registry stays well formed, which
  session a dialer gets, that a removed session is not dialed again, and who is authenticated as a peer.
\<close>

section \<open>The session manager\<close>

record sessionManager =
  store :: "Session list"
  clients :: "(string \<times> nat list) list"
  peers :: "(string \<times> nat list) list"
  listeners :: "nat list"
  idCounter :: int64

definition newSessionManager :: "int64 \<Rightarrow> sessionManager" where
  "newSessionManager idc = \<lparr>store = [], clients = [], peers = [], listeners = [], idCounter = idc\<rparr>"

text \<open>An operation of a session run on the session a reference names.\<close>

definition on_session ::
  "nat \<Rightarrow> (int64 \<times> Session \<Rightarrow> (int64 \<times> Session) res) \<Rightarrow> sessionManager \<Rightarrow> sessionManager res" where
  "on_session r f sm =
     rbind (f (idCounter sm, store sm ! r)) (\<lambda>(idc, s).
       Ok (sm\<lparr>store := (store sm)[r := s], idCounter := idc\<rparr>))"

definition sessions_of :: "(string \<times> nat list) list \<Rightarrow> string \<Rightarrow> nat list" where
  "sessions_of m k = (case map_of m k of None \<Rightarrow> [] | Some rs \<Rightarrow> rs)"

text \<open>A dialer is the session it dials through and the prefix of its protocols.\<close>

type_synonym dialer = "nat \<times> string"

definition toDialer ::
  "dialer \<Rightarrow> int64 \<Rightarrow> string \<Rightarrow> string \<Rightarrow> sessionManager \<Rightarrow> ((nat + err) \<times> sessionManager) res" where
  "toDialer d dur p a sm =
     (case d of (r, pre) \<Rightarrow>
        rbind (serverConnect dur (if pre = [] then p else pre @ ''::'' @ p) a (idCounter sm, store sm ! r))
          (\<lambda>(c, idc, s). Ok (c, sm\<lparr>store := (store sm)[r := s], idCounter := idc\<rparr>)))"

definition removeListener :: "nat \<Rightarrow> sessionManager \<Rightarrow> sessionManager" where
  "removeListener l sm = sm\<lparr>listeners := removeAll l (listeners sm)\<rparr>"

definition announced :: "(string \<times> nat list) list \<Rightarrow> (string \<times> nat) list" where
  "announced m = concat (map (\<lambda>(k, rs). map (\<lambda>r. (k, r)) rs) m)"

definition addListener :: "nat \<Rightarrow> sessionManager \<Rightarrow> sessionManager res" where
  "addListener l sm =
     rfold (\<lambda>(k, r) sm'. on_session l (sessionAdded k (sessionKey (store sm' ! r))) sm')
       (announced (clients sm) @ announced (peers sm))
       (sm\<lparr>listeners := List.insert l (listeners sm)\<rparr>)"

text \<open>The peers are searched in the order of the map's iteration.\<close>

definition knows_client :: "sessionManager \<Rightarrow> string \<Rightarrow> nat \<Rightarrow> bool" where
  "knows_client sm ck r =
     (case remoteClientKeys (store sm ! r) of
        None \<Rightarrow> False
      | Some rck \<Rightarrow> (case map_of rck ck of None \<Rightarrow> False | Some keys \<Rightarrow> keys \<noteq> []))"

definition getDialer :: "string \<Rightarrow> sessionManager \<Rightarrow> dialer res" where
  "getDialer ck sm =
     (case sessions_of (clients sm) ck of
        r # _ \<Rightarrow> Ok (r, [])
      | [] \<Rightarrow>
          (case find (knows_client sm ck) (concat (map snd (peers sm))) of
             Some r \<Rightarrow> Ok (r, ck)
           | None \<Rightarrow> Err (PlainErr (''failed to find Session for client '' @ ck))))"

text \<open>\<open>sk\<close> is the random session key.\<close>

definition sm_add :: "int \<Rightarrow> string \<Rightarrow> bool \<Rightarrow> sessionManager \<Rightarrow> (nat \<times> sessionManager) res" where
  "sm_add sk ck peer sm =
     (let r = length (store sm);
          sm1 = sm\<lparr>store := store sm @ [newSession sk ck]\<rparr>;
          sm2 = (if peer then sm1\<lparr>peers := mset_key ck (sessions_of (peers sm) ck @ [r]) (peers sm)\<rparr>
                 else sm1\<lparr>clients := mset_key ck (sessions_of (clients sm) ck @ [r]) (clients sm)\<rparr>)
      in rbind (rfold (\<lambda>l. on_session l (sessionAdded ck sk)) (listeners sm) sm2) (\<lambda>sm3. Ok (r, sm3)))"

definition drop_session :: "(nat \<Rightarrow> int) \<Rightarrow> string \<Rightarrow> int \<Rightarrow> (string \<times> nat list) list \<Rightarrow> (string \<times> nat list) list" where
  "drop_session key ck sk m =
     (let rs = filter (\<lambda>r. key r \<noteq> sk) (sessions_of m ck)
      in if rs = [] then mdel_key ck m else mset_key ck rs m)"

definition sm_remove :: "nat \<Rightarrow> sessionManager \<Rightarrow> sessionManager res" where
  "sm_remove r sm =
     (let s = store sm ! r; key = (\<lambda>q. sessionKey (store sm ! q));
          sm1 = sm\<lparr>clients := drop_session key (clientKey s) (sessionKey s) (clients sm),
                   peers := drop_session key (clientKey s) (sessionKey s) (peers sm)\<rparr>
      in rbind (rfold (\<lambda>l. on_session l (sessionRemoved (clientKey s) (sessionKey s))) (listeners sm) sm1)
           (on_session r Session_Close))"

section \<open>The server\<close>

text \<open>The context of a running peer is a number; cancelling it puts the number on a list.\<close>

record peer =
  peer_url :: string
  peer_id :: string
  peer_token :: string
  peer_ctx :: nat

definition peer_equals :: "peer \<Rightarrow> peer \<Rightarrow> bool" where
  "peer_equals p other \<longleftrightarrow> peer_url p = peer_url other \<and> peer_id p = peer_id other \<and> peer_token p = peer_token other"

record server =
  PeerID :: string
  PeerToken :: string
  sessions :: sessionManager
  srv_peers :: "(string \<times> peer) list"
  next_ctx :: nat
  cancelled :: "nat list"
  started :: "nat list"

definition AddPeer :: "string \<Rightarrow> string \<Rightarrow> string \<Rightarrow> server \<Rightarrow> server" where
  "AddPeer url i token s =
     (if PeerID s = [] \<or> PeerToken s = [] then s
      else let p = \<lparr>peer_url = url, peer_id = i, peer_token = token, peer_ctx = next_ctx s\<rparr>;
               s1 = s\<lparr>next_ctx := Suc (next_ctx s)\<rparr>;
               start = (\<lambda>s'. s'\<lparr>srv_peers := mset_key i p (srv_peers s'), started := started s' @ [peer_ctx p]\<rparr>)
           in case map_of (srv_peers s) i of
                None \<Rightarrow> start s1
              | Some q \<Rightarrow>
                  if peer_equals q p then s1
                  else start (s1\<lparr>cancelled := cancelled s @ [peer_ctx q]\<rparr>))"

definition RemovePeer :: "string \<Rightarrow> server \<Rightarrow> server" where
  "RemovePeer i s =
     (case map_of (srv_peers s) i of
        None \<Rightarrow> s\<lparr>srv_peers := mdel_key i (srv_peers s)\<rparr>
      | Some q \<Rightarrow> s\<lparr>cancelled := cancelled s @ [peer_ctx q], srv_peers := mdel_key i (srv_peers s)\<rparr>)"

text \<open>
  A request is its two tunnel headers; \<open>authorizer\<close> is the function the server was built with. The
  result is the client key, whether it is authenticated, and whether it is a peer.
\<close>

definition server_auth ::
  "(string \<times> string \<Rightarrow> (string \<times> bool) res) \<Rightarrow> server \<Rightarrow> string \<times> string \<Rightarrow> (string \<times> bool \<times> bool) res" where
  "server_auth authorizer s req =
     (case req of (i, token) \<Rightarrow>
        if i \<noteq> [] \<and> token \<noteq> [] \<and> (case map_of (srv_peers s) i of None \<Rightarrow> False | Some p \<Rightarrow> peer_token p = token)
        then Ok (i, True, True)
        else rbind (authorizer req) (\<lambda>(k, authed). Ok (k, authed, False)))"

text \<open>
  What \<^verbatim>\<open>http.ResponseWriter\<close> sends: the first call of \<^verbatim>\<open>Write\<close> sends status 200 when no
  status was set, and a later \<^verbatim>\<open>WriteHeader\<close> is ignored.
\<close>

record response =
  resp_status :: "int option"
  resp_body :: string

definition rw_Write :: "string \<Rightarrow> response \<Rightarrow> response" where
  "rw_Write b rw =
     rw\<lparr>resp_status := (case resp_status rw of None \<Rightarrow> Some 200 | Some c \<Rightarrow> Some c), resp_body := resp_body rw @ b\<rparr>"

definition rw_WriteHeader :: "int \<Rightarrow> response \<Rightarrow> response" where
  "rw_WriteHeader code rw = rw\<lparr>resp_status := (case resp_status rw of None \<Rightarrow> Some code | Some c \<Rightarrow> Some c)\<rparr>"

definition DefaultErrorWriter :: "int \<Rightarrow> err \<Rightarrow> response \<Rightarrow> response" where
  "DefaultErrorWriter code e rw = rw_WriteHeader code (rw_Write (err_string e) rw)"

abbreviation "errFailedAuth \<equiv> PlainErr ''failed authentication''"

text \<open>
  \<^verbatim>\<open>ServeHTTP\<close>: the outcome is the error written to the response, or the end of the session that
  was served on the upgraded connection. \<open>upgrade\<close> is the error of the websocket upgrade, \<open>evs\<close> what
  arrives on it.
\<close>

datatype served = Refused int err | Served "(int \<times> err) option"

definition ServeHTTP ::
  "(string \<times> string \<Rightarrow> (string \<times> bool) res) \<Rightarrow> (byte list \<Rightarrow> byte list list) \<Rightarrow> err option \<Rightarrow> int \<Rightarrow> ws_event list \<Rightarrow>
     string \<times> string \<Rightarrow> server \<Rightarrow> (served \<times> server) res" where
  "ServeHTTP authorizer chunk upgrade sk evs req s =
     (case server_auth authorizer s req of
        Panic \<Rightarrow> Panic
      | Err e \<Rightarrow> Ok (Refused 400 e, s)
      | Ok (ck, authed, isPeer) \<Rightarrow>
          if \<not> authed then Ok (Refused 401 errFailedAuth, s)
          else case upgrade of
                 Some e \<Rightarrow> Ok (Refused 400 (PlainErr (''Error during upgrade for host ['' @ ck @ '']: '' @ err_string e)), s)
               | None \<Rightarrow>
                   rbind (sm_add sk ck isPeer (sessions s)) (\<lambda>(r, sm).
                   rbind (Serve chunk evs (idCounter sm, store sm ! r)) (\<lambda>(out, idc, ses).
                   rbind (sm_remove r (sm\<lparr>store := (store sm)[r := ses], idCounter := idc\<rparr>)) (\<lambda>sm'.
                     Ok (Served out, s\<lparr>sessions := sm'\<rparr>)))))"

definition HasSession :: "string \<Rightarrow> server \<Rightarrow> bool" where
  "HasSession ck s = (case getDialer ck (sessions s) of Ok _ \<Rightarrow> True | _ \<Rightarrow> False)"

definition Dial ::
  "string \<Rightarrow> int64 \<Rightarrow> string \<Rightarrow> string \<Rightarrow> server \<Rightarrow> ((nat + err) \<times> server) res" where
  "Dial ck dur p a s =
     (case getDialer ck (sessions s) of
        Ok d \<Rightarrow> rbind (toDialer d dur p a (sessions s)) (\<lambda>(c, sm). Ok (c, s\<lparr>sessions := sm\<rparr>))
      | Err e \<Rightarrow> Ok (Inr e, s)
      | Panic \<Rightarrow> Panic)"

text \<open>The dialer of a peer's session: the network names the client and the protocol.\<close>

definition peer_dial :: "string \<Rightarrow> string \<Rightarrow> server \<Rightarrow> ((nat + err) \<times> server) res" where
  "peer_dial network a s =
     (case split_n2 network ''::'' of
        [ck, p] \<Rightarrow> Dial ck 15000000000 p a s
      | _ \<Rightarrow> Ok (Inr (PlainErr (''invalid clientKey/proto: '' @ network)), s))"

section \<open>Lemmas\<close>

text \<open>An operation on a session that keeps it well formed and does not touch its keys.\<close>

definition same_keys :: "Session \<Rightarrow> Session \<Rightarrow> bool" where
  "same_keys s s' \<longleftrightarrow> clientKey s' = clientKey s \<and> sessionKey s' = sessionKey s \<and> remoteClientKeys s' = remoteClientKeys s"

definition keeps :: "(int64 \<times> Session \<Rightarrow> (int64 \<times> Session) res) \<Rightarrow> bool" where
  "keeps f \<longleftrightarrow> (\<forall>idc s. sess_ok s \<longrightarrow> (\<exists>idc' s'. f (idc, s) = Ok (idc', s') \<and> sess_ok s' \<and> same_keys s s'))"

lemma newSession_keys: "clientKey (newSession sk ck) = ck" "sessionKey (newSession sk ck) = sk"
  by (simp_all add: newSession_def)

lemma same_keys_refl [simp]: "same_keys s s"
  by (simp add: same_keys_def)

lemma same_keys_trans: "same_keys s t \<Longrightarrow> same_keys t u \<Longrightarrow> same_keys s u"
  by (simp add: same_keys_def)

lemma keeps_sessionAdded: "keeps (sessionAdded ck sk)"
  unfolding keeps_def
proof (intro allI impI)
  fix idc s
  assume "sess_ok s"
  with Bytes_client(1) [of idc "client_address ck sk"]
  show "\<exists>idc' s'. sessionAdded ck sk (idc, s) = Ok (idc', s') \<and> sess_ok s' \<and> same_keys s s'"
    by (cases "wsErr s") (simp_all add: sessionAdded_def writeMessage_def newAddClient_def same_keys_def)
qed

lemma keeps_sessionRemoved: "keeps (sessionRemoved ck sk)"
  unfolding keeps_def
proof (intro allI impI)
  fix idc s
  assume "sess_ok s"
  with Bytes_client(2) [of idc "client_address ck sk"]
  show "\<exists>idc' s'. sessionRemoved ck sk (idc, s) = Ok (idc', s') \<and> sess_ok s' \<and> same_keys s s'"
    by (cases "wsErr s") (simp_all add: sessionRemoved_def writeMessage_def newRemoveClient_def same_keys_def)
qed

lemma tunnelClose_keeps:
  assumes "sess_ok s" "r < length (heap s)"
  shows "\<exists>idc' s'. tunnelClose r e (idc, s) = Ok (idc', s') \<and> sess_ok s' \<and> same_keys s s' \<and>
           conns s' = conns s \<and> length (heap s') = length (heap s)"
proof -
  obtain idc' ss c where t: "tunnelClose r e (idc, s) = Ok (idc', s\<lparr>sent := ss, heap := (heap s)[r := c]\<rparr>)"
    "conn_ok c" "cID c = cID (heap s ! r)"
    by (rule tunnelClose_ok [OF assms])
  have "sess_ok (s\<lparr>sent := ss, heap := (heap s)[r := c]\<rparr>)"
    using sess_ok_update [OF assms(1) t(2,3)] by (simp add: sess_ok_def)
  with t(1) show ?thesis by (simp add: same_keys_def)
qed

lemma close_all:
  "sess_ok s \<Longrightarrow> \<forall>kr \<in> set rs. snd kr < length (heap s) \<Longrightarrow>
   \<exists>idc' s'. rfold (\<lambda>(_, r). tunnelClose r e) rs (idc, s) = Ok (idc', s') \<and> sess_ok s' \<and> same_keys s s'"
proof (induction rs arbitrary: idc s)
  case Nil
  then show ?case by simp
next
  case (Cons kr rs)
  then have "snd kr < length (heap s)" by simp
  from tunnelClose_keeps [OF Cons.prems(1) this, of e idc] obtain idc1 s1 where
    1: "tunnelClose (snd kr) e (idc, s) = Ok (idc1, s1)" "sess_ok s1" "same_keys s s1"
      "length (heap s1) = length (heap s)" by (elim exE conjE)
  with Cons.prems(2) have "\<forall>kr \<in> set rs. snd kr < length (heap s1)" by simp
  from Cons.IH [OF 1(2) this, of idc1] obtain idc' s' where
    2: "rfold (\<lambda>(_, r). tunnelClose r e) rs (idc1, s1) = Ok (idc', s')" "sess_ok s'" "same_keys s1 s'"
    by (elim exE conjE)
  with 1 show ?case by (cases kr) (simp add: same_keys_trans [OF 1(3) 2(3)])
qed

lemma keeps_Session_Close: "keeps Session_Close"
  unfolding keeps_def
proof (intro allI impI)
  fix idc s
  assume ok: "sess_ok s"
  then have "\<forall>kr \<in> set (conns s). snd kr < length (heap s)"
    by (force simp: sess_ok_def gkeys_def)
  from close_all [OF ok this, of "Some (PlainErr ''tunnel disconnect'')" idc] obtain idc' s' where
    "rfold (\<lambda>(_, r). tunnelClose r (Some (PlainErr ''tunnel disconnect''))) (conns s) (idc, s) = Ok (idc', s')"
    "sess_ok s'" "same_keys s s'" by (elim exE conjE)
  then show "\<exists>idc' s'. Session_Close (idc, s) = Ok (idc', s') \<and> sess_ok s' \<and> same_keys s s'"
    by (simp add: Session_Close_def same_keys_def sess_ok_def)
qed

text \<open>Two managers with the same registry, whatever was written to their sessions.\<close>

definition same_reg :: "sessionManager \<Rightarrow> sessionManager \<Rightarrow> bool" where
  "same_reg sm sm' \<longleftrightarrow> clients sm' = clients sm \<and> peers sm' = peers sm \<and> listeners sm' = listeners sm \<and>
     list_all2 same_keys (store sm) (store sm')"

lemma same_reg_refl: "same_reg sm sm"
  by (simp add: same_reg_def list_all2_refl)

lemma same_reg_trans: "same_reg a b \<Longrightarrow> same_reg b c \<Longrightarrow> same_reg a c"
proof -
  assume ab: "same_reg a b" and bc: "same_reg b c"
  have "list_all2 same_keys (store a) (store c)"
    by (rule list_all2_trans [of same_keys same_keys same_keys "store a" "store b" "store c"])
      (use ab bc same_keys_trans in \<open>simp_all only: same_reg_def\<close>)
  with ab bc show ?thesis by (simp only: same_reg_def)
qed

lemma same_reg_nth: "same_reg sm sm' \<Longrightarrow> r < length (store sm) \<Longrightarrow> same_keys (store sm ! r) (store sm' ! r)"
  by (simp add: same_reg_def list_all2_nthD)

lemma same_reg_length: "same_reg sm sm' \<Longrightarrow> length (store sm') = length (store sm)"
  by (auto simp: same_reg_def dest: list_all2_lengthD)

definition store_ok :: "sessionManager \<Rightarrow> bool" where
  "store_ok sm \<longleftrightarrow> (\<forall>s \<in> set (store sm). sess_ok s) \<and> (\<forall>l \<in> set (listeners sm). l < length (store sm))"

lemma on_session_ok:
  assumes "keeps f" "store_ok sm" "r < length (store sm)"
  shows "\<exists>sm'. on_session r f sm = Ok sm' \<and> store_ok sm' \<and> same_reg sm sm'"
proof -
  from assms have "sess_ok (store sm ! r)" by (simp add: store_ok_def)
  with assms(1) obtain idc' s' where
    f: "f (idCounter sm, store sm ! r) = Ok (idc', s')" "sess_ok s'" "same_keys (store sm ! r) s'"
    unfolding keeps_def by blast
  have "set ((store sm)[r := s']) \<subseteq> insert s' (set (store sm))" by (rule set_update_subset_insert)
  with assms(2) f(2) have "store_ok (sm\<lparr>store := (store sm)[r := s'], idCounter := idc'\<rparr>)"
    by (auto simp: store_ok_def)
  moreover have "same_reg sm (sm\<lparr>store := (store sm)[r := s'], idCounter := idc'\<rparr>)"
    using f(3) assms(3) by (auto simp: same_reg_def list_all2_conv_all_nth nth_list_update)
  ultimately show ?thesis using f(1) by (simp add: on_session_def)
qed

lemma rfold_on_session_ok:
  "(\<And>x. keeps (f x)) \<Longrightarrow> store_ok sm \<Longrightarrow> \<forall>x \<in> set xs. g x < length (store sm) \<Longrightarrow>
   \<exists>sm'. rfold (\<lambda>x. on_session (g x) (f x)) xs sm = Ok sm' \<and> store_ok sm' \<and> same_reg sm sm'"
proof (induction xs arbitrary: sm)
  case Nil
  then show ?case by (simp add: same_reg_refl)
next
  case (Cons x xs)
  then have "g x < length (store sm)" by simp
  from on_session_ok [OF Cons.prems(1,2) this, of x] obtain sm1 where
    1: "on_session (g x) (f x) sm = Ok sm1" "store_ok sm1" "same_reg sm sm1" by (elim exE conjE)
  have "\<forall>x \<in> set xs. g x < length (store sm1)" using Cons.prems(3) same_reg_length [OF 1(3)] by simp
  from Cons.IH [OF Cons.prems(1) 1(2) this] obtain sm' where
    2: "rfold (\<lambda>x. on_session (g x) (f x)) xs sm1 = Ok sm'" "store_ok sm'" "same_reg sm1 sm'" by (elim exE conjE)
  with 1 show ?case by (simp add: same_reg_trans [OF 1(3) 2(3)])
qed

subsection \<open>The registry\<close>

definition reg_ok :: "Session list \<Rightarrow> (string \<times> nat list) list \<Rightarrow> bool" where
  "reg_ok st m \<longleftrightarrow> gkeys m \<and>
     (\<forall>k rs. map_of m k = Some rs \<longrightarrow> rs \<noteq> [] \<and> (\<forall>r \<in> set rs. r < length st \<and> clientKey (st ! r) = k))"

definition sm_ok :: "sessionManager \<Rightarrow> bool" where
  "sm_ok sm \<longleftrightarrow> store_ok sm \<and> reg_ok (store sm) (clients sm) \<and> reg_ok (store sm) (peers sm)"

lemma reg_ok_same_reg:
  assumes "same_reg sm sm'" "reg_ok (store sm) m"
  shows "reg_ok (store sm') m"
  using assms same_reg_nth [OF assms(1)] same_reg_length [OF assms(1)]
  by (simp add: reg_ok_def same_keys_def)

lemma sm_ok_same_reg: "same_reg sm sm' \<Longrightarrow> sm_ok sm \<Longrightarrow> store_ok sm' \<Longrightarrow> sm_ok sm'"
  using reg_ok_same_reg [of sm sm'] by (simp add: sm_ok_def same_reg_def)

lemma sessions_of_ok:
  "reg_ok st m \<Longrightarrow> r \<in> set (sessions_of m k) \<Longrightarrow> r < length st \<and> clientKey (st ! r) = k"
  by (cases "map_of m k") (auto simp: reg_ok_def sessions_of_def)

lemma reg_ok_add:
  assumes "reg_ok st m"
  shows "reg_ok (st @ [newSession sk ck]) (mset_key ck (sessions_of m ck @ [length st]) m)"
  using assms sessions_of_ok [OF assms]
  by (auto simp: reg_ok_def go_map nth_append newSession_def less_Suc_eq split: if_splits)

lemma reg_ok_append: "reg_ok st m \<Longrightarrow> reg_ok (st @ [s]) m"
  by (auto simp: reg_ok_def nth_append less_Suc_eq)

lemma reg_ok_drop: "reg_ok st m \<Longrightarrow> reg_ok st (drop_session key ck sk m)"
proof -
  assume ok: "reg_ok st m"
  let ?rs = "filter (\<lambda>r. key r \<noteq> sk) (sessions_of m ck)"
  have "reg_ok st (mdel_key ck m)" using ok by (simp add: reg_ok_def go_map)
  moreover have "reg_ok st (mset_key ck ?rs m)" if "?rs \<noteq> []"
    using ok that sessions_of_ok [OF ok, of _ ck] by (simp add: reg_ok_def go_map)
  ultimately show ?thesis by (simp add: drop_session_def Let_def)
qed

lemma sm_add_ok:
  assumes "sm_ok sm"
  shows "\<exists>sm'. sm_add sk ck peer sm = Ok (length (store sm), sm') \<and> sm_ok sm' \<and>
    (if peer then clients sm' = clients sm \<and> peers sm' = mset_key ck (sessions_of (peers sm) ck @ [length (store sm)]) (peers sm)
     else peers sm' = peers sm \<and> clients sm' = mset_key ck (sessions_of (clients sm) ck @ [length (store sm)]) (clients sm))
    \<and> listeners sm' = listeners sm"
proof -
  define sm2 where "sm2 = (let r = length (store sm); sm1 = sm\<lparr>store := store sm @ [newSession sk ck]\<rparr>
     in if peer then sm1\<lparr>peers := mset_key ck (sessions_of (peers sm) ck @ [r]) (peers sm)\<rparr>
        else sm1\<lparr>clients := mset_key ck (sessions_of (clients sm) ck @ [r]) (clients sm)\<rparr>)"
  have ok2: "sm_ok sm2"
    using assms reg_ok_add reg_ok_append newSession_ok(1)
    by (auto simp: sm_ok_def sm2_def Let_def store_ok_def)
  have "\<forall>l \<in> set (listeners sm). l < length (store sm2)"
    using assms by (auto simp: sm_ok_def sm2_def Let_def store_ok_def)
  moreover have "store_ok sm2" using ok2 by (simp add: sm_ok_def)
  ultimately obtain sm3 where
    3: "rfold (\<lambda>l. on_session l (sessionAdded ck sk)) (listeners sm) sm2 = Ok sm3" "store_ok sm3" "same_reg sm2 sm3"
    using rfold_on_session_ok [where f = "\<lambda>_. sessionAdded ck sk" and g = "\<lambda>l. l", OF keeps_sessionAdded] by blast
  have "sm_add sk ck peer sm = Ok (length (store sm), sm3)"
    using 3(1) by (simp add: sm_add_def sm2_def Let_def)
  moreover have "sm_ok sm3" by (rule sm_ok_same_reg [OF 3(3) ok2 3(2)])
  ultimately show ?thesis
    using 3(3) by (auto simp: same_reg_def sm2_def Let_def)
qed

lemma sm_remove_ok:
  assumes "sm_ok sm" "r < length (store sm)"
  shows "\<exists>sm'. sm_remove r sm = Ok sm' \<and> sm_ok sm' \<and>
    clients sm' = drop_session (\<lambda>q. sessionKey (store sm ! q)) (clientKey (store sm ! r)) (sessionKey (store sm ! r)) (clients sm) \<and>
    peers sm' = drop_session (\<lambda>q. sessionKey (store sm ! q)) (clientKey (store sm ! r)) (sessionKey (store sm ! r)) (peers sm)"
proof -
  let ?ck = "clientKey (store sm ! r)" and ?sk = "sessionKey (store sm ! r)"
    and ?key = "\<lambda>q. sessionKey (store sm ! q)"
  define sm1 where "sm1 = sm\<lparr>clients := drop_session ?key ?ck ?sk (clients sm), peers := drop_session ?key ?ck ?sk (peers sm)\<rparr>"
  have ok1: "sm_ok sm1" using assms(1) reg_ok_drop by (simp add: sm1_def sm_ok_def store_ok_def)
  have "\<forall>l \<in> set (listeners sm). l < length (store sm1)"
    using assms(1) by (simp add: sm1_def sm_ok_def store_ok_def)
  moreover have "store_ok sm1" using ok1 by (simp add: sm_ok_def)
  ultimately obtain sm2 where
    2: "rfold (\<lambda>l. on_session l (sessionRemoved ?ck ?sk)) (listeners sm) sm1 = Ok sm2" "store_ok sm2" "same_reg sm1 sm2"
    using rfold_on_session_ok [where f = "\<lambda>_. sessionRemoved ?ck ?sk" and g = "\<lambda>l. l", OF keeps_sessionRemoved] by blast
  have "r < length (store sm2)" using assms(2) same_reg_length [OF 2(3)] by (simp add: sm1_def)
  from on_session_ok [OF keeps_Session_Close 2(2) this] obtain sm3 where
    3: "on_session r Session_Close sm2 = Ok sm3" "store_ok sm3" "same_reg sm2 sm3" by (elim exE conjE)
  note reg = same_reg_trans [OF 2(3) 3(3)]
  have "sm_remove r sm = Ok sm3"
    using 2(1) 3(1) by (simp add: sm_remove_def sm1_def Let_def)
  moreover have "sm_ok sm3" by (rule sm_ok_same_reg [OF reg ok1 3(2)])
  ultimately show ?thesis using reg by (simp add: same_reg_def sm1_def)
qed

lemma sessions_of_drop:
  "sessions_of (drop_session key ck sk m) k =
     (if k = ck then filter (\<lambda>r. key r \<noteq> sk) (sessions_of m ck) else sessions_of m k)"
  by (auto simp: drop_session_def sessions_of_def Let_def go_map split: option.splits)

subsection \<open>The manager as a transition system\<close>

inductive sm_step :: "sessionManager \<Rightarrow> sessionManager \<Rightarrow> bool" where
  sm_step_add: "sm_add sk ck peer sm = Ok (r, sm') \<Longrightarrow> sm_step sm sm'"
| sm_step_remove: "r < length (store sm) \<Longrightarrow> sm_remove r sm = Ok sm' \<Longrightarrow> sm_step sm sm'"
| sm_step_listen: "addListener (length (store sm)) (sm\<lparr>store := store sm @ [NewClientSession au]\<rparr>) = Ok sm' \<Longrightarrow> sm_step sm sm'"
| sm_step_unlisten: "sm_step sm (removeListener l sm)"
| sm_step_serve: "r < length (store sm) \<Longrightarrow> serveMessage chunk bs (idCounter sm, store sm ! r) = Ok (e, idc, s) \<Longrightarrow>
    sm_step sm (sm\<lparr>store := (store sm)[r := s], idCounter := idc\<rparr>)"

inductive_simps sm_step_iff: "sm_step sm sm'"

definition sm_init :: "sessionManager \<Rightarrow> bool" where
  "sm_init sm \<longleftrightarrow> (\<exists>idc. sm = newSessionManager idc)"

lemma rfold_added_ok:
  "store_ok sm \<Longrightarrow> l < length (store sm) \<Longrightarrow>
   \<exists>sm'. rfold (\<lambda>(k, r) sm'. on_session l (sessionAdded k (sessionKey (store sm' ! r))) sm') krs sm = Ok sm' \<and>
      store_ok sm' \<and> same_reg sm sm'"
proof (induction krs arbitrary: sm)
  case Nil
  then show ?case by (simp add: same_reg_refl)
next
  case (Cons kr krs)
  obtain k r where kr: "kr = (k, r)" by fastforce
  from on_session_ok [OF keeps_sessionAdded Cons.prems, of k "sessionKey (store sm ! r)"] obtain sm1 where
    1: "on_session l (sessionAdded k (sessionKey (store sm ! r))) sm = Ok sm1" "store_ok sm1" "same_reg sm sm1"
    by (elim exE conjE)
  have "l < length (store sm1)" using Cons.prems(2) same_reg_length [OF 1(3)] by simp
  from Cons.IH [OF 1(2) this] obtain sm' where
    2: "rfold (\<lambda>(k, r) sm'. on_session l (sessionAdded k (sessionKey (store sm' ! r))) sm') krs sm1 = Ok sm'"
      "store_ok sm'" "same_reg sm1 sm'" by (elim exE conjE)
  with 1 show ?case by (simp add: kr same_reg_trans [OF 1(3) 2(3)])
qed

lemma addListener_ok:
  assumes "sm_ok sm" "l < length (store sm)"
  shows "\<exists>sm'. addListener l sm = Ok sm' \<and> sm_ok sm'"
proof -
  let ?sm = "sm\<lparr>listeners := List.insert l (listeners sm)\<rparr>"
  have ok: "sm_ok ?sm" using assms by (simp add: sm_ok_def store_ok_def)
  then have st: "store_ok ?sm" by (simp add: sm_ok_def)
  have l: "l < length (store ?sm)" using assms(2) by simp
  from rfold_added_ok [OF st l, of "announced (clients sm) @ announced (peers sm)"] obtain sm' where
    1: "rfold (\<lambda>(k, r) sm'. on_session l (sessionAdded k (sessionKey (store sm' ! r))) sm')
          (announced (clients sm) @ announced (peers sm)) ?sm = Ok sm'" "store_ok sm'" "same_reg ?sm sm'"
    by (elim exE conjE)
  show ?thesis
    by (rule exI [of _ sm']) (use 1 sm_ok_same_reg [OF 1(3) ok 1(2)] in \<open>simp add: addListener_def\<close>)
qed

lemma sm_ok_new: "sm_ok sm \<Longrightarrow> sess_ok s \<Longrightarrow> sm_ok (sm\<lparr>store := store sm @ [s]\<rparr>)"
  using reg_ok_append [of "store sm"] by (auto simp: sm_ok_def store_ok_def)

lemma sm_ok_serve:
  assumes "sm_ok sm" "r < length (store sm)" "sess_ok s" "same_id (store sm ! r) s"
  shows "sm_ok (sm\<lparr>store := (store sm)[r := s], idCounter := idc\<rparr>)"
proof -
  have ck: "clientKey ((store sm)[r := s] ! q) = clientKey (store sm ! q)" if "q < length (store sm)" for q
    using that assms(2,4) by (simp add: nth_list_update same_id_def)
  have "reg_ok (store sm) m \<Longrightarrow> reg_ok ((store sm)[r := s]) m" for m using ck by (simp add: reg_ok_def)
  moreover have "set ((store sm)[r := s]) \<subseteq> insert s (set (store sm))" by (rule set_update_subset_insert)
  ultimately show ?thesis using assms(1,3) by (auto simp: sm_ok_def store_ok_def)
qed

lemma sm_step_ok: "sm_step sm sm' \<Longrightarrow> sm_ok sm \<Longrightarrow> sm_ok sm'"
proof (induction sm sm' rule: sm_step.induct)
  case (sm_step_add sk ck peer sm r sm')
  with sm_add_ok [OF sm_step_add(2), of sk ck peer] show ?case by auto
next
  case (sm_step_remove r sm sm')
  with sm_remove_ok [OF sm_step_remove(3,1)] show ?case by auto
next
  case (sm_step_listen sm au sm')
  with addListener_ok [OF sm_ok_new [OF sm_step_listen(2) newSession_ok(2)], of "length (store sm)" au]
  show ?case by auto
next
  case (sm_step_unlisten sm l)
  then show ?case by (simp add: removeListener_def sm_ok_def store_ok_def)
next
  case (sm_step_serve r sm chunk bs e idc s)
  then have "sess_ok (store sm ! r)" by (simp add: sm_ok_def store_ok_def)
  from serveMessage_ok [OF this, of chunk bs "idCounter sm"] sm_step_serve(2)
  have "sess_ok s" "same_id (store sm ! r) s" by auto
  with sm_step_serve show ?case by (intro sm_ok_serve)
qed

interpretation sm_sys: invariant_system sm_init sm_step sm_ok
proof unfold_locales
  show "sm_init sm \<Longrightarrow> sm_ok sm" for sm
    by (auto simp: sm_init_def newSessionManager_def sm_ok_def store_ok_def reg_ok_def)
  show "sm_ok sm \<Longrightarrow> sm_step sm sm' \<Longrightarrow> sm_ok sm'" for sm sm'
    using sm_step_ok by blast
qed

lemma getDialer_session:
  assumes "getDialer k sm = Ok (q, pre)"
  shows "q \<in> set (sessions_of (clients sm) k) \<or> q \<in> set (concat (map snd (peers sm)))"
proof (cases "sessions_of (clients sm) k")
  case Nil
  with assms have "find (knows_client sm k) (concat (map snd (peers sm))) = Some q"
    by (auto simp: getDialer_def split: option.splits)
  then show ?thesis using nth_mem unfolding find_Some_iff by blast
next
  case (Cons r rs)
  with assms show ?thesis by (simp add: getDialer_def)
qed

section \<open>Properties\<close>

text \<open>
  C18. The session registry stays well formed through every sequence of registrations, removals,
  listeners and messages: each entry is a non-empty list of existing sessions registered under their
  own client key. Registering and removing never panic, and a client just registered is dialed
  directly, through its oldest session.
\<close>

theorem registry_invariant:
  assumes "reach sm_init sm_step sm"
  shows "reg_ok (store sm) (clients sm) \<and> reg_ok (store sm) (peers sm)
    \<and> (\<forall>r < length (store sm). sm_remove r sm \<noteq> Panic)
    \<and> (\<forall>sk ck. \<exists>sm'. sm_add sk ck False sm = Ok (length (store sm), sm') \<and>
         getDialer ck sm' = Ok (hd (sessions_of (clients sm) ck @ [length (store sm)]), []))"
proof -
  have ok: "sm_ok sm" by (rule sm_sys.reach_inv [OF assms])
  have "sm_remove r sm \<noteq> Panic" if "r < length (store sm)" for r
    using sm_remove_ok [OF ok that] by auto
  moreover have "\<exists>sm'. sm_add sk ck False sm = Ok (length (store sm), sm') \<and>
      getDialer ck sm' = Ok (hd (sessions_of (clients sm) ck @ [length (store sm)]), [])" for sk ck
  proof -
    from sm_add_ok [OF ok, of sk ck False] obtain sm' where
      sm': "sm_add sk ck False sm = Ok (length (store sm), sm')"
        "clients sm' = mset_key ck (sessions_of (clients sm) ck @ [length (store sm)]) (clients sm)" by auto
    then have "sessions_of (clients sm') ck = sessions_of (clients sm) ck @ [length (store sm)]"
      by (simp add: sessions_of_def go_map)
    with sm'(1) show ?thesis
      by (intro exI [of _ sm']) (auto simp: getDialer_def split: list.splits)
  qed
  ultimately show ?thesis using ok by (simp add: sm_ok_def)
qed

theorem registry_invariant_witness:
  "reg_ok (store (newSessionManager 0)) (clients (newSessionManager 0)) \<and>
   (\<exists>sm'. sm_add 5 ''c'' False (newSessionManager 0) = Ok (0, sm') \<and> getDialer ''c'' sm' = Ok (0, []))"
proof -
  have "reach sm_init sm_step (newSessionManager 0)" by (rule reach_init) (auto simp: sm_init_def)
  from registry_invariant [OF this] have reg: "reg_ok (store (newSessionManager 0)) (clients (newSessionManager 0))"
    and add: "\<exists>sm'. sm_add 5 ''c'' False (newSessionManager 0) = Ok (length (store (newSessionManager 0)), sm') \<and>
         getDialer ''c'' sm' = Ok (hd (sessions_of (clients (newSessionManager 0)) ''c'' @ [length (store (newSessionManager 0))]), [])"
    by blast+
  then show ?thesis by (simp add: newSessionManager_def sessions_of_def)
qed

text \<open>
  C32. A removed session is never dialed again: after \<^verbatim>\<open>remove\<close>, whatever client is asked for,
  the session a dialer goes through differs from the removed one in its client key or session key.
\<close>

theorem removed_not_dialed:
  assumes "sm_ok sm" "r < length (store sm)" "sm_remove r sm = Ok sm'" "getDialer k sm' = Ok (q, pre)"
  shows "clientKey (store sm ! q) \<noteq> clientKey (store sm ! r) \<or> sessionKey (store sm ! q) \<noteq> sessionKey (store sm ! r)"
proof (rule ccontr)
  let ?key = "\<lambda>q. sessionKey (store sm ! q)" and ?ck = "clientKey (store sm ! r)"
  assume "\<not> ?thesis"
  then have same: "clientKey (store sm ! q) = ?ck" "?key q = ?key r" by simp_all
  from sm_remove_ok [OF assms(1,2)] assms(3) have
    new: "clients sm' = drop_session ?key ?ck (?key r) (clients sm)" "peers sm' = drop_session ?key ?ck (?key r) (peers sm)"
    by auto
  have ok: "reg_ok (store sm) (clients sm')" "reg_ok (store sm) (peers sm')"
    using assms(1) reg_ok_drop unfolding new sm_ok_def by blast+
  have out: "q \<notin> set (sessions_of (drop_session ?key ?ck (?key r) m) ?ck)" for m
    using same(2) by (simp add: sessions_of_drop)
  from getDialer_session [OF assms(4)] show False
  proof
    assume in_k: "q \<in> set (sessions_of (clients sm') k)"
    then have "k = ?ck" using sessions_of_ok [OF ok(1) in_k] same(1) by simp
    with in_k out [of "clients sm"] show False unfolding new by simp
  next
    assume "q \<in> set (concat (map snd (peers sm')))"
    then obtain j rs where j: "(j, rs) \<in> set (peers sm')" "q \<in> set rs" by auto
    then have "map_of (peers sm') j = Some rs" using ok(2) by (simp add: reg_ok_def gkeys_def)
    then have in_j: "q \<in> set (sessions_of (peers sm') j)" using j(2) by (simp add: sessions_of_def)
    then have "j = ?ck" using sessions_of_ok [OF ok(2) in_j] same(1) by simp
    with in_j out [of "peers sm"] show False unfolding new by simp
  qed
qed

theorem removed_not_dialed_witness:
  "\<exists>sm'. sm_remove 0 ((newSessionManager 0)\<lparr>store := [newSession 1 ''a'', newSession 2 ''b''],
                        clients := [(''a'', [0]), (''b'', [1])]\<rparr>) = Ok sm' \<and> getDialer ''b'' sm' = Ok (1, []) \<and>
     (clientKey (newSession 2 ''b'') \<noteq> clientKey (newSession 1 ''a'') \<or>
      sessionKey (newSession 2 ''b'') \<noteq> sessionKey (newSession 1 ''a''))"
proof -
  let ?sm = "(newSessionManager 0)\<lparr>store := [newSession 1 ''a'', newSession 2 ''b''],
                        clients := [(''a'', [0]), (''b'', [1])]\<rparr>"
  have ok: "sm_ok ?sm" "0 < length (store ?sm)"
    by (auto simp: sm_ok_def store_ok_def reg_ok_def newSessionManager_def newSession_ok gkeys_def newSession_keys
        split: if_splits)
  from sm_remove_ok [OF ok] obtain sm' where
    sm': "sm_remove 0 ?sm = Ok sm'" "clients sm' = drop_session (\<lambda>q. sessionKey (store ?sm ! q))
       (clientKey (store ?sm ! 0)) (sessionKey (store ?sm ! 0)) (clients ?sm)" by auto
  then have d: "getDialer ''b'' sm' = Ok (1, [])"
    by (simp add: getDialer_def newSession_keys drop_session_def sessions_of_def)
  from removed_not_dialed [OF ok sm'(1) d] sm'(1) d show ?thesis by (intro exI [of _ sm']) simp
qed

text \<open>
  Only a known peer with its own token is authenticated as a peer, under the id it claims; every
  other request is decided by the authorizer and is never a peer.
\<close>

theorem server_auth_peer:
  "(server_auth au s (i, token) = Ok (k, authed, True) \<longleftrightarrow>
      k = i \<and> authed \<and> i \<noteq> [] \<and> token \<noteq> [] \<and> (\<exists>p. map_of (srv_peers s) i = Some p \<and> peer_token p = token))
   \<and> (server_auth au s (i, token) = Ok (k, authed, False) \<longrightarrow> au (i, token) = Ok (k, authed))"
  by (auto simp: server_auth_def rbind_Ok_iff split: if_splits option.splits)

theorem server_auth_peer_witness:
  "let s = \<lparr>PeerID = ''me'', PeerToken = ''t'', sessions = newSessionManager 0,
            srv_peers = [(''p1'', \<lparr>peer_url = ''u'', peer_id = ''p1'', peer_token = ''x'', peer_ctx = 0\<rparr>)],
            next_ctx = 1, cancelled = [], started = [0]\<rparr>; au = (\<lambda>_. Ok (''c'', False))
   in server_auth au s (''p1'', ''y'') = Ok (''c'', False, False) \<and> au (''p1'', ''y'') = Ok (''c'', False)"
  using server_auth_peer [of "\<lambda>_. Ok (''c'', False)" _ "''p1''" "''y''" "''c''" False]
  by (simp add: Let_def server_auth_def)

text \<open>
  The status of an error is lost: \<^verbatim>\<open>DefaultErrorWriter\<close> writes the body before the header,
  so the response of a fresh writer has status 200 whatever code it was called with.
\<close>

theorem DefaultErrorWriter_status:
  "resp_status (DefaultErrorWriter code e \<lparr>resp_status = None, resp_body = []\<rparr>) = Some 200"
  by (simp add: DefaultErrorWriter_def rw_Write_def rw_WriteHeader_def)

end
