(* ===== verification/Helpers.thy ===== *)
theory Helpers
  imports Values
begin

text \<open>
  The small packages the others share: key/value strings (\<^verbatim>\<open>pkg/kv/split.go\<close>), plural names
  (\<^verbatim>\<open>name/name.go\<close>), string slices and sets (\<^verbatim>\<open>types/slice\<close>,
  \<^verbatim>\<open>types/set/reconcile.go\<close>), the field type syntax of
  \<^verbatim>\<open>types/definition/definition.go\<close> and \<^verbatim>\<open>types/convert/ref.go\<close>, and the deep copy of
  \<^verbatim>\<open>pkg/broadcast/broadcaster.go\<close>. The lemmas are the round trips between the two key styles
  and between a type and the reference to it, that a set difference reconciles, and what a copy keeps.
\<close>

section \<open>Definitions\<close>

subsection \<open>pkg/kv\<close>

definition safeIndex :: "string list \<Rightarrow> nat \<Rightarrow> string" where
  "safeIndex parts idx = (if length parts \<le> idx then [] else parts ! idx)"

definition Split :: "string \<Rightarrow> string \<Rightarrow> string \<times> string" where
  "Split s sep = (let parts = split_n2 s sep in (trim_space (parts ! 0), trim_space (safeIndex parts 1)))"

text \<open>\<^verbatim>\<open>strings.Split\<close>; an empty separator splits after each character.\<close>

function split_str :: "string \<Rightarrow> string \<Rightarrow> string list" where
  "split_str s sep =
     (if sep = [] then map (\<lambda>c. [c]) s
      else case str_index s sep of
             None \<Rightarrow> [s]
           | Some i \<Rightarrow> take i s # split_str (drop (i + length sep) s) sep)"
  by pat_completeness auto
termination
proof (relation "measure (\<lambda>(s, sep). length s)")
  fix s sep :: string and i
  assume "sep \<noteq> []" "str_index s sep = Some i"
  with str_index_SomeD [of s sep i] have "0 < length sep" "i + length sep \<le> length s" by auto
  then have "length s - (i + length sep) < length s" by linarith
  then show "((drop (i + length sep) s, sep), (s, sep)) \<in> measure (\<lambda>(s, sep). length s)" by simp
qed simp

declare split_str.simps [simp del]

definition SplitMap :: "string \<Rightarrow> string \<Rightarrow> (string \<times> string) list" where
  "SplitMap s sep = put_all (map (\<lambda>part. Split part ''='') (split_str s sep)) []"

subsection \<open>name\<close>

definition GuessPluralName :: "string \<Rightarrow> string" where
  "GuessPluralName name =
     (if name = [] then name
      else if equal_fold name ''Endpoints'' then name
      else if has_suffix name ''s'' \<or> has_suffix name ''ch'' \<or> has_suffix name ''x'' then name @ ''es''
      else if has_suffix name ''y'' \<and> length name > 2
              \<and> \<not> contains_any [name ! (length name - 2)] ''[aeiou]''
      then take (length name - 1) name @ ''ies''
      else name @ ''s'')"

subsection \<open>types/slice and types/set\<close>

fun ContainsString :: "string list \<Rightarrow> string \<Rightarrow> bool" where
  "ContainsString [] item = False"
| "ContainsString (j # js) item = (if j = item then True else ContainsString js item)"

fun StringsEqual_from :: "string list \<Rightarrow> string list \<Rightarrow> bool" where
  "StringsEqual_from (l # ls) (r # rs) = (if l \<noteq> r then False else StringsEqual_from ls rs)"
| "StringsEqual_from _ _ = True"

definition StringsEqual :: "string list \<Rightarrow> string list \<Rightarrow> bool" where
  "StringsEqual left right = (if length left \<noteq> length right then False else StringsEqual_from left right)"

type_synonym bset = "(string \<times> bool) list"

definition bset_has :: "bset \<Rightarrow> string \<Rightarrow> bool" where
  "bset_has m k = (map_of m k = Some True)"

text \<open>The results are \<^verbatim>\<open>toCreate\<close>, \<^verbatim>\<open>toDelete\<close> and \<^verbatim>\<open>same\<close>.\<close>

definition Diff :: "bset \<Rightarrow> bset \<Rightarrow> string list \<times> string list \<times> string list" where
  "Diff desired actual =
     (filter (\<lambda>k. \<not> bset_has actual k) (map fst desired),
      filter (\<lambda>k. \<not> bset_has desired k) (map fst actual),
      filter (\<lambda>k. bset_has actual k) (map fst desired))"

definition Changed :: "bset \<Rightarrow> bset \<Rightarrow> bool" where
  "Changed desired actual =
     (case Diff desired actual of (toCreate, toDelete, _) \<Rightarrow> length toCreate \<noteq> 0 \<or> length toDelete \<noteq> 0)"

subsection \<open>types/definition and types/convert/ref.go\<close>

definition ToReference :: "string \<Rightarrow> string" where
  "ToReference typeName = ''reference['' @ typeName @ '']''"

definition ToFullReference :: "string \<Rightarrow> string \<Rightarrow> string" where
  "ToFullReference path typeName = ''reference['' @ path @ ''/schemas/'' @ typeName @ '']''"

definition IsMapType :: "string \<Rightarrow> bool" where
  "IsMapType fieldType \<longleftrightarrow> has_prefix fieldType ''map['' \<and> has_suffix fieldType '']''"

definition IsArrayType :: "string \<Rightarrow> bool" where
  "IsArrayType fieldType \<longleftrightarrow> has_prefix fieldType ''array['' \<and> has_suffix fieldType '']''"

definition IsReferenceType :: "string \<Rightarrow> bool" where
  "IsReferenceType fieldType \<longleftrightarrow> has_prefix fieldType ''reference['' \<and> has_suffix fieldType '']''"

definition HasReferenceType :: "string \<Rightarrow> bool" where
  "HasReferenceType fieldType = str_contains fieldType ''reference[''"

definition SubType :: "string \<Rightarrow> string" where
  "SubType fieldType =
     (case str_index fieldType ''['' of
        None \<Rightarrow> fieldType
      | Some i \<Rightarrow>
          if i = 0 \<or> int i \<ge> int (length fieldType) - 1 then fieldType
          else drop (i + 1) (take (length fieldType - 1) fieldType))"

definition GetShortTypeFromFull :: "string \<Rightarrow> string" where
  "GetShortTypeFromFull fullType = last (split_char CHR ''/'' fullType)"

definition GetFullType :: "gdata \<Rightarrow> string" where
  "GetFullType data = ToString (mget data ''type'')"

definition GetType :: "gdata \<Rightarrow> string" where
  "GetType data = GetShortTypeFromFull (GetFullType data)"

subsection \<open>The deep copy of pkg/broadcast\<close>

fun cloneValue :: "gval \<Rightarrow> gval" where
  "cloneValue (VList vs) = VList (map cloneValue vs)"
| "cloneValue (VMaps vs) = VList (map cloneValue vs)"
| "cloneValue (VMap None) = VMap None"
| "cloneValue (VMap (Some m)) = VMap (Some (map (\<lambda>kv. (fst kv, cloneValue (snd kv))) m))"
| "cloneValue v = v"

definition cloneMap :: "gdata \<Rightarrow> gdata" where
  "cloneMap d = ToMapInterface (cloneValue (VMap d))"

section \<open>Lemmas\<close>

subsection \<open>Key styles\<close>

lemma upper_cases: "is_upper c \<Longrightarrow> lower_char c \<in> set lower_letters \<and> upper_char (lower_char c) = c"
proof -
  have "list_all (\<lambda>c. lower_char c \<in> set lower_letters \<and> upper_char (lower_char c) = c) upper_letters"
    by code_simp
  then show "is_upper c \<Longrightarrow> ?thesis" by (simp add: is_upper_def list_all_iff)
qed

lemma lower_char_not_upper: "\<not> is_upper c \<Longrightarrow> lower_char c = c"
proof -
  have "length upper_letters = length lower_letters" by code_simp
  then have "c \<notin> set upper_letters \<Longrightarrow> map_of (zip upper_letters lower_letters) c = None"
    by (simp add: map_of_zip_is_None)
  then show "\<not> is_upper c \<Longrightarrow> ?thesis" by (simp add: is_upper_def lower_char_def)
qed

lemma lower_letter_word: "c \<in> set lower_letters \<Longrightarrow> is_word_char c \<and> c \<noteq> CHR ''_''"
proof -
  have "CHR ''_'' \<notin> set lower_letters" by code_simp
  then show "c \<in> set lower_letters \<Longrightarrow> ?thesis" by (auto simp: is_word_char_def)
qed

definition is_alnum :: "char \<Rightarrow> bool" where
  "is_alnum c \<longleftrightarrow> is_word_char c \<and> c \<noteq> CHR ''_''"

lemma is_alnum_lower_char: "is_alnum c \<Longrightarrow> is_alnum (lower_char c)"
  by (cases "is_upper c") (auto simp: is_alnum_def upper_cases lower_letter_word lower_char_not_upper)

lemma title_from_word: "\<forall>c \<in> set s. is_word_char c \<Longrightarrow> title_from False s = s"
  by (induction s) auto

lemma set_ToYAMLKey_loop:
  "\<forall>c \<in> set s. is_alnum c \<Longrightarrow> c \<in> set (ToYAMLKey_loop cap s) \<Longrightarrow> is_word_char c"
proof (induction cap s rule: ToYAMLKey_loop.induct)
  case (2 cap r rs)
  then show ?case
    using is_alnum_lower_char [of r] by (auto simp: is_alnum_def is_word_char_def split: if_splits)
qed auto

lemma split_char_elems: "p \<in> set (split_char d s) \<Longrightarrow> set p \<subseteq> set s"
proof (induction s arbitrary: p)
  case Nil
  then show ?case by auto
next
  case (Cons c cs)
  show ?case
  proof (cases "split_char d cs")
    case Nil
    then show ?thesis using split_char_ne [of d cs] by simp
  next
    case (Cons q qs)
    then show ?thesis using Cons.IH Cons.prems by (fastforce split: if_splits)
  qed
qed

lemma ToJSONKey_underscore:
  assumes w: "CHR ''_'' \<notin> set w" and c: "is_upper c"
    and rest: "\<forall>x \<in> set t. is_word_char x"
    and IH: "ToJSONKey (lower_char c # t) = lower_char c # s"
  shows "ToJSONKey (w @ CHR ''_'' # lower_char c # t) = w @ c # s"
proof -
  have l: "is_word_char (lower_char c)" "lower_char c \<noteq> CHR ''_''"
    using upper_cases [OF c] lower_letter_word by auto
  obtain p ps where sp: "split_char CHR ''_'' t = p # ps"
    using split_char_ne [of "CHR ''_''" t] by (cases "split_char CHR ''_'' t") auto
  then have "\<forall>x \<in> set p. is_word_char x"
    using split_char_elems [of p "CHR ''_''" t] rest by auto
  then have "title_from True (lower_char c # p) = c # p"
    using l upper_cases [OF c] by (simp add: title_from_word)
  moreover from IH l sp have "p @ concat (map (title_from True) ps) = s"
    by (simp add: ToJSONKey_def)
  ultimately show ?thesis
    using l w sp by (simp add: ToJSONKey_def split_char_append)
qed

lemma ToJSONKey_loop:
  "\<forall>c \<in> set s. is_alnum c \<Longrightarrow> CHR ''_'' \<notin> set w \<Longrightarrow> ToJSONKey (w @ ToYAMLKey_loop False s) = w @ s"
proof (induction s arbitrary: w)
  case Nil
  then show ?case by (simp add: ToJSONKey_def split_char_no_sep)
next
  case (Cons c cs)
  show ?case
  proof (cases "is_upper c")
    case True
    have l: "lower_char c \<noteq> CHR ''_''" using upper_cases [OF True] lower_letter_word by auto
    have "ToJSONKey ([lower_char c] @ ToYAMLKey_loop False cs) = [lower_char c] @ cs"
      using Cons.prems l by (intro Cons.IH) auto
    moreover have "\<forall>x \<in> set (ToYAMLKey_loop False cs). is_word_char x"
      using Cons.prems(1) set_ToYAMLKey_loop by auto
    ultimately show ?thesis
      using ToJSONKey_underscore [OF Cons.prems(2) True] True by simp
  next
    case False
    then have "ToJSONKey ((w @ [c]) @ ToYAMLKey_loop False cs) = (w @ [c]) @ cs"
      using Cons.prems by (intro Cons.IH) (auto simp: is_alnum_def)
    with False show ?thesis by simp
  qed
qed

subsection \<open>Field types\<close>

lemma SubType_bracket:
  assumes "pre \<noteq> []" "CHR ''['' \<notin> set pre"
  shows "SubType (pre @ ''['' @ t @ '']'') = t"
proof -
  have "str_index (pre @ CHR ''['' # t @ '']'') ''['' = Some (length pre)"
    using assms(2) by (rule str_index_char_append)
  then show ?thesis using assms(1) by (simp add: SubType_def)
qed

subsection \<open>Sets\<close>

lemma ContainsString_iff: "ContainsString ss item \<longleftrightarrow> item \<in> set ss"
  by (induction ss) auto

lemma StringsEqual_iff: "StringsEqual l r \<longleftrightarrow> l = r"
proof -
  have "length l = length r \<Longrightarrow> StringsEqual_from l r \<longleftrightarrow> l = r"
    by (induction l r rule: list_induct2) auto
  then show ?thesis by (auto simp: StringsEqual_def)
qed

definition all_true :: "bset \<Rightarrow> bool" where
  "all_true m \<longleftrightarrow> gkeys m \<and> (\<forall>kv \<in> set m. snd kv)"

lemma bset_has_all_true: "all_true m \<Longrightarrow> bset_has m k \<longleftrightarrow> k \<in> fst ` set m"
  by (force simp: all_true_def bset_has_def gkeys_def image_iff)

subsection \<open>Copies\<close>

text \<open>No slice of maps occurs in the value.\<close>

fun no_map_slices :: "gval \<Rightarrow> bool" where
  "no_map_slices (VList vs) = (\<forall>v \<in> set vs. no_map_slices v)"
| "no_map_slices (VMaps vs) = False"
| "no_map_slices (VMap None) = True"
| "no_map_slices (VMap (Some m)) = (\<forall>kv \<in> set m. no_map_slices (snd kv))"
| "no_map_slices v = True"

lemma cloneValue_id: "no_map_slices v \<Longrightarrow> cloneValue v = v"
  by (induction v rule: cloneValue.induct) (auto simp: map_idI)

lemma cloneValue_no_map_slices: "no_map_slices (cloneValue v)"
  by (induction v rule: cloneValue.induct) auto

lemma mlookup_cloneMap: "mlookup (cloneMap d) k = map_option cloneValue (mlookup d k)"
proof (cases d)
  case (Some m)
  have "map_of (map (\<lambda>kv. (fst kv, cloneValue (snd kv))) m) k = map_option cloneValue (map_of m k)"
    by (induction m) auto
  with Some show ?thesis by (simp add: cloneMap_def)
qed (simp add: cloneMap_def)

section \<open>Properties\<close>

text \<open>
  The two key styles agree: a key of ASCII letters and digits that does not start in upper case
  comes back from \<^verbatim>\<open>ToYAMLKey\<close> through \<^verbatim>\<open>ToJSONKey\<close> unchanged.
\<close>

theorem yaml_json_key_roundtrip:
  assumes "\<forall>c \<in> set s. is_alnum c" "s = [] \<or> \<not> is_upper (hd s)"
  shows "ToJSONKey (ToYAMLKey s) = s"
proof (cases s)
  case Nil
  then show ?thesis by (simp add: ToYAMLKey_def ToJSONKey_def)
next
  case (Cons r rs)
  then have "\<not> is_upper r" using assms by simp
  moreover have "ToJSONKey ([r] @ ToYAMLKey_loop False rs) = [r] @ rs"
    using assms Cons by (intro ToJSONKey_loop) (auto simp: is_alnum_def)
  ultimately show ?thesis using Cons by (simp add: ToYAMLKey_def lower_char_not_upper)
qed

theorem yaml_json_key_roundtrip_witness:
  "ToJSONKey (ToYAMLKey ''dnsPolicyURL2'') = ''dnsPolicyURL2''"
proof (rule yaml_json_key_roundtrip)
  show "\<forall>c \<in> set ''dnsPolicyURL2''. is_alnum c" by code_simp
  show "''dnsPolicyURL2'' = [] \<or> \<not> is_upper (hd ''dnsPolicyURL2'')" by code_simp
qed

text \<open>
  \<^verbatim>\<open>Diff\<close> reconciles: creating \<^verbatim>\<open>toCreate\<close> and deleting \<^verbatim>\<open>toDelete\<close>
  turns the actual set into the desired one, what is the same is in both, and \<^verbatim>\<open>Changed\<close>
  says whether the two sets differ.
\<close>

theorem Diff_reconciles:
  assumes "all_true desired" "all_true actual" "Diff desired actual = (toCreate, toDelete, same)"
  shows "(fst ` set actual - set toDelete) \<union> set toCreate = fst ` set desired
    \<and> set same = fst ` set desired \<inter> fst ` set actual
    \<and> (Changed desired actual \<longleftrightarrow> fst ` set desired \<noteq> fst ` set actual)"
proof -
  have "toCreate = filter (\<lambda>k. k \<notin> fst ` set actual) (map fst desired)"
    "toDelete = filter (\<lambda>k. k \<notin> fst ` set desired) (map fst actual)"
    "same = filter (\<lambda>k. k \<in> fst ` set actual) (map fst desired)"
    using assms by (simp_all add: Diff_def bset_has_all_true)
  then have eqs: "set toCreate = fst ` set desired - fst ` set actual"
    "set toDelete = fst ` set actual - fst ` set desired"
    "set same = fst ` set desired \<inter> fst ` set actual"
    by (simp_all only: set_filter set_map) blast+
  have "Changed desired actual \<longleftrightarrow> set toCreate \<noteq> {} \<or> set toDelete \<noteq> {}"
    using assms(3) by (simp add: Changed_def)
  then show ?thesis unfolding eqs by blast
qed

theorem Diff_reconciles_witness:
  "(fst ` set [(''b'', True), (''c'', True)] - set [''c'']) \<union> set [''a''] = fst ` set [(''a'', True), (''b'', True)]
   \<and> Changed [(''a'', True), (''b'', True)] [(''b'', True), (''c'', True)]"
  using Diff_reconciles [of "[(''a'', True), (''b'', True)]" "[(''b'', True), (''c'', True)]" "[''a'']" "[''c'']" "[''b'']"]
  by (simp add: all_true_def gkeys_def Diff_def bset_has_def insert_eq_iff)

text \<open>
  The type of a reference is read back: for every type name, \<^verbatim>\<open>SubType\<close> of its reference
  is the name, of its full reference the full name, and both are recognised as references.
\<close>

theorem reference_SubType:
  "SubType (ToReference t) = t \<and> SubType (ToFullReference p t) = p @ ''/schemas/'' @ t
   \<and> IsReferenceType (ToReference t) \<and> IsReferenceType (ToFullReference p t)
   \<and> \<not> IsMapType (ToReference t) \<and> \<not> IsArrayType (ToReference t)"
proof -
  have "SubType (''reference'' @ ''['' @ x @ '']'') = x" for x by (rule SubType_bracket) simp_all
  note sub = this [of t] this [of "p @ ''/schemas/'' @ t"]
  have suf: "has_suffix (x @ '']'') '']''" for x by (rule has_suffix_append)
  show ?thesis
    using sub suf [of "''reference['' @ t"] suf [of "''reference['' @ p @ ''/schemas/'' @ t"]
    by (simp add: ToReference_def ToFullReference_def IsReferenceType_def IsMapType_def IsArrayType_def
        has_prefix_def)
qed

text \<open>
  A broadcast copy holds, under every key, the copy of the value; copying is idempotent, and a
  value without slices of maps is copied unchanged.
\<close>

theorem cloneMap_lookup:
  "mlookup (cloneMap d) k = map_option cloneValue (mlookup d k) \<and> cloneMap (cloneMap d) = cloneMap d
   \<and> (no_map_slices (VMap d) \<longrightarrow> cloneMap d = d)"
proof -
  have "VMap (cloneMap d) = cloneValue (VMap d)" by (cases d) (simp_all add: cloneMap_def)
  then have "no_map_slices (VMap (cloneMap d))" using cloneValue_no_map_slices by metis
  then have "cloneValue (VMap (cloneMap d)) = VMap (cloneMap d)" by (rule cloneValue_id)
  then have "cloneMap (cloneMap d) = cloneMap d" by (simp add: cloneMap_def [of "cloneMap d"])
  moreover have "no_map_slices (VMap d) \<Longrightarrow> cloneMap d = d"
    using cloneValue_id [of "VMap d"] by (simp add: cloneMap_def)
  ultimately show ?thesis using mlookup_cloneMap by blast
qed

theorem cloneMap_lookup_witness:
  "cloneMap (Some [(''a'', VList [VMap (Some [(''b'', VInt 1)])])]) = Some [(''a'', VList [VMap (Some [(''b'', VInt 1)])])]"
  using cloneMap_lookup [of "Some [(''a'', VList [VMap (Some [(''b'', VInt 1)])])]" "''a''"] by simp

end
