(* ===== verification/Mapper.thy ===== *)
theory Mapper
  imports Helpers
begin

text \<open>
  The mappers between the stored form of an object and its API form: the combinators of
  \<^verbatim>\<open>types/mapper.go\<close> and the mappers of \<^verbatim>\<open>types/mapper\<close>. A mapper is a value of the
  datatype \<open>mapper\<close>, one constructor per Go struct; \<open>FromInternal\<close> and \<open>ToInternal\<close> are the two
  directions. \<open>FromInternal\<close> has no error; \<open>ToInternal\<close> returns the error beside the data, which stays
  changed. Writing to a nil map and comparing two maps or two slices panics, as in Go. The third
  method, \<^verbatim>\<open>ModifySchema\<close>, is in \<open>MapperSchema\<close>.

  The codecs of \<^verbatim>\<open>encoding/json\<close> and \<^verbatim>\<open>encoding/base64\<close> are a parameter, the record
  \<open>codecs\<close>: nothing below depends on them beyond their being functions.
\<close>

section \<open>Equality of interface values\<close>

text \<open>\<^verbatim>\<open>a == b\<close>; \<^const>\<open>None\<close> is the panic on two values of one uncomparable type.\<close>

definition go_eq :: "gval \<Rightarrow> gval \<Rightarrow> bool option" where
  "go_eq a b =
     (case (a, b) of
        (VStrs _, VStrs _) \<Rightarrow> None
      | (VList _, VList _) \<Rightarrow> None
      | (VMap _, VMap _) \<Rightarrow> None
      | (VMaps _, VMaps _) \<Rightarrow> None
      | (VFloat x, VFloat y) \<Rightarrow> Some (f_eq x y)
      | _ \<Rightarrow> Some (a = b))"

section \<open>Mappers\<close>

record codecs =
  json_marshal :: "gval \<Rightarrow> string option"
  json_map :: "string \<Rightarrow> gdata option"
  json_list :: "string \<Rightarrow> gval list option"
  b64_encode :: "string \<Rightarrow> string"
  b64_decode :: "string \<Rightarrow> string"

text \<open>
  \<open>b64_decode\<close> gives the bytes decoded up to the first error: \<^verbatim>\<open>Base64\<close> logs the error and stores
  them all the same.
\<close>

record move =
  From :: string
  To :: string
  CodeName :: string
  DestDefined :: bool
  NoDeleteFromField :: bool

record embed =
  EField :: string
  EOptional :: bool
  EReadOnly :: bool
  Ignore :: "string list"
  ignoreOverride :: bool
  embeddedFields :: "string list"
  EmptyValueOk :: bool

text \<open>
  \<open>TypeMapper\<close> has the mappers of the type, whether it is a root type, its type name, and for its
  fields that are objects, arrays of objects and maps of objects the mapper of the object's schema. A
  sub schema without a mapper is skipped by every loop and has no entry.
\<close>

datatype mapper =
    Access "(string \<times> string) list" bool
  | AnnotationField string bool bool bool
  | APIGroup string string
  | Base64 string bool string
  | BatchMove "string list" string bool bool "move list"
  | ChangeType string string
  | CondMapper string gval mapper
  | Copy string string
  | DisplayName
  | Drop string bool
  | EmbedMapper embed
  | Enum string "string list"
  | JSONEncode string bool string
  | LabelField string
  | MoveMapper move
  | Mappers "mapper list"
  | PendingStatus
  | ReadOnly string bool bool
  | RenameReference "mapper list"
  | RequiredMapper "string list"
  | Root bool mapper
  | ScopeMapper string string "mapper list" bool
  | SetValue string string gval gval bool
  | SliceMerge "string list" string bool
  | SliceToMap string string
  | UnionEmbed "(string \<times> string list) list" "(string \<times> embed) list"
  | UntypedMove string string string
  | TypeMapper "mapper list" bool string "(string \<times> mapper) list" "(string \<times> mapper) list" "(string \<times> mapper) list"

abbreviation "NamespaceScope \<equiv> ''namespace''"

definition getSep :: "string \<Rightarrow> string" where
  "getSep sep = (if sep = [] then ''/'' else sep)"

subsection \<open>The data of one mapper\<close>

definition slash_path :: "string \<Rightarrow> string list" where
  "slash_path s = split_char CHR ''/'' s"

text \<open>The common step of the moves: what is at one path goes to the other.\<close>

definition move_value :: "string list \<Rightarrow> string list \<Rightarrow> gdata \<Rightarrow> gdata res" where
  "move_value from to d =
     (case RemoveValue d from of
        (None, d') \<Rightarrow> Ok d'
      | (Some v, d') \<Rightarrow> PutValue d' v to)"

definition Move_FromInternal :: "move \<Rightarrow> gdata \<Rightarrow> gdata res" where
  "Move_FromInternal m d = move_value (slash_path (From m)) (slash_path (To m)) d"

definition Move_ToInternal :: "move \<Rightarrow> gdata \<Rightarrow> gdata res" where
  "Move_ToInternal m d = move_value (slash_path (To m)) (slash_path (From m)) d"

definition UntypedMove_FromInternal :: "string \<Rightarrow> string \<Rightarrow> string \<Rightarrow> gdata \<Rightarrow> gdata res" where
  "UntypedMove_FromInternal from to sep d = move_value (split_str from (getSep sep)) (split_str to (getSep sep)) d"

definition UntypedMove_ToInternal :: "string \<Rightarrow> string \<Rightarrow> string \<Rightarrow> gdata \<Rightarrow> gdata res" where
  "UntypedMove_ToInternal from to sep d = move_value (split_str to (getSep sep)) (split_str from (getSep sep)) d"

definition annotation_key :: "string \<Rightarrow> string" where
  "annotation_key field = ''field.cattle.io/'' @ field"

definition AnnotationField_FromInternal :: "codecs \<Rightarrow> string \<Rightarrow> bool \<Rightarrow> bool \<Rightarrow> gdata \<Rightarrow> gdata res" where
  "AnnotationField_FromInternal J field obj lst d =
     (case RemoveValue d [''annotations'', annotation_key field] of
        (None, d') \<Rightarrow> Ok d'
      | (Some v, d') \<Rightarrow>
          let v1 = (if obj then (case json_map J (ToString v) of Some m \<Rightarrow> VMap m | None \<Rightarrow> v) else v);
              v2 = (if lst then (case json_list J (ToString v1) of Some l \<Rightarrow> VList l | None \<Rightarrow> v1) else v1)
          in mput d' field v2)"

definition AnnotationField_ToInternal :: "codecs \<Rightarrow> string \<Rightarrow> bool \<Rightarrow> bool \<Rightarrow> gdata \<Rightarrow> gdata res" where
  "AnnotationField_ToInternal J field obj lst d =
     rbind (case mlookup d field of
              None \<Rightarrow> Ok d
            | Some v \<Rightarrow>
                let v1 = (if obj \<or> lst then (case json_marshal J v of Some s \<Rightarrow> VStr s | None \<Rightarrow> v) else v)
                in PutValue d (VStr (ToString v1)) [''annotations'', annotation_key field])
       (\<lambda>d'. Ok (snd (RemoveValue d' [field])))"

definition APIGroup_ToInternal :: "string \<Rightarrow> string \<Rightarrow> gdata \<Rightarrow> gdata" where
  "APIGroup_ToInternal apiVersion kind d =
     (let put = (\<lambda>k v d. if mlookup d k = None then map_option (mset_key k v) d else d)
      in put ''kind'' (VStr kind) (put ''apiVersion'' (VStr apiVersion) d))"

definition Base64_FromInternal :: "codecs \<Rightarrow> string \<Rightarrow> string \<Rightarrow> gdata \<Rightarrow> gdata res" where
  "Base64_FromInternal J field sep d =
     (let path = split_str field (getSep sep)
      in case RemoveValue d path of
           (None, d') \<Rightarrow> Ok d'
         | (Some v, d') \<Rightarrow>
             let str = ToString v
             in if str = [] then Ok d' else PutValue d' (VStr (b64_decode J str)) path)"

definition Base64_ToInternal :: "codecs \<Rightarrow> string \<Rightarrow> string \<Rightarrow> gdata \<Rightarrow> gdata res" where
  "Base64_ToInternal J field sep d =
     (let path = split_str field (getSep sep)
      in case RemoveValue d path of
           (None, d') \<Rightarrow> Ok d'
         | (Some v, d') \<Rightarrow>
             let str = ToString v
             in if str = [] then Ok d' else PutValue d' (VStr (b64_encode J str)) path)"

definition JSONEncode_FromInternal :: "codecs \<Rightarrow> string \<Rightarrow> string \<Rightarrow> gdata \<Rightarrow> gdata res" where
  "JSONEncode_FromInternal J field sep d =
     (let path = split_str field (getSep sep)
      in case RemoveValue d path of
           (None, d') \<Rightarrow> Ok d'
         | (Some v, d') \<Rightarrow>
             (case json_map J (ToString v) of
                Some obj \<Rightarrow> PutValue d' (VMap obj) path
              | None \<Rightarrow> Ok d'))"

definition JSONEncode_ToInternal :: "codecs \<Rightarrow> string \<Rightarrow> string \<Rightarrow> gdata \<Rightarrow> gdata res" where
  "JSONEncode_ToInternal J field sep d =
     (let path = split_str field (getSep sep)
      in case RemoveValue d path of
           (None, d') \<Rightarrow> Ok d'
         | (Some v, d') \<Rightarrow>
             if v = VNil then Ok d'
             else (case json_marshal J v of
                     Some s \<Rightarrow> PutValue d' (VStr s) path
                   | None \<Rightarrow> Ok d'))"

definition Copy_FromInternal :: "string \<Rightarrow> string \<Rightarrow> gdata \<Rightarrow> gdata res" where
  "Copy_FromInternal from to d =
     (case mlookup d from of None \<Rightarrow> Ok d | Some v \<Rightarrow> mput d to v)"

definition Copy_ToInternal :: "string \<Rightarrow> string \<Rightarrow> gdata \<Rightarrow> gdata res" where
  "Copy_ToInternal from to d =
     (case mlookup d to of
        Some t \<Rightarrow> (if mlookup d from = None then mput d from t else Ok d)
      | None \<Rightarrow> Ok d)"

definition Embed_FromInternal :: "embed \<Rightarrow> gdata \<Rightarrow> gdata res" where
  "Embed_FromInternal e d =
     (let sub = ToMapInterface (mget d (EField e))
      in rbind (rfold (\<lambda>f d'. case mlookup sub f of None \<Rightarrow> Ok d' | Some v \<Rightarrow> mput d' f v) (embeddedFields e) d)
           (\<lambda>d'. Ok (mdelete d' (EField e))))"

text \<open>
  The loop deletes each embedded field from the data as it copies it, so a field listed twice is
  copied once.
\<close>

definition embed_fields :: "string list \<Rightarrow> gdata \<Rightarrow> (string \<times> gval) list \<times> gdata" where
  "embed_fields fs d =
     fold (\<lambda>f (sub, d'). (case mlookup d' f of None \<Rightarrow> sub | Some v \<Rightarrow> mset_key f v sub, mdelete d' f)) fs ([], d)"

definition Embed_ToInternal :: "embed \<Rightarrow> gdata \<Rightarrow> gdata" where
  "Embed_ToInternal e d =
     (if d = None then d
      else case embed_fields (embeddedFields e) d of
             (sub, d') \<Rightarrow>
               if sub = [] then (if EmptyValueOk e then map_option (mset_key (EField e) VNil) d' else d')
               else map_option (mset_key (EField e) (VMap (Some sub))) d')"

definition LabelField_FromInternal :: "string \<Rightarrow> gdata \<Rightarrow> gdata res" where
  "LabelField_FromInternal field d =
     (case RemoveValue d [''labels'', annotation_key field] of
        (None, d') \<Rightarrow> Ok d'
      | (Some v, d') \<Rightarrow> mput d' field v)"

definition LabelField_ToInternal :: "string \<Rightarrow> gdata \<Rightarrow> gdata res" where
  "LabelField_ToInternal field d =
     (case mlookup d field of
        None \<Rightarrow> Ok d
      | Some v \<Rightarrow> PutValue d v [''labels'', annotation_key field])"

definition PendingStatus_FromInternal :: "gdata \<Rightarrow> gdata" where
  "PendingStatus_FromInternal d =
     (if mget d ''state'' \<noteq> VStr ''active'' then d
      else if ToMapSlice (GetValueN d [''status'', ''conditions'']) \<noteq> [] then d
      else map_option (mset_key ''state'' (VStr ''pending'')) d)"

definition SetValue_getTo :: "string \<Rightarrow> string \<Rightarrow> string" where
  "SetValue_getTo field to = (if to = [] then field else to)"

definition SetValue_FromInternal :: "string \<Rightarrow> string \<Rightarrow> gval \<Rightarrow> gval \<Rightarrow> gdata \<Rightarrow> gdata res" where
  "SetValue_FromInternal field to value ifEq d =
     (if ifEq = VNil then PutValue d value (slash_path (SetValue_getTo field to))
      else case GetValue d (slash_path field) of
             None \<Rightarrow> Ok d
           | Some v \<Rightarrow>
               (case go_eq v ifEq of
                  None \<Rightarrow> Panic
                | Some True \<Rightarrow> PutValue d value (slash_path (SetValue_getTo field to))
                | Some False \<Rightarrow> Ok d))"

definition SetValue_ToInternal :: "string \<Rightarrow> string \<Rightarrow> gval \<Rightarrow> gval \<Rightarrow> gdata \<Rightarrow> gdata res" where
  "SetValue_ToInternal field to value ifEq d =
     (case GetValue d (slash_path (SetValue_getTo field to)) of
        None \<Rightarrow> Ok d
      | Some v \<Rightarrow>
          if ifEq = VNil then Ok (snd (RemoveValue d (slash_path field)))
          else (case go_eq v value of
                  None \<Rightarrow> Panic
                | Some True \<Rightarrow> PutValue d ifEq (slash_path field)
                | Some False \<Rightarrow> Ok d))"

text \<open>
  The merged slice is nil, and nothing is written, when no source has an element: appending no
  elements to a nil slice leaves it nil.
\<close>

definition SliceMerge_FromInternal :: "string list \<Rightarrow> string \<Rightarrow> gdata \<Rightarrow> gdata res" where
  "SliceMerge_FromInternal from to d =
     (let result = concat (map (\<lambda>name. case mlookup d name of None \<Rightarrow> [] | Some v \<Rightarrow> ToInterfaceSlice v) from)
      in if result = [] then Ok d else mput d to (VList result))"

definition as_string :: "gval \<Rightarrow> string" where
  "as_string v = (case v of VStr s \<Rightarrow> s | _ \<Rightarrow> [])"

text \<open>Items that are not maps are dropped, unless there is no map at all.\<close>

definition SliceToMap_FromInternal :: "string \<Rightarrow> string \<Rightarrow> gdata \<Rightarrow> gdata res" where
  "SliceToMap_FromInternal field key d =
     (case mget d field of
        VList items \<Rightarrow>
          let result = fold (\<lambda>item acc. case item of
                         VMap m \<Rightarrow> mset_key (as_string (mget m key)) (VMap (mdelete m key)) acc
                       | _ \<Rightarrow> acc) items []
          in if result \<noteq> [] then mput d field (VMap (Some result)) else Ok d
      | _ \<Rightarrow> Ok d)"

definition SliceToMap_ToInternal :: "string \<Rightarrow> string \<Rightarrow> gdata \<Rightarrow> gdata res" where
  "SliceToMap_ToInternal field key d =
     (case mget d field of
        VMap (Some datas) \<Rightarrow>
          mput d field (VList (concat (map (\<lambda>(name, item). case item of
            VMap (Some m) \<Rightarrow> [VMap (Some (mset_key key (VStr name) m))]
          | _ \<Rightarrow> []) datas)))
      | _ \<Rightarrow> Ok d)"

fun check_fields :: "gdata \<Rightarrow> string list \<Rightarrow> bool" where
  "check_fields d [] = True"
| "check_fields d (c # cs) =
     (case mlookup d c of
        None \<Rightarrow> False
      | Some v \<Rightarrow> if IsAPIObjectEmpty v then False else check_fields d cs)"

definition embed_zero :: embed where
  "embed_zero = \<lparr>EField = [], EOptional = False, EReadOnly = False, Ignore = [], ignoreOverride = False,
                 embeddedFields = [], EmptyValueOk = False\<rparr>"

fun UnionEmbed_ToInternal :: "(string \<times> string list) list \<Rightarrow> (string \<times> embed) list \<Rightarrow> gdata \<Rightarrow> gdata" where
  "UnionEmbed_ToInternal [] embeds d = d"
| "UnionEmbed_ToInternal ((name, checks) # fs) embeds d =
     (if checks = [] \<or> \<not> check_fields d checks then UnionEmbed_ToInternal fs embeds d
      else Embed_ToInternal (case map_of embeds name of None \<Rightarrow> embed_zero | Some e \<Rightarrow> e) d)"

abbreviation "simple_move f t \<equiv> \<lparr>From = f, To = t, CodeName = [], DestDefined = False, NoDeleteFromField = False\<rparr>"

definition displayNameMappers :: "mapper list" where
  "displayNameMappers =
     [MoveMapper (simple_move ''name'' ''id''),
      MoveMapper (simple_move ''displayName'' ''name''),
      Access [(''id'', []), (''name'', ''cru'')] False]"

text \<open>\<^verbatim>\<open>NewMetadataMapper\<close> and \<^verbatim>\<open>NewObject\<close>.\<close>

definition NewMetadataMapper :: mapper where
  "NewMetadataMapper = Mappers
     [ChangeType ''name'' ''dnsLabel'',
      Drop ''generateName'' False,
      MoveMapper (simple_move ''uid'' ''uuid''\<lparr>CodeName := ''UUID''\<rparr>),
      Drop ''resourceVersion'' False,
      Drop ''generation'' False,
      MoveMapper (simple_move ''creationTimestamp'' ''created''),
      MoveMapper (simple_move ''deletionTimestamp'' ''removed''),
      Drop ''deletionGracePeriodSeconds'' False,
      Drop ''initializers'' False,
      Drop ''clusterName'' False,
      ReadOnly ''*'' False False,
      Access [(''name'', ''c''), (''namespace'', ''c''), (''labels'', ''cu''), (''annotations'', ''cu'')] False]"

definition NewObject :: "mapper list \<Rightarrow> mapper" where
  "NewObject mappers = Mappers
     ([APIGroup [] [],
       EmbedMapper (embed_zero\<lparr>EField := ''metadata''\<rparr>),
       EmbedMapper (embed_zero\<lparr>EField := ''spec'', EOptional := True\<rparr>),
       ReadOnly ''status'' True True,
       Drop ''kind'' False,
       Drop ''apiVersion'' False,
       MoveMapper (simple_move ''selfLink'' ''.selfLink''\<lparr>DestDefined := True\<rparr>),
       ScopeMapper [] NamespaceScope [Drop ''namespace'' False] False,
       Drop ''finalizers'' True] @ mappers)"

subsection \<open>Nested objects of a type mapper\<close>

text \<open>
  The loops of the type mapper run a mapper on the map found in a field. Maps are shared, so what the
  mapper does to the nested map shows in the data; on a field that is not a map it runs on a nil map.
\<close>

definition sub_value :: "(gdata \<Rightarrow> gdata res) \<Rightarrow> gval \<Rightarrow> gval res" where
  "sub_value f v = (case v of VMap m \<Rightarrow> rbind (f m) (\<lambda>m'. Ok (VMap m')) | _ \<Rightarrow> rbind (f None) (\<lambda>_. Ok v))"

fun rmap :: "('a \<Rightarrow> 'b res) \<Rightarrow> 'a list \<Rightarrow> 'b list res" where
  "rmap f [] = Ok []"
| "rmap f (x # xs) = rbind (f x) (\<lambda>y. rbind (rmap f xs) (\<lambda>ys. Ok (y # ys)))"

definition sub_object :: "(gdata \<Rightarrow> gdata res) \<Rightarrow> string \<Rightarrow> gdata \<Rightarrow> gdata res" where
  "sub_object f field d =
     rbind (sub_value f (mget d field))
       (\<lambda>v. Ok (if mlookup d field = None then d else map_option (mset_key field v) d))"

definition sub_map :: "(gdata \<Rightarrow> gdata res) \<Rightarrow> string \<Rightarrow> gdata \<Rightarrow> gdata res" where
  "sub_map f field d =
     (case mget d field of
        VMap (Some datas) \<Rightarrow>
          rbind (rmap (\<lambda>(k, v). rbind (sub_value f v) (\<lambda>v'. Ok (k, v'))) datas)
            (\<lambda>datas'. Ok (map_option (mset_key field (VMap (Some datas'))) d))
      | _ \<Rightarrow> Ok d)"

definition sub_array :: "(gdata \<Rightarrow> gdata res) \<Rightarrow> string \<Rightarrow> gdata \<Rightarrow> gdata res" where
  "sub_array f field d =
     (case mget d field of
        VList datas \<Rightarrow>
          rbind (rmap (sub_value f) datas) (\<lambda>datas'. Ok (map_option (mset_key field (VList datas')) d))
      | _ \<Rightarrow> Ok d)"

definition set_default_type :: "string \<Rightarrow> gdata \<Rightarrow> gdata" where
  "set_default_type typeName d =
     (if mlookup d ''type'' = None then map_option (mset_key ''type'' (VStr typeName)) d else d)"

definition root_id :: "string \<Rightarrow> string \<Rightarrow> gdata \<Rightarrow> gdata" where
  "root_id name namespace d =
     (case mlookup d ''id'' of
        Some i \<Rightarrow>
          if namespace \<noteq> [] then map_option (mset_key ''id'' (VStr (namespace @ '':'' @ as_string i))) d else d
      | None \<Rightarrow>
          if name = [] then d
          else if namespace = [] then map_option (mset_key ''id'' (VStr name)) d
          else map_option (mset_key ''id'' (VStr (namespace @ '':'' @ name))) d)"

section \<open>From the stored form to the API form\<close>

lemma size_mapper_snd [termination_simp]:
  "(n, m) \<in> set xs \<Longrightarrow> size m \<le> size_list (size_prod (\<lambda>x. 0) size) xs"
  by (induction xs) auto

fun FromInternal :: "codecs \<Rightarrow> mapper \<Rightarrow> gdata \<Rightarrow> gdata res" where
  "FromInternal J (Mappers ms) d = rfold (\<lambda>m d'. FromInternal J m d') ms d"
| "FromInternal J (TypeMapper ms root typeName subs arrs maps) d =
     (let name = as_string (GetValueN d [''metadata'', ''name'']);
          namespace = as_string (GetValueN d [''metadata'', ''namespace'']) in
      rbind (rfold (\<lambda>(field, m) d'. sub_object (\<lambda>x. FromInternal J m x) field d') subs d) (\<lambda>d1.
      rbind (rfold (\<lambda>(field, m) d'. sub_map (\<lambda>x. FromInternal J m x) field d') maps d1) (\<lambda>d2.
      rbind (rfold (\<lambda>(field, m) d'. sub_array (\<lambda>x. FromInternal J m x) field d') arrs d2) (\<lambda>d3.
      rbind (rfold (\<lambda>m d'. FromInternal J m d') ms (set_default_type typeName d3)) (\<lambda>d4.
        let d5 = (if root then root_id name namespace d4 else d4)
        in Ok (if mlookup d5 ''id'' \<noteq> None then set_default_type typeName d5 else d5))))))"
| "FromInternal J (ScopeMapper i n ms run) d = (if run then rfold (\<lambda>m d'. FromInternal J m d') ms d else Ok d)"
| "FromInternal J (RenameReference ms) d = rfold (\<lambda>m d'. FromInternal J m d') ms d"
| "FromInternal J (Root enabled m) d = (if enabled then FromInternal J m d else Ok d)"
| "FromInternal J (CondMapper field value m) d =
     (case go_eq (mget d field) value of
        None \<Rightarrow> Panic
      | Some True \<Rightarrow> FromInternal J m d
      | Some False \<Rightarrow> Ok d)"
| "FromInternal J (AnnotationField field obj lst _) d = AnnotationField_FromInternal J field obj lst d"
| "FromInternal J (Base64 field _ sep) d = Base64_FromInternal J field sep d"
| "FromInternal J (BatchMove _ _ _ _ moves) d = rfold Move_FromInternal moves d"
| "FromInternal J (Copy from to) d = Copy_FromInternal from to d"
| "FromInternal J DisplayName d =
     rbind (Move_FromInternal (simple_move ''name'' ''id'') d) (Move_FromInternal (simple_move ''displayName'' ''name''))"
| "FromInternal J (Drop field _) d = Ok (mdelete d field)"
| "FromInternal J (EmbedMapper e) d = Embed_FromInternal e d"
| "FromInternal J (JSONEncode field _ sep) d = JSONEncode_FromInternal J field sep d"
| "FromInternal J (LabelField field) d = LabelField_FromInternal field d"
| "FromInternal J (MoveMapper m) d = Move_FromInternal m d"
| "FromInternal J PendingStatus d = Ok (PendingStatus_FromInternal d)"
| "FromInternal J (SetValue field to value ifEq _) d = SetValue_FromInternal field to value ifEq d"
| "FromInternal J (SliceMerge from to _) d = SliceMerge_FromInternal from to d"
| "FromInternal J (SliceToMap field key) d = SliceToMap_FromInternal field key d"
| "FromInternal J (UnionEmbed _ embeds) d = rfold (\<lambda>(_, e). Embed_FromInternal e) embeds d"
| "FromInternal J (UntypedMove from to sep) d = UntypedMove_FromInternal from to sep d"
| "FromInternal J (Access _ _) d = Ok d"
| "FromInternal J (APIGroup _ _) d = Ok d"
| "FromInternal J (ChangeType _ _) d = Ok d"
| "FromInternal J (Enum _ _) d = Ok d"
| "FromInternal J (ReadOnly _ _ _) d = Ok d"
| "FromInternal J (RequiredMapper _) d = Ok d"

section \<open>From the API form to the stored form\<close>

text \<open>
  The error and the data: an error does not stop the mappers that follow. The state of the loops is
  the pair of the errors so far and the data.
\<close>

definition no_error :: "gdata res \<Rightarrow> (err option \<times> gdata) res" where
  "no_error r = rbind r (\<lambda>d. Ok (None, d))"

definition collect :: "(gdata \<Rightarrow> (err option \<times> gdata) res) \<Rightarrow> err list \<times> gdata \<Rightarrow> (err list \<times> gdata) res" where
  "collect f s = rbind (f (snd s)) (\<lambda>(e, d). Ok (Errors_Add e (fst s), d))"

definition sub_value_to :: "(gdata \<Rightarrow> (err option \<times> gdata) res) \<Rightarrow> gval \<Rightarrow> err list \<Rightarrow> (err list \<times> gval) res" where
  "sub_value_to f v es =
     rbind (f (ToMapInterface v)) (\<lambda>(e, m). Ok (Errors_Add e es, case v of VMap _ \<Rightarrow> VMap m | _ \<Rightarrow> v))"

fun rmap_acc :: "('a \<Rightarrow> 's \<Rightarrow> ('s \<times> 'b) res) \<Rightarrow> 'a list \<Rightarrow> 's \<Rightarrow> ('s \<times> 'b list) res" where
  "rmap_acc f [] s = Ok (s, [])"
| "rmap_acc f (x # xs) s = rbind (f x s) (\<lambda>(s', y). rbind (rmap_acc f xs s') (\<lambda>(s'', ys). Ok (s'', y # ys)))"

definition sub_object_to :: "(gdata \<Rightarrow> (err option \<times> gdata) res) \<Rightarrow> string \<Rightarrow> err list \<times> gdata \<Rightarrow> (err list \<times> gdata) res" where
  "sub_object_to f field s =
     rbind (sub_value_to f (mget (snd s) field) (fst s))
       (\<lambda>(es, v). Ok (es, if mlookup (snd s) field = None then snd s else map_option (mset_key field v) (snd s)))"

definition sub_map_to :: "(gdata \<Rightarrow> (err option \<times> gdata) res) \<Rightarrow> string \<Rightarrow> err list \<times> gdata \<Rightarrow> (err list \<times> gdata) res" where
  "sub_map_to f field s =
     (case mget (snd s) field of
        VMap (Some datas) \<Rightarrow>
          rbind (rmap_acc (\<lambda>(k, v) es. rbind (sub_value_to f v es) (\<lambda>(es', v'). Ok (es', (k, v')))) datas (fst s))
            (\<lambda>(es, datas'). Ok (es, map_option (mset_key field (VMap (Some datas'))) (snd s)))
      | _ \<Rightarrow> Ok s)"

definition sub_array_to :: "(gdata \<Rightarrow> (err option \<times> gdata) res) \<Rightarrow> string \<Rightarrow> err list \<times> gdata \<Rightarrow> (err list \<times> gdata) res" where
  "sub_array_to f field s =
     (case mget (snd s) field of
        VList datas \<Rightarrow>
          rbind (rmap_acc (sub_value_to f) datas (fst s))
            (\<lambda>(es, datas'). Ok (es, map_option (mset_key field (VList datas')) (snd s)))
      | _ \<Rightarrow> Ok s)"

fun ToInternal :: "codecs \<Rightarrow> mapper \<Rightarrow> gdata \<Rightarrow> (err option \<times> gdata) res" where
  "ToInternal J (Mappers ms) d =
     rbind (rfold (\<lambda>m s. collect (\<lambda>x. ToInternal J m x) s) (rev ms) ([], d))
       (\<lambda>(es, d'). Ok (Errors_Err es, d'))"
| "ToInternal J (TypeMapper ms root typeName subs arrs maps) d =
     rbind (rfold (\<lambda>m s. collect (\<lambda>x. ToInternal J m x) s) (rev ms) ([], d)) (\<lambda>(es, d0).
     rbind (rfold (\<lambda>(field, m) s. sub_array_to (\<lambda>x. ToInternal J m x) field s) arrs (Errors_Add (Errors_Err es) [], d0)) (\<lambda>s1.
     rbind (rfold (\<lambda>(field, m) s. sub_map_to (\<lambda>x. ToInternal J m x) field s) maps s1) (\<lambda>s2.
     rbind (rfold (\<lambda>(field, m) s. sub_object_to (\<lambda>x. ToInternal J m x) field s) subs s2) (\<lambda>(es3, d3).
       Ok (Errors_Err es3, d3)))))"
| "ToInternal J (ScopeMapper i n ms run) d =
     (if run then rbind (rfold (\<lambda>m s. collect (\<lambda>x. ToInternal J m x) s) (rev ms) ([], d))
                    (\<lambda>(es, d'). Ok (Errors_Err es, d'))
      else Ok (None, d))"
| "ToInternal J (RenameReference ms) d =
     rbind (rfold (\<lambda>m s. collect (\<lambda>x. ToInternal J m x) s) (rev ms) ([], d))
       (\<lambda>(es, d'). Ok (Errors_Err es, d'))"
| "ToInternal J (Root enabled m) d = (if enabled then ToInternal J m d else Ok (None, d))"
| "ToInternal J (CondMapper field value m) d =
     (case go_eq (mget d field) value of
        None \<Rightarrow> Panic
      | Some True \<Rightarrow> ToInternal J m d
      | Some False \<Rightarrow> Ok (None, d))"
| "ToInternal J (AnnotationField field obj lst _) d = no_error (AnnotationField_ToInternal J field obj lst d)"
| "ToInternal J (APIGroup apiVersion kind) d = Ok (None, APIGroup_ToInternal apiVersion kind d)"
| "ToInternal J (Base64 field _ sep) d = no_error (Base64_ToInternal J field sep d)"
| "ToInternal J (BatchMove _ _ _ _ moves) d = no_error (rfold Move_ToInternal (rev moves) d)"
| "ToInternal J (Copy from to) d = no_error (Copy_ToInternal from to d)"
| "ToInternal J DisplayName d =
     no_error (rbind (Move_ToInternal (simple_move ''displayName'' ''name'') d) (Move_ToInternal (simple_move ''name'' ''id'')))"
| "ToInternal J (EmbedMapper e) d = Ok (None, Embed_ToInternal e d)"
| "ToInternal J (JSONEncode field _ sep) d = no_error (JSONEncode_ToInternal J field sep d)"
| "ToInternal J (LabelField field) d = no_error (LabelField_ToInternal field d)"
| "ToInternal J (MoveMapper m) d = no_error (Move_ToInternal m d)"
| "ToInternal J (SetValue field to value ifEq _) d = no_error (SetValue_ToInternal field to value ifEq d)"
| "ToInternal J (SliceToMap field key) d = no_error (SliceToMap_ToInternal field key d)"
| "ToInternal J (UnionEmbed mappings embeds) d = Ok (None, UnionEmbed_ToInternal mappings embeds d)"
| "ToInternal J (UntypedMove from to sep) d = no_error (UntypedMove_ToInternal from to sep d)"
| "ToInternal J (Drop _ _) d = Ok (None, d)"
| "ToInternal J PendingStatus d = Ok (None, d)"
| "ToInternal J (SliceMerge _ _ _) d = Ok (None, d)"
| "ToInternal J (Access _ _) d = Ok (None, d)"
| "ToInternal J (ChangeType _ _) d = Ok (None, d)"
| "ToInternal J (Enum _ _) d = Ok (None, d)"
| "ToInternal J (ReadOnly _ _ _) d = Ok (None, d)"
| "ToInternal J (RequiredMapper _) d = Ok (None, d)"

end
