(* ===== verification/Registry.thy ===== *)
theory Registry
  imports Mapper
begin

text \<open>
  API versions, schema fields and schemas of \<^verbatim>\<open>types/types.go\<close>, the methods of
  \<^verbatim>\<open>types/schema_funcs.go\<close> and the schema registry of \<^verbatim>\<open>types/schemas.go\<close>. Schemas are held by
  pointer in three places, the map by path, the list and the back references; here a pointer is an
  index into the list \<open>sheap\<close> of the registry and \<open>AddSchema\<close> allocates.

  A schema that is embedded into another makes adding and removing mutually recursive, and a schema
  that embeds into itself makes them run forever. The functions take fuel and return \<^const>\<open>None\<close> when
  it runs out. Embedding into a schema that is not itself embedded takes two levels of fuel, as \<open>embed_unembed\<close>
  states; a bound for longer chains of embeddings is not proved.
\<close>

section \<open>Data\<close>

record APIVersion =
  Group :: string
  Version :: string
  Path :: string
  SubContext :: bool
  SubContextSchema :: string

record field =
  FType :: string
  Default :: gval
  Nullable :: bool
  Create :: bool
  WriteOnly :: bool
  Required :: bool
  Update :: bool
  MinLength :: "int option"
  MaxLength :: "int option"
  FMin :: "int option"
  FMax :: "int option"
  Options :: "string list"
  ValidChars :: string
  InvalidChars :: string
  Description :: string
  FCodeName :: string
  DynamicField :: bool

definition field_zero :: field where
  "field_zero = \<lparr>FType = [], Default = VNil, Nullable = False, Create = False, WriteOnly = False, Required = False,
     Update = False, MinLength = None, MaxLength = None, FMin = None, FMax = None, Options = [], ValidChars = [],
     InvalidChars = [], Description = [], FCodeName = [], DynamicField = False\<rparr>"

record action =
  Input :: string
  Output :: string

type_synonym fields = "(string \<times> field) list"

text \<open>
  The internal schema of a schema is one without an internal schema and a mapper of its own, so the
  pointer to it is a value of the core record.
\<close>

record schema_core =
  ID :: string
  Embed :: bool
  EmbedType :: string
  SCodeName :: string
  CodeNamePlural :: string
  PkgName :: string
  SType :: string
  BaseType :: string
  Links :: "(string \<times> string) list"
  SVersion :: APIVersion
  PluralName :: string
  ResourceMethods :: "string list"
  ResourceFields :: fields
  ResourceActions :: "(string \<times> action) list"
  CollectionMethods :: "string list"
  CollectionFields :: fields
  CollectionActions :: "(string \<times> action) list"
  CollectionFilters :: "(string \<times> string list) list"
  DynamicSchemaVersion :: string
  Scope :: string

record Schema = schema_core +
  InternalSchema :: "schema_core option"
  SMapper :: "mapper option"

definition version_zero :: APIVersion where
  "version_zero = \<lparr>Group = [], Version = [], Path = [], SubContext = False, SubContextSchema = []\<rparr>"

definition schema_zero :: Schema where
  "schema_zero = \<lparr>ID = [], Embed = False, EmbedType = [], SCodeName = [], CodeNamePlural = [], PkgName = [],
     SType = [], BaseType = [], Links = [], SVersion = version_zero, PluralName = [], ResourceMethods = [],
     ResourceFields = [], ResourceActions = [], CollectionMethods = [], CollectionFields = [],
     CollectionActions = [], CollectionFilters = [], DynamicSchemaVersion = [], Scope = [],
     InternalSchema = None, SMapper = None\<rparr>"

section \<open>Methods of schemas\<close>

definition MustCustomizeField :: "Schema \<Rightarrow> string \<Rightarrow> (field \<Rightarrow> field) \<Rightarrow> Schema res" where
  "MustCustomizeField s name f =
     (case map_of (ResourceFields s) name of
        None \<Rightarrow> Panic
      | Some fd \<Rightarrow> Ok (s\<lparr>ResourceFields := mset_key name (f fd) (ResourceFields s)\<rparr>))"

definition APIVersion_Equals :: "APIVersion \<Rightarrow> APIVersion \<Rightarrow> bool" where
  "APIVersion_Equals v w \<longleftrightarrow> Version v = Version w \<and> Group v = Group w \<and> Path v = Path w"

text \<open>The checks with a nil context; with one they ask its access control.\<close>

definition CanList :: "'a schema_core_scheme \<Rightarrow> err option" where
  "CanList s = (if ContainsString (CollectionMethods s) ''GET'' then None
                else Some (NewAPIError PermissionDenied (''can not list '' @ ID s)))"

definition CanGet :: "'a schema_core_scheme \<Rightarrow> err option" where
  "CanGet s = (if ContainsString (ResourceMethods s) ''GET'' then None
               else Some (NewAPIError PermissionDenied (''can not get '' @ ID s)))"

definition CanCreate :: "'a schema_core_scheme \<Rightarrow> err option" where
  "CanCreate s = (if ContainsString (CollectionMethods s) ''POST'' then None
                  else Some (NewAPIError PermissionDenied (''can not create '' @ ID s)))"

definition CanUpdate :: "'a schema_core_scheme \<Rightarrow> err option" where
  "CanUpdate s = (if ContainsString (ResourceMethods s) ''PUT'' then None
                  else Some (NewAPIError PermissionDenied (''can not update '' @ ID s)))"

definition CanDelete :: "'a schema_core_scheme \<Rightarrow> err option" where
  "CanDelete s = (if ContainsString (ResourceMethods s) ''DELETE'' then None
                  else Some (NewAPIError PermissionDenied (''can not delete '' @ ID s)))"

section \<open>The registry\<close>

type_synonym ref = nat

record Schemas =
  sheap :: "Schema list"
  schemasByPath :: "(string \<times> (string \<times> ref) list) list"
  mappers :: "(string \<times> (string \<times> mapper list) list) list"
  references :: "(string \<times> (string \<times> ref) list) list"
  versions :: "APIVersion list"
  schemas :: "ref list"
  AddHook :: "(Schema \<Rightarrow> Schema) option"
  serrors :: "err list"

definition NewSchemas :: Schemas where
  "NewSchemas = \<lparr>sheap = [], schemasByPath = [], mappers = [], references = [], versions = [], schemas = [],
                 AddHook = None, serrors = []\<rparr>"

definition Schemas_Err :: "Schemas \<Rightarrow> err option" where
  "Schemas_Err s = NewErrors (map Some (serrors s))"

definition deref :: "Schemas \<Rightarrow> ref \<Rightarrow> Schema" where
  "deref s r = sheap s ! r"

text \<open>The entry of a Go map that is itself a map; reading a missing one gives nil.\<close>

definition sub_entries :: "'k \<Rightarrow> ('k \<times> ('j \<times> 'v) list) list \<Rightarrow> ('j \<times> 'v) list" where
  "sub_entries k m = (case map_of m k of None \<Rightarrow> [] | Some x \<Rightarrow> x)"

definition schema_path :: "APIVersion option \<Rightarrow> string \<Rightarrow> string \<times> string" where
  "schema_path v name =
     (if str_contains name ''/schemas/'' then
        (let parts = split_n2 name ''/schemas/'' in (parts ! 0, parts ! 1))
      else case v of Some w \<Rightarrow> (Path w, name) | None \<Rightarrow> (''core'', name))"

definition doSchema :: "Schemas \<Rightarrow> APIVersion option \<Rightarrow> string \<Rightarrow> ref option" where
  "doSchema s v name =
     (case schema_path v name of (path, nm) \<Rightarrow>
        case map_of (schemasByPath s) path of
          None \<Rightarrow> None
        | Some m \<Rightarrow>
            (case map_of m nm of
               Some r \<Rightarrow> Some r
             | None \<Rightarrow>
                 map_option snd
                   (find (\<lambda>(_, r). equal_fold (ID (deref s r)) nm \<or> equal_fold (PluralName (deref s r)) nm) m)))"

definition Schema_of :: "Schemas \<Rightarrow> APIVersion option \<Rightarrow> string \<Rightarrow> Schema option" where
  "Schema_of s v name = map_option (deref s) (doSchema s v name)"

definition SchemasForVersion :: "Schemas \<Rightarrow> APIVersion \<Rightarrow> (string \<times> ref) list" where
  "SchemasForVersion s v = sub_entries (Path v) (schemasByPath s)"

definition References :: "Schemas \<Rightarrow> Schema \<Rightarrow> (string \<times> ref) list" where
  "References s schema = sub_entries (ToFullReference (Path (SVersion schema)) (ID schema)) (references s)"

definition SubContextVersionForSchema :: "Schemas \<Rightarrow> Schema \<Rightarrow> APIVersion option" where
  "SubContextVersionForSchema s schema =
     find (\<lambda>v. SubContextSchema v = Path (SVersion schema) @ ''/schemas/'' @ ID schema) (versions s)"

definition AddMapper :: "Schemas \<Rightarrow> APIVersion \<Rightarrow> string \<Rightarrow> mapper \<Rightarrow> Schemas" where
  "AddMapper s v schemaID m =
     (let ms = sub_entries (Path v) (mappers s);
          old = (case map_of ms schemaID of None \<Rightarrow> [] | Some l \<Rightarrow> l)
      in s\<lparr>mappers := mset_key (Path v) (mset_key schemaID (old @ [m]) ms) (mappers s)\<rparr>)"

definition mapper_of :: "Schemas \<Rightarrow> APIVersion option \<Rightarrow> string \<Rightarrow> mapper list" where
  "mapper_of s v name =
     (let (path, nm) = (if str_contains name ''/'' then
                          (case str_last_index name ''/'' of
                             Some i \<Rightarrow> (take i name, drop (i + 1) name)
                           | None \<Rightarrow> (name, name))
                        else case v of Some w \<Rightarrow> (Path w, name) | None \<Rightarrow> (''core'', name))
      in case map_of (mappers s) path of
           None \<Rightarrow> []
         | Some ms \<Rightarrow> (case map_of ms nm of None \<Rightarrow> [] | Some l \<Rightarrow> l))"

subsection \<open>Adding and removing\<close>

text \<open>
  The message of the first error prints the whole schema with \<^verbatim>\<open>%v\<close>; here it ends after the colon.
\<close>

definition setupDefaults :: "Schema \<Rightarrow> Schemas \<Rightarrow> Schema \<times> Schemas" where
  "setupDefaults schema s =
     (let schema = schema\<lparr>SType := ''/meta/schemas/schema''\<rparr> in
      if ID schema = [] then (schema, s\<lparr>serrors := serrors s @ [PlainErr ''ID is not set on schema: '']\<rparr>)
      else if Path (SVersion schema) = [] \<or> Version (SVersion schema) = [] then
        (schema, s\<lparr>serrors := serrors s @ [PlainErr (''version is not set on schema: '' @ ID schema)]\<rparr>)
      else
        let s1 = schema\<lparr>PluralName := (if PluralName schema = [] then GuessPluralName (ID schema) else PluralName schema)\<rparr>;
            s2 = s1\<lparr>SCodeName := (if SCodeName s1 = [] then Capitalize (ID s1) else SCodeName s1)\<rparr>;
            s3 = s2\<lparr>CodeNamePlural := (if CodeNamePlural s2 = [] then GuessPluralName (SCodeName s2) else CodeNamePlural s2)\<rparr>;
            s4 = s3\<lparr>BaseType := (if BaseType s3 = [] then ID s3 else BaseType s3)\<rparr>
        in (s4, s))"

definition ref_type :: "string \<Rightarrow> string \<Rightarrow> string" where
  "ref_type path ty = (let refType = SubType ty in if has_prefix refType ''/'' then refType else ToFullReference path refType)"

definition addReferences :: "ref \<Rightarrow> Schemas \<Rightarrow> Schemas" where
  "addReferences r s =
     (let schema = deref s r
      in s\<lparr>references := fold (\<lambda>(name, fd) refs.
             if \<not> IsReferenceType (FType fd) then refs
             else let ty = ref_type (Path (SVersion schema)) (FType fd)
                  in mset_key ty (sub_entries ty refs @ [(name, r)]) refs)
           (ResourceFields schema) (references s)\<rparr>)"

definition same_schema :: "Schemas \<Rightarrow> Schema \<Rightarrow> string \<times> ref \<Rightarrow> bool" where
  "same_schema s schema b \<longleftrightarrow>
     ID (deref s (snd b)) = ID schema \<and> Path (SVersion (deref s (snd b))) = Path (SVersion schema)"

definition removeReferences :: "Schema \<Rightarrow> Schemas \<Rightarrow> Schemas" where
  "removeReferences schema s =
     s\<lparr>references := map (\<lambda>(name, values). (name, filter (\<lambda>b. \<not> same_schema s schema b) values)) (references s)\<rparr>"

fun replace_first :: "('a \<Rightarrow> bool) \<Rightarrow> 'a \<Rightarrow> 'a list \<Rightarrow> 'a list" where
  "replace_first P y [] = []"
| "replace_first P y (x # xs) = (if P x then y # xs else x # replace_first P y xs)"

text \<open>The part of \<^verbatim>\<open>doAddSchema\<close> before the embedding: default values, hook, version and store.\<close>

definition ensure_path :: "APIVersion \<Rightarrow> Schemas \<Rightarrow> Schemas" where
  "ensure_path v s =
     (if map_of (schemasByPath s) (Path v) = None
      then s\<lparr>schemasByPath := mset_key (Path v) [] (schemasByPath s), versions := versions s @ [v]\<rparr>
      else s)"

definition store_schema :: "Schema \<Rightarrow> bool \<Rightarrow> Schemas \<Rightarrow> Schemas" where
  "store_schema schema replace s =
     (let path = Path (SVersion schema);
          m = sub_entries path (schemasByPath s)
      in if (case map_of m (ID schema) of
               None \<Rightarrow> True
             | Some old \<Rightarrow> replace \<and> DynamicSchemaVersion schema \<noteq> DynamicSchemaVersion (deref s old))
         then let r = length (sheap s);
                  s1 = s\<lparr>sheap := sheap s @ [schema],
                         schemasByPath := mset_key path (mset_key (ID schema) r m) (schemasByPath s),
                         schemas := (if replace then replace_first (\<lambda>c. ID (deref s c) = ID schema) r (schemas s)
                                     else schemas s @ [r])\<rparr>
              in if Embed schema then s1 else addReferences r s1
         else s)"

definition drop_schema :: "Schema \<Rightarrow> Schemas \<Rightarrow> Schemas" where
  "drop_schema schema s =
     (let path = Path (SVersion schema)
      in removeReferences schema
           (if map_of (schemasByPath s) path = None then s
            else s\<lparr>schemasByPath := mset_key path (mdel_key (ID schema) (sub_entries path (schemasByPath s))) (schemasByPath s)\<rparr>))"

definition hooked :: "Schema \<Rightarrow> Schemas \<Rightarrow> Schema" where
  "hooked schema s = (case AddHook s of None \<Rightarrow> schema | Some h \<Rightarrow> h schema)"

text \<open>The fields of the target after a schema is embedded into it or taken out of it.\<close>

definition embed_into :: "Schema \<Rightarrow> Schema \<Rightarrow> Schema" where
  "embed_into schema target =
     target\<lparr>ResourceFields := put_all (ResourceFields schema) (filter (\<lambda>(k, v). \<not> DynamicField v) (ResourceFields target))\<rparr>"

definition unembed_from :: "Schema \<Rightarrow> Schema \<Rightarrow> Schema" where
  "unembed_from schema target =
     target\<lparr>ResourceFields := del_all (map fst (ResourceFields schema)) (ResourceFields target)\<rparr>"

definition put_schema :: "Schema \<Rightarrow> bool \<Rightarrow> Schemas \<Rightarrow> Schema \<times> Schemas" where
  "put_schema schema replace s =
     (case setupDefaults schema s of
        (schema1, s1) \<Rightarrow>
          let schema2 = hooked schema1 s1
          in (schema2, store_schema schema2 replace (ensure_path (SVersion schema2) s1)))"

fun doRemoveSchema :: "nat \<Rightarrow> Schema \<Rightarrow> Schemas \<Rightarrow> Schemas option"
  and removeEmbed :: "nat \<Rightarrow> Schema \<Rightarrow> Schemas \<Rightarrow> Schemas option"
  and doAddSchema :: "nat \<Rightarrow> Schema \<Rightarrow> bool \<Rightarrow> Schemas \<Rightarrow> Schemas option"
  and embed_schema :: "nat \<Rightarrow> Schema \<Rightarrow> Schemas \<Rightarrow> Schemas option" where
  "doRemoveSchema n schema s =
     (if Embed schema then (case n of 0 \<Rightarrow> None | Suc k \<Rightarrow> removeEmbed k schema (drop_schema schema s))
      else Some (drop_schema schema s))"
| "removeEmbed n schema s =
     (case doSchema s (Some (SVersion schema)) (EmbedType schema) of
        None \<Rightarrow> Some s
      | Some t \<Rightarrow>
          (case n of
             0 \<Rightarrow> None
           | Suc k \<Rightarrow>
               Option.bind (doRemoveSchema k (deref s t) s) (doAddSchema k (unembed_from schema (deref s t)) False)))"
| "doAddSchema n schema replace s =
     (case put_schema schema replace s of
        (schema', s') \<Rightarrow>
          if Embed schema' then (case n of 0 \<Rightarrow> None | Suc k \<Rightarrow> embed_schema k schema' s') else Some s')"
| "embed_schema n schema s =
     (case doSchema s (Some (SVersion schema)) (EmbedType schema) of
        None \<Rightarrow> Some s
      | Some t \<Rightarrow>
          (case n of
             0 \<Rightarrow> None
           | Suc k \<Rightarrow>
               Option.bind (doRemoveSchema k (deref s t) s) (doAddSchema k (embed_into schema (deref s t)) False)))"

declare doRemoveSchema.simps [simp del] removeEmbed.simps [simp del] doAddSchema.simps [simp del] embed_schema.simps [simp del]

definition AddSchema :: "nat \<Rightarrow> Schema \<Rightarrow> Schemas \<Rightarrow> Schemas option" where
  "AddSchema n schema s = doAddSchema n schema False s"

definition ForceAddSchema :: "nat \<Rightarrow> Schema \<Rightarrow> Schemas \<Rightarrow> Schemas option" where
  "ForceAddSchema n schema s = doAddSchema n schema True s"

definition RemoveSchema :: "nat \<Rightarrow> Schema \<Rightarrow> Schemas \<Rightarrow> Schemas option" where
  "RemoveSchema n schema s = doRemoveSchema n schema s"

fun AddSchemas_loop :: "nat \<Rightarrow> Schema list \<Rightarrow> Schemas \<Rightarrow> Schemas option" where
  "AddSchemas_loop n [] s = Some s"
| "AddSchemas_loop n (x # xs) s = Option.bind (AddSchema n x s) (AddSchemas_loop n xs)"

definition AddSchemas :: "nat \<Rightarrow> Schemas \<Rightarrow> Schemas \<Rightarrow> Schemas option" where
  "AddSchemas n other s = AddSchemas_loop n (map (deref other) (schemas other)) s"

section \<open>The registry invariant\<close>

text \<open>The pointer under a path and an ID.\<close>

definition registered :: "Schemas \<Rightarrow> string \<Rightarrow> string \<Rightarrow> ref option" where
  "registered s path i = map_of (sub_entries path (schemasByPath s)) i"

text \<open>
  The maps have distinct keys; a schema is filed under its own path and ID; a back reference points to a
  schema whose path and ID are registered; the list points into the heap; and the versions are those of
  the paths, in order.
\<close>

definition keys_ok :: "Schemas \<Rightarrow> bool" where
  "keys_ok s \<longleftrightarrow> gkeys (schemasByPath s) \<and> (\<forall>(p, m) \<in> set (schemasByPath s). gkeys m)"

definition filed_ok :: "Schemas \<Rightarrow> bool" where
  "filed_ok s \<longleftrightarrow> (\<forall>p i r. registered s p i = Some r \<longrightarrow>
     r < length (sheap s) \<and> ID (deref s r) = i \<and> Path (SVersion (deref s r)) = p)"

definition backref_ok :: "Schemas \<Rightarrow> string \<times> ref \<Rightarrow> bool" where
  "backref_ok s b \<longleftrightarrow> snd b < length (sheap s) \<and>
     registered s (Path (SVersion (deref s (snd b)))) (ID (deref s (snd b))) \<noteq> None"

definition backrefs_ok :: "Schemas \<Rightarrow> bool" where
  "backrefs_ok s \<longleftrightarrow> (\<forall>(k, bs) \<in> set (references s). \<forall>b \<in> set bs. backref_ok s b)"

definition reg_ok :: "Schemas \<Rightarrow> bool" where
  "reg_ok s \<longleftrightarrow> keys_ok s \<and> filed_ok s \<and> backrefs_ok s \<and> (\<forall>r \<in> set (schemas s). r < length (sheap s))
     \<and> map Path (versions s) = map fst (schemasByPath s)"

named_theorems registry

lemma sub_entries_mset_key [registry]:
  "sub_entries k (mset_key k' x m) = (if k = k' then x else sub_entries k m)"
  by (simp add: sub_entries_def go_map)

lemma set_mset_key: "x \<in> set (mset_key k v m) \<Longrightarrow> x = (k, v) \<or> x \<in> set m"
  by (induction m) (auto split: if_splits)

lemma gkeys_sub_entries: "keys_ok s \<Longrightarrow> gkeys (sub_entries p (schemasByPath s))"
  by (auto simp: keys_ok_def sub_entries_def gkeys_def split: option.splits dest!: map_of_SomeD)

lemma keys_ok_put:
  "keys_ok s \<Longrightarrow> gkeys x \<Longrightarrow> schemasByPath s' = mset_key p x (schemasByPath s) \<Longrightarrow> keys_ok s'"
  by (auto simp: keys_ok_def registry dest!: set_mset_key)

lemma map_fst_mset_key: "map_of m k \<noteq> None \<Longrightarrow> map fst (mset_key k v m) = map fst m"
  by (induction m) (auto split: if_splits)

lemma map_fst_mset_key_new: "map_of m k = None \<Longrightarrow> map fst (mset_key k v m) = map fst m @ [k]"
  by (induction m) (auto split: if_splits)

lemma deref_append [registry]: "sheap s' = sheap s @ x \<Longrightarrow> r < length (sheap s) \<Longrightarrow> deref s' r = deref s r"
  by (simp add: deref_def nth_append)

lemma deref_same [registry]: "sheap s' = sheap s \<Longrightarrow> deref s' r = deref s r"
  by (simp add: deref_def)

lemma reg_okI:
  assumes "keys_ok s" "filed_ok s" "backrefs_ok s" "\<And>r. r \<in> set (schemas s) \<Longrightarrow> r < length (sheap s)"
    and "map Path (versions s) = map fst (schemasByPath s)"
  shows "reg_ok s"
  using assms by (simp add: reg_ok_def)

lemma reg_okD:
  assumes "reg_ok s"
  shows "keys_ok s" "filed_ok s" "backrefs_ok s" "r \<in> set (schemas s) \<Longrightarrow> r < length (sheap s)"
    and "map Path (versions s) = map fst (schemasByPath s)"
  using assms by (simp_all add: reg_ok_def)

lemma filed_okD:
  "filed_ok s \<Longrightarrow> registered s p i = Some r \<Longrightarrow> r < length (sheap s) \<and> ID (deref s r) = i \<and> Path (SVersion (deref s r)) = p"
  by (simp add: filed_ok_def)

text \<open>What does not touch the heap, the paths and the references keeps the invariant.\<close>

lemma reg_ok_frame:
  assumes "reg_ok s" "sheap s' = sheap s" "schemasByPath s' = schemasByPath s" "references s' = references s"
    and "schemas s' = schemas s" "versions s' = versions s"
  shows "reg_ok s'"
  using assms by (simp add: reg_ok_def keys_ok_def filed_ok_def backrefs_ok_def backref_ok_def registered_def deref_def)

lemma reg_ok_setupDefaults: "reg_ok s \<Longrightarrow> reg_ok (snd (setupDefaults schema s))"
  by (erule reg_ok_frame) (simp_all add: setupDefaults_def Let_def)

lemma registered_ensure_path: "registered (ensure_path v s) p i = registered s p i"
  by (auto simp: registered_def ensure_path_def registry sub_entries_def go_map)

lemma ensure_path_simps [simp]:
  "sheap (ensure_path v s) = sheap s" "references (ensure_path v s) = references s"
  "schemas (ensure_path v s) = schemas s" "AddHook (ensure_path v s) = AddHook s"
  by (simp_all add: ensure_path_def)

lemma reg_ok_ensure_path: assumes "reg_ok s" shows "reg_ok (ensure_path v s)"
proof (rule reg_okI)
  show "keys_ok (ensure_path v s)"
  proof (cases "map_of (schemasByPath s) (Path v) = None")
    case True
    show ?thesis
      by (rule keys_ok_put [OF reg_okD(1) [OF assms], where x = "[]" and p = "Path v"])
         (simp_all add: ensure_path_def True gkeys_def)
  next
    case False
    then have "ensure_path v s = s" by (simp add: ensure_path_def del: not_None_eq)
    with reg_okD(1) [OF assms] show ?thesis by simp
  qed
  show "filed_ok (ensure_path v s)"
    using reg_okD(2) [OF assms] by (simp add: filed_ok_def registered_ensure_path deref_def)
  show "backrefs_ok (ensure_path v s)"
    using reg_okD(3) [OF assms] by (simp add: backrefs_ok_def backref_ok_def registered_ensure_path deref_def)
  show "r < length (sheap (ensure_path v s))" if "r \<in> set (schemas (ensure_path v s))" for r
    using reg_okD(4) [OF assms] that by simp
  show "map Path (versions (ensure_path v s)) = map fst (schemasByPath (ensure_path v s))"
    using reg_okD(5) [OF assms] by (simp add: ensure_path_def map_fst_mset_key_new)
qed

definition refs_from :: "Schemas \<Rightarrow> (string \<times> (string \<times> ref) list) list \<Rightarrow> bool" where
  "refs_from s refs \<longleftrightarrow> (\<forall>(k, bs) \<in> set refs. \<forall>b \<in> set bs. backref_ok s b)"

lemma refs_from_put: "refs_from s refs \<Longrightarrow> backref_ok s b \<Longrightarrow> refs_from s (mset_key k (sub_entries k refs @ [b]) refs)"
  by (fastforce simp: refs_from_def sub_entries_def split: option.splits dest!: set_mset_key map_of_SomeD)

lemma refs_from_fold:
  "refs_from s refs \<Longrightarrow> (\<And>name. backref_ok s (name, r)) \<Longrightarrow>
   refs_from s (fold (\<lambda>(name, fd) refs. if \<not> P fd then refs
                        else let ty = f fd in mset_key ty (sub_entries ty refs @ [(name, r)]) refs) fds refs)"
proof (induction fds arbitrary: refs)
  case (Cons x xs)
  then show ?case by (cases x) (simp add: Let_def refs_from_put)
qed simp

lemma addReferences_simps [simp]:
  "sheap (addReferences r s) = sheap s" "schemasByPath (addReferences r s) = schemasByPath s"
  "schemas (addReferences r s) = schemas s" "versions (addReferences r s) = versions s"
  "AddHook (addReferences r s) = AddHook s"
  by (simp_all add: addReferences_def Let_def)

lemma reg_ok_addReferences:
  assumes "reg_ok s" "registered s (Path (SVersion (deref s r))) (ID (deref s r)) \<noteq> None" "r < length (sheap s)"
  shows "reg_ok (addReferences r s)"
proof (rule reg_okI)
  let ?t = "addReferences r s"
  have same: "registered ?t = registered s" "deref ?t = deref s"
    by (simp_all add: registered_def deref_def fun_eq_iff)
  show "keys_ok ?t" using reg_okD(1) [OF assms(1)] by (simp add: keys_ok_def)
  show "filed_ok ?t" using reg_okD(2) [OF assms(1)] by (simp add: filed_ok_def same)
  have "refs_from s (references s)" using reg_okD(3) [OF assms(1)] by (simp add: backrefs_ok_def refs_from_def)
  moreover have "backref_ok s (name, r)" for name using assms(2,3) by (simp add: backref_ok_def)
  ultimately have "refs_from s (references ?t)"
    unfolding addReferences_def Let_def by (simp add: refs_from_fold [unfolded Let_def])
  then show "backrefs_ok ?t" by (simp add: backrefs_ok_def refs_from_def backref_ok_def same)
  show "x < length (sheap ?t)" if "x \<in> set (schemas ?t)" for x using reg_okD(4) [OF assms(1)] that by simp
  show "map Path (versions ?t) = map fst (schemasByPath ?t)" using reg_okD(5) [OF assms(1)] by simp
qed

lemma set_replace_first: "x \<in> set (replace_first P y xs) \<Longrightarrow> x = y \<or> x \<in> set xs"
  by (induction xs) (auto split: if_splits)

text \<open>Filing a new schema, without the back references.\<close>

definition filed :: "Schema \<Rightarrow> ref list \<Rightarrow> Schemas \<Rightarrow> Schemas" where
  "filed schema l s =
     (let path = Path (SVersion schema)
      in s\<lparr>sheap := sheap s @ [schema],
           schemasByPath := mset_key path (mset_key (ID schema) (length (sheap s)) (sub_entries path (schemasByPath s))) (schemasByPath s),
           schemas := l\<rparr>)"

lemma filed_simps [simp]:
  "sheap (filed schema l s) = sheap s @ [schema]" "references (filed schema l s) = references s"
  "schemas (filed schema l s) = l" "versions (filed schema l s) = versions s" "AddHook (filed schema l s) = AddHook s"
  by (simp_all add: filed_def Let_def)

lemma registered_filed [registry]:
  "registered (filed schema l s) p i =
     (if p = Path (SVersion schema) \<and> i = ID schema then Some (length (sheap s)) else registered s p i)"
  by (simp add: registered_def filed_def Let_def registry go_map)

lemma reg_ok_filed:
  assumes "reg_ok s" "map_of (schemasByPath s) (Path (SVersion schema)) \<noteq> None"
    and "\<And>r. r \<in> set l \<Longrightarrow> r \<in> set (schemas s) \<or> r = length (sheap s)"
  shows "reg_ok (filed schema l s)"
proof (rule reg_okI)
  let ?t = "filed schema l s"
  have old: "deref ?t r = deref s r" if "r < length (sheap s)" for r using that by (simp add: deref_def nth_append)
  have new: "deref ?t (length (sheap s)) = schema" by (simp add: deref_def)
  show "keys_ok ?t"
    by (rule keys_ok_put [OF reg_okD(1) [OF assms(1)]])
       (auto simp: filed_def Let_def intro: gkeys_mset_key gkeys_sub_entries reg_okD(1) [OF assms(1)])
  show "filed_ok ?t"
    unfolding filed_ok_def
    using filed_okD [OF reg_okD(2) [OF assms(1)]] by (auto simp: registered_filed new old less_Suc_eq)
  have "backref_ok ?t b" if "backref_ok s b" for b
    using that old [of "snd b"] by (auto simp: backref_ok_def registered_filed)
  with reg_okD(3) [OF assms(1)] show "backrefs_ok ?t" by (fastforce simp: backrefs_ok_def)
  show "x < length (sheap ?t)" if "x \<in> set (schemas ?t)" for x
    using assms(3) reg_okD(4) [OF assms(1)] that by (fastforce simp: less_Suc_eq)
  show "map Path (versions ?t) = map fst (schemasByPath ?t)"
    using reg_okD(5) [OF assms(1)] assms(2) by (simp add: filed_def Let_def map_fst_mset_key)
qed

lemma store_schema_filed:
  "store_schema schema replace s =
     (if (case registered s (Path (SVersion schema)) (ID schema) of
            None \<Rightarrow> True
          | Some old \<Rightarrow> replace \<and> DynamicSchemaVersion schema \<noteq> DynamicSchemaVersion (deref s old))
      then let t = filed schema (if replace then replace_first (\<lambda>c. ID (deref s c) = ID schema) (length (sheap s)) (schemas s)
                                 else schemas s @ [length (sheap s)]) s
           in if Embed schema then t else addReferences (length (sheap s)) t
      else s)"
  by (simp add: store_schema_def filed_def registered_def Let_def)

lemma reg_ok_store_schema:
  assumes "reg_ok s" "map_of (schemasByPath s) (Path (SVersion schema)) \<noteq> None"
  shows "reg_ok (store_schema schema replace s)"
proof -
  define l where "l = (if replace then replace_first (\<lambda>c. ID (deref s c) = ID schema) (length (sheap s)) (schemas s)
                       else schemas s @ [length (sheap s)])"
  have ok: "reg_ok (filed schema l s)"
    by (rule reg_ok_filed [OF assms]) (auto simp: l_def split: if_splits dest!: set_replace_first)
  have d: "deref (filed schema l s) (length (sheap s)) = schema" by (simp add: deref_def)
  have "reg_ok (addReferences (length (sheap s)) (filed schema l s))"
    by (rule reg_ok_addReferences [OF ok]) (simp_all add: d registered_filed)
  with ok assms(1) show ?thesis by (simp add: store_schema_filed l_def [symmetric] Let_def)
qed

lemma ensure_path_has: "map_of (schemasByPath (ensure_path v s)) (Path v) \<noteq> None"
  by (auto simp: ensure_path_def go_map)

lemma drop_schema_simps [simp]:
  "sheap (drop_schema schema s) = sheap s" "schemas (drop_schema schema s) = schemas s"
  "versions (drop_schema schema s) = versions s" "AddHook (drop_schema schema s) = AddHook s"
  "serrors (drop_schema schema s) = serrors s"
  by (simp_all add: drop_schema_def removeReferences_def Let_def)

lemma registered_drop [registry]:
  "registered (drop_schema schema s) p i =
     (if p = Path (SVersion schema) \<and> i = ID schema then None else registered s p i)"
  by (auto simp: registered_def drop_schema_def removeReferences_def Let_def sub_entries_def go_map split: option.splits)

lemma paths_drop:
  "schemasByPath (drop_schema schema s) =
     (if map_of (schemasByPath s) (Path (SVersion schema)) = None then schemasByPath s
      else mset_key (Path (SVersion schema)) (mdel_key (ID schema) (sub_entries (Path (SVersion schema)) (schemasByPath s)))
             (schemasByPath s))"
  by (simp add: drop_schema_def removeReferences_def Let_def)

lemma references_drop:
  "references (drop_schema schema s) =
     map (\<lambda>(name, values). (name, filter (\<lambda>b. \<not> same_schema s schema b) values)) (references s)"
  by (simp add: drop_schema_def removeReferences_def Let_def same_schema_def deref_def)

lemma reg_ok_drop_schema: assumes "reg_ok s" shows "reg_ok (drop_schema schema s)"
proof (rule reg_okI)
  let ?t = "drop_schema schema s"
  have d: "deref ?t = deref s" by (simp add: deref_def fun_eq_iff)
  show "keys_ok ?t"
  proof (cases "map_of (schemasByPath s) (Path (SVersion schema)) = None")
    case True
    then show ?thesis using reg_okD(1) [OF assms] by (simp add: keys_ok_def paths_drop)
  next
    case False
    show ?thesis
      by (rule keys_ok_put [OF reg_okD(1) [OF assms] gkeys_mdel_key [OF gkeys_sub_entries [OF reg_okD(1) [OF assms]]]])
         (simp add: paths_drop False del: not_None_eq)
  qed
  show "filed_ok ?t"
    unfolding filed_ok_def using filed_okD [OF reg_okD(2) [OF assms]] by (simp add: registered_drop d)
  show "backrefs_ok ?t"
    using reg_okD(3) [OF assms]
    by (fastforce simp: backrefs_ok_def references_drop backref_ok_def same_schema_def registered_drop d)
  show "x < length (sheap ?t)" if "x \<in> set (schemas ?t)" for x using reg_okD(4) [OF assms] that by simp
  show "map Path (versions ?t) = map fst (schemasByPath ?t)"
    using reg_okD(5) [OF assms] by (simp add: paths_drop map_fst_mset_key)
qed

lemma reg_ok_put_schema: "reg_ok s \<Longrightarrow> reg_ok (snd (put_schema schema replace s))"
  using reg_ok_setupDefaults [of s schema]
  by (auto simp: put_schema_def Let_def split: prod.splits
           intro!: reg_ok_store_schema reg_ok_ensure_path ensure_path_has)

text \<open>
  An invariant of the two primitive steps is one of adding and removing with any embedding, whatever the
  fuel.
\<close>

locale registry_invariant =
  fixes I :: "Schemas \<Rightarrow> bool"
  assumes put_step: "I s \<Longrightarrow> I (snd (put_schema schema replace s))"
    and drop_step: "I s \<Longrightarrow> I (drop_schema schema s)"
begin

lemma recursion_keeps:
  "(\<forall>schema s s'. I s \<longrightarrow> doRemoveSchema n schema s = Some s' \<longrightarrow> I s') \<and>
   (\<forall>schema s s'. I s \<longrightarrow> removeEmbed n schema s = Some s' \<longrightarrow> I s') \<and>
   (\<forall>schema replace s s'. I s \<longrightarrow> doAddSchema n schema replace s = Some s' \<longrightarrow> I s') \<and>
   (\<forall>schema s s'. I s \<longrightarrow> embed_schema n schema s = Some s' \<longrightarrow> I s')"
proof (induction n)
  case 0
  have rem: "I s'" if "I s" "doRemoveSchema 0 schema s = Some s'" for schema s s'
    using that drop_step [of s schema] by (simp add: doRemoveSchema.simps split: if_splits)
  have rem_embed: "I s'" if "I s" "removeEmbed 0 schema s = Some s'" for schema s s'
    using that by (simp add: removeEmbed.simps split: option.splits)
  have add: "I s'" if "I s" "doAddSchema 0 schema replace s = Some s'" for schema replace s s'
    using that put_step [of s schema replace]
    by (cases "put_schema schema replace s") (simp add: doAddSchema.simps split: if_splits)
  have emb: "I s'" if "I s" "embed_schema 0 schema s = Some s'" for schema s s'
    using that by (simp add: embed_schema.simps split: option.splits)
  show ?case
    by (intro conjI allI impI) (erule (1) rem, erule (1) rem_embed, erule (1) add, erule (1) emb)
next
  case (Suc k)
  note hyp = Suc.IH [THEN conjunct1, rule_format] Suc.IH [THEN conjunct2, THEN conjunct1, rule_format]
    Suc.IH [THEN conjunct2, THEN conjunct2, THEN conjunct1, rule_format]
    Suc.IH [THEN conjunct2, THEN conjunct2, THEN conjunct2, rule_format]
  have both: "I s'" if "I s" "Option.bind (doRemoveSchema k x s) (doAddSchema k y False) = Some s'" for x y s s'
  proof -
    from that(2) obtain t where t: "doRemoveSchema k x s = Some t" "doAddSchema k y False t = Some s'"
      by (cases "doRemoveSchema k x s") simp_all
    show ?thesis by (rule hyp(3) [OF hyp(1) [OF that(1) t(1)] t(2)])
  qed
  have rem: "I s'" if "I s" "doRemoveSchema (Suc k) schema s = Some s'" for schema s s'
    using that hyp(2) [OF drop_step [OF that(1), of schema], of schema] drop_step [OF that(1), of schema]
    by (simp add: doRemoveSchema.simps split: if_splits)
  have rem_embed: "I s'" if "I s" "removeEmbed (Suc k) schema s = Some s'" for schema s s'
    using that both [OF that(1)] by (simp add: removeEmbed.simps split: option.splits)
  have add: "I s'" if "I s" "doAddSchema (Suc k) schema replace s = Some s'" for schema replace s s'
    using that put_step [OF that(1), of schema replace] hyp(4)
    by (cases "put_schema schema replace s") (simp add: doAddSchema.simps split: if_splits)
  have emb: "I s'" if "I s" "embed_schema (Suc k) schema s = Some s'" for schema s s'
    using that both [OF that(1)] by (simp add: embed_schema.simps split: option.splits)
  show ?case
    by (intro conjI allI impI) (erule (1) rem, erule (1) rem_embed, erule (1) add, erule (1) emb)
qed

lemma add_keeps: "I s \<Longrightarrow> doAddSchema n schema replace s = Some s' \<Longrightarrow> I s'"
  by (rule recursion_keeps [THEN conjunct2, THEN conjunct2, THEN conjunct1, rule_format])

lemma remove_keeps: "I s \<Longrightarrow> doRemoveSchema n schema s = Some s' \<Longrightarrow> I s'"
  by (rule recursion_keeps [THEN conjunct1, rule_format])

lemma add_all_keeps: "I s \<Longrightarrow> AddSchemas_loop n xs s = Some s' \<Longrightarrow> I s'"
proof (induction xs arbitrary: s)
  case (Cons x xs)
  from Cons.prems(2) obtain t where t: "doAddSchema n x False s = Some t" "AddSchemas_loop n xs t = Some s'"
    by (cases "doAddSchema n x False s") (simp_all add: AddSchema_def)
  show ?case by (rule Cons.IH [OF add_keeps [OF Cons.prems(1) t(1)] t(2)])
qed simp

end

interpretation reg_inv: registry_invariant reg_ok
  by unfold_locales (rule reg_ok_put_schema, assumption, rule reg_ok_drop_schema)

text \<open>The operations of the registry, as calls.\<close>

datatype reg_call = CallAdd Schema | CallForceAdd Schema | CallRemove Schema | CallAddAll Schemas | CallMapper APIVersion string mapper

fun reg_run :: "nat \<Rightarrow> reg_call list \<Rightarrow> Schemas \<Rightarrow> Schemas option" where
  "reg_run n [] s = Some s"
| "reg_run n (c # cs) s =
     Option.bind (case c of
         CallAdd x \<Rightarrow> AddSchema n x s
       | CallForceAdd x \<Rightarrow> ForceAddSchema n x s
       | CallRemove x \<Rightarrow> RemoveSchema n x s
       | CallAddAll t \<Rightarrow> AddSchemas n t s
       | CallMapper v i m \<Rightarrow> Some (AddMapper s v i m)) (reg_run n cs)"

lemma reg_ok_AddMapper: "reg_ok s \<Longrightarrow> reg_ok (AddMapper s v i m)"
  by (erule reg_ok_frame) (simp_all add: AddMapper_def Let_def)

lemma reg_run_ok: "reg_ok s \<Longrightarrow> reg_run n cs s = Some s' \<Longrightarrow> reg_ok s'"
proof (induction cs arbitrary: s)
  case (Cons c cs)
  define r where "r = (case c of CallAdd x \<Rightarrow> AddSchema n x s | CallForceAdd x \<Rightarrow> ForceAddSchema n x s
       | CallRemove x \<Rightarrow> RemoveSchema n x s | CallAddAll t \<Rightarrow> AddSchemas n t s
       | CallMapper v i m \<Rightarrow> Some (AddMapper s v i m))"
  have step: "reg_ok t" if "r = Some t" for t
  proof (cases c)
    case (CallAdd x)
    with that have "doAddSchema n x False s = Some t" by (simp add: r_def AddSchema_def)
    then show ?thesis by (rule reg_inv.add_keeps [OF Cons.prems(1)])
  next
    case (CallForceAdd x)
    with that have "doAddSchema n x True s = Some t" by (simp add: r_def ForceAddSchema_def)
    then show ?thesis by (rule reg_inv.add_keeps [OF Cons.prems(1)])
  next
    case (CallRemove x)
    with that have "doRemoveSchema n x s = Some t" by (simp add: r_def RemoveSchema_def)
    then show ?thesis by (rule reg_inv.remove_keeps [OF Cons.prems(1)])
  next
    case (CallAddAll other)
    with that have "AddSchemas_loop n (map (deref other) (schemas other)) s = Some t" by (simp add: r_def AddSchemas_def)
    then show ?thesis by (rule reg_inv.add_all_keeps [OF Cons.prems(1)])
  next
    case (CallMapper v i m)
    with that have "t = AddMapper s v i m" by (simp add: r_def)
    then show ?thesis using reg_ok_AddMapper [OF Cons.prems(1)] by simp
  qed
  from Cons.prems(2) obtain t where t: "r = Some t" "reg_run n cs t = Some s'"
    by (cases r) (simp_all add: r_def)
  show ?case by (rule Cons.IH [OF step [OF t(1)] t(2)])
qed simp

lemma reg_ok_NewSchemas: "reg_ok NewSchemas"
  by (simp add: NewSchemas_def reg_ok_def keys_ok_def filed_ok_def backrefs_ok_def registered_def sub_entries_def gkeys_def)

section \<open>Lookups\<close>

definition plain_name :: "string \<Rightarrow> bool" where
  "plain_name n \<longleftrightarrow> \<not> str_contains n ''/schemas/''"

lemma doSchema_plain:
  "plain_name n \<Longrightarrow> doSchema s (Some v) n =
     (case registered s (Path v) n of
        Some r \<Rightarrow> Some r
      | None \<Rightarrow> map_option snd (find (\<lambda>(_, r). equal_fold (ID (deref s r)) n \<or> equal_fold (PluralName (deref s r)) n)
                (sub_entries (Path v) (schemasByPath s))))"
  by (auto simp: doSchema_def schema_path_def plain_name_def registered_def sub_entries_def split: option.splits)

lemma Schema_of_registered:
  "plain_name n \<Longrightarrow> registered s (Path v) n = Some r \<Longrightarrow> Schema_of s (Some v) n = Some (deref s r)"
  by (simp add: Schema_of_def doSchema_plain)

text \<open>A schema with an ID and a version gets its defaults; the registry keeps its errors.\<close>

definition complete :: "Schema \<Rightarrow> bool" where
  "complete x \<longleftrightarrow> ID x \<noteq> [] \<and> Path (SVersion x) \<noteq> [] \<and> Version (SVersion x) \<noteq> []"

definition with_defaults :: "Schema \<Rightarrow> Schema" where
  "with_defaults x = fst (setupDefaults x NewSchemas)"

lemma setupDefaults_complete: "complete x \<Longrightarrow> setupDefaults x s = (with_defaults x, s)"
  by (simp add: with_defaults_def setupDefaults_def complete_def Let_def)

lemma with_defaults_simps [simp]:
  "ID (with_defaults x) = ID x" "SVersion (with_defaults x) = SVersion x" "Embed (with_defaults x) = Embed x"
  "EmbedType (with_defaults x) = EmbedType x" "ResourceFields (with_defaults x) = ResourceFields x"
  "DynamicSchemaVersion (with_defaults x) = DynamicSchemaVersion x"
  by (simp_all add: with_defaults_def setupDefaults_def Let_def)

lemma complete_with_defaults [simp]: "complete (with_defaults x) = complete x"
  by (simp add: complete_def)

lemma put_schema_complete:
  "complete x \<Longrightarrow> AddHook s = None \<Longrightarrow>
   put_schema x replace s = (with_defaults x, store_schema (with_defaults x) replace (ensure_path (SVersion x) s))"
  by (simp add: put_schema_def setupDefaults_complete hooked_def Let_def)

lemma store_schema_simps:
  "AddHook (store_schema x replace s) = AddHook s" "versions (store_schema x replace s) = versions s"
  by (simp_all add: store_schema_filed Let_def)

lemma registered_addReferences [simp]: "registered (addReferences r s) = registered s"
  by (simp add: registered_def fun_eq_iff)

lemma deref_addReferences [simp]: "deref (addReferences r s) = deref s"
  by (simp add: deref_def fun_eq_iff)

lemma deref_ensure_path [simp]: "deref (ensure_path v s) = deref s"
  by (simp add: deref_def fun_eq_iff)

lemma deref_filed_new: "deref (filed x l s) (length (sheap s)) = x"
  and deref_filed_old: "r < length (sheap s) \<Longrightarrow> deref (filed x l s) r = deref s r"
  by (simp_all add: deref_def nth_append)

text \<open>Putting a schema that is not registered files it.\<close>

lemma put_schema_new:
  assumes "complete x" "AddHook s = None" "registered s (Path (SVersion x)) (ID x) = None"
  obtains l where "snd (put_schema x replace s) =
    (let t = filed (with_defaults x) l (ensure_path (SVersion x) s) in if Embed x then t else addReferences (length (sheap s)) t)"
proof
  show "snd (put_schema x replace s) =
    (let t = filed (with_defaults x)
               (if replace then replace_first (\<lambda>c. ID (deref s c) = ID x) (length (sheap s)) (schemas s)
                else schemas s @ [length (sheap s)]) (ensure_path (SVersion x) s)
     in if Embed x then t else addReferences (length (sheap s)) t)"
    using assms by (simp add: put_schema_complete store_schema_filed registered_ensure_path Let_def)
qed

lemma registered_put:
  assumes "complete x" "AddHook s = None" "registered s (Path (SVersion x)) (ID x) = None"
  shows "registered (snd (put_schema x replace s)) p i =
           (if p = Path (SVersion x) \<and> i = ID x then Some (length (sheap s)) else registered s p i)"
  by (rule put_schema_new [OF assms, of replace]) (simp add: Let_def registered_filed registered_ensure_path)

lemma deref_put_new:
  assumes "complete x" "AddHook s = None" "registered s (Path (SVersion x)) (ID x) = None"
  shows "deref (snd (put_schema x replace s)) (length (sheap s)) = with_defaults x"
  by (rule put_schema_new [OF assms, of replace])
     (simp add: Let_def deref_filed_new [of _ _ "ensure_path (SVersion x) s", simplified])

lemma deref_put_old:
  assumes "complete x" "AddHook s = None" "registered s (Path (SVersion x)) (ID x) = None" "r < length (sheap s)"
  shows "deref (snd (put_schema x replace s)) r = deref s r"
  by (rule put_schema_new [OF assms(1-3), of replace]) (use assms(4) in \<open>simp add: Let_def deref_filed_old\<close>)

section \<open>Properties\<close>

text \<open>
  C2. Every registry reached from an empty one by adding, replacing and removing schemas and adding
  mappers, with any hook, is well formed: each schema is filed under its own version path and ID, no
  back reference is left to a schema that is no longer registered, and the versions are exactly those of
  the registered paths.
\<close>

theorem registry_well_formed:
  "reg_run n calls (NewSchemas\<lparr>AddHook := h\<rparr>) = Some s \<Longrightarrow> reg_ok s"
  by (erule reg_run_ok [rotated]) (rule reg_ok_frame [OF reg_ok_NewSchemas]; simp)

lemma doAddSchema_plain:
  assumes "complete x" "AddHook s = None" "\<not> Embed x"
  shows "doAddSchema n x replace s = Some (snd (put_schema x replace s))"
  using assms by (simp add: doAddSchema.simps put_schema_complete)

text \<open>
  C24. Adding a schema that has an ID, a path and a version, is not embedded and is not registered yet
  always succeeds: afterwards its ID, looked up in its version, gives it with its defaults filled in, and
  every schema registered before is still found under its path and ID, unchanged.
\<close>

theorem AddSchema_lookup:
  assumes "complete x" "AddHook s = None" "\<not> Embed x" "reg_ok s"
    and "plain_name (ID x)" "registered s (Path (SVersion x)) (ID x) = None"
  shows "\<exists>s'. AddSchema n x s = Some s'
     \<and> Schema_of s' (Some (SVersion x)) (ID x) = Some (with_defaults x)
     \<and> (\<forall>v i r. plain_name i \<longrightarrow> registered s (Path v) i = Some r \<longrightarrow> Schema_of s' (Some v) i = Some (deref s r))"
proof -
  define s' where "s' = snd (put_schema x False s)"
  have "AddSchema n x s = Some s'" using assms(1-3) by (simp add: AddSchema_def doAddSchema_plain s'_def)
  moreover have "Schema_of s' (Some (SVersion x)) (ID x) = Some (with_defaults x)"
    using Schema_of_registered [OF assms(5), of s' "SVersion x" "length (sheap s)"] assms(1,2,6)
    by (simp add: s'_def registered_put deref_put_new)
  moreover have "Schema_of s' (Some v) i = Some (deref s r)" if "plain_name i" "registered s (Path v) i = Some r" for v i r
  proof -
    have "registered s' (Path v) i = Some r" using that(2) assms(1,2,6) by (auto simp: s'_def registered_put)
    moreover have "r < length (sheap s)" using filed_okD [OF reg_okD(2) [OF assms(4)] that(2)] by simp
    ultimately show ?thesis
      using Schema_of_registered [OF that(1)] assms(1,2,6) by (simp add: s'_def deref_put_old)
  qed
  ultimately show ?thesis by (intro exI [of _ s']) simp
qed

definition sample_version :: APIVersion where
  "sample_version = version_zero\<lparr>Version := ''v3'', Path := ''/v3''\<rparr>"

definition sample_schema :: "string \<Rightarrow> Schema" where
  "sample_schema i = schema_zero\<lparr>ID := i, SVersion := sample_version\<rparr>"

lemma sample_schema_simps [simp]:
  "ID (sample_schema i) = i" "SVersion (sample_schema i) = sample_version" "Embed (sample_schema i) = False"
  "ResourceFields (sample_schema i) = []" "complete (sample_schema i) = (i \<noteq> [])"
  "Path sample_version = ''/v3''" "EmbedType (sample_schema i) = []"
  by (simp_all add: sample_schema_def schema_zero_def sample_version_def version_zero_def complete_def)

lemma NewSchemas_simps [simp]:
  "AddHook NewSchemas = None" "registered NewSchemas p i = None" "sheap NewSchemas = []" "schemasByPath NewSchemas = []"
  by (simp_all add: NewSchemas_def registered_def sub_entries_def)

lemma registry_well_formed_witness:
  "\<exists>s. reg_run 0 [CallAdd (sample_schema ''pod''), CallRemove (sample_schema ''pod'')] (NewSchemas\<lparr>AddHook := None\<rparr>) = Some s
       \<and> reg_ok s"
proof -
  let ?calls = "[CallAdd (sample_schema ''pod''), CallRemove (sample_schema ''pod'')]"
  have "AddHook (NewSchemas\<lparr>AddHook := None\<rparr>) = None" by simp
  then obtain s where "reg_run 0 ?calls (NewSchemas\<lparr>AddHook := None\<rparr>) = Some s"
    by (simp add: AddSchema_def RemoveSchema_def doAddSchema_plain doRemoveSchema.simps)
  with registry_well_formed [of 0 ?calls None s] show ?thesis by (intro exI [of _ s]) simp
qed

lemma AddSchema_lookup_witness:
  "\<exists>s'. AddSchema 0 (sample_schema ''pod'') NewSchemas = Some s'
     \<and> Schema_of s' (Some sample_version) ''pod'' = Some (with_defaults (sample_schema ''pod''))"
  using AddSchema_lookup [of "sample_schema ''pod''" NewSchemas 0] reg_ok_NewSchemas
  by (auto simp: plain_name_def str_contains_def go_str)

section \<open>Embedding\<close>

lemma AddHook_put: "AddHook (snd (put_schema x replace s)) = AddHook s"
  by (simp add: put_schema_def Let_def setupDefaults_def store_schema_simps)

text \<open>
  Replacing a registered schema that is not embedded itself: what both embedding and its removal do to
  the target.
\<close>

lemma retarget:
  assumes ok: "reg_ok s" "AddHook s = None" "registered s p i = Some r" "\<not> Embed (deref s r)" "complete (deref s r)"
    and y: "ID y = ID (deref s r)" "SVersion y = SVersion (deref s r)" "\<not> Embed y"
  obtains s' where "Option.bind (doRemoveSchema k (deref s r) s) (doAddSchema k y False) = Some s'"
    and "\<And>q j. registered s' q j = (if q = p \<and> j = i then Some (length (sheap s)) else registered s q j)"
    and "deref s' (length (sheap s)) = with_defaults y" "\<And>r'. r' < length (sheap s) \<Longrightarrow> deref s' r' = deref s r'"
    and "AddHook s' = None" "reg_ok s'"
proof -
  let ?t = "drop_schema (deref s r) s"
  have i: "ID y = i" "Path (SVersion y) = p" using filed_okD [OF reg_okD(2) [OF ok(1)] ok(3)] y by simp_all
  have c: "complete y" using ok(5) y by (simp add: complete_def)
  have h: "AddHook ?t = None" using ok(2) by simp
  have reg: "registered ?t q j = (if q = p \<and> j = i then None else registered s q j)" for q j
    using y i by (simp add: registered_drop)
  have gone: "registered ?t (Path (SVersion y)) (ID y) = None" using i by (simp add: reg)
  have heap: "sheap ?t = sheap s" "deref ?t = deref s" by (simp_all add: deref_def fun_eq_iff)
  have run: "Option.bind (doRemoveSchema k (deref s r) s) (doAddSchema k y False) = Some (snd (put_schema y False ?t))"
    using ok(4) y(3) c h by (simp add: doRemoveSchema.simps doAddSchema_plain)
  show thesis
  proof (rule that [OF run])
    show "registered (snd (put_schema y False ?t)) q j = (if q = p \<and> j = i then Some (length (sheap s)) else registered s q j)" for q j
      using registered_put [OF c h gone] by (simp add: i heap reg)
    show "deref (snd (put_schema y False ?t)) (length (sheap s)) = with_defaults y"
      using deref_put_new [OF c h gone] by (simp add: heap)
    show "deref (snd (put_schema y False ?t)) r' = deref s r'" if "r' < length (sheap s)" for r'
      using deref_put_old [OF c h gone, of r'] that by (simp add: heap)
    show "AddHook (snd (put_schema y False ?t)) = None" using ok(2) by (simp add: AddHook_put)
    show "reg_ok (snd (put_schema y False ?t))" by (intro reg_ok_put_schema reg_ok_drop_schema ok(1))
  qed
qed

lemma embed_into_simps [simp]:
  "ID (embed_into x t) = ID t" "SVersion (embed_into x t) = SVersion t" "Embed (embed_into x t) = Embed t"
  "ID (unembed_from x t) = ID t" "SVersion (unembed_from x t) = SVersion t" "Embed (unembed_from x t) = Embed t"
  by (simp_all add: embed_into_def unembed_from_def)

text \<open>The conditions under which \<open>x\<close> can be embedded into the schema that \<open>r\<close> points to.\<close>

definition embeddable :: "Schemas \<Rightarrow> Schema \<Rightarrow> ref \<Rightarrow> bool" where
  "embeddable s x r \<longleftrightarrow> reg_ok s \<and> AddHook s = None \<and> complete x \<and> Embed x \<and> plain_name (EmbedType x)
     \<and> registered s (Path (SVersion x)) (ID x) = None
     \<and> registered s (Path (SVersion x)) (EmbedType x) = Some r \<and> \<not> Embed (deref s r) \<and> complete (deref s r)"

lemma embed_AddSchema:
  assumes "embeddable s x r"
  obtains s' t where "AddSchema (Suc (Suc n)) x s = Some s'"
    and "registered s' (Path (SVersion x)) (EmbedType x) = Some t"
    and "deref s' t = with_defaults (embed_into (with_defaults x) (deref s r))"
    and "registered s' (Path (SVersion x)) (ID x) = Some (length (sheap s))"
    and "deref s' (length (sheap s)) = with_defaults x" "AddHook s' = None" "reg_ok s'"
proof -
  note e = assms [unfolded embeddable_def]
  let ?s = "snd (put_schema x False s)"
  have new: "complete x" "AddHook s = None" "registered s (Path (SVersion x)) (ID x) = None" using e by blast+
  have r: "r < length (sheap s)" using e filed_okD [OF reg_okD(2)] by blast
  have reg: "registered ?s (Path (SVersion x)) (EmbedType x) = Some r"
    using e by (auto simp: registered_put [OF new])
  have d: "deref ?s r = deref s r" by (rule deref_put_old [OF new r])
  have len: "length (sheap s) < length (sheap ?s)"
    by (rule put_schema_new [OF new, of False]) (simp add: Let_def)
  have ne: "ID x \<noteq> EmbedType x" using e by auto
  show thesis
  proof (rule retarget [of ?s "Path (SVersion x)" "EmbedType x" r "embed_into (with_defaults x) (deref s r)" n])
    show "reg_ok ?s" using e by (simp add: reg_ok_put_schema)
    show "AddHook ?s = None" using e by (simp add: AddHook_put)
  next
    fix s'
    assume s': "Option.bind (doRemoveSchema n (deref ?s r) ?s) (doAddSchema n (embed_into (with_defaults x) (deref s r)) False) = Some s'"
      "\<And>q j. registered s' q j = (if q = Path (SVersion x) \<and> j = EmbedType x then Some (length (sheap ?s)) else registered ?s q j)"
      "deref s' (length (sheap ?s)) = with_defaults (embed_into (with_defaults x) (deref s r))"
      "\<And>r'. r' < length (sheap ?s) \<Longrightarrow> deref s' r' = deref ?s r'" "AddHook s' = None" "reg_ok s'"
    show thesis
    proof (rule that)
      have "embed_schema (Suc n) (with_defaults x) ?s = Some s'"
        using e reg s'(1) by (simp add: embed_schema.simps doSchema_plain d)
      then show "AddSchema (Suc (Suc n)) x s = Some s'"
        using e by (simp add: AddSchema_def doAddSchema.simps put_schema_complete)
      show "registered s' (Path (SVersion x)) (ID x) = Some (length (sheap s))"
        using ne by (simp add: s'(2) registered_put [OF new])
      show "deref s' (length (sheap s)) = with_defaults x"
        using s'(4) [OF len] by (simp add: deref_put_new [OF new])
    qed (use s' in simp_all)
  qed (use e reg d in simp_all)
qed

lemma embed_RemoveSchema:
  assumes ok: "reg_ok s" "AddHook s = None" "Embed x" "plain_name (EmbedType x)" "ID x \<noteq> EmbedType x"
    and t: "registered s (Path (SVersion x)) (EmbedType x) = Some t" "\<not> Embed (deref s t)" "complete (deref s t)"
  obtains s' t' where "RemoveSchema (Suc (Suc n)) x s = Some s'"
    and "registered s' (Path (SVersion x)) (EmbedType x) = Some t'"
    and "deref s' t' = with_defaults (unembed_from x (deref s t))"
    and "registered s' (Path (SVersion x)) (ID x) = None"
proof -
  let ?s = "drop_schema x s"
  have d: "deref ?s = deref s" by (simp add: deref_def fun_eq_iff)
  have reg: "registered ?s (Path (SVersion x)) (EmbedType x) = Some t" using ok(5) t(1) by (auto simp: registered_drop)
  show thesis
  proof (rule retarget [of ?s "Path (SVersion x)" "EmbedType x" t "unembed_from x (deref s t)" n])
    fix s'
    assume s': "Option.bind (doRemoveSchema n (deref ?s t) ?s) (doAddSchema n (unembed_from x (deref s t)) False) = Some s'"
      "\<And>q j. registered s' q j = (if q = Path (SVersion x) \<and> j = EmbedType x then Some (length (sheap ?s)) else registered ?s q j)"
      "deref s' (length (sheap ?s)) = with_defaults (unembed_from x (deref s t))"
    have "removeEmbed (Suc n) x ?s = Some s'"
      using ok(4) reg s'(1) by (simp add: removeEmbed.simps doSchema_plain d)
    then have "RemoveSchema (Suc (Suc n)) x s = Some s'" using ok(3) by (simp add: RemoveSchema_def doRemoveSchema.simps)
    then show thesis by (rule that) (use s' ok(5) in \<open>simp_all add: registered_drop\<close>)
  qed (use ok t reg in \<open>simp_all add: d reg_ok_drop_schema\<close>)
qed

definition field_at :: "Schemas \<Rightarrow> APIVersion \<Rightarrow> string \<Rightarrow> string \<Rightarrow> field option" where
  "field_at s v i f = Option.bind (Schema_of s (Some v) i) (\<lambda>y. map_of (ResourceFields y) f)"

lemma field_at_registered:
  "plain_name i \<Longrightarrow> registered s (Path v) i = Some r \<Longrightarrow> field_at s v i f = map_of (ResourceFields (deref s r)) f"
  by (simp add: field_at_def Schema_of_registered)

lemma map_of_filter_fst: "gkeys m \<Longrightarrow> map_of (filter (\<lambda>(k, v). P v) m) k = (case map_of m k of Some v \<Rightarrow> if P v then Some v else None | None \<Rightarrow> None)"
  by (induction m) (auto simp: gkeys_def map_of_eq_None_iff [symmetric] split: option.splits)

text \<open>
  C23. Embedding a schema gives its target the fields of the schema beside its own ones that are not
  dynamic, and removing the schema again gives the target exactly the fields it had before, when none of
  them is dynamic and the schema has no field of the same name. Two levels of fuel are enough, since the
  target is not embedded itself.
\<close>

theorem embed_unembed:
  assumes "embeddable s x r" "gkeys (ResourceFields x)" "gkeys (ResourceFields (deref s r))"
    and "\<forall>f fd. map_of (ResourceFields (deref s r)) f = Some fd \<longrightarrow> \<not> DynamicField fd \<and> map_of (ResourceFields x) f = None"
  shows "\<exists>s1 s2. AddSchema (Suc (Suc n)) x s = Some s1 \<and> RemoveSchema (Suc (Suc n)) x s1 = Some s2
     \<and> (\<forall>f. field_at s1 (SVersion x) (EmbedType x) f =
              (case map_of (ResourceFields x) f of Some fd \<Rightarrow> Some fd | None \<Rightarrow> map_of (ResourceFields (deref s r)) f))
     \<and> (\<forall>f. field_at s2 (SVersion x) (EmbedType x) f = map_of (ResourceFields (deref s r)) f)
     \<and> registered s2 (Path (SVersion x)) (ID x) = None"
proof -
  note e = assms(1) [unfolded embeddable_def]
  have ne: "ID x \<noteq> EmbedType x" using e by auto
  obtain s1 t where s1: "AddSchema (Suc (Suc n)) x s = Some s1" "registered s1 (Path (SVersion x)) (EmbedType x) = Some t"
    "deref s1 t = with_defaults (embed_into (with_defaults x) (deref s r))" "AddHook s1 = None" "reg_ok s1"
    by (rule embed_AddSchema [OF assms(1), of n]) blast
  have plain: "\<not> Embed (deref s1 t)" "complete (deref s1 t)" using e s1(3) by (simp_all add: complete_def)
  obtain s2 t' where s2: "RemoveSchema (Suc (Suc n)) x s1 = Some s2" "registered s2 (Path (SVersion x)) (EmbedType x) = Some t'"
    "deref s2 t' = with_defaults (unembed_from x (deref s1 t))" "registered s2 (Path (SVersion x)) (ID x) = None"
    by (rule embed_RemoveSchema [OF s1(5,4) _ _ ne s1(2) plain, of n]) (use e in auto)
  have f1: "field_at s1 (SVersion x) (EmbedType x) f =
      (case map_of (ResourceFields x) f of Some fd \<Rightarrow> Some fd | None \<Rightarrow> map_of (ResourceFields (deref s r)) f)" for f
    using e s1(2,3) assms(2-4)
    by (auto simp: field_at_registered embed_into_def go_map map_of_filter_fst split: option.splits)
  moreover have "field_at s2 (SVersion x) (EmbedType x) f = map_of (ResourceFields (deref s r)) f" for f
  proof -
    have "field_at s2 (SVersion x) (EmbedType x) f =
        (if map_of (ResourceFields x) f \<noteq> None then None else field_at s1 (SVersion x) (EmbedType x) f)"
      using e s1(2) s2(2,3)
      by (simp add: field_at_registered unembed_from_def go_map map_of_eq_None_iff)
    with f1 [of f] assms(4) show ?thesis
      by (cases "map_of (ResourceFields x) f"; cases "map_of (ResourceFields (deref s r)) f") auto
  qed
  ultimately show ?thesis using s1(1) s2(1,4) by blast
qed

definition sample_embedded :: Schema where
  "sample_embedded = (sample_schema ''podExtra'')\<lparr>Embed := True, EmbedType := ''pod'', ResourceFields := [(''extra'', field_zero)]\<rparr>"

lemma embed_unembed_witness:
  "\<exists>s s1 s2. AddSchema 2 sample_embedded s = Some s1 \<and> RemoveSchema 2 sample_embedded s1 = Some s2
     \<and> field_at s1 sample_version ''pod'' ''extra'' = Some field_zero
     \<and> field_at s2 sample_version ''pod'' ''extra'' = None"
proof -
  let ?s = "snd (put_schema (sample_schema ''pod'') False NewSchemas)"
  have new: "complete (sample_schema ''pod'')" "AddHook NewSchemas = None"
    "registered NewSchemas (Path (SVersion (sample_schema ''pod''))) (ID (sample_schema ''pod'')) = None" by simp_all
  have reg: "registered ?s p i = (if p = ''/v3'' \<and> i = ''pod'' then Some 0 else None)" for p i
    using registered_put [OF new] by simp
  have d: "deref ?s 0 = with_defaults (sample_schema ''pod'')" using deref_put_new [OF new] by simp
  have x: "ID sample_embedded = ''podExtra''" "SVersion sample_embedded = sample_version" "Embed sample_embedded"
    "EmbedType sample_embedded = ''pod''" "ResourceFields sample_embedded = [(''extra'', field_zero)]"
    by (simp_all add: sample_embedded_def)
  have "complete sample_embedded" by (simp add: complete_def x) (simp add: sample_version_def)
  moreover have "plain_name ''pod''" by (simp add: plain_name_def str_contains_def go_str)
  ultimately have "embeddable ?s sample_embedded 0"
    using reg_ok_put_schema [OF reg_ok_NewSchemas] by (simp add: embeddable_def reg d x AddHook_put)
  from embed_unembed [OF this, of 0] obtain s1 s2 where
    "AddSchema (Suc (Suc 0)) sample_embedded ?s = Some s1" "RemoveSchema (Suc (Suc 0)) sample_embedded s1 = Some s2"
    and f: "\<forall>f. field_at s1 (SVersion sample_embedded) (EmbedType sample_embedded) f =
              (case map_of (ResourceFields sample_embedded) f of Some fd \<Rightarrow> Some fd | None \<Rightarrow> map_of (ResourceFields (deref ?s 0)) f)"
      "\<forall>f. field_at s2 (SVersion sample_embedded) (EmbedType sample_embedded) f = map_of (ResourceFields (deref ?s 0)) f"
    by (auto simp: x d gkeys_def)
  moreover have "field_at s1 sample_version ''pod'' ''extra'' = Some field_zero" using spec [OF f(1), of "''extra''"] by (simp add: x)
  moreover have "field_at s2 sample_version ''pod'' ''extra'' = None" using spec [OF f(2), of "''extra''"] by (simp add: x d)
  ultimately show ?thesis by (intro exI [of _ ?s] exI [of _ s1] exI [of _ s2]) (simp add: numeral_2_eq_2)
qed

lemma entries_put_new:
  assumes "complete x" "AddHook s = None" "registered s (Path (SVersion x)) (ID x) = None"
  shows "sub_entries (Path (SVersion x)) (schemasByPath (snd (put_schema x replace s))) =
           mset_key (ID x) (length (sheap s)) (sub_entries (Path (SVersion x)) (schemasByPath s))"
proof -
  have "sub_entries (Path (SVersion x)) (schemasByPath (ensure_path (SVersion x) s)) =
        sub_entries (Path (SVersion x)) (schemasByPath s)"
    by (auto simp: ensure_path_def sub_entries_def go_map split: option.splits)
  then show ?thesis
    by - (rule put_schema_new [OF assms, of replace], simp add: Let_def filed_def registry)
qed

lemma entries_drop:
  "sub_entries (Path (SVersion x)) (schemasByPath (drop_schema x s)) =
     mdel_key (ID x) (sub_entries (Path (SVersion x)) (schemasByPath s))"
  by (auto simp: paths_drop registry) (simp add: sub_entries_def)


definition sample_looped :: Schema where
  "sample_looped = (sample_schema ''pod'')\<lparr>Embed := True, EmbedType := ''pod''\<rparr>"

lemma sample_looped_simps:
  "ID sample_looped = ''pod''" "SVersion sample_looped = sample_version" "Embed sample_looped" "EmbedType sample_looped = ''pod''"
  by (simp_all add: sample_looped_def)


section \<open>Back references\<close>

lemma set_sub_entries_refs:
  "set (sub_entries ty (fold (\<lambda>(name, fd) refs. if \<not> P fd then refs
      else let k = f fd in mset_key k (sub_entries k refs @ [(name, r)]) refs) fds refs)) =
   set (sub_entries ty refs) \<union> {(name, r) |name. \<exists>fd. (name, fd) \<in> set fds \<and> P fd \<and> f fd = ty}"
proof (induction fds arbitrary: refs)
  case (Cons x xs)
  obtain n fd where x: "x = (n, fd)" by (cases x)
  show ?case by (auto simp: x Cons.IH Let_def registry)
qed simp

lemma ref_type_full:
  "ref_type p ty = ToFullReference q i \<longleftrightarrow> \<not> has_prefix (SubType ty) ''/'' \<and> ToFullReference p (SubType ty) = ToFullReference q i"
  by (auto simp: ref_type_def Let_def ToFullReference_def go_str)

text \<open>
  C25. The back references of a schema after another one was added to a registry without references: they
  are the fields of the added schema whose type is a reference to the schema by its short name. A field
  that refers to the schema by its full name, with the path of its version, is never found: it is filed
  under the name without the \<open>reference[...]\<close> that the lookup puts around it.
\<close>

theorem References_after_add:
  assumes "complete x" "AddHook s = None" "\<not> Embed x" "registered s (Path (SVersion x)) (ID x) = None" "references s = []"
  shows "\<exists>s'. AddSchema n x s = Some s' \<and>
     (\<forall>target. set (References s' target) =
        {(name, length (sheap s)) |name. \<exists>fd. (name, fd) \<in> set (ResourceFields x) \<and> IsReferenceType (FType fd)
           \<and> \<not> has_prefix (SubType (FType fd)) ''/''
           \<and> ToFullReference (Path (SVersion x)) (SubType (FType fd)) = ToFullReference (Path (SVersion target)) (ID target)})"
proof (intro exI conjI allI)
  show "AddSchema n x s = Some (snd (put_schema x False s))" using assms by (simp add: AddSchema_def doAddSchema_plain)
  fix target
  obtain l where l: "snd (put_schema x False s) =
      addReferences (length (sheap s)) (filed (with_defaults x) l (ensure_path (SVersion x) s))"
    by (rule put_schema_new [OF assms(1,2,4), of False]) (use assms(3) in \<open>simp add: Let_def\<close>)
  have d: "deref (filed (with_defaults x) l (ensure_path (SVersion x) s)) (length (sheap s)) = with_defaults x"
    using deref_filed_new [of "with_defaults x" l "ensure_path (SVersion x) s"] by simp
  have refs: "references (snd (put_schema x False s)) =
      fold (\<lambda>(name, fd) refs. if \<not> IsReferenceType (FType fd) then refs
              else let ty = ref_type (Path (SVersion x)) (FType fd)
                   in mset_key ty (sub_entries ty refs @ [(name, length (sheap s))]) refs) (ResourceFields x) []"
    by (simp add: l addReferences_def d assms(5) Let_def) (unfold with_defaults_simps Let_def, rule refl)
  show "set (References (snd (put_schema x False s)) target) =
        {(name, length (sheap s)) |name. \<exists>fd. (name, fd) \<in> set (ResourceFields x) \<and> IsReferenceType (FType fd)
           \<and> \<not> has_prefix (SubType (FType fd)) ''/''
           \<and> ToFullReference (Path (SVersion x)) (SubType (FType fd)) = ToFullReference (Path (SVersion target)) (ID target)}"
    unfolding References_def refs
      set_sub_entries_refs [where P = "\<lambda>fd. IsReferenceType (FType fd)" and f = "\<lambda>fd. ref_type (Path (SVersion x)) (FType fd)"]
    by (simp add: ref_type_full) (simp add: sub_entries_def)
qed

definition sample_user :: Schema where
  "sample_user = (sample_schema ''user'')\<lparr>ResourceFields :=
     [(''podId'', field_zero\<lparr>FType := ''reference[pod]''\<rparr>), (''otherId'', field_zero\<lparr>FType := ''reference[/v3/schemas/pod]''\<rparr>)]\<rparr>"

lemma References_after_add_witness:
  "\<exists>s'. AddSchema 0 sample_user NewSchemas = Some s' \<and> set (References s' (sample_schema ''pod'')) = {(''podId'', 0)}"
proof -
  have x: "ID sample_user = ''user''" "SVersion sample_user = sample_version" "\<not> Embed sample_user"
    "ResourceFields sample_user = [(''podId'', field_zero\<lparr>FType := ''reference[pod]''\<rparr>),
       (''otherId'', field_zero\<lparr>FType := ''reference[/v3/schemas/pod]''\<rparr>)]" by (simp_all add: sample_user_def)
  have "complete sample_user" by (simp add: complete_def x) (simp add: sample_version_def)
  moreover have types: "IsReferenceType ''reference[pod]''" "SubType ''reference[pod]'' = ''pod''"
    "SubType ''reference[/v3/schemas/pod]'' = ''/v3/schemas/pod''" by code_simp+
  moreover have "references NewSchemas = []" by (simp add: NewSchemas_def)
  ultimately obtain s' where s': "AddSchema 0 sample_user NewSchemas = Some s'"
    and r: "\<forall>target. set (References s' target) =
        {(name, length (sheap NewSchemas)) |name. \<exists>fd. (name, fd) \<in> set (ResourceFields sample_user) \<and> IsReferenceType (FType fd)
           \<and> \<not> has_prefix (SubType (FType fd)) ''/''
           \<and> ToFullReference (Path (SVersion sample_user)) (SubType (FType fd)) = ToFullReference (Path (SVersion target)) (ID target)}"
    using References_after_add [of sample_user NewSchemas 0] by (auto simp: x)
  have "set (References s' (sample_schema ''pod'')) = {(''podId'', 0)}"
    unfolding r [rule_format] by (auto simp: x types go_str)
  with s' show ?thesis by blast
qed

end
