(* ===== verification/MapperSchema.thy ===== *)
theory MapperSchema
  imports Registry
begin

text \<open>
  The method \<^verbatim>\<open>ModifySchema\<close> of the mappers: it changes the schema under construction, the schemas
  of the registry that the schema refers to, and the mapper itself, which remembers what it found. The
  schema under construction is not in the registry yet (\<^verbatim>\<open>importType\<close> adds it at the end), so it is a
  value beside the registry; a sub schema is a pointer into the registry. An error discards the schema.
\<close>

type_synonym mstate = "Schema \<times> Schemas"

section \<open>Fields\<close>

definition has_field :: "string \<Rightarrow> 'a schema_core_scheme \<Rightarrow> bool" where
  "has_field name s \<longleftrightarrow> map_of (ResourceFields s) name \<noteq> None"

definition field_of :: "string \<Rightarrow> 'a schema_core_scheme \<Rightarrow> field" where
  "field_of name s = (case map_of (ResourceFields s) name of None \<Rightarrow> field_zero | Some f \<Rightarrow> f)"

definition set_field :: "string \<Rightarrow> field \<Rightarrow> 'a schema_core_scheme \<Rightarrow> 'a schema_core_scheme" where
  "set_field name f s = s\<lparr>ResourceFields := mset_key name f (ResourceFields s)\<rparr>"

definition del_field :: "string \<Rightarrow> 'a schema_core_scheme \<Rightarrow> 'a schema_core_scheme" where
  "del_field name s = s\<lparr>ResourceFields := mdel_key name (ResourceFields s)\<rparr>"

definition ValidateField :: "string \<Rightarrow> Schema \<Rightarrow> unit res" where
  "ValidateField name s =
     (if has_field name s then Ok ()
      else Err (PlainErr (''field '' @ name @ '' missing on schema '' @ ID s)))"

text \<open>A pointer to a schema: the one under construction, or one of the registry.\<close>

definition schema_at :: "ref option \<Rightarrow> mstate \<Rightarrow> Schema" where
  "schema_at loc st = (case loc of None \<Rightarrow> fst st | Some r \<Rightarrow> deref (snd st) r)"

definition upd_at :: "ref option \<Rightarrow> (Schema \<Rightarrow> Schema) \<Rightarrow> mstate \<Rightarrow> mstate" where
  "upd_at loc f st =
     (case loc of
        None \<Rightarrow> (f (fst st), snd st)
      | Some r \<Rightarrow> (fst st, (snd st)\<lparr>sheap := (sheap (snd st))[r := f (deref (snd st) r)]\<rparr>))"

fun getField_loop :: "mstate \<Rightarrow> ref option \<Rightarrow> string list \<Rightarrow> (ref option \<times> string) res" where
  "getField_loop st loc [] = Ok (loc, [])"
| "getField_loop st loc [name] = Ok (loc, name)"
| "getField_loop st loc (part # p # parts) =
     (let schema = schema_at loc st;
          ty = FType (field_of part schema);
          fieldType = (if IsArrayType ty then SubType ty else ty)
      in case doSchema (snd st) (Some (SVersion schema)) fieldType of
           None \<Rightarrow> Err (PlainErr (''failed to find field or schema for '' @ part @ '' on '' @ ID schema))
         | Some r \<Rightarrow> getField_loop st (Some r) (p # parts))"

definition getField :: "mstate \<Rightarrow> string \<Rightarrow> (ref option \<times> string \<times> field option) res" where
  "getField st target =
     rbind (getField_loop st None (slash_path target))
       (\<lambda>(loc, name). Ok (loc, name, map_of (ResourceFields (schema_at loc st)) name))"

section \<open>One mapper\<close>

definition Access_ModifySchema :: "(string \<times> string) list \<Rightarrow> bool \<Rightarrow> mstate \<Rightarrow> mstate res" where
  "Access_ModifySchema fds opt st =
     rfold (\<lambda>(name, access) (s, ss).
       case ValidateField name s of
         Err e \<Rightarrow> if opt then Ok (s, ss) else Err e
       | Panic \<Rightarrow> Panic
       | Ok _ \<Rightarrow> Ok (set_field name ((field_of name s)\<lparr>Create := str_contains access ''c'',
                        Update := str_contains access ''u'', WriteOnly := str_contains access ''o''\<rparr>) s, ss)) fds st"

definition Move_ModifySchema :: "move \<Rightarrow> mstate \<Rightarrow> mstate res" where
  "Move_ModifySchema m st =
     rbind (getField st (From m)) (\<lambda>(fromLoc, _, fromField).
     case fromField of
       None \<Rightarrow> Err (PlainErr (''failed to find field '' @ From m @ '' on schema '' @ ID (fst st)))
     | Some fd \<Rightarrow>
         rbind (getField st (To m)) (\<lambda>(toLoc, toFieldName, toField).
         if toField \<noteq> None \<and> \<not> str_contains (To m) ''/'' \<and> \<not> DestDefined m then
           Err (PlainErr (''field '' @ To m @ '' already exists on schema '' @ ID (fst st)))
         else
           let st1 = (if NoDeleteFromField m then st else upd_at fromLoc (del_field (From m)) st);
               code = (if CodeName m = [] then Capitalize toFieldName else CodeName m)
           in Ok (if DestDefined m then st1 else upd_at toLoc (set_field toFieldName (fd\<lparr>FCodeName := code\<rparr>)) st1)))"

text \<open>\<^verbatim>\<open>path.Join\<close> of two elements and \<^verbatim>\<open>path.Clean\<close>, which it applies.\<close>

fun clean_parts :: "bool \<Rightarrow> string list \<Rightarrow> string list \<Rightarrow> string list" where
  "clean_parts rooted stack [] = rev stack"
| "clean_parts rooted stack (p # ps) =
     (if p = [] \<or> p = ''.'' then clean_parts rooted stack ps
      else if p = ''..'' then
        (case stack of
           [] \<Rightarrow> clean_parts rooted (if rooted then [] else [p]) ps
         | q # stack' \<Rightarrow> clean_parts rooted (if q = ''..'' then p # stack else stack') ps)
      else clean_parts rooted (p # stack) ps)"

definition path_clean :: "string \<Rightarrow> string" where
  "path_clean p =
     (let rooted = has_prefix p ''/'';
          body = str_join ''/'' (clean_parts rooted [] (slash_path p))
      in if rooted then ''/'' @ body else if body = [] then ''.'' else body)"

definition path_join :: "string \<Rightarrow> string \<Rightarrow> string" where
  "path_join a b = (if a = [] then (if b = [] then [] else path_clean b) else path_clean (a @ ''/'' @ b))"

definition batch_moves :: "string list \<Rightarrow> string \<Rightarrow> bool \<Rightarrow> bool \<Rightarrow> move list" where
  "batch_moves from to dest nodel =
     map (\<lambda>f. \<lparr>From = f, To = path_join to f, CodeName = [], DestDefined = dest, NoDeleteFromField = nodel\<rparr>) from"

definition Drop_ModifySchema :: "string \<Rightarrow> bool \<Rightarrow> mstate \<Rightarrow> mstate res" where
  "Drop_ModifySchema field ignoreDef st =
     (if \<not> has_field field (fst st) \<and> \<not> ignoreDef
      then Err (PlainErr (''can not drop missing field '' @ field @ '' on '' @ ID (fst st)))
      else Ok (del_field field (fst st), snd st))"

definition Copy_ModifySchema :: "string \<Rightarrow> string \<Rightarrow> mstate \<Rightarrow> mstate res" where
  "Copy_ModifySchema from to st =
     (case map_of (ResourceFields (fst st)) from of
        None \<Rightarrow> Err (PlainErr (''field '' @ from @ '' missing on schema '' @ ID (fst st)))
      | Some f \<Rightarrow> Ok (set_field to f (fst st), snd st))"

text \<open>The loop over the fields of the embedded schema: the schema, the fields found, and whether the
  embedded field itself is to be deleted.\<close>

definition embed_step :: "embed \<Rightarrow> string \<times> field \<Rightarrow> Schema \<times> string list \<times> bool \<Rightarrow> (Schema \<times> string list \<times> bool) res" where
  "embed_step e nf x =
     (case (nf, x) of ((name, fd), (s, found, deleteField)) \<Rightarrow>
        if name \<in> set (Ignore e) then Ok x
        else if name \<noteq> EField e \<and> \<not> ignoreOverride e \<and> has_field name s then
          Err (PlainErr (''embedding field '' @ EField e @ '' on '' @ ID s @ '' will overwrite the field '' @ name))
        else Ok (set_field name (if EReadOnly e then fd\<lparr>Create := False, Update := False\<rparr> else fd) s,
                 found @ [name], deleteField \<and> name \<noteq> EField e))"

definition Embed_ModifySchema :: "embed \<Rightarrow> mstate \<Rightarrow> (mstate \<times> embed) res" where
  "Embed_ModifySchema e st =
     (case ValidateField (EField e) (fst st) of
        Err er \<Rightarrow> if EOptional e then Ok (st, e) else Err er
      | Panic \<Rightarrow> Panic
      | Ok _ \<Rightarrow>
          let ty = FType (field_of (EField e) (fst st)); e0 = e\<lparr>embeddedFields := []\<rparr>
          in case Schema_of (snd st) (Some (SVersion (fst st))) ty of
               None \<Rightarrow> if EOptional e then Ok (st, e0)
                        else Err (PlainErr (''failed to find schema '' @ ty @ '' for embedding''))
             | Some es \<Rightarrow>
                 rbind (rfold (embed_step e) (ResourceFields es) (fst st, [], True)) (\<lambda>(s, found, deleteField).
                   Ok ((if deleteField then del_field (EField e) s else s, snd st), e\<lparr>embeddedFields := found\<rparr>)))"

definition change_field :: "string \<Rightarrow> (field \<Rightarrow> field) \<Rightarrow> mstate \<Rightarrow> mstate res" where
  "change_field name f st =
     rbind (ValidateField name (fst st)) (\<lambda>_. Ok (set_field name (f (field_of name (fst st))) (fst st), snd st))"

definition ChangeType_ModifySchema :: "string \<Rightarrow> string \<Rightarrow> mstate \<Rightarrow> mstate res" where
  "ChangeType_ModifySchema field ty = change_field field (\<lambda>f. f\<lparr>FType := ty\<rparr>)"

definition Enum_ModifySchema :: "string \<Rightarrow> string list \<Rightarrow> mstate \<Rightarrow> mstate res" where
  "Enum_ModifySchema field opts = change_field field (\<lambda>f. f\<lparr>FType := ''enum'', Options := opts\<rparr>)"

definition Required_ModifySchema :: "string list \<Rightarrow> mstate \<Rightarrow> mstate res" where
  "Required_ModifySchema fds st = rfold (\<lambda>field. change_field field (\<lambda>f. f\<lparr>Required := True\<rparr>)) fds st"

definition lock_field :: "field \<Rightarrow> field" where
  "lock_field f = f\<lparr>Create := False, Update := False\<rparr>"

definition readOnly :: "bool \<Rightarrow> string \<Rightarrow> mstate \<Rightarrow> mstate" where
  "readOnly subFields name st =
     (let fd = field_of name (fst st);
          st1 = (if subFields then
                   (case doSchema (snd st) (Some (SVersion (fst st))) (FType fd) of
                      None \<Rightarrow> st
                    | Some r \<Rightarrow> upd_at (Some r) (\<lambda>s. s\<lparr>ResourceFields := map (\<lambda>(n, f). (n, lock_field f)) (ResourceFields s)\<rparr>) st)
                 else st)
      in upd_at None (set_field name (lock_field fd)) st1)"

definition ReadOnly_ModifySchema :: "string \<Rightarrow> bool \<Rightarrow> bool \<Rightarrow> mstate \<Rightarrow> mstate res" where
  "ReadOnly_ModifySchema field opt subFields st =
     (if field = ''*'' then Ok (fold (readOnly subFields) (map fst (ResourceFields (fst st))) st)
      else case ValidateField field (fst st) of
             Err e \<Rightarrow> if opt then Ok st else Err e
           | Panic \<Rightarrow> Panic
           | Ok _ \<Rightarrow> Ok (readOnly subFields field st))"

text \<open>
  The loop of \<^verbatim>\<open>RenameReference\<close> ranges over the map it changes; the names it adds end in \<open>Id\<close> or
  \<open>Ids\<close> and are skipped, so it is a loop over the fields there at the start.
\<close>

definition rename_move :: "string \<times> field \<Rightarrow> move option" where
  "rename_move nf =
     (case nf of (name, fd) \<Rightarrow>
        if IsReferenceType (FType fd) \<and> has_suffix name ''Name'' then
          Some \<lparr>From = name, To = trim_suffix name ''Name'' @ ''Id'',
                CodeName = Capitalize (trim_suffix name ''Name'' @ ''ID''), DestDefined = False, NoDeleteFromField = False\<rparr>
        else if IsArrayType (FType fd) \<and> IsReferenceType (SubType (FType fd)) \<and> has_suffix name ''Names'' then
          Some \<lparr>From = name, To = trim_suffix name ''Names'' @ ''Ids'',
                CodeName = Capitalize (trim_suffix name ''Names'' @ ''IDs''), DestDefined = False, NoDeleteFromField = False\<rparr>
        else None)"

definition RenameReference_ModifySchema :: "mapper list \<Rightarrow> mstate \<Rightarrow> (mstate \<times> mapper list) res" where
  "RenameReference_ModifySchema old st =
     (let moves = List.map_filter rename_move (ResourceFields (fst st))
      in rbind (rfold Move_ModifySchema moves st)
           (\<lambda>st'. Ok (st', if moves = [] then old else map MoveMapper moves)))"

definition SetValue_ModifySchema :: "string \<Rightarrow> string \<Rightarrow> bool \<Rightarrow> mstate \<Rightarrow> mstate res" where
  "SetValue_ModifySchema field to ignoreDef st =
     (if ignoreDef then Ok st
      else rbind (getField st (SetValue_getTo field to)) (\<lambda>(_, _, f).
        if f = None then Err (PlainErr (''failed to find defined field for '' @ SetValue_getTo field to @ '' on schemas '' @ ID (fst st)))
        else Ok st))"

definition SliceMerge_ModifySchema :: "string list \<Rightarrow> string \<Rightarrow> bool \<Rightarrow> mstate \<Rightarrow> mstate res" where
  "SliceMerge_ModifySchema from to ignoreDef st =
     (if ignoreDef then Ok st
      else rbind (rfold (\<lambda>f (s, ss). rbind (ValidateField f s) (\<lambda>_. Ok (if f \<noteq> to then del_field f s else s, ss))) from st)
        (\<lambda>(s, ss). rbind (ValidateField to s) (\<lambda>_. Ok (s, ss))))"

definition SliceToMap_ModifySchema :: "string \<Rightarrow> string \<Rightarrow> mstate \<Rightarrow> mstate res" where
  "SliceToMap_ModifySchema field key st =
     rbind (ValidateField field (fst st)) (\<lambda>_.
     rbind (getField st (field @ ''/'' @ key)) (\<lambda>(loc, subFieldName, _).
       let fd = field_of field (fst st)
       in if \<not> IsArrayType (FType fd) then Err (PlainErr (''field '' @ field @ '' on '' @ ID (fst st) @ '' is not an array''))
          else Ok (upd_at loc (del_field subFieldName)
                     (upd_at None (set_field field (fd\<lparr>FType := ''map['' @ SubType (FType fd) @ '']''\<rparr>)) st))))"

definition UnionEmbed_step :: "string \<times> string list \<Rightarrow> mstate \<times> (string \<times> embed) list \<Rightarrow> (mstate \<times> (string \<times> embed) list) res" where
  "UnionEmbed_step mapping x =
     (case (mapping, x) of ((fieldName, checks), (st, embeds)) \<Rightarrow>
        rbind (Embed_ModifySchema (embed_zero\<lparr>EField := fieldName, ignoreOverride := True\<rparr>) st) (\<lambda>(st', e).
        case find (\<lambda>c. \<not> has_field c (fst st')) checks of
          Some c \<Rightarrow> Err (PlainErr (''missing check field '' @ c @ '' on schema '' @ ID (fst st')))
        | None \<Rightarrow> Ok (st', mset_key fieldName e embeds)))"

definition scope_run :: "string \<Rightarrow> string \<Rightarrow> bool \<Rightarrow> string \<Rightarrow> bool" where
  "scope_run onlyIf ifNot run scope =
     (let run1 = (if onlyIf \<noteq> [] then scope = onlyIf else run)
      in if ifNot \<noteq> [] then scope \<noteq> ifNot else run1)"

text \<open>The three maps of the type mapper: the mappers of the schemas its fields refer to.\<close>

definition sub_mapper :: "Schemas \<Rightarrow> APIVersion \<Rightarrow> string \<Rightarrow> mapper option" where
  "sub_mapper ss v ty = Option.bind (Schema_of ss (Some v) ty) SMapper"

definition mapper_fields :: "Schema \<Rightarrow> fields" where
  "mapper_fields s = (case InternalSchema s of None \<Rightarrow> ResourceFields s | Some i \<Rightarrow> ResourceFields i)"

definition sub_mappers :: "(string \<Rightarrow> string option) \<Rightarrow> mstate \<Rightarrow> (string \<times> mapper) list" where
  "sub_mappers sel st =
     List.map_filter (\<lambda>(name, fd). Option.bind (sel (FType fd)) (\<lambda>ty.
       map_option (Pair name) (sub_mapper (snd st) (SVersion (fst st)) ty))) (mapper_fields (fst st))"

definition sel_object :: "string \<Rightarrow> string option" where
  "sel_object ty = (if IsArrayType ty \<or> IsMapType ty then None else Some ty)"

definition sel_array :: "string \<Rightarrow> string option" where
  "sel_array ty = (if IsArrayType ty then Some (SubType ty) else None)"

definition sel_map :: "string \<Rightarrow> string option" where
  "sel_map ty = (if \<not> IsArrayType ty \<and> IsMapType ty then Some (SubType ty) else None)"

section \<open>All mappers\<close>

lemma rmap_acc_cong [fundef_cong]:
  "xs = xs' \<Longrightarrow> s = s' \<Longrightarrow> (\<And>x s. x \<in> set xs' \<Longrightarrow> f x s = f' x s) \<Longrightarrow> rmap_acc f xs s = rmap_acc f' xs' s'"
proof (induction xs arbitrary: xs' s s')
  case Nil
  then show ?case by auto
next
  case (Cons x xs)
  have "rmap_acc f xs = rmap_acc f' xs"
    by (rule ext, intro Cons.IH) (use Cons.prems in auto)
  then show ?case using Cons.prems by auto
qed

definition keep :: "mapper \<Rightarrow> mstate res \<Rightarrow> (mstate \<times> mapper) res" where
  "keep m r = rbind r (\<lambda>st. Ok (st, m))"

fun ModifySchema :: "mapper \<Rightarrow> mstate \<Rightarrow> (mstate \<times> mapper) res" where
  "ModifySchema (Mappers ms) st = rbind (rmap_acc (\<lambda>m s. ModifySchema m s) ms st) (\<lambda>(st', ms'). Ok (st', Mappers ms'))"
| "ModifySchema (TypeMapper ms root _ _ _ _) st =
     (let typeName = Path (SVersion (fst st)) @ ''/schemas/'' @ ID (fst st)
      in rbind (rmap_acc (\<lambda>m s. ModifySchema m s) ms st) (\<lambda>(st', ms').
           Ok (st', TypeMapper ms' root typeName (sub_mappers sel_object st) (sub_mappers sel_array st) (sub_mappers sel_map st))))"
| "ModifySchema (ScopeMapper onlyIf ifNot ms run) st =
     (if scope_run onlyIf ifNot run (Scope (fst st)) then
        rbind (rmap_acc (\<lambda>m s. ModifySchema m s) ms st) (\<lambda>(st', ms'). Ok (st', ScopeMapper onlyIf ifNot ms' True))
      else Ok (st, ScopeMapper onlyIf ifNot ms False))"
| "ModifySchema (Root enabled m) st =
     (if CanList (fst st) = None then rbind (ModifySchema m st) (\<lambda>(st', m'). Ok (st', Root True m'))
      else Ok (st, Root enabled m))"
| "ModifySchema (CondMapper field value m) st = rbind (ModifySchema m st) (\<lambda>(st', m'). Ok (st', CondMapper field value m'))"
| "ModifySchema (RenameReference ms) st =
     rbind (RenameReference_ModifySchema ms st) (\<lambda>(st', ms'). Ok (st', RenameReference ms'))"
| "ModifySchema (EmbedMapper e) st = rbind (Embed_ModifySchema e st) (\<lambda>(st', e'). Ok (st', EmbedMapper e'))"
| "ModifySchema (UnionEmbed mappings _) st =
     rbind (rfold UnionEmbed_step mappings (st, [])) (\<lambda>(st', embeds). Ok (st', UnionEmbed mappings embeds))"
| "ModifySchema (BatchMove from to dest nodel moves) st =
     (let moves' = moves @ batch_moves from to dest nodel
      in rbind (rfold Move_ModifySchema moves' st) (\<lambda>st'. Ok (st', BatchMove from to dest nodel moves')))"
| "ModifySchema (APIGroup _ _) st =
     Ok (st, APIGroup (Group (SVersion (fst st)) @ ''/'' @ Version (SVersion (fst st))) (Capitalize (ID (fst st))))"
| "ModifySchema (Access fds opt) st = keep (Access fds opt) (Access_ModifySchema fds opt st)"
| "ModifySchema (AnnotationField field obj lst ign) st =
     keep (AnnotationField field obj lst ign) (if ign then Ok st else rbind (ValidateField field (fst st)) (\<lambda>_. Ok st))"
| "ModifySchema (Base64 field ign sep) st =
     keep (Base64 field ign sep) (if ign then Ok st else rbind (ValidateField field (fst st)) (\<lambda>_. Ok st))"
| "ModifySchema (JSONEncode field ign sep) st =
     keep (JSONEncode field ign sep) (if ign then Ok st else rbind (ValidateField field (fst st)) (\<lambda>_. Ok st))"
| "ModifySchema (LabelField field) st = keep (LabelField field) (rbind (ValidateField field (fst st)) (\<lambda>_. Ok st))"
| "ModifySchema (ChangeType field ty) st = keep (ChangeType field ty) (ChangeType_ModifySchema field ty st)"
| "ModifySchema (Copy from to) st = keep (Copy from to) (Copy_ModifySchema from to st)"
| "ModifySchema DisplayName st =
     keep DisplayName
       (rbind (Move_ModifySchema (simple_move ''name'' ''id'') st) (\<lambda>st1.
        rbind (Move_ModifySchema (simple_move ''displayName'' ''name'') st1)
          (Access_ModifySchema [(''id'', []), (''name'', ''cru'')] False)))"
| "ModifySchema (Drop field ign) st = keep (Drop field ign) (Drop_ModifySchema field ign st)"
| "ModifySchema (Enum field opts) st = keep (Enum field opts) (Enum_ModifySchema field opts st)"
| "ModifySchema (MoveMapper m) st = keep (MoveMapper m) (Move_ModifySchema m st)"
| "ModifySchema (ReadOnly field opt sub) st = keep (ReadOnly field opt sub) (ReadOnly_ModifySchema field opt sub st)"
| "ModifySchema (RequiredMapper fds) st = keep (RequiredMapper fds) (Required_ModifySchema fds st)"
| "ModifySchema (SetValue field to value ifEq ign) st =
     keep (SetValue field to value ifEq ign) (SetValue_ModifySchema field to ign st)"
| "ModifySchema (SliceMerge from to ign) st = keep (SliceMerge from to ign) (SliceMerge_ModifySchema from to ign st)"
| "ModifySchema (SliceToMap field key) st = keep (SliceToMap field key) (SliceToMap_ModifySchema field key st)"
| "ModifySchema PendingStatus st = Ok (st, PendingStatus)"
| "ModifySchema (UntypedMove from to sep) st = Ok (st, UntypedMove from to sep)"

end
