(* ===== verification/Reflection.thy ===== *)
theory Reflection
  imports MapperSchema
begin

text \<open>
  The construction of schemas from Go struct types, \<^verbatim>\<open>types/reflection.go\<close>. A Go type is a value of
  \<open>gotype\<close>; struct types are named by package path and name, and \<open>structs\<close> of the environment gives
  their fields, so types may be recursive. The functions take fuel: a type that embeds itself would be
  read forever. \<^const>\<open>None\<close> is running out of fuel.

  The pointer to the schema that \<^verbatim>\<open>importType\<close> returns is only used for its ID, which is returned here.
  An error leaves the registry half changed and every caller gives up; here it discards the registry.
\<close>

section \<open>Go types\<close>

type_synonym tid = "string \<times> string"

datatype gotype =
    TUint8 | TBool | TInt | TInt32 | TUint32 | TUint64 | TInt64 | TFloat32 | TFloat64
  | TInterface | TString | TMapOf gotype | TSliceOf gotype | TPtr gotype | TStruct tid | TOther string

record sfield =
  SFName :: string
  SFPkgPath :: string
  SFType :: gotype
  JsonTag :: string
  NormanTag :: string
  Anonymous :: bool

record ienv =
  structs :: "tid \<Rightarrow> sfield list"
  typeNames :: "(tid \<times> string) list"
  DefaultMappers :: "mapper list option"
  DefaultPostMappers :: "mapper list option"

abbreviation "norman_types \<equiv> ''github.com/rancher/norman/types''"
abbreviation "namespacedType \<equiv> (norman_types, ''Namespaced'')"
abbreviation "resourceType \<equiv> (norman_types, ''Resource'')"
abbreviation "k8s_meta \<equiv> ''k8s.io/apimachinery/pkg/apis/meta/v1''"

definition blacklistNames :: "string list" where
  "blacklistNames = [''links'', ''actions'']"

definition type_string :: "tid \<Rightarrow> string" where
  "type_string t = last (slash_path (fst t)) @ ''.'' @ snd t"

definition getTypeName :: "ienv \<Rightarrow> tid \<Rightarrow> string" where
  "getTypeName E t = (case map_of (typeNames E) t of Some n \<Rightarrow> n | None \<Rightarrow> LowerTitle (snd t))"

definition AddMapperForType :: "ienv \<Rightarrow> APIVersion \<Rightarrow> tid \<Rightarrow> mapper list \<Rightarrow> Schemas \<Rightarrow> Schemas" where
  "AddMapperForType E v t ms s =
     (case ms of
        [] \<Rightarrow> s
      | [m] \<Rightarrow> AddMapper s v (getTypeName E t) m
      | _ \<Rightarrow> AddMapper s v (getTypeName E t) (Mappers ms))"

definition jsonName :: "sfield \<Rightarrow> string" where
  "jsonName f = hd (split_n2 (JsonTag f) '','')"

definition k8sType :: "sfield \<Rightarrow> bool" where
  "k8sType f \<longleftrightarrow> (case SFType f of TStruct (pkg, name) \<Rightarrow> name = ''TypeMeta'' \<and> has_suffix pkg k8s_meta | _ \<Rightarrow> False)"

definition k8sObject :: "sfield \<Rightarrow> bool" where
  "k8sObject f \<longleftrightarrow> (case SFType f of TStruct (pkg, name) \<Rightarrow> name = ''ObjectMeta'' \<and> has_suffix pkg k8s_meta | _ \<Rightarrow> False)"

definition deRef :: "gotype \<Rightarrow> gotype" where
  "deRef t = (case t of TPtr u \<Rightarrow> u | _ \<Rightarrow> t)"

section \<open>Tags\<close>

definition getKeyValue :: "string \<Rightarrow> string \<times> string" where
  "getKeyValue input =
     (let parts = split_n2 input ''='' in (parts ! 0, if length parts > 1 then parts ! 1 else []))"

definition split_options :: "string \<Rightarrow> string list" where
  "split_options input =
     filter (\<lambda>p. p \<noteq> []) (map trim_space (concat (map (split_char CHR '' '') (split_char CHR ''|'' input))))"

definition toInt :: "string \<Rightarrow> sfield \<Rightarrow> int res" where
  "toInt value sf =
     (case ParseInt value of
        Ok i \<Rightarrow> Ok i
      | Err e \<Rightarrow> Err (PlainErr (''invalid number on field '' @ SFName sf @ '': '' @ err_string e))
      | Panic \<Rightarrow> Panic)"

definition apply_part :: "sfield \<Rightarrow> string \<Rightarrow> field \<Rightarrow> field res" where
  "apply_part sf part f =
     (if part = [] then Ok f
      else case getKeyValue part of (key, value) \<Rightarrow>
        if key = ''type'' then Ok (f\<lparr>FType := value\<rparr>)
        else if key = ''codeName'' then Ok (f\<lparr>FCodeName := value\<rparr>)
        else if key = ''default'' then Ok (f\<lparr>Default := VStr value\<rparr>)
        else if key = ''nullable'' then Ok (f\<lparr>Nullable := True\<rparr>)
        else if key = ''notnullable'' then Ok (f\<lparr>Nullable := False\<rparr>)
        else if key = ''nocreate'' then Ok (f\<lparr>Create := False\<rparr>)
        else if key = ''writeOnly'' then Ok (f\<lparr>WriteOnly := True\<rparr>)
        else if key = ''required'' then Ok (f\<lparr>Required := True\<rparr>)
        else if key = ''noupdate'' then Ok (f\<lparr>Update := False\<rparr>)
        else if key = ''minLength'' then rbind (toInt value sf) (\<lambda>i. Ok (f\<lparr>MinLength := Some i\<rparr>))
        else if key = ''maxLength'' then rbind (toInt value sf) (\<lambda>i. Ok (f\<lparr>MaxLength := Some i\<rparr>))
        else if key = ''min'' then rbind (toInt value sf) (\<lambda>i. Ok (f\<lparr>FMin := Some i\<rparr>))
        else if key = ''max'' then rbind (toInt value sf) (\<lambda>i. Ok (f\<lparr>FMax := Some i\<rparr>))
        else if key = ''options'' then
          Ok (f\<lparr>Options := split_options value, FType := (if FType f = [] then ''enum'' else FType f)\<rparr>)
        else if key = ''validChars'' then Ok (f\<lparr>ValidChars := value\<rparr>)
        else if key = ''invalidChars'' then Ok (f\<lparr>InvalidChars := value\<rparr>)
        else Err (PlainErr (''invalid tag '' @ key @ '' on field '' @ SFName sf)))"

definition applyTag :: "sfield \<Rightarrow> field \<Rightarrow> field res" where
  "applyTag sf f = rfold (apply_part sf) (split_char CHR '','' (NormanTag sf)) f"

section \<open>Fields\<close>

definition field_name :: "sfield \<Rightarrow> string" where
  "field_name f =
     (if jsonName f \<noteq> [] then jsonName f
      else let n = LowerTitle (SFName f) in if has_suffix n ''ID'' then trim_suffix n ''ID'' @ ''Id'' else n)"

definition is_number :: "gotype \<Rightarrow> bool" where
  "is_number t \<longleftrightarrow> t \<in> {TInt, TUint32, TInt32, TUint64, TInt64, TFloat32, TFloat64}"

definition initial_field :: "sfield \<Rightarrow> field" where
  "initial_field sf =
     (let f = field_zero\<lparr>Create := True, Update := True, Nullable := True, FCodeName := SFName sf\<rparr>
      in case SFType sf of
           TPtr _ \<Rightarrow> f
         | TBool \<Rightarrow> f\<lparr>Nullable := False, Default := VBool False\<rparr>
         | t \<Rightarrow> if is_number t then f\<lparr>Nullable := False, Default := VGoInt 0\<rparr> else f)"

definition convert_default :: "field \<Rightarrow> field res" where
  "convert_default f =
     (if Default f = VNil then Ok f
      else if FType f = ''int'' then rbind (ToNumber (Default f)) (\<lambda>n. Ok (f\<lparr>Default := VInt n\<rparr>))
      else if FType f = ''float'' then rbind (ToFloat (Default f)) (\<lambda>n. Ok (f\<lparr>Default := VFloat n\<rparr>))
      else if FType f = ''boolean'' then Ok (f\<lparr>Default := VBool (ToBool (Default f))\<rparr>)
      else Ok f)"

definition root_methods :: "Schema \<Rightarrow> Schema" where
  "root_methods s = s\<lparr>CollectionMethods := [''GET'', ''POST''], ResourceMethods := [''GET'', ''PUT'', ''DELETE'']\<rparr>"

section \<open>Filters\<close>

abbreviation "ModifierEQ \<equiv> ''eq''"
abbreviation "ModifierNE \<equiv> ''ne''"
abbreviation "ModifierNull \<equiv> ''null''"
abbreviation "ModifierNotNull \<equiv> ''notnull''"
abbreviation "ModifierIn \<equiv> ''in''"
abbreviation "ModifierNotIn \<equiv> ''notin''"

definition filter_mods :: "string \<Rightarrow> string list" where
  "filter_mods ty =
     (if ty \<in> {''enum'', ''date'', ''dnsLabel'', ''hostname'', ''string'', ''int''} then
        [ModifierEQ, ModifierNE, ModifierIn, ModifierNotIn]
      else if ty = ''boolean'' then [ModifierEQ, ModifierNE]
      else if IsReferenceType ty then [ModifierEQ, ModifierNE, ModifierIn, ModifierNotIn]
      else [])"

definition setupFilters :: "Schema \<Rightarrow> Schema" where
  "setupFilters s =
     (if \<not> ContainsString (CollectionMethods s) ''GET'' then s
      else s\<lparr>CollectionFilters := fold (\<lambda>(name, f) m. if filter_mods (FType f) = [] then m
                                       else mset_key name (filter_mods (FType f)) m)
                                  (ResourceFields s) (CollectionFilters s)\<rparr>)"

section \<open>Importing a type\<close>

record istate =
  reg :: Schemas
  processing :: "(tid \<times> string) list"

text \<open>The mappers of a type, and the end of \<^verbatim>\<open>importType\<close> once the schema is mapped.\<close>

definition type_mappers :: "ienv \<Rightarrow> Schemas \<Rightarrow> Schema \<Rightarrow> mapper list" where
  "type_mappers E ss schema =
     (let ms = mapper_of ss (Some (SVersion schema)) (ID schema);
          ms1 = (case DefaultMappers E of Some d \<Rightarrow> if CanList schema = None then d @ ms else ms | None \<Rightarrow> ms)
      in case DefaultPostMappers E of Some p \<Rightarrow> ms1 @ p | None \<Rightarrow> ms1)"

definition register_type :: "nat \<Rightarrow> Schema \<Rightarrow> mapper \<Rightarrow> istate \<Rightarrow> (string \<times> istate) res option" where
  "register_type n schema m st =
     (case AddSchema n ((setupFilters schema)\<lparr>SMapper := Some m\<rparr>) (reg st) of
        None \<Rightarrow> None
      | Some ss \<Rightarrow>
          (case Schemas_Err ss of
             Some e \<Rightarrow> Some (Err e)
           | None \<Rightarrow>
               (case Schema_of ss (Some (SVersion schema)) (ID schema) of
                  None \<Rightarrow> Some Panic
                | Some s \<Rightarrow> Some (Ok (ID s, st\<lparr>reg := ss\<rparr>)))))"

text \<open>
  Each function is a body over the functions it calls, and \<open>importType\<close> and the others below close
  the recursion, one unit of fuel per call.
\<close>

type_synonym import_fn = "ienv \<Rightarrow> APIVersion \<Rightarrow> tid \<Rightarrow> tid list \<Rightarrow> istate \<Rightarrow> (string \<times> istate) res option"
type_synonym new_fn = "ienv \<Rightarrow> APIVersion \<Rightarrow> tid \<Rightarrow> string \<Rightarrow> istate \<Rightarrow> (Schema \<times> istate) res option"
type_synonym read_fn = "ienv \<Rightarrow> tid \<Rightarrow> Schema \<times> istate \<Rightarrow> (Schema \<times> istate) res option"
type_synonym field_fn = "ienv \<Rightarrow> tid \<Rightarrow> sfield \<Rightarrow> Schema \<times> istate \<Rightarrow> (Schema \<times> istate) res option"
type_synonym type_fn = "ienv \<Rightarrow> APIVersion \<Rightarrow> gotype \<Rightarrow> istate \<Rightarrow> (string \<times> istate) res option"

definition import_body :: "new_fn \<Rightarrow> read_fn \<Rightarrow> nat \<Rightarrow> import_fn" where
  "import_body newSchema rfields n E v t overrides st =
     (let typeName = getTypeName E t in
      case Schema_of (reg st) (Some v) typeName of
        Some existing \<Rightarrow> Some (Ok (ID existing, st))
      | None \<Rightarrow>
          (case map_of (processing st) t of
             Some i \<Rightarrow> Some (Ok (i, st))
           | None \<Rightarrow>
               fbind (newSchema E v t typeName st) (\<lambda>(schema, st1).
               let ms = type_mappers E (reg st1) schema in
               fbind (if ms = [] then Some (Ok (schema, st1))
                      else fbind (newSchema E v t typeName st1) (\<lambda>(copy, st2).
                             Some (Ok (schema\<lparr>InternalSchema := Some (schema_core.truncate copy)\<rparr>, st2)))) (\<lambda>x.
               fbind (ffold (rfields E) overrides x) (\<lambda>(schema3, st3).
               fbind (Some (ModifySchema (TypeMapper ms (CanList schema3 = None) [] [] [] []) (schema3, reg st3)))
                 (\<lambda>((schema4, ss4), m). register_type n schema4 m (st3\<lparr>reg := ss4\<rparr>)))))))"

definition new_body :: "read_fn \<Rightarrow> new_fn" where
  "new_body rfields E v t typeName st =
     (let schema = schema_zero\<lparr>ID := typeName, SVersion := v, SCodeName := snd t, PkgName := fst t\<rparr>
      in fbind (rfields E t (schema, st\<lparr>processing := mset_key t typeName (processing st)\<rparr>))
           (\<lambda>(schema', st'). Some (Ok (schema', st'\<lparr>processing := mdel_key t (processing st')\<rparr>))))"

definition read_body :: "field_fn \<Rightarrow> read_fn" where
  "read_body rfield E t x =
     (let fds = filter (\<lambda>f. SFPkgPath f = [] \<and> jsonName f \<noteq> ''-'') (structs E t);
          hasType = list_ex (\<lambda>f. Anonymous f \<and> jsonName f = [] \<and> k8sType f) fds;
          hasMeta = list_ex (\<lambda>f. Anonymous f \<and> jsonName f = ''metadata'' \<and> k8sObject f) fds
      in fbind (ffold (rfield E t) fds (if t = resourceType then root_methods (fst x) else fst x, snd x))
           (\<lambda>(schema, st). Some (Ok (if hasType \<and> hasMeta then root_methods schema else schema, st))))"

definition infer_type :: "type_fn \<Rightarrow> ienv \<Rightarrow> APIVersion \<Rightarrow> tid \<Rightarrow> sfield \<Rightarrow> field \<Rightarrow> istate \<Rightarrow> (field \<times> istate) res option" where
  "infer_type dtype E v t sf f st =
     (if FType f \<noteq> [] then Some (Ok (f, st))
      else case dtype E v (deRef (SFType sf)) st of
             None \<Rightarrow> None
           | Some (Ok (ty, st')) \<Rightarrow> Some (Ok (f\<lparr>FType := ty\<rparr>, st'))
           | Some (Err e) \<Rightarrow>
               Some (Err (PlainErr (''failed inspecting type '' @ type_string t @ '', field '' @ field_name sf
                                    @ '': '' @ err_string e)))
           | Some Panic \<Rightarrow> Some Panic)"

definition field_body :: "read_fn \<Rightarrow> type_fn \<Rightarrow> field_fn" where
  "field_body rfields dtype E t sf x =
     (if Anonymous sf \<and> jsonName sf = [] then
        (case deRef (SFType sf) of
           TStruct u \<Rightarrow> rfields E u (if u = namespacedType then (fst x)\<lparr>Scope := NamespaceScope\<rparr> else fst x, snd x)
         | _ \<Rightarrow> Some (Ok x))
      else if field_name sf \<in> set blacklistNames then Some (Ok x)
      else fbind (Some (applyTag sf (initial_field sf))) (\<lambda>f.
           fbind (infer_type dtype E (SVersion (fst x)) t sf f (snd x)) (\<lambda>(f', st).
           fbind (Some (convert_default f')) (\<lambda>f''.
             Some (Ok (set_field (field_name sf) f'' (fst x), st))))))"

definition basic_type :: "gotype \<Rightarrow> string option" where
  "basic_type t =
     (case t of
        TUint8 \<Rightarrow> Some ''byte''
      | TBool \<Rightarrow> Some ''boolean''
      | TFloat32 \<Rightarrow> Some ''float''
      | TFloat64 \<Rightarrow> Some ''float''
      | TInterface \<Rightarrow> Some ''json''
      | TString \<Rightarrow> Some ''string''
      | TStruct (_, name) \<Rightarrow>
          if name = ''Time'' then Some ''date''
          else if name = ''IntOrString'' then Some ''intOrString''
          else if name = ''Quantity'' then Some ''string''
          else None
      | _ \<Rightarrow> if is_number t then Some ''int'' else None)"

definition type_body :: "import_fn \<Rightarrow> type_fn \<Rightarrow> type_fn" where
  "type_body imp dtype E v t st =
     (case basic_type t of
        Some b \<Rightarrow> Some (Ok (b, st))
      | None \<Rightarrow>
          (case t of
             TMapOf u \<Rightarrow> fbind (dtype E v (deRef u) st) (\<lambda>(sub, st'). Some (Ok (''map['' @ sub @ '']'', st')))
           | TSliceOf u \<Rightarrow>
               fbind (dtype E v (deRef u) st) (\<lambda>(sub, st').
                 Some (Ok (if sub = ''byte'' then ''base64'' else ''array['' @ sub @ '']'', st')))
           | TStruct u \<Rightarrow> imp E v u [] st
           | TOther k \<Rightarrow> Some (Err (PlainErr (''unknown type kind '' @ k)))
           | _ \<Rightarrow> Some (Err (PlainErr ''unknown type kind ptr''))))"

fun importType :: "nat \<Rightarrow> import_fn"
  and newSchemaFromType :: "nat \<Rightarrow> new_fn"
  and readFields :: "nat \<Rightarrow> read_fn"
  and readField :: "nat \<Rightarrow> field_fn"
  and determineSchemaType :: "nat \<Rightarrow> type_fn" where
  "importType 0 = (\<lambda>E v t overrides st. None)"
| "importType (Suc n) = import_body (newSchemaFromType n) (readFields n) n"
| "newSchemaFromType 0 = (\<lambda>E v t typeName st. None)"
| "newSchemaFromType (Suc n) = new_body (readFields n)"
| "readFields 0 = (\<lambda>E t x. None)"
| "readFields (Suc n) = read_body (readField n)"
| "readField 0 = (\<lambda>E t sf x. None)"
| "readField (Suc n) = field_body (readFields n) (determineSchemaType n)"
| "determineSchemaType 0 = (\<lambda>E v t st. None)"
| "determineSchemaType (Suc n) = type_body (importType n) (determineSchemaType n)"

definition Import :: "nat \<Rightarrow> ienv \<Rightarrow> APIVersion \<Rightarrow> tid \<Rightarrow> tid list \<Rightarrow> istate \<Rightarrow> (string \<times> istate) res option" where
  "Import n E v t overrides st = importType n E v t overrides st"

text \<open>\<^verbatim>\<open>MustImport\<close> panics on an error.\<close>

definition MustImport :: "nat \<Rightarrow> ienv \<Rightarrow> APIVersion \<Rightarrow> gotype \<Rightarrow> tid list \<Rightarrow> istate \<Rightarrow> istate res option" where
  "MustImport n E v t overrides st =
     (case t of
        TStruct u \<Rightarrow>
          (case Import n E v u overrides st of
             None \<Rightarrow> None
           | Some (Ok (_, st')) \<Rightarrow> Some (Ok st')
           | Some _ \<Rightarrow> Some Panic)
      | _ \<Rightarrow> Some Panic)"

definition MustCustomizeType :: "ienv \<Rightarrow> APIVersion \<Rightarrow> tid \<Rightarrow> (Schema \<Rightarrow> Schema) \<Rightarrow> istate \<Rightarrow> istate res" where
  "MustCustomizeType E v t f st =
     (case doSchema (reg st) (Some v) (getTypeName E t) of
        None \<Rightarrow> Panic
      | Some r \<Rightarrow> Ok (st\<lparr>reg := (reg st)\<lparr>sheap := (sheap (reg st))[r := f (deref (reg st) r)]\<rparr>\<rparr>))"

end
