(* ===== verification/Builder.thy ===== *)
theory Builder
  imports Reflection
begin

text \<open>
  The validating copy of a request body or a stored object by its schema, \<^verbatim>\<open>parse/builder/builder.go\<close>.
  \<open>convert\<close> and \<open>Construct\<close> are mutually recursive through the fields whose type is a schema. They
  take fuel, since a default value is converted again and may hold an object of the schema that has the
  default; \<^const>\<open>None\<close> is running out of it.

  The label checks of \<^verbatim>\<open>k8s.io/apimachinery\<close>, the reference validator and the validators of the schemas
  are parameters of the builder.
\<close>

section \<open>Operations\<close>

datatype Operation = OpCreate | OpUpdate | OpAction | OpList | OpListForCreate

definition IsList :: "Operation \<Rightarrow> bool" where
  "IsList op \<longleftrightarrow> op = OpList \<or> op = OpListForCreate"

record builder =
  bVersion :: "APIVersion option"
  bSchemas :: Schemas
  RefValidator :: "(string \<Rightarrow> string \<Rightarrow> bool) option"
  edit :: bool
  export :: bool
  Validator :: "Schema \<Rightarrow> (gdata \<Rightarrow> err option) option"
  IsDNS1123Label :: "string \<Rightarrow> string list"
  IsDNS1035Label :: "string \<Rightarrow> string list"
  IsDNS1123Subdomain :: "string \<Rightarrow> string list"

definition fieldMatchesOp :: "field \<Rightarrow> Operation \<Rightarrow> bool" where
  "fieldMatchesOp f op =
     (case op of
        OpCreate \<Rightarrow> Create f
      | OpUpdate \<Rightarrow> Update f
      | OpList \<Rightarrow> FType f \<noteq> ''password'' \<and> \<not> WriteOnly f
      | OpListForCreate \<Rightarrow> FType f \<noteq> ''password''
      | OpAction \<Rightarrow> False)"

section \<open>Field criteria\<close>

text \<open>Strings are bytes here and every byte is a character: \<^verbatim>\<open>range\<close> over a string gives runes.\<close>

definition CheckFieldCriteria :: "string \<Rightarrow> field \<Rightarrow> gval \<Rightarrow> unit res" where
  "CheckFieldCriteria fieldName f v0 =
     (let v = (if v0 = VNil \<and> Default f \<noteq> VNil then Default f else v0);
          hasStrVal = (v \<noteq> VNil \<and> v \<noteq> VStr []);
          strVal = (if hasStrVal then sprint v else []);
          fail = (\<lambda>code. Err (NewFieldAPIError code fieldName []))
      in if \<not> hasStrVal \<and> \<not> Nullable f \<and> Default f = VNil then fail NotNullable
         else if (case (v0, FMin f) of (VInt n, Some lo) \<Rightarrow> n < lo | _ \<Rightarrow> False) then fail MinLimitExceeded
         else if (case (v0, FMax f) of (VInt n, Some hi) \<Rightarrow> n > hi | _ \<Rightarrow> False) then fail MaxLimitExceeded
         else if (hasStrVal \<or> v = VStr []) \<and> (case MinLength f of Some lo \<Rightarrow> int (length strVal) < lo | None \<Rightarrow> False)
           then fail MinLengthExceeded
         else if (hasStrVal \<or> v = VStr []) \<and> (case MaxLength f of Some hi \<Rightarrow> int (length strVal) > hi | None \<Rightarrow> False)
           then fail MaxLengthExceeded
         else if Options f \<noteq> [] \<and> (hasStrVal \<or> \<not> Nullable f) \<and> strVal \<notin> set (Options f) then fail InvalidOption
         else if ValidChars f \<noteq> [] \<and> hasStrVal \<and> (\<exists>c \<in> set strVal. c \<notin> set (ValidChars f)) then fail InvalidCharacters
         else if InvalidChars f \<noteq> [] \<and> hasStrVal \<and> contains_any strVal (InvalidChars f) then fail InvalidCharacters
         else Ok ())"

section \<open>Conversion\<close>

text \<open>\<^verbatim>\<open>%s\<close> of a value: the scalars that are not strings print with their type.\<close>

definition fmt_s :: "gval \<Rightarrow> string" where
  "fmt_s v =
     (case v of
        VBool _ \<Rightarrow> ''%!s(bool='' @ sprint v @ '')''
      | VInt _ \<Rightarrow> ''%!s(int64='' @ sprint v @ '')''
      | VGoInt _ \<Rightarrow> ''%!s(int='' @ sprint v @ '')''
      | VFloat _ \<Rightarrow> ''%!s(float64='' @ sprint v @ '')''
      | _ \<Rightarrow> sprint v)"

definition dns_check :: "(string \<Rightarrow> string list) \<Rightarrow> gval \<Rightarrow> Operation \<Rightarrow> gval res" where
  "dns_check isValid v op =
     (let str = ToString v in
      if str = [] then Ok (VStr [])
      else if (op = OpCreate \<or> op = OpUpdate) \<and> isValid str \<noteq> []
        then Err (NewAPIError InvalidFormat (''invalid value '' @ fmt_s v @ '': '' @ str_join '','' (isValid str)))
      else Ok (VStr str))"

text \<open>\<^const>\<open>None\<close> is the error \<^verbatim>\<open>ErrComplexType\<close>.\<close>

definition ConvertSimple :: "builder \<Rightarrow> string \<Rightarrow> gval \<Rightarrow> Operation \<Rightarrow> gval res option" where
  "ConvertSimple b fieldType v op =
     (if v = VNil then Some (Ok VNil)
      else if fieldType = ''json'' then Some (Ok v)
      else if fieldType = ''date'' then Some (Ok (if ToString v = [] then VNil else VStr (ToString v)))
      else if fieldType = ''boolean'' then Some (Ok (VBool (ToBool v)))
      else if fieldType = ''enum'' then Some (Ok (VStr (ToString v)))
      else if fieldType = ''int'' then Some (rbind (ToNumber v) (\<lambda>n. Ok (VInt n)))
      else if fieldType = ''float'' then Some (rbind (ToFloat v) (\<lambda>x. Ok (VFloat x)))
      else if fieldType = ''password'' then Some (Ok (VStr (ToString v)))
      else if fieldType = ''string'' then Some (Ok (VStr (if IsList op then ToStringNoTrim v else ToString v)))
      else if fieldType = ''dnsLabel'' then Some (dns_check (IsDNS1123Label b) v op)
      else if fieldType = ''dnsLabelRestricted'' then Some (dns_check (IsDNS1035Label b) v op)
      else if fieldType = ''hostname'' then Some (dns_check (IsDNS1123Subdomain b) v op)
      else if fieldType = ''intOrString'' then
        Some (case ToNumber v of Ok n \<Rightarrow> Ok (VInt n) | _ \<Rightarrow> Ok (VStr (ToString v)))
      else if fieldType = ''base64'' then Some (Ok (VStr (ToString v)))
      else if fieldType = ''reference'' then Some (Ok (VStr (ToString v)))
      else None)"

definition convertReferenceType :: "builder \<Rightarrow> string \<Rightarrow> gval \<Rightarrow> gval res" where
  "convertReferenceType b fieldType v =
     (let subType = SubType fieldType; strVal = ToString v
      in case RefValidator b of
           Some valid \<Rightarrow>
             if \<not> valid subType strVal
             then Err (NewAPIError InvalidReference (''Not found type: '' @ subType @ '' id: '' @ strVal))
             else Ok (VStr strVal)
         | None \<Rightarrow> Ok (VStr strVal))"

type_synonym convert_fn = "builder \<Rightarrow> string \<Rightarrow> gval \<Rightarrow> Operation \<Rightarrow> gval res option"
type_synonym construct_fn = "builder \<Rightarrow> Schema \<Rightarrow> gdata \<Rightarrow> Operation \<Rightarrow> gdata res option"

fun fmap_list :: "('a \<Rightarrow> 'b res option) \<Rightarrow> 'a list \<Rightarrow> 'b list res option" where
  "fmap_list f [] = Some (Ok [])"
| "fmap_list f (x # xs) = fbind (f x) (\<lambda>y. fbind (fmap_list f xs) (\<lambda>ys. Some (Ok (y # ys))))"

text \<open>A nil map or slice returned as an interface is not nil: a value of the wrong kind gives
  \<^term>\<open>VMap None\<close> or \<^term>\<open>VList []\<close>.\<close>

definition convertArray :: "convert_fn \<Rightarrow> builder \<Rightarrow> string \<Rightarrow> gval \<Rightarrow> Operation \<Rightarrow> gval list res option" where
  "convertArray conv b fieldType v op =
     (case v of
        VStrs ss \<Rightarrow> Some (Ok (map VStr ss))
      | VList vs \<Rightarrow> fmap_list (\<lambda>x. conv b (SubType fieldType) x op) vs
      | _ \<Rightarrow> Some (Ok []))"

definition wrap_err :: "(err \<Rightarrow> err) \<Rightarrow> 'a res option \<Rightarrow> 'a res option" where
  "wrap_err w r = (case r of Some (Err e) \<Rightarrow> Some (Err (w e)) | _ \<Rightarrow> r)"

definition convertMap :: "convert_fn \<Rightarrow> builder \<Rightarrow> string \<Rightarrow> gval \<Rightarrow> Operation \<Rightarrow> gdata res option" where
  "convertMap conv b fieldType v op =
     (case v of
        VMap m \<Rightarrow>
          fbind (fmap_list (\<lambda>(k, x). fbind (wrap_err (\<lambda>e. WrapAPIError e InvalidFormat (err_string e))
                                              (conv b (SubType fieldType) x op)) (\<lambda>y. Some (Ok (k, y))))
                 (mentries m))
            (\<lambda>kvs. Some (Ok (Some kvs)))
      | _ \<Rightarrow> Some (Ok None))"

definition convertType :: "construct_fn \<Rightarrow> convert_fn" where
  "convertType constr b fieldType v op =
     (case Schema_of (bSchemas b) (bVersion b) fieldType of
        None \<Rightarrow> Some (Err (NewAPIError InvalidType (''Failed to find type '' @ fieldType)))
      | Some schema \<Rightarrow>
          (case v of
             VMap m \<Rightarrow> fbind (constr b schema m op) (\<lambda>m'. Some (Ok (VMap m')))
           | _ \<Rightarrow> Some (Err (NewAPIError InvalidFormat
                     (''Value can not be converted to type '' @ fieldType @ '': '' @ sprint v)))))"

definition convert_body :: "convert_fn \<Rightarrow> construct_fn \<Rightarrow> convert_fn" where
  "convert_body conv constr b fieldType v op =
     (if v = VNil then Some (Ok VNil)
      else if IsMapType fieldType then fbind (convertMap conv b fieldType v op) (\<lambda>m. Some (Ok (VMap m)))
      else if IsArrayType fieldType then fbind (convertArray conv b fieldType v op) (\<lambda>vs. Some (Ok (VList vs)))
      else if IsReferenceType fieldType then Some (convertReferenceType b fieldType v)
      else case ConvertSimple b fieldType v op of
             Some r \<Rightarrow> Some r
           | None \<Rightarrow> convertType constr b fieldType v op)"

section \<open>Copying the fields\<close>

definition check_value :: "string \<Rightarrow> field \<Rightarrow> gval \<Rightarrow> unit res" where
  "check_value fieldName f v =
     (case v of
        VList vs \<Rightarrow>
          rfold (\<lambda>x _. if x = VNil
                       then Err (NewFieldAPIError NotNullable fieldName ''Individual array values can not be null'')
                       else CheckFieldCriteria fieldName f x) vs ()
      | _ \<Rightarrow> CheckFieldCriteria fieldName f v)"

definition store_value :: "builder \<Rightarrow> Operation \<Rightarrow> string \<Rightarrow> field \<Rightarrow> gval \<Rightarrow> (string \<times> gval) list \<Rightarrow> (string \<times> gval) list" where
  "store_value b op fieldName f v result =
     (let r1 = mset_key fieldName v result
      in if IsList op \<and> FType f = ''date'' \<and> v \<noteq> VStr [] \<and> \<not> edit b
         then (case ToTimestamp v of Some ts \<Rightarrow> mset_key (fieldName @ ''TS'') (VInt ts) r1 | None \<Rightarrow> r1)
         else r1)"

definition copyInput :: "convert_fn \<Rightarrow> builder \<Rightarrow> Schema \<Rightarrow> Operation \<Rightarrow> string \<times> gval \<Rightarrow> (string \<times> gval) list
                         \<Rightarrow> (string \<times> gval) list res option" where
  "copyInput conv b schema op nv result =
     (case nv of (fieldName, v) \<Rightarrow>
        case map_of (ResourceFields schema) fieldName of
          None \<Rightarrow> Some (Ok result)
        | Some f \<Rightarrow>
            if \<not> fieldMatchesOp f op then Some (Ok result)
            else
              fbind (wrap_err (\<lambda>e. WrapFieldAPIError e InvalidFormat fieldName (err_string e)) (conv b (FType f) v op)) (\<lambda>v'.
              if v' \<noteq> VNil \<or> (v = VNil \<and> (Nullable f \<or> Default f = VNil))
              then fbind (Some (if IsList op then Ok () else check_value fieldName f v'))
                     (\<lambda>_. Some (Ok (store_value b op fieldName f v' result)))
              else Some (Ok result)))"

definition copy_identity :: "builder \<Rightarrow> Operation \<Rightarrow> gdata \<Rightarrow> (string \<times> gval) list \<Rightarrow> (string \<times> gval) list" where
  "copy_identity b op input result =
     (if IsList op \<and> \<not> edit b \<and> \<not> export b then
        (let put = (\<lambda>k r. if IsAPIObjectEmpty (mget input k) then r else mset_key k (mget input k) r)
         in put ''id'' (put ''type'' result))
      else result)"

definition copyInputs :: "convert_fn \<Rightarrow> builder \<Rightarrow> Schema \<Rightarrow> gdata \<Rightarrow> Operation \<Rightarrow> (string \<times> gval) list res option" where
  "copyInputs conv b schema input op =
     fbind (ffold (copyInput conv b schema op) (mentries input) [])
       (\<lambda>result. Some (Ok (copy_identity b op input result)))"

definition check_required :: "convert_fn \<Rightarrow> builder \<Rightarrow> Operation \<Rightarrow> string \<Rightarrow> field \<Rightarrow> (string \<times> gval) list \<Rightarrow> unit res option" where
  "check_required conv b op fieldName f result =
     (if op = OpCreate \<and> fieldMatchesOp f OpCreate \<and> Required f then
        (case map_of result fieldName of
           None \<Rightarrow> Some (Err (NewFieldAPIError MissingRequired fieldName []))
         | Some v \<Rightarrow>
             if IsArrayType (FType f) then
               fbind (convertArray conv b (FType f) v op)
                 (\<lambda>vs. Some (if vs = [] then Err (NewFieldAPIError MissingRequired fieldName []) else Ok ()))
             else Some (Ok ()))
      else Some (Ok ()))"

definition check_default :: "convert_fn \<Rightarrow> builder \<Rightarrow> Operation \<Rightarrow> string \<times> field \<Rightarrow> (string \<times> gval) list
                              \<Rightarrow> (string \<times> gval) list res option" where
  "check_default conv b op nf result =
     (case nf of (fieldName, f) \<Rightarrow>
        let r1 = (if op = OpCreate \<and> (case map_of result fieldName of None \<Rightarrow> True | Some v \<Rightarrow> v = VStr []) \<and> Default f \<noteq> VNil
                  then mset_key fieldName (Default f) result else result);
            hasKey = (map_of r1 fieldName \<noteq> None)
        in fbind (check_required conv b op fieldName f r1) (\<lambda>_.
             Some (Ok (if IsList op \<and> fieldMatchesOp f OpList \<and> IsReferenceType (FType f) \<and> \<not> hasKey
                       then mset_key fieldName VNil r1
                       else if IsList op \<and> fieldMatchesOp f OpList \<and> \<not> hasKey \<and> Default f \<noteq> VNil
                       then mset_key fieldName (Default f) r1 else r1))))"

text \<open>
  \<^verbatim>\<open>b.convert(field.Type, nil, List)\<close> is nil without an error, so the two uses of it below compare
  with nil and store nil. Comparing a default value with a value of the same uncomparable type panics.
\<close>

definition edit_key :: "field \<Rightarrow> string \<Rightarrow> string" where
  "edit_key f name =
     (let desc = (if Description f = [] then [] else Description f @ '' '')
      in ''zzz#('' @ desc @ '')('' @ FType f @ '')'' @ name)"

definition edit_field :: "string \<times> field \<Rightarrow> (string \<times> gval) list \<Rightarrow> (string \<times> gval) list res" where
  "edit_field nf result =
     (case nf of (name, f) \<Rightarrow>
        if \<not> Update f then Ok (if name \<noteq> ''name'' then mdel_key name result else result)
        else case map_of result name of
               Some v \<Rightarrow>
                 if Default f = VNil then Ok result
                 else (case go_eq (Default f) v of
                         None \<Rightarrow> Panic
                       | Some True \<Rightarrow> Ok (mset_key (edit_key f name) v (mdel_key name result))
                       | Some False \<Rightarrow> Ok result)
             | None \<Rightarrow> Ok (mset_key (edit_key f name) (Default f) result))"

definition populateMissingFieldsForEdit :: "Schema \<Rightarrow> (string \<times> gval) list \<Rightarrow> (string \<times> gval) list res" where
  "populateMissingFieldsForEdit schema result = rfold edit_field (ResourceFields schema) result"

definition export_field :: "Schema \<Rightarrow> string \<times> gval \<Rightarrow> (string \<times> gval) list \<Rightarrow> (string \<times> gval) list res" where
  "export_field schema nv result =
     (case nv of (name, existingVal) \<Rightarrow>
        let f = field_of name schema in
        if \<not> has_field name schema \<or> \<not> Create f then Ok (mdel_key name result)
        else case go_eq (Default f) existingVal of
               None \<Rightarrow> Panic
             | Some True \<Rightarrow> Ok (mdel_key name result)
             | Some False \<Rightarrow>
                 if existingVal = VNil \<or> IsAPIObjectEmpty existingVal then Ok (mdel_key name result) else Ok result)"

definition dropDefaultsAndReadOnly :: "Schema \<Rightarrow> (string \<times> gval) list \<Rightarrow> (string \<times> gval) list res" where
  "dropDefaultsAndReadOnly schema result = rfold (export_field schema) result result"

definition checkDefaultAndRequired :: "convert_fn \<Rightarrow> builder \<Rightarrow> Schema \<Rightarrow> Operation \<Rightarrow> (string \<times> gval) list
                                        \<Rightarrow> (string \<times> gval) list res option" where
  "checkDefaultAndRequired conv b schema op result =
     fbind (ffold (check_default conv b op) (ResourceFields schema) result) (\<lambda>r1.
     fbind (Some (if IsList op \<and> edit b then populateMissingFieldsForEdit schema r1 else Ok r1)) (\<lambda>r2.
       Some (if IsList op \<and> export b then dropDefaultsAndReadOnly schema r2 else Ok r2)))"

definition copyFields :: "convert_fn \<Rightarrow> builder \<Rightarrow> Schema \<Rightarrow> gdata \<Rightarrow> Operation \<Rightarrow> (string \<times> gval) list res option" where
  "copyFields conv b schema input op =
     fbind (copyInputs conv b schema input op) (checkDefaultAndRequired conv b schema op)"

definition construct_body :: "convert_fn \<Rightarrow> construct_fn" where
  "construct_body conv b schema input op =
     fbind (copyFields conv b schema input op) (\<lambda>result.
       Some (if op = OpCreate \<or> op = OpUpdate then
               (case Validator b schema of
                  None \<Rightarrow> Ok (Some result)
                | Some validate \<Rightarrow> (case validate (Some result) of Some e \<Rightarrow> Err e | None \<Rightarrow> Ok (Some result)))
             else Ok (Some result)))"

fun convert :: "nat \<Rightarrow> convert_fn"
  and Construct :: "nat \<Rightarrow> construct_fn" where
  "convert 0 = (\<lambda>b fieldType v op. None)"
| "convert (Suc n) = convert_body (convert n) (Construct n)"
| "Construct 0 = (\<lambda>b schema input op. None)"
| "Construct (Suc n) = construct_body (convert n)"

end
