(* ===== verification/BuilderLaws.thy ===== *)
theory BuilderLaws
  imports Builder
begin

text \<open>
  What the input builder guarantees: the object it makes conforms to its schema, required fields are
  there, write-only fields are not listed, and it returns when the default values are scalars.
\<close>

section \<open>Loops that may run out of fuel\<close>

lemma fbind_Ok_iff: "fbind m f = Some (Ok y) \<longleftrightarrow> (\<exists>x. m = Some (Ok x) \<and> f x = Some (Ok y))"
  by (auto simp: fbind_def split: option.splits res.splits)

lemma fbind_None_iff: "fbind m f = None \<longleftrightarrow> m = None \<or> (\<exists>x. m = Some (Ok x) \<and> f x = None)"
  by (auto simp: fbind_def split: option.splits res.splits)

lemma ffold_inv:
  assumes "ffold f xs s = Some (Ok t)" "P s"
    and "\<And>x s t. x \<in> set xs \<Longrightarrow> P s \<Longrightarrow> f x s = Some (Ok t) \<Longrightarrow> P t"
  shows "P t"
  using assms
proof (induction xs arbitrary: s)
  case (Cons x xs)
  from Cons.prems(1) obtain u where u: "f x s = Some (Ok u)" "ffold f xs u = Some (Ok t)" by (auto simp: fbind_Ok_iff)
  have "P u" by (rule Cons.prems(3) [OF _ Cons.prems(2) u(1)]) simp
  then show ?case by (rule Cons.IH [OF u(2)]) (rule Cons.prems(3); simp)
qed simp

lemma ffold_returns:
  assumes "P s" "\<And>x s. x \<in> set xs \<Longrightarrow> P s \<Longrightarrow> f x s \<noteq> None"
    and "\<And>x s t. x \<in> set xs \<Longrightarrow> P s \<Longrightarrow> f x s = Some (Ok t) \<Longrightarrow> P t"
  shows "ffold f xs s \<noteq> None"
  using assms
proof (induction xs arbitrary: s)
  case (Cons x xs)
  then have "ffold f xs t \<noteq> None" if "f x s = Some (Ok t)" for t
    using that Cons.IH [of t] by (meson list.set_intros)
  moreover have "f x s \<noteq> None" using Cons.prems by simp
  ultimately show ?case by (simp add: fbind_None_iff)
qed simp

lemma fmap_list_all: "fmap_list f xs = Some (Ok ys) \<Longrightarrow> list_all2 (\<lambda>x y. f x = Some (Ok y)) xs ys"
  by (induction xs arbitrary: ys) (auto simp: fbind_Ok_iff)

lemma fmap_list_returns: "(\<And>x. x \<in> set xs \<Longrightarrow> f x \<noteq> None) \<Longrightarrow> fmap_list f xs \<noteq> None"
  by (induction xs) (auto simp: fbind_None_iff)

lemma list_all2_set2: "list_all2 P xs ys \<Longrightarrow> y \<in> set ys \<Longrightarrow> \<exists>x \<in> set xs. P x y"
  by (induction rule: list_all2_induct) auto

lemma wrap_err_Ok [simp]: "wrap_err w r = Some (Ok x) \<longleftrightarrow> r = Some (Ok x)"
  by (auto simp: wrap_err_def split: option.splits res.splits)

lemma wrap_err_None [simp]: "wrap_err w r = None \<longleftrightarrow> r = None"
  by (auto simp: wrap_err_def split: option.splits res.splits)

text \<open>The entries of a map after a write.\<close>

lemma set_mset_key_iff: "(k', v') \<in> set (mset_key k v m) \<Longrightarrow> (k' = k \<and> v' = v) \<or> (k', v') \<in> set m"
  by (induction m) (auto split: if_splits)

lemma set_mdel_key: "x \<in> set (mdel_key k m) \<Longrightarrow> x \<in> set m"
  by (induction m) (auto split: if_splits)

section \<open>Typed values\<close>

text \<open>The values of the types that are not maps, arrays, references or schemas.\<close>

definition simple_typed :: "string \<Rightarrow> gval \<Rightarrow> bool" where
  "simple_typed ty v \<longleftrightarrow>
     (if ty = ''json'' then True
      else if ty = ''boolean'' then (\<exists>b. v = VBool b)
      else if ty = ''int'' then (\<exists>i. v = VInt i)
      else if ty = ''float'' then (\<exists>x. v = VFloat x)
      else if ty = ''intOrString'' then (\<exists>i. v = VInt i) \<or> (\<exists>s. v = VStr s)
      else ty \<in> {''date'', ''enum'', ''password'', ''string'', ''dnsLabel'', ''dnsLabelRestricted'', ''hostname'', ''base64'', ''reference''}
           \<and> (\<exists>s. v = VStr s))"

text \<open>
  \<open>typed b op ty v\<close>: the value has the type, with the fields of an object those of its schema that the
  operation may set, each checked against the criteria of the field, or holding the default of the field
  when the operation creates the object.
\<close>

inductive typed :: "builder \<Rightarrow> Operation \<Rightarrow> string \<Rightarrow> gval \<Rightarrow> bool" for b op where
  typed_nil: "typed b op ty VNil"
| typed_nil_map: "IsMapType ty \<Longrightarrow> typed b op ty (VMap None)"
| typed_map: "IsMapType ty \<Longrightarrow> (\<And>k v. (k, v) \<in> set m \<Longrightarrow> typed b op (SubType ty) v) \<Longrightarrow> typed b op ty (VMap (Some m))"
| typed_array: "IsArrayType ty \<Longrightarrow> (\<And>v. v \<in> set vs \<Longrightarrow> typed b op (SubType ty) v) \<Longrightarrow> typed b op ty (VList vs)"
| typed_reference: "IsReferenceType ty \<Longrightarrow> typed b op ty (VStr s)"
| typed_simple: "simple_typed ty v \<Longrightarrow> typed b op ty v"
| typed_object: "Schema_of (bSchemas b) (bVersion b) ty = Some s \<Longrightarrow>
    (\<And>k v. (k, v) \<in> set m \<Longrightarrow> \<exists>f. map_of (ResourceFields s) k = Some f \<and>
        ((fieldMatchesOp f op \<and> typed b op (FType f) v \<and> check_value k f v = Ok ()) \<or> (op = OpCreate \<and> v = Default f))) \<Longrightarrow>
    typed b op ty (VMap (Some m))"

definition conforms :: "builder \<Rightarrow> Operation \<Rightarrow> Schema \<Rightarrow> (string \<times> gval) list \<Rightarrow> bool" where
  "conforms b op s m \<longleftrightarrow> (\<forall>(k, v) \<in> set m. \<exists>f. map_of (ResourceFields s) k = Some f \<and>
     ((fieldMatchesOp f op \<and> typed b op (FType f) v \<and> check_value k f v = Ok ()) \<or> (op = OpCreate \<and> v = Default f)))"

text \<open>Decoded JSON has no slice of strings; form data has, and its strings are not converted.\<close>

fun no_form :: "gval \<Rightarrow> bool" where
  "no_form (VStrs ss) = False"
| "no_form (VList vs) = list_all no_form vs"
| "no_form (VMap (Some m)) = list_all (\<lambda>kv. no_form (snd kv)) m"
| "no_form v = True"

lemma ConvertSimple_typed:
  assumes "ConvertSimple b ty v op = Some (Ok v')" "v \<noteq> VNil"
  shows "v' = VNil \<or> simple_typed ty v'"
  using assms
  by (auto simp: ConvertSimple_def simple_typed_def dns_check_def Let_def rbind_Ok_iff split: if_splits res.splits)

lemma convertReferenceType_typed: "convertReferenceType b ty v = Ok v' \<Longrightarrow> \<exists>s. v' = VStr s"
  by (auto simp: convertReferenceType_def Let_def split: option.splits if_splits)

section \<open>The builder makes objects that conform\<close>

definition distinct_fields :: "builder \<Rightarrow> bool" where
  "distinct_fields b \<longleftrightarrow> (\<forall>ty s. Schema_of (bSchemas b) (bVersion b) ty = Some s \<longrightarrow> gkeys (ResourceFields s))"

definition types_values :: "convert_fn \<Rightarrow> builder \<Rightarrow> Operation \<Rightarrow> bool" where
  "types_values conv b op \<longleftrightarrow> (\<forall>ty v v'. conv b ty v op = Some (Ok v') \<longrightarrow> no_form v \<longrightarrow> typed b op ty v')"

lemma types_valuesD: "types_values conv b op \<Longrightarrow> conv b ty v op = Some (Ok v') \<Longrightarrow> no_form v \<Longrightarrow> typed b op ty v'"
  by (simp add: types_values_def)

lemma conforms_put:
  "conforms b op s m \<Longrightarrow> map_of (ResourceFields s) k = Some f \<Longrightarrow>
   (fieldMatchesOp f op \<and> typed b op (FType f) v \<and> check_value k f v = Ok ()) \<or> (op = OpCreate \<and> v = Default f) \<Longrightarrow>
   conforms b op s (mset_key k v m)"
  unfolding conforms_def by (fastforce dest: set_mset_key_iff)

lemma conforms_Nil [simp]: "conforms b op s []"
  by (simp add: conforms_def)

lemma copyInput_conforms:
  assumes "types_values conv b op" "\<not> IsList op" "no_form v" "conforms b op s r"
    and run: "copyInput conv b s op (k, v) r = Some (Ok r')"
  shows "conforms b op s r'"
proof (cases "map_of (ResourceFields s) k")
  case None
  with run assms(4) show ?thesis by (simp add: copyInput_def)
next
  case (Some f)
  show ?thesis
  proof (cases "fieldMatchesOp f op")
    case False
    with run Some assms(4) show ?thesis by (simp add: copyInput_def)
  next
    case True
    with run Some obtain v' where v': "conv b (FType f) v op = Some (Ok v')"
      and "r' = r \<or> (check_value k f v' = Ok () \<and> r' = mset_key k v' r)"
      using assms(2) by (auto simp: copyInput_def fbind_Ok_iff store_value_def Let_def split: if_splits)
    then show ?thesis
      using conforms_put [OF assms(4) Some] types_valuesD [OF assms(1) v' assms(3)] True assms(4) by blast
  qed
qed

lemma copyInputs_conforms:
  assumes "types_values conv b op" "\<not> IsList op" "no_form (VMap d)" "copyInputs conv b s d op = Some (Ok r)"
  shows "conforms b op s r"
proof -
  from assms(2,4) have r: "ffold (copyInput conv b s op) (mentries d) [] = Some (Ok r)"
    by (auto simp: copyInputs_def fbind_Ok_iff copy_identity_def)
  show ?thesis
  proof (rule ffold_inv [OF r])
    fix x u t assume x: "x \<in> set (mentries d)" "conforms b op s u" "copyInput conv b s op x u = Some (Ok t)"
    have "no_form (snd x)" using x(1) assms(3) by (cases d) (auto simp: mentries_def list_all_iff)
    then show "conforms b op s t"
      using copyInput_conforms [OF assms(1,2) _ x(2), of "snd x" "fst x" t] x(3) by simp
  qed simp
qed

lemma check_default_conforms:
  assumes "\<not> IsList op" "map_of (ResourceFields s) k = Some f" "conforms b op s r"
    and run: "check_default conv b op (k, f) r = Some (Ok r')"
  shows "conforms b op s r'"
proof -
  from run assms(1) have "r' = (if op = OpCreate \<and> (case map_of r k of None \<Rightarrow> True | Some v \<Rightarrow> v = VStr []) \<and> Default f \<noteq> VNil
                               then mset_key k (Default f) r else r)"
    by (simp add: check_default_def Let_def fbind_Ok_iff split: if_splits)
  then consider "r' = r" | "op = OpCreate" "r' = mset_key k (Default f) r" by (auto split: if_splits)
  then show ?thesis using conforms_put [OF assms(3,2), of "Default f"] assms(3) by cases simp_all
qed

lemma checkDefaultAndRequired_conforms:
  assumes "\<not> IsList op" "gkeys (ResourceFields s)" "conforms b op s r" "checkDefaultAndRequired conv b s op r = Some (Ok r')"
  shows "conforms b op s r'"
proof -
  from assms(1,4) have r': "ffold (check_default conv b op) (ResourceFields s) r = Some (Ok r')"
    by (auto simp: checkDefaultAndRequired_def fbind_Ok_iff)
  show ?thesis
  proof (rule ffold_inv [OF r', where P = "conforms b op s"], rule assms(3))
    fix x u t assume x: "x \<in> set (ResourceFields s)" "conforms b op s u" "check_default conv b op x u = Some (Ok t)"
    have "map_of (ResourceFields s) (fst x) = Some (snd x)" using assms(2) x(1) by (simp add: gkeys_def)
    then show "conforms b op s t"
      using check_default_conforms [OF assms(1) _ x(2), of "fst x" "snd x" conv t] x(3) by simp
  qed
qed

lemma construct_conforms:
  assumes "types_values conv b op" "\<not> IsList op" "gkeys (ResourceFields s)" "no_form (VMap d)"
    and run: "construct_body conv b s d op = Some (Ok m)"
  shows "\<exists>m'. m = Some m' \<and> conforms b op s m'"
proof -
  from run obtain r where r: "copyFields conv b s d op = Some (Ok r)" and m: "m = Some r"
    by (auto simp: construct_body_def fbind_Ok_iff split: if_splits option.splits)
  then obtain r0 where "copyInputs conv b s d op = Some (Ok r0)" "checkDefaultAndRequired conv b s op r0 = Some (Ok r)"
    by (auto simp: copyFields_def fbind_Ok_iff)
  then have "conforms b op s r"
    using checkDefaultAndRequired_conforms [OF assms(2,3) copyInputs_conforms [OF assms(1,2,4)]] by blast
  with m show ?thesis by blast
qed

lemma convertMap_typed:
  assumes "types_values conv b op" "IsMapType ty" "no_form v" "convertMap conv b ty v op = Some (Ok m)"
  shows "typed b op ty (VMap m)"
proof (cases v)
  case (VMap d)
  with assms(4) obtain kvs where kvs: "m = Some kvs"
    "fmap_list (\<lambda>(k, x). fbind (wrap_err (\<lambda>e. WrapAPIError e InvalidFormat (err_string e)) (conv b (SubType ty) x op))
        (\<lambda>y. Some (Ok (k, y)))) (mentries d) = Some (Ok kvs)" by (auto simp: convertMap_def fbind_Ok_iff)
  have "typed b op (SubType ty) y" if "(k, y) \<in> set kvs" for k y
  proof -
    from list_all2_set2 [OF fmap_list_all [OF kvs(2)] that] obtain x where
      x: "x \<in> set (mentries d)" "conv b (SubType ty) (snd x) op = Some (Ok y)" by (auto simp: fbind_Ok_iff)
    have "no_form (snd x)" using x(1) assms(3) VMap by (cases d) (auto simp: mentries_def list_all_iff)
    then show ?thesis by (rule types_valuesD [OF assms(1) x(2)])
  qed
  with kvs(1) assms(2) show ?thesis by (auto intro: typed_map)
qed (use assms in \<open>auto simp: convertMap_def intro: typed_nil_map\<close>)

lemma convertArray_typed:
  assumes "types_values conv b op" "IsArrayType ty" "no_form v" "convertArray conv b ty v op = Some (Ok vs)"
  shows "typed b op ty (VList vs)"
proof (cases v)
  case (VList xs)
  then have map: "fmap_list (\<lambda>x. conv b (SubType ty) x op) xs = Some (Ok vs)" using assms(4) by (simp add: convertArray_def)
  have "typed b op (SubType ty) y" if "y \<in> set vs" for y
  proof -
    from list_all2_set2 [OF fmap_list_all [OF map] that] obtain x where
      x: "x \<in> set xs" "conv b (SubType ty) x op = Some (Ok y)" by auto
    with assms(3) VList show ?thesis using types_valuesD [OF assms(1) x(2)] by (simp add: list_all_iff)
  qed
  with assms(2) show ?thesis by (auto intro: typed_array)
qed (use assms in \<open>auto simp: convertArray_def intro: typed_array\<close>)

lemma convert_body_types:
  assumes "types_values conv b op" "distinct_fields b"
    and constr: "\<And>s d m. gkeys (ResourceFields s) \<Longrightarrow> no_form (VMap d) \<Longrightarrow> constr b s d op = Some (Ok m) \<Longrightarrow>
                   \<exists>m'. m = Some m' \<and> conforms b op s m'"
  shows "types_values (convert_body conv constr) b op"
  unfolding types_values_def
proof (intro allI impI)
  fix ty v v' assume run: "convert_body conv constr b ty v op = Some (Ok v')" and v: "no_form v"
  consider "v = VNil" | "v \<noteq> VNil" "IsMapType ty" | "v \<noteq> VNil" "\<not> IsMapType ty" "IsArrayType ty"
    | "v \<noteq> VNil" "\<not> IsMapType ty" "\<not> IsArrayType ty" "IsReferenceType ty"
    | "v \<noteq> VNil" "\<not> IsMapType ty" "\<not> IsArrayType ty" "\<not> IsReferenceType ty" by blast
  then show "typed b op ty v'"
  proof cases
    case 5
    show ?thesis
    proof (cases "ConvertSimple b ty v op")
      case None
      with 5 run have "convertType constr b ty v op = Some (Ok v')" by (simp add: convert_body_def)
      then obtain s m m' where s: "Schema_of (bSchemas b) (bVersion b) ty = Some s" and m: "v = VMap m"
        and m': "constr b s m op = Some (Ok m')" "v' = VMap m'"
        by (auto simp: convertType_def fbind_Ok_iff split: option.splits gval.splits)
      from s assms(2) have "gkeys (ResourceFields s)" by (auto simp: distinct_fields_def)
      from constr [OF this _ m'(1)] v m obtain o' where o': "m' = Some o'" "conforms b op s o'" by blast
      show ?thesis unfolding m'(2) o'(1) using o'(2) by (intro typed_object [OF s]) (auto simp: conforms_def)
    qed (use 5 run in \<open>auto simp: convert_body_def dest: ConvertSimple_typed intro: typed.intros(1,6)\<close>)
  qed (use run v in \<open>auto simp: convert_body_def fbind_Ok_iff intro: typed_nil
         convertMap_typed [OF assms(1)] convertArray_typed [OF assms(1)] dest: convertReferenceType_typed intro: typed_reference\<close>)
qed

lemma convert_types:
  assumes "distinct_fields b" "\<not> IsList op"
  shows "types_values (convert n) b op \<and>
    (\<forall>s d m. gkeys (ResourceFields s) \<longrightarrow> no_form (VMap d) \<longrightarrow> Construct n b s d op = Some (Ok m) \<longrightarrow>
       (\<exists>m'. m = Some m' \<and> conforms b op s m'))"
proof (induction n)
  case (Suc n)
  then have t: "types_values (convert n) b op" by blast
  have "types_values (convert (Suc n)) b op" using Suc convert_body_types [OF t assms(1)] by simp
  then show ?case using construct_conforms [OF t assms(2)] by simp
qed (simp add: types_values_def)

text \<open>C1. Type soundness of the input builder. When the builder accepts decoded JSON for a create, an update or
  an action, every key of the object it makes is a field of the schema; its value either is of the type
  of a field the operation may set, down through maps, arrays and nested objects, and meets the criteria
  of the field, or is the default of the field and the operation is a create. Everything else in the
  input is gone.\<close>

theorem Construct_type_sound:
  assumes "distinct_fields b" "gkeys (ResourceFields s)" "op \<in> {OpCreate, OpUpdate, OpAction}" "no_form (VMap d)"
    and "Construct n b s d op = Some (Ok m)"
  shows "\<exists>m'. m = Some m' \<and> (\<forall>(k, v) \<in> set m'. \<exists>f. map_of (ResourceFields s) k = Some f \<and>
     ((fieldMatchesOp f op \<and> typed b op (FType f) v \<and> check_value k f v = Ok ()) \<or> (op = OpCreate \<and> v = Default f)))"
proof -
  have "\<not> IsList op" using assms(3) by (auto simp: IsList_def)
  from convert_types [OF assms(1) this, of n] assms(2,4,5) show ?thesis by (simp add: conforms_def)
qed

section \<open>A sample builder\<close>

definition sample_builder :: builder where
  "sample_builder = \<lparr>bVersion = None, bSchemas = NewSchemas, RefValidator = None, edit = False, export = False,
     Validator = (\<lambda>_. None), IsDNS1123Label = (\<lambda>_. []), IsDNS1035Label = (\<lambda>_. []), IsDNS1123Subdomain = (\<lambda>_. [])\<rparr>"

definition sample_typed :: Schema where
  "sample_typed = (sample_schema ''pod'')\<lparr>ResourceFields :=
     [(''name'', field_zero\<lparr>FType := ''string'', Create := True, Required := True\<rparr>),
      (''scale'', field_zero\<lparr>FType := ''int'', Create := True, Default := VInt 1\<rparr>),
      (''tags'', field_zero\<lparr>FType := ''array[string]'', Create := True, Required := True\<rparr>),
      (''token'', field_zero\<lparr>FType := ''password'', Create := True, Nullable := True\<rparr>)]\<rparr>"

definition sample_input :: gdata where
  "sample_input = Some [(''name'', VStr ''web''), (''junk'', VBool True), (''tags'', VList [VInt 7])]"

definition sample_made :: gdata where
  "sample_made = Some [(''name'', VStr ''web''), (''tags'', VList [VStr ''7'']), (''scale'', VInt 1)]"

lemma sample_typed_fields:
  "ResourceFields sample_typed =
     [(''name'', field_zero\<lparr>FType := ''string'', Create := True, Required := True\<rparr>),
      (''scale'', field_zero\<lparr>FType := ''int'', Create := True, Default := VInt 1\<rparr>),
      (''tags'', field_zero\<lparr>FType := ''array[string]'', Create := True, Required := True\<rparr>),
      (''token'', field_zero\<lparr>FType := ''password'', Create := True, Nullable := True\<rparr>)]"
  by (simp add: sample_typed_def)

lemma sample_distinct: "distinct_fields sample_builder" "gkeys (ResourceFields sample_typed)"
  by (simp_all add: distinct_fields_def sample_builder_def Schema_of_def doSchema_def NewSchemas_def sub_entries_def
        schema_path_def Let_def sample_typed_fields gkeys_def split: prod.splits)

lemma sample_Construct: "Construct 4 sample_builder sample_typed sample_input OpCreate = Some (Ok sample_made)"
  by code_simp

lemma Construct_type_sound_witness: "typed sample_builder OpCreate ''array[string]'' (VList [VStr ''7''])"
proof -
  have "no_form (VMap sample_input)" by (simp add: sample_input_def)
  moreover have "OpCreate \<in> {OpCreate, OpUpdate, OpAction}" by simp
  ultimately obtain m where m: "sample_made = Some m" "\<forall>(k, v) \<in> set m. \<exists>f. map_of (ResourceFields sample_typed) k = Some f \<and>
     ((fieldMatchesOp f OpCreate \<and> typed sample_builder OpCreate (FType f) v \<and> check_value k f v = Ok ()) \<or> (OpCreate = OpCreate \<and> v = Default f))"
    using Construct_type_sound [OF sample_distinct _ _ sample_Construct] by blast
  from m(1) have "(''tags'', VList [VStr ''7'']) \<in> set m" by (auto simp: sample_made_def)
  from bspec [OF m(2) this] show ?thesis by (simp add: sample_typed_fields field_zero_def)
qed

section \<open>Required fields and defaults\<close>

lemma ffold_each:
  assumes "ffold f xs s = Some (Ok t)" "x \<in> set xs" "\<And>s t. f x s = Some (Ok t) \<Longrightarrow> Q t"
    and "\<And>y s t. y \<in> set xs \<Longrightarrow> Q s \<Longrightarrow> f y s = Some (Ok t) \<Longrightarrow> Q t"
  shows "Q t"
  using assms
proof (induction xs arbitrary: s)
  case (Cons y xs)
  from Cons.prems(1) obtain u where u: "f y s = Some (Ok u)" "ffold f xs u = Some (Ok t)" by (auto simp: fbind_Ok_iff)
  show ?case
  proof (cases "x = y")
    case True
    then have "Q u" using Cons.prems(3) u(1) by blast
    then show ?thesis by (rule ffold_inv [OF u(2)]) (rule Cons.prems(4); simp)
  next
    case False
    then have "x \<in> set xs" using Cons.prems(2) by simp
    then show ?thesis by (rule Cons.IH [OF u(2) _ Cons.prems(3)]) (assumption | rule Cons.prems(4); simp)+
  qed
qed simp

lemma gkeys_entry: "gkeys m \<Longrightarrow> map_of m k = Some f \<Longrightarrow> y \<in> set m \<Longrightarrow> fst y = k \<Longrightarrow> snd y = f"
  by (cases y) (auto simp: gkeys_def intro: eq_key_imp_eq_value)

text \<open>A value is given: the empty string counts as one only for a field without another default.\<close>

definition given :: "field \<Rightarrow> gval option \<Rightarrow> bool" where
  "given f v = (case v of None \<Rightarrow> False | Some x \<Rightarrow> x = VStr [] \<longrightarrow> Default f \<in> {VNil, VStr []})"

lemma check_default_Create:
  "check_default conv b OpCreate (k, f) r = Some (Ok r') \<Longrightarrow>
   r' = (if (case map_of r k of None \<Rightarrow> True | Some v \<Rightarrow> v = VStr []) \<and> Default f \<noteq> VNil then mset_key k (Default f) r else r)
   \<and> (Create f \<and> Required f \<longrightarrow> map_of r' k \<noteq> None)"
  by (auto simp: check_default_def check_required_def IsList_def fieldMatchesOp_def Let_def fbind_Ok_iff
        split: if_splits option.splits)

lemma check_default_gives:
  assumes "check_default conv b OpCreate (k, f) r = Some (Ok r')" "(Create f \<and> Required f) \<or> Default f \<noteq> VNil"
  shows "given f (map_of r' k)"
  using check_default_Create [OF assms(1)] assms(2)
  by (auto simp: given_def go_map split: option.splits if_splits)

lemma check_default_keeps:
  assumes "check_default conv b OpCreate (k', f') r = Some (Ok r')" "given f (map_of r k)" "k' = k \<longrightarrow> f' = f"
  shows "given f (map_of r' k)"
  using check_default_Create [OF assms(1)] assms(2,3)
  by (auto simp: given_def go_map split: option.splits if_splits)

text \<open>C20. An object made for a create has every field of its schema that is required and may be set on
  create, and every field with a default; a field with a default is not left an empty string.\<close>

theorem Create_required_present:
  assumes "gkeys (ResourceFields s)" "map_of (ResourceFields s) k = Some f"
    and "(Create f \<and> Required f) \<or> Default f \<noteq> VNil" "Construct n b s d OpCreate = Some (Ok m)"
  shows "\<exists>v. mlookup m k = Some v \<and> (v = VStr [] \<longrightarrow> Default f \<in> {VNil, VStr []})"
proof -
  from assms(4) obtain j r r0 where "m = Some r" and r: "checkDefaultAndRequired (convert j) b s OpCreate r0 = Some (Ok r)"
    by (cases n) (auto simp: construct_body_def copyFields_def fbind_Ok_iff split: option.splits)
  then have fold: "ffold (check_default (convert j) b OpCreate) (ResourceFields s) r0 = Some (Ok r)"
    by (simp add: checkDefaultAndRequired_def IsList_def fbind_Ok_iff)
  have "given f (map_of r k)"
  proof (rule ffold_each [OF fold map_of_SomeD [OF assms(2)]])
    fix y u t assume y: "y \<in> set (ResourceFields s)" "given f (map_of u k)" "check_default (convert j) b OpCreate y u = Some (Ok t)"
    have "fst y = k \<longrightarrow> snd y = f" using gkeys_entry [OF assms(1,2) y(1)] by blast
    with y(2,3) show "given f (map_of t k)" using check_default_keeps [of _ b "fst y" "snd y" u t f k] by simp
  qed (rule check_default_gives [OF _ assms(3)])
  with \<open>m = Some r\<close> show ?thesis by (auto simp: given_def split: option.splits)
qed

lemma Create_required_present_witness: "\<exists>v. mlookup sample_made ''tags'' = Some v \<and> v \<noteq> VStr []"
  using Create_required_present [OF sample_distinct(2) _ _ sample_Construct, of "''tags''"]
  by (simp add: sample_typed_fields sample_made_def)

section \<open>Fields that are not listed\<close>

lemma store_value_other: "k \<noteq> k' \<Longrightarrow> k \<noteq> k' @ ''TS'' \<Longrightarrow> map_of (store_value b op k' f v r) k = map_of r k"
  by (simp add: store_value_def Let_def go_map split: option.splits)

lemma edit_off [simp]: "\<not> edit b \<Longrightarrow> (if IsList op \<and> edit b then x else y) = y" by simp

lemma export_keeps_absent: "map_of r k = None \<Longrightarrow> export_field s nv r = Ok r' \<Longrightarrow> map_of r' k = None"
  by (auto simp: export_field_def Let_def go_map split: prod.splits if_splits option.splits bool.splits)

lemma dropDefaults_keeps_absent:
  "map_of r k = None \<Longrightarrow> rfold (export_field s) xs r = Ok r' \<Longrightarrow> map_of r' k = None"
  by (induction xs arbitrary: r) (auto simp: rbind_Ok_iff dest: export_keeps_absent)

lemma check_default_hides:
  assumes "check_default conv b OpList (k', f') r = Some (Ok r')" "map_of r k = None" "k' = k \<longrightarrow> \<not> fieldMatchesOp f' OpList"
  shows "map_of r' k = None"
  using assms by (auto simp: check_default_def check_required_def Let_def fbind_Ok_iff go_map split: if_splits)

lemma copyInputs_hides:
  assumes run: "copyInputs conv b s d OpList = Some (Ok r)" and f: "map_of (ResourceFields s) k = Some f" "\<not> fieldMatchesOp f OpList"
    and k: "k \<notin> {''id'', ''type''}" "\<forall>k'. k \<noteq> k' @ ''TS''"
  shows "map_of r k = None"
proof -
  from run obtain r0 where fold: "ffold (copyInput conv b s OpList) (mentries d) [] = Some (Ok r0)" "r = copy_identity b OpList d r0"
    by (auto simp: copyInputs_def fbind_Ok_iff)
  have "map_of r0 k = None"
  proof (rule ffold_inv [OF fold(1), where P = "\<lambda>r. map_of r k = None"])
    fix x u t assume "map_of u k = None" "copyInput conv b s OpList x u = Some (Ok t)"
    then show "map_of t k = None" using f k(2)
      by (cases x; cases "fst x = k")
        (auto simp: copyInput_def fbind_Ok_iff IsList_def store_value_other split: option.splits if_splits)
  qed simp
  with fold(2) k(1) show ?thesis by (simp add: copy_identity_def Let_def go_map)
qed

text \<open>C21. A password or write-only field is not in the object made to be listed, whatever the input, unless
  the builder writes the object for an editor. A key \<^verbatim>\<open>id\<close> or \<^verbatim>\<open>type\<close>, which is copied without a look at
  the schema, and the name of a date with \<^verbatim>\<open>TS\<close> at its end are the exceptions the statement leaves out.\<close>

theorem List_hides_fields:
  assumes "gkeys (ResourceFields s)" "map_of (ResourceFields s) k = Some f" "FType f = ''password'' \<or> WriteOnly f" "\<not> edit b"
    and k: "k \<notin> {''id'', ''type''}" "\<forall>k'. k \<noteq> k' @ ''TS''" and run: "Construct n b s d OpList = Some (Ok m)"
  shows "mlookup m k = None"
proof -
  have f: "\<not> fieldMatchesOp f OpList" using assms(3) by (auto simp: fieldMatchesOp_def)
  from run obtain j r r0 where m: "m = Some r" and r0: "copyInputs (convert j) b s d OpList = Some (Ok r0)"
    and r: "checkDefaultAndRequired (convert j) b s OpList r0 = Some (Ok r)"
    by (cases n) (auto simp: construct_body_def copyFields_def fbind_Ok_iff)
  from r assms(4) obtain r1 where r1: "ffold (check_default (convert j) b OpList) (ResourceFields s) r0 = Some (Ok r1)"
    and r2: "(if IsList OpList \<and> export b then dropDefaultsAndReadOnly s r1 else Ok r1) = Ok r"
    by (auto simp: checkDefaultAndRequired_def fbind_Ok_iff)
  have "map_of r1 k = None"
  proof (rule ffold_inv [OF r1, where P = "\<lambda>r. map_of r k = None"])
    show "map_of r0 k = None" by (rule copyInputs_hides [OF r0 assms(2) f k])
    fix x u t assume x: "x \<in> set (ResourceFields s)" "map_of u k = None" "check_default (convert j) b OpList x u = Some (Ok t)"
    have "fst x = k \<longrightarrow> snd x = f" using gkeys_entry [OF assms(1,2) x(1)] by blast
    with x(2,3) f show "map_of t k = None" using check_default_hides [of _ b "fst x" "snd x" u t k] by simp
  qed
  with r2 have "map_of r k = None" by (auto simp: dropDefaultsAndReadOnly_def split: if_splits intro: dropDefaults_keeps_absent)
  with m show ?thesis by simp
qed

lemma List_hides_fields_witness:
  "Construct 4 sample_builder sample_typed (Some [(''name'', VStr ''web''), (''token'', VStr ''secret'')]) OpList
     = Some (Ok (Some [(''name'', VStr ''web''), (''scale'', VInt 1)]))
   \<and> mlookup (Some [(''name'', VStr ''web''), (''scale'', VInt 1)]) ''token'' = None"
proof
  show run: "Construct 4 sample_builder sample_typed (Some [(''name'', VStr ''web''), (''token'', VStr ''secret'')]) OpList
     = Some (Ok (Some [(''name'', VStr ''web''), (''scale'', VInt 1)]))" by code_simp
  have "rev ''token'' \<noteq> rev (k @ ''TS'')" for k by simp
  then have "\<forall>k. ''token'' \<noteq> k @ ''TS''" by metis
  then show "mlookup (Some [(''name'', VStr ''web''), (''scale'', VInt 1)]) ''token'' = None"
    using List_hides_fields [OF sample_distinct(2) _ _ _ _ _ run, of "''token''"]
    by (simp add: sample_typed_fields sample_builder_def)
qed

section \<open>Enough fuel\<close>

text \<open>
  More fuel does not change a result: every loop of the builder is monotone in the conversion it calls,
  with running out of fuel below every result.
\<close>

definition fle :: "'a res option \<Rightarrow> 'a res option \<Rightarrow> bool" where
  "fle x y \<longleftrightarrow> x = None \<or> x = y"

lemma fle_refl [simp, intro]: "fle x x" "fle None x"
  by (simp_all add: fle_def)

lemma fle_fbind: "fle m m' \<Longrightarrow> (\<And>x. fle (f x) (g x)) \<Longrightarrow> fle (fbind m f) (fbind m' g)"
  by (auto simp: fle_def fbind_def split: option.splits res.splits)

lemma fle_ffold: "(\<And>x s. fle (f x s) (g x s)) \<Longrightarrow> fle (ffold f xs s) (ffold g xs s)"
  by (induction xs arbitrary: s) (auto intro: fle_fbind)

lemma fle_fmap_list: "(\<And>x. fle (f x) (g x)) \<Longrightarrow> fle (fmap_list f xs) (fmap_list g xs)"
  by (induction xs) (auto intro!: fle_fbind)

lemma fle_wrap: "fle x y \<Longrightarrow> fle (wrap_err w x) (wrap_err w y)"
  by (auto simp: fle_def)

definition conv_le :: "convert_fn \<Rightarrow> convert_fn \<Rightarrow> bool" where
  "conv_le c c' \<longleftrightarrow> (\<forall>b ty v op. fle (c b ty v op) (c' b ty v op))"

lemma conv_leD: "conv_le c c' \<Longrightarrow> fle (c b ty v op) (c' b ty v op)"
  by (simp add: conv_le_def)

lemma convertArray_mono:
  assumes "conv_le c c'"
  shows "fle (convertArray c b ty v op) (convertArray c' b ty v op)"
  by (cases v) (auto simp: convertArray_def intro!: fle_fmap_list conv_leD [OF assms])

lemma convertMap_mono:
  assumes "conv_le c c'"
  shows "fle (convertMap c b ty v op) (convertMap c' b ty v op)"
  by (cases v) (auto simp: convertMap_def split_beta intro!: fle_fbind fle_fmap_list fle_wrap conv_leD [OF assms])

lemma copyInput_mono:
  assumes "conv_le c c'"
  shows "fle (copyInput c b s op x r) (copyInput c' b s op x r)"
  by (auto simp: copyInput_def intro!: fle_fbind fle_wrap conv_leD [OF assms] split: prod.splits option.splits)

lemma check_default_mono:
  assumes "conv_le c c'"
  shows "fle (check_default c b op x r) (check_default c' b op x r)"
proof -
  have "fle (check_required c b op k f r) (check_required c' b op k f r)" for k f r
    unfolding check_required_def by (auto intro!: fle_fbind convertArray_mono [OF assms] split: option.splits)
  then show ?thesis unfolding check_default_def Let_def by (cases x) (auto intro!: fle_fbind)
qed

lemma construct_mono:
  assumes "conv_le c c'"
  shows "fle (construct_body c b s d op) (construct_body c' b s d op)"
  unfolding construct_body_def copyFields_def copyInputs_def checkDefaultAndRequired_def
  by (intro fle_fbind fle_ffold copyInput_mono [OF assms] check_default_mono [OF assms] fle_refl(1))

lemma convert_body_mono:
  assumes c: "conv_le c c'" and k: "\<And>b s d op. fle (k b s d op) (k' b s d op)"
  shows "conv_le (convert_body c k) (convert_body c' k')"
  unfolding conv_le_def
proof (intro allI)
  fix b ty v op
  have "fle (convertType k b ty v op) (convertType k' b ty v op)"
    by (cases v) (auto simp: convertType_def intro!: fle_fbind k split: option.splits)
  then show "fle (convert_body c k b ty v op) (convert_body c' k' b ty v op)"
    using fle_fbind [OF convertMap_mono [OF c], of "\<lambda>m. Some (Ok (VMap m))" "\<lambda>m. Some (Ok (VMap m))"]
      fle_fbind [OF convertArray_mono [OF c], of "\<lambda>vs. Some (Ok (VList vs))" "\<lambda>vs. Some (Ok (VList vs))"]
    by (simp add: convert_body_def split: option.splits)
qed

lemma convert_mono: "conv_le (convert n) (convert (Suc n)) \<and> (\<forall>b s d op. fle (Construct n b s d op) (Construct (Suc n) b s d op))"
proof (induction n)
  case (Suc n)
  then have "conv_le (convert (Suc n)) (convert (Suc (Suc n)))"
    unfolding convert.simps(2) [of n] convert.simps(2) [of "Suc n"] by (intro convert_body_mono) auto
  with Suc construct_mono show ?case by simp
qed (simp add: conv_le_def)

lemma Construct_fuel: "n \<le> n' \<Longrightarrow> Construct n b s d op = Some r \<Longrightarrow> Construct n' b s d op = Some r"
proof (induction rule: dec_induct)
  case (step k)
  then show ?case using convert_mono [of k] by (metis fle_def option.distinct(1))
qed simp

text \<open>
  How deep maps and slices are nested. A conversion adds at most one level, at a leaf: a scalar where a
  map or a slice is asked for gives a nil one. The default values are at most flat maps and slices.
\<close>

fun depth :: "gval \<Rightarrow> nat" where
  "depth (VMap None) = 1"
| "depth (VMap (Some m)) = Suc (fold max (map (\<lambda>kv. depth (snd kv)) m) 0)"
| "depth (VList vs) = Suc (fold max (map depth vs) 0)"
| "depth v = 0"

lemma fold_max_le: "fold max ns a \<le> k \<longleftrightarrow> a \<le> (k::nat) \<and> (\<forall>n \<in> set ns. n \<le> k)"
  by (induction ns arbitrary: a) auto

lemma depth_VMap_le: "depth (VMap d) \<le> Suc k \<longleftrightarrow> (\<forall>kv \<in> set (mentries d). depth (snd kv) \<le> k)"
  by (cases d) (auto simp: mentries_def fold_max_le)

lemma depth_VList_le: "depth (VList vs) \<le> Suc k \<longleftrightarrow> (\<forall>v \<in> set vs. depth v \<le> k)"
  by (simp add: fold_max_le)

lemma depth_VList_pos: "depth (VList vs) \<noteq> 0" "depth (VMap d) \<noteq> 0"
  by (simp, cases d) simp_all

definition flat_fields :: "Schema \<Rightarrow> bool" where
  "flat_fields s \<longleftrightarrow> (\<forall>(k, f) \<in> set (ResourceFields s). depth (Default f) \<le> 1)"

definition flat_defaults :: "builder \<Rightarrow> bool" where
  "flat_defaults b \<longleftrightarrow> (\<forall>ty s. Schema_of (bSchemas b) (bVersion b) ty = Some s \<longrightarrow> flat_fields s)"

definition shallow :: "convert_fn \<Rightarrow> builder \<Rightarrow> bool" where
  "shallow conv b \<longleftrightarrow> (\<forall>ty v v'. conv b ty v OpCreate = Some (Ok v') \<longrightarrow> depth v' \<le> Suc (depth v))"

lemma shallowD: "shallow conv b \<Longrightarrow> conv b ty v OpCreate = Some (Ok v') \<Longrightarrow> depth v' \<le> Suc (depth v)"
  by (simp add: shallow_def)

lemma ConvertSimple_shallow: "ConvertSimple b ty v op = Some (Ok v') \<Longrightarrow> depth v' \<le> Suc (depth v)"
  by (auto simp: ConvertSimple_def dns_check_def Let_def rbind_Ok_iff split: if_splits res.splits)

lemma convertMap_shallow:
  assumes "shallow conv b" "convertMap conv b ty v OpCreate = Some (Ok m)"
  shows "depth (VMap m) \<le> Suc (depth v)"
proof (cases v)
  case (VMap d)
  with assms(2) obtain kvs where kvs: "m = Some kvs"
    "fmap_list (\<lambda>(k, x). fbind (wrap_err (\<lambda>e. WrapAPIError e InvalidFormat (err_string e)) (conv b (SubType ty) x OpCreate))
        (\<lambda>y. Some (Ok (k, y)))) (mentries d) = Some (Ok kvs)" by (auto simp: convertMap_def fbind_Ok_iff)
  obtain j where j: "depth (VMap d) = Suc j" using depth_VList_pos(2) not0_implies_Suc by blast
  have "depth (snd ky) \<le> Suc j" if "ky \<in> set kvs" for ky
  proof -
    from list_all2_set2 [OF fmap_list_all [OF kvs(2)] that] obtain x where
      x: "x \<in> set (mentries d)" "conv b (SubType ty) (snd x) OpCreate = Some (Ok (snd ky))" by (auto simp: fbind_Ok_iff)
    have "depth (snd x) \<le> j" using depth_VMap_le [of d j] x(1) j by auto
    with shallowD [OF assms(1) x(2)] show ?thesis by simp
  qed
  then show ?thesis using depth_VMap_le [of m "Suc j"] VMap j kvs(1) by (simp add: mentries_def)
qed (use assms(2) in \<open>auto simp: convertMap_def\<close>)

lemma convertArray_shallow:
  assumes "shallow conv b" "convertArray conv b ty v OpCreate = Some (Ok vs)"
  shows "depth (VList vs) \<le> Suc (depth v)"
proof (cases v)
  case (VList xs)
  then have map: "fmap_list (\<lambda>x. conv b (SubType ty) x OpCreate) xs = Some (Ok vs)" using assms(2) by (simp add: convertArray_def)
  obtain j where j: "depth (VList xs) = Suc j" using depth_VList_pos(1) not0_implies_Suc by blast
  have "depth y \<le> Suc j" if "y \<in> set vs" for y
  proof -
    from list_all2_set2 [OF fmap_list_all [OF map] that] obtain x where
      x: "x \<in> set xs" "conv b (SubType ty) x OpCreate = Some (Ok y)" by auto
    have "depth x \<le> j" using depth_VList_le [of xs j] x(1) j by auto
    with shallowD [OF assms(1) x(2)] show ?thesis by simp
  qed
  then show ?thesis using depth_VList_le [of vs "Suc j"] VList j by simp
qed (use assms(2) depth_VList_le [of vs 0] in \<open>auto simp: convertArray_def simp del: depth.simps(3)\<close>)

text \<open>The object that the builder fills: its values are no deeper than \<open>j\<close>.\<close>

definition entries_below :: "nat \<Rightarrow> (string \<times> gval) list \<Rightarrow> bool" where
  "entries_below j r \<longleftrightarrow> (\<forall>kv \<in> set r. depth (snd kv) \<le> j)"

lemma entries_below_Nil [simp]: "entries_below j []"
  by (simp add: entries_below_def)

lemma entries_below_put: "entries_below j r \<Longrightarrow> depth v \<le> j \<Longrightarrow> entries_below j (mset_key k v r)"
  unfolding entries_below_def by (metis (no_types, lifting) prod.collapse set_mset_key_iff snd_conv)

lemma entries_belowD: "entries_below j r \<Longrightarrow> map_of r k = Some v \<Longrightarrow> depth v \<le> j"
  unfolding entries_below_def by (drule map_of_SomeD) auto

lemma copyInput_below:
  assumes "shallow conv b" "entries_below (Suc j) r" "depth (snd x) \<le> j" "copyInput conv b s OpCreate x r = Some (Ok r')"
  shows "entries_below (Suc j) r'"
proof -
  from assms(4) have "r' = r \<or> (\<exists>ty v'. conv b ty (snd x) OpCreate = Some (Ok v') \<and> r' = mset_key (fst x) v' r)"
    by (cases x) (auto simp: copyInput_def fbind_Ok_iff store_value_def IsList_def Let_def split: option.splits if_splits)
  then consider "r' = r" | ty v' where "conv b ty (snd x) OpCreate = Some (Ok v')" "r' = mset_key (fst x) v' r" by blast
  then show ?thesis
  proof cases
    case 2
    then have "depth v' \<le> Suc j" using shallowD [OF assms(1)] assms(3) by fastforce
    with 2(2) assms(2) show ?thesis by (simp add: entries_below_put)
  qed (simp add: assms(2))
qed

lemma check_default_below:
  assumes "check_default conv b OpCreate (k, f) r = Some (Ok r')" "entries_below (Suc j) r" "depth (Default f) \<le> 1"
  shows "entries_below (Suc j) r'"
  using check_default_Create [OF assms(1)] assms(2,3) by (auto intro: entries_below_put)

lemma copyInputs_below:
  assumes "shallow conv b" "depth (VMap d) \<le> Suc j" "copyInputs conv b s d OpCreate = Some (Ok r)"
  shows "entries_below (Suc j) r"
proof -
  from assms(3) have r: "ffold (copyInput conv b s OpCreate) (mentries d) [] = Some (Ok r)"
    by (auto simp: copyInputs_def fbind_Ok_iff copy_identity_def IsList_def)
  show ?thesis using assms(2)
    by (intro ffold_inv [OF r, where P = "entries_below (Suc j)"]) (auto simp: depth_VMap_le intro: copyInput_below [OF assms(1)])
qed

lemma construct_shallow:
  assumes "shallow conv b" "flat_fields s" "construct_body conv b s d OpCreate = Some (Ok m)"
  shows "depth (VMap m) \<le> Suc (depth (VMap d))"
proof -
  obtain j where j: "depth (VMap d) = Suc j" using depth_VList_pos(2) not0_implies_Suc by blast
  from assms(3) obtain r0 r where r: "copyInputs conv b s d OpCreate = Some (Ok r0)"
    "ffold (check_default conv b OpCreate) (ResourceFields s) r0 = Some (Ok r)" and m: "m = Some r"
    by (auto simp: construct_body_def copyFields_def checkDefaultAndRequired_def IsList_def fbind_Ok_iff split: option.splits)
  have "entries_below (Suc j) r"
  proof (rule ffold_inv [OF r(2), where P = "entries_below (Suc j)"])
    show "entries_below (Suc j) r0" using copyInputs_below [OF assms(1) _ r(1)] j by simp
    fix x u t assume "x \<in> set (ResourceFields s)" "entries_below (Suc j) u" "check_default conv b OpCreate x u = Some (Ok t)"
    then show "entries_below (Suc j) t" using assms(2) check_default_below [of conv b "fst x" "snd x" u t j]
      by (auto simp: flat_fields_def)
  qed
  then show ?thesis using depth_VMap_le [of m "Suc j"] m j by (simp add: entries_below_def mentries_def)
qed

lemma convert_body_shallow:
  assumes "shallow conv b" "flat_defaults b"
    and constr: "\<And>s d m. flat_fields s \<Longrightarrow> constr b s d OpCreate = Some (Ok m) \<Longrightarrow> depth (VMap m) \<le> Suc (depth (VMap d))"
  shows "shallow (convert_body conv constr) b"
  unfolding shallow_def
proof (intro allI impI)
  fix ty v v' assume run: "convert_body conv constr b ty v OpCreate = Some (Ok v')"
  have "depth v' \<le> Suc (depth v)" if "convertType constr b ty v OpCreate = Some (Ok v')"
    using that assms(2) by (auto simp: convertType_def fbind_Ok_iff flat_defaults_def intro: constr split: option.splits gval.splits)
  moreover have "depth v' \<le> Suc (depth v)" if "Some (convertReferenceType b ty v) = Some (Ok v')"
    using that by (auto dest: convertReferenceType_typed)
  ultimately show "depth v' \<le> Suc (depth v)"
    using run convertMap_shallow [OF assms(1)] convertArray_shallow [OF assms(1)] ConvertSimple_shallow
    unfolding convert_body_def by (auto simp: fbind_Ok_iff simp del: depth.simps(2,3) split: if_splits option.splits)
qed

lemma convert_shallow:
  assumes "flat_defaults b"
  shows "shallow (convert n) b \<and>
    (\<forall>s d m. flat_fields s \<longrightarrow> Construct n b s d OpCreate = Some (Ok m) \<longrightarrow> depth (VMap m) \<le> Suc (depth (VMap d)))"
proof (induction n)
  case (Suc n)
  then have t: "shallow (convert n) b" by blast
  have "shallow (convert (Suc n)) b" unfolding convert.simps by (rule convert_body_shallow [OF t assms]) (use Suc in blast)
  then show ?case using construct_shallow [OF t] by (simp del: depth.simps)
qed (simp add: shallow_def)

text \<open>The loops return when the conversion does on every value they hand it.\<close>

definition returns_below :: "convert_fn \<Rightarrow> builder \<Rightarrow> nat \<Rightarrow> bool" where
  "returns_below conv b j \<longleftrightarrow> (\<forall>ty v op. depth v \<le> j \<longrightarrow> conv b ty v op \<noteq> None)"

lemma returns_belowD: "returns_below conv b j \<Longrightarrow> depth v \<le> j \<Longrightarrow> conv b ty v op \<noteq> None"
  by (simp add: returns_below_def)

lemma convertArray_returns:
  assumes "returns_below conv b j" "depth v \<le> Suc j"
  shows "convertArray conv b ty v op \<noteq> None"
proof (cases v)
  case (VList vs)
  with assms(2) have "\<forall>x \<in> set vs. depth x \<le> j" using depth_VList_le by blast
  then have "fmap_list (\<lambda>x. conv b (SubType ty) x op) vs \<noteq> None"
    by (intro fmap_list_returns returns_belowD [OF assms(1)]) blast
  with VList show ?thesis by (simp add: convertArray_def)
qed (simp_all add: convertArray_def)

lemma convertMap_returns:
  assumes "returns_below conv b j" "depth v \<le> Suc j"
  shows "convertMap conv b ty v op \<noteq> None"
proof (cases v)
  case (VMap d)
  let ?f = "\<lambda>(k, x). fbind (wrap_err (\<lambda>e. WrapAPIError e InvalidFormat (err_string e)) (conv b (SubType ty) x op))
              (\<lambda>y. Some (Ok (k, y)))"
  have "fmap_list ?f (mentries d) \<noteq> None"
  proof (rule fmap_list_returns)
    fix kx assume "kx \<in> set (mentries d)"
    then have "conv b (SubType ty) (snd kx) op \<noteq> None" using assms(2) VMap depth_VMap_le returns_belowD [OF assms(1)] by blast
    then show "?f kx \<noteq> None" unfolding split_beta by (simp add: fbind_None_iff)
  qed
  with VMap show ?thesis by (simp add: convertMap_def fbind_None_iff)
qed (simp_all add: convertMap_def)

lemma copyInputs_returns:
  assumes "returns_below conv b j" "depth (VMap d) \<le> Suc j"
  shows "copyInputs conv b s d op \<noteq> None"
proof -
  have "ffold (copyInput conv b s op) (mentries d) [] \<noteq> None"
  proof (rule ffold_returns [where P = "\<lambda>_. True"])
    fix x r assume "x \<in> set (mentries d)"
    then have "depth (snd x) \<le> j" using assms(2) depth_VMap_le by blast
    then show "copyInput conv b s op x r \<noteq> None"
      using returns_belowD [OF assms(1)] by (cases x) (simp add: copyInput_def fbind_None_iff del: not_None_eq split: option.splits)
  qed simp_all
  then show ?thesis by (simp add: copyInputs_def fbind_None_iff)
qed

lemma check_required_returns:
  assumes "returns_below conv b j" "op = OpCreate \<longrightarrow> entries_below (Suc j) r"
  shows "check_required conv b op k f r \<noteq> None"
proof -
  have "convertArray conv b (FType f) v op \<noteq> None" if "op = OpCreate" "map_of r k = Some v" for v
    using convertArray_returns [OF assms(1)] entries_belowD [OF _ that(2)] assms(2) that(1) by blast
  then show ?thesis by (simp add: check_required_def fbind_None_iff del: not_None_eq split: option.splits)
qed

lemma check_default_returns:
  assumes "returns_below conv b j" "op = OpCreate \<longrightarrow> entries_below (Suc j) r" "depth (Default f) \<le> 1"
  shows "check_default conv b op (k, f) r \<noteq> None"
proof -
  have "op = OpCreate \<longrightarrow> entries_below (Suc j) (if c then mset_key k (Default f) r else r)" for c
    using assms(2,3) by (simp add: entries_below_put)
  from check_required_returns [OF assms(1) this] show ?thesis
    by (simp add: check_default_def Let_def fbind_None_iff)
qed

lemma construct_returns:
  assumes "returns_below conv b j" "shallow conv b" "flat_fields s" "depth (VMap d) \<le> Suc j"
  shows "construct_body conv b s d op \<noteq> None"
proof -
  let ?P = "\<lambda>r. op = OpCreate \<longrightarrow> entries_below (Suc j) r"
  have flat: "depth (Default (snd x)) \<le> 1" if "x \<in> set (ResourceFields s)" for x
    using assms(3) that by (auto simp: flat_fields_def)
  have "ffold (check_default conv b op) (ResourceFields s) r0 \<noteq> None" if "copyInputs conv b s d op = Some (Ok r0)" for r0
  proof (rule ffold_returns [where P = ?P])
    show "?P r0" using copyInputs_below [OF assms(2,4)] that by blast
    fix x r t assume x: "x \<in> set (ResourceFields s)" "?P r"
    show "check_default conv b op x r \<noteq> None"
      using check_default_returns [OF assms(1) x(2) flat [OF x(1)], of "fst x"] by simp
    show "?P t" if "check_default conv b op x r = Some (Ok t)"
      using check_default_below [of conv b "fst x" "snd x" r t j] x(2) flat [OF x(1)] that by auto
  qed
  then show ?thesis using copyInputs_returns [OF assms(1,4)]
    by (simp add: construct_body_def copyFields_def checkDefaultAndRequired_def fbind_None_iff del: not_None_eq)
qed

lemma convert_body_returns:
  assumes "returns_below conv b j" "flat_defaults b" "depth v \<le> Suc j"
    and constr: "\<And>s d. flat_fields s \<Longrightarrow> depth (VMap d) \<le> Suc j \<Longrightarrow> constr b s d op \<noteq> None"
  shows "convert_body conv constr b ty v op \<noteq> None"
proof -
  have "convertType constr b ty v op \<noteq> None"
  proof (cases v)
    case (VMap d)
    then have "constr b s d op \<noteq> None" if "Schema_of (bSchemas b) (bVersion b) ty = Some s" for s
      using that assms(2,3) constr by (auto simp: flat_defaults_def simp del: not_None_eq depth.simps)
    with VMap show ?thesis by (simp add: convertType_def fbind_None_iff del: not_None_eq split: option.splits)
  qed (simp_all add: convertType_def split: option.splits)
  then show ?thesis using convertMap_returns [OF assms(1,3)] convertArray_returns [OF assms(1,3)]
    by (simp add: convert_body_def fbind_None_iff del: not_None_eq split: option.splits)
qed

lemma convert_scalar_returns: "depth v = 0 \<Longrightarrow> convert (Suc n) b ty v op \<noteq> None"
  by (cases v) (auto simp: convert_body_def convertMap_def convertArray_def convertType_def fbind_def depth_VList_pos
        split: option.splits)

lemma convert_returns:
  assumes "flat_defaults b"
  shows "returns_below (convert (Suc (2 * j))) b j \<and>
    (\<forall>s d op. flat_fields s \<longrightarrow> depth (VMap d) \<le> Suc j \<longrightarrow> Construct (Suc (Suc (2 * j))) b s d op \<noteq> None)"
proof (induction j)
  case 0
  have z: "returns_below (convert (Suc 0)) b 0" unfolding returns_below_def using convert_scalar_returns by blast
  then show ?case using construct_returns [OF z conjunct1 [OF convert_shallow [OF assms]]] by (simp del: depth.simps)
next
  case (Suc j)
  then have c: "flat_fields s \<Longrightarrow> depth (VMap d) \<le> Suc j \<Longrightarrow> Construct (Suc (Suc (2 * j))) b s d op \<noteq> None" for s d op by blast
  have up: "returns_below (convert (Suc (Suc (2 * j)))) b j"
    using Suc convert_mono [of "Suc (2 * j)"] unfolding returns_below_def conv_le_def fle_def by metis
  have z: "returns_below (convert (Suc (Suc (Suc (2 * j))))) b (Suc j)"
    unfolding returns_below_def convert.simps(2) [of "Suc (Suc (2 * j))"]
    using convert_body_returns [OF up assms, where constr = "Construct (Suc (Suc (2 * j)))"] c by blast
  then show ?case using construct_returns [OF z conjunct1 [OF convert_shallow [OF assms]]] by (simp del: depth.simps)
qed

text \<open>C19. The builder returns, and its answer does not depend on the fuel. When the defaults of the fields are
  scalars, or maps and slices of scalars, twice the depth of the input is enough fuel for \<^verbatim>\<open>Construct\<close>, for
  every operation, and any more fuel gives the same result or the same error.\<close>

theorem Construct_terminates:
  assumes "flat_defaults b" "flat_fields s"
  shows "\<exists>r. \<forall>n. 2 * depth (VMap d) \<le> n \<longrightarrow> Construct n b s d op = Some r"
proof -
  obtain j where j: "depth (VMap d) = Suc j" using depth_VList_pos(2) not0_implies_Suc by blast
  then have "Construct (Suc (Suc (2 * j))) b s d op \<noteq> None" using convert_returns [OF assms(1), of j] assms(2) by simp
  then obtain r where "Construct (Suc (Suc (2 * j))) b s d op = Some r" by blast
  then show ?thesis using Construct_fuel j by auto
qed

lemma Construct_terminates_witness:
  "Construct 100 sample_builder sample_typed sample_input OpCreate = Some (Ok sample_made)"
proof -
  have "flat_defaults sample_builder" "flat_fields sample_typed"
    by (simp_all add: flat_defaults_def flat_fields_def sample_builder_def Schema_of_def doSchema_def NewSchemas_def
      sub_entries_def schema_path_def Let_def sample_typed_fields field_zero_def split: prod.splits)
  then obtain r where r: "\<forall>n. 2 * depth (VMap sample_input) \<le> n \<longrightarrow> Construct n sample_builder sample_typed sample_input OpCreate = Some r"
    using Construct_terminates by blast
  have "depth (VMap sample_input) = 2" by (simp add: sample_input_def)
  with r sample_Construct show ?thesis by auto
qed

end
