(* ===== verification/MapperLaws.thy ===== *)
theory MapperLaws
  imports MapperSchema
begin

text \<open>
  Laws of the mappers: they leave a nil map alone, and the mappers that only rearrange an object are
  undone by the opposite direction. Undone means up to the order of the entries of its maps, \<open>deq\<close>.
\<close>

section \<open>Equality up to the order of map entries\<close>

inductive veq :: "gval \<Rightarrow> gval \<Rightarrow> bool" where
  veq_refl: "veq v v"
| veq_map: "(\<And>k v. map_of m k = Some v \<Longrightarrow> \<exists>v'. map_of m' k = Some v' \<and> veq v v') \<Longrightarrow>
            (\<And>k. map_of m k = None \<Longrightarrow> map_of m' k = None) \<Longrightarrow> veq (VMap (Some m)) (VMap (Some m'))"

definition oeq :: "gval option \<Rightarrow> gval option \<Rightarrow> bool" where
  "oeq a b \<longleftrightarrow> rel_option veq a b"

definition deq :: "gdata \<Rightarrow> gdata \<Rightarrow> bool" where
  "deq d e \<longleftrightarrow> (d = None \<longleftrightarrow> e = None) \<and> (\<forall>k. oeq (mlookup d k) (mlookup e k))"

lemma oeq_simps [simp]: "oeq None b \<longleftrightarrow> b = None" "oeq a None \<longleftrightarrow> a = None" "oeq (Some x) (Some y) \<longleftrightarrow> veq x y"
  by (cases b; simp add: oeq_def) (cases a; simp_all add: oeq_def)+

lemma oeq_Some: "oeq (Some x) b \<longleftrightarrow> (\<exists>y. b = Some y \<and> veq x y)"
  by (cases b) simp_all

lemma oeq_refl [simp]: "oeq a a"
  by (cases a) (simp_all add: veq_refl)

lemma veq_mapI: "(\<And>k. oeq (map_of m k) (map_of m' k)) \<Longrightarrow> veq (VMap (Some m)) (VMap (Some m'))"
proof (rule veq_map)
  fix k v assume oeq: "\<And>k. oeq (map_of m k) (map_of m' k)"
  show "\<exists>v'. map_of m' k = Some v' \<and> veq v v'" if "map_of m k = Some v"
    using oeq [of k] that by (cases "map_of m' k") auto
  show "map_of m' k = None" if "map_of m k = None"
    using oeq [of k] that by auto
qed

lemma veq_VMap: "veq (VMap (Some m)) y \<longleftrightarrow> (\<exists>m'. y = VMap (Some m') \<and> (\<forall>k. oeq (map_of m k) (map_of m' k)))"
proof
  assume "veq (VMap (Some m)) y"
  then show "\<exists>m'. y = VMap (Some m') \<and> (\<forall>k. oeq (map_of m k) (map_of m' k))"
  proof cases
    case (veq_map m')
    have "oeq (map_of m k) (map_of m' k)" for k
      using veq_map(2) [of k] veq_map(3) [of k] by (cases "map_of m k") auto
    with veq_map(1) show ?thesis by blast
  qed (auto intro: veq_refl)
qed (auto intro: veq_mapI)

lemma veq_trans: "veq x y \<Longrightarrow> veq y z \<Longrightarrow> veq x z"
proof (induction arbitrary: z rule: veq.induct)
  case (veq_map m m')
  from veq_map.prems obtain m2 where z: "z = VMap (Some m2)" and m2: "\<And>k. oeq (map_of m' k) (map_of m2 k)"
    by (auto simp: veq_VMap)
  have "oeq (map_of m k) (map_of m2 k)" for k
  proof (cases "map_of m k")
    case None
    then show ?thesis using veq_map(2) [OF None] m2 [of k] by simp
  next
    case (Some v)
    then obtain v' where "map_of m' k = Some v'" "\<And>z. veq v' z \<Longrightarrow> veq v z" using veq_map(1) by blast
    then show ?thesis using Some m2 [of k] by (cases "map_of m2 k") auto
  qed
  then show ?case by (simp add: z veq_mapI)
qed

lemma veq_sym: "veq x y \<Longrightarrow> veq y x"
proof (induction rule: veq.induct)
  case (veq_map m m')
  have "oeq (map_of m' k) (map_of m k)" for k
    using veq_map(1) [of k] veq_map(2) [of k] by (cases "map_of m k") auto
  then show ?case by (rule veq_mapI)
qed (rule veq_refl)

lemma oeq_trans: "oeq a b \<Longrightarrow> oeq b c \<Longrightarrow> oeq a c"
  by (cases a; cases b; cases c) (auto intro: veq_trans)

lemma oeq_sym: "oeq a b \<Longrightarrow> oeq b a"
  by (cases a; cases b) (auto intro: veq_sym)

lemma deq_refl [simp]: "deq d d"
  by (simp add: deq_def)

lemma deq_sym: "deq d e \<Longrightarrow> deq e d"
  by (auto simp: deq_def intro: oeq_sym)

lemma deq_trans: "deq c d \<Longrightarrow> deq d e \<Longrightarrow> deq c e"
  by (auto simp: deq_def intro: oeq_trans)

lemma deq_Some: "deq (Some m) d \<longleftrightarrow> (\<exists>m'. d = Some m' \<and> (\<forall>k. oeq (map_of m k) (map_of m' k)))"
  by (cases d) (simp_all add: deq_def)

section \<open>Nil maps\<close>

lemma rfold_const: "(\<And>x. x \<in> set xs \<Longrightarrow> f x s = Ok s) \<Longrightarrow> rfold f xs s = Ok s"
  by (induction xs) auto

lemma rfold_Ok [simp]: "rfold (\<lambda>x. Ok) xs s = Ok s"
  by (induction xs) auto

lemma sub_None [simp]:
  "f None = Ok None \<Longrightarrow> sub_object f field None = Ok None" "sub_map f field None = Ok None" "sub_array f field None = Ok None"
  by (simp_all add: sub_object_def sub_value_def sub_map_def sub_array_def)

lemma PutValue_None [simp]: "PutValue None v ks = Ok None"
  by (simp add: PutValue_def)

lemmas leaf_From = Move_FromInternal_def UntypedMove_FromInternal_def move_value_def AnnotationField_FromInternal_def
  Base64_FromInternal_def Copy_FromInternal_def Embed_FromInternal_def JSONEncode_FromInternal_def LabelField_FromInternal_def
  PendingStatus_FromInternal_def SetValue_FromInternal_def SliceMerge_FromInternal_def SliceToMap_FromInternal_def

lemmas leaf_To = Move_ToInternal_def UntypedMove_ToInternal_def move_value_def AnnotationField_ToInternal_def
  APIGroup_ToInternal_def Base64_ToInternal_def Copy_ToInternal_def Embed_ToInternal_def JSONEncode_ToInternal_def
  LabelField_ToInternal_def SetValue_ToInternal_def SliceToMap_ToInternal_def no_error_def

lemma Embed_FromInternal_None [simp]: "Embed_FromInternal e None = Ok None"
  by (simp add: Embed_FromInternal_def rfold_const)

lemma Move_FromInternal_None [simp]: "Move_FromInternal m None = Ok None" "Move_ToInternal m None = Ok None"
  by (simp_all add: leaf_From leaf_To)

lemma go_eq_VNil [simp]: "go_eq VNil v = Some (v = VNil)"
  by (cases v) (auto simp: go_eq_def)

lemma FromInternal_None [simp]: "FromInternal J m None = Ok None"
proof (induction J m "None :: gdata" rule: FromInternal.induct)
  case (2 J ms root typeName subs arrs maps)
  have a: "rfold (\<lambda>(field, m) d'. sub_object (\<lambda>x. FromInternal J m x) field d') subs None = Ok None"
    by (rule rfold_const) (use 2 in auto)
  have b: "rfold (\<lambda>(field, m) d'. sub_map (\<lambda>x. FromInternal J m x) field d') maps None = Ok None"
    and c: "rfold (\<lambda>(field, m) d'. sub_array (\<lambda>x. FromInternal J m x) field d') arrs None = Ok None"
    by (rule rfold_const; auto)+
  have "rfold (\<lambda>m d'. FromInternal J m d') ms None = Ok None"
    by (rule rfold_const) (use 2(4) [OF refl refl a b c] in auto)
  with a b c show ?case by (simp add: Let_def set_default_type_def root_id_def GetValueN_def as_string_def)
qed (auto simp: leaf_From split: bool.splits intro!: rfold_const)

lemma collect_None: "f None = Ok (None, None) \<Longrightarrow> collect f (es, None) = Ok (es, None)"
  by (simp add: collect_def Errors_Add_def)

lemma sub_to_None [simp]:
  "f None = Ok (None, None) \<Longrightarrow> sub_object_to f field (es, None) = Ok (es, None)"
  "sub_map_to f field (es, None) = Ok (es, None)" "sub_array_to f field (es, None) = Ok (es, None)"
  by (simp_all add: sub_object_to_def sub_value_to_def sub_map_to_def sub_array_to_def Errors_Add_def)

lemma Errors_Err_Nil [simp]: "Errors_Err [] = None"
  by (simp add: Errors_Err_def NewErrors_def)

lemma check_fields_None: "UnionEmbed_ToInternal fs embeds None = None"
  by (induction fs) (auto simp: Embed_ToInternal_def)

lemma ToInternal_None [simp]: "ToInternal J m None = Ok (None, None)"
proof (induction J m "None :: gdata" rule: ToInternal.induct)
  case (1 J ms)
  have "rfold (\<lambda>m s. collect (\<lambda>x. ToInternal J m x) s) (rev ms) ([], None) = Ok ([], None)"
    by (rule rfold_const) (use 1 in \<open>auto simp: collect_None\<close>)
  then show ?case by simp
next
  case (2 J ms root typeName subs arrs maps)
  have m: "rfold (\<lambda>m s. collect (\<lambda>x. ToInternal J m x) s) (rev ms) ([], None) = Ok ([], None)"
    by (rule rfold_const) (use 2 in \<open>auto simp: collect_None\<close>)
  have a: "rfold (\<lambda>(field, m) s. sub_array_to (\<lambda>x. ToInternal J m x) field s) arrs ([], None) = Ok ([], None)"
    and b: "rfold (\<lambda>(field, m) s. sub_map_to (\<lambda>x. ToInternal J m x) field s) maps ([], None) = Ok ([], None)"
    by (rule rfold_const; auto)+
  have "rfold (\<lambda>(field, m) s. sub_object_to (\<lambda>x. ToInternal J m x) field s) subs ([], None) = Ok ([], None)"
    by (rule rfold_const) (use 2 m a b in \<open>auto simp: Errors_Add_def\<close>)
  with m a b show ?case by (simp add: Errors_Add_def)
next
  case (3 J i n ms run)
  have "rfold (\<lambda>m s. collect (\<lambda>x. ToInternal J m x) s) (rev ms) ([], None) = Ok ([], None)" if run
    by (rule rfold_const) (use 3 that in \<open>auto simp: collect_None\<close>)
  then show ?case by simp
next
  case (4 J ms)
  have "rfold (\<lambda>m s. collect (\<lambda>x. ToInternal J m x) s) (rev ms) ([], None) = Ok ([], None)"
    by (rule rfold_const) (use 4 in \<open>auto simp: collect_None\<close>)
  then show ?case by simp
qed (auto simp: leaf_To check_fields_None rfold_const split: bool.splits)

section \<open>Lossless mappers\<close>

text \<open>
  A mapper loses nothing on \<open>D\<close>: mapping an object of \<open>D\<close> to its API form succeeds, and mapping back
  what equals the result, up to the order of entries, succeeds without an error and gives the object.
\<close>

definition lossless :: "codecs \<Rightarrow> mapper \<Rightarrow> (gdata \<Rightarrow> bool) \<Rightarrow> bool" where
  "lossless J m D \<longleftrightarrow> (\<forall>d. D d \<longrightarrow> (\<exists>d'. FromInternal J m d = Ok d' \<and>
     (\<forall>x. deq d' x \<longrightarrow> (\<exists>e. ToInternal J m x = Ok (None, e) \<and> deq d e))))"

locale lossless_mapper =
  fixes J :: codecs and m :: mapper and D :: "gdata \<Rightarrow> bool"
  assumes lossless: "lossless J m D"
begin

lemma round_trip:
  assumes "D d"
  obtains d' e where "FromInternal J m d = Ok d'" "ToInternal J m d' = Ok (None, e)" "deq d e"
  using lossless assms by (auto simp: lossless_def) (metis deq_refl)

lemma injective: "D d \<Longrightarrow> D e \<Longrightarrow> FromInternal J m d = FromInternal J m e \<Longrightarrow> deq d e"
  by (rule round_trip [of d]; rule round_trip [of e]) (auto intro: deq_trans deq_sym)

end

text \<open>The domain of a sequence: each mapper gets what the mappers before it make.\<close>

fun chain_dom :: "codecs \<Rightarrow> (mapper \<times> (gdata \<Rightarrow> bool)) list \<Rightarrow> gdata \<Rightarrow> bool" where
  "chain_dom J [] d = True"
| "chain_dom J ((m, D) # ms) d \<longleftrightarrow> D d \<and> (\<forall>d'. FromInternal J m d = Ok d' \<longrightarrow> chain_dom J ms d')"

lemma ToInternal_Mappers_Nil [simp]: "ToInternal J (Mappers []) d = Ok (None, d)"
  by simp

lemma rfold_collect_Ok:
  "rfold (\<lambda>m s. collect (\<lambda>x. ToInternal J m x) s) ms ([], d) = Ok ([], e) \<Longrightarrow> ToInternal J (Mappers (rev ms)) d = Ok (None, e)"
  by simp

lemma collect_mono_errors:
  "rfold (\<lambda>m s. collect (\<lambda>x. ToInternal J m x) s) ms (es, d) = Ok (es', e) \<Longrightarrow> \<exists>xs. es' = es @ xs"
proof (induction ms arbitrary: es d)
  case (Cons m ms)
  then obtain er x where "rfold (\<lambda>m s. collect (\<lambda>x. ToInternal J m x) s) ms (Errors_Add er es, x) = Ok (es', e)"
    by (auto simp: collect_def rbind_Ok_iff)
  from Cons.IH [OF this] show ?case by (auto simp: Errors_Add_def split: option.splits)
qed simp

lemma Errors_Err_None [simp]: "Errors_Err es = None \<longleftrightarrow> es = []"
  by (auto simp: Errors_Err_def NewErrors_def split: list.splits)

lemma ToInternal_Mappers_None:
  "ToInternal J (Mappers ms) d = Ok (None, e) \<longleftrightarrow>
   rfold (\<lambda>m s. collect (\<lambda>x. ToInternal J m x) s) (rev ms) ([], d) = Ok ([], e)"
  by (auto simp: rbind_Ok_iff)

lemma ToInternal_Mappers_Cons:
  assumes "ToInternal J (Mappers ms) x = Ok (None, y)" "ToInternal J m y = Ok (None, e)"
  shows "ToInternal J (Mappers (m # ms)) x = Ok (None, e)"
  using assms unfolding ToInternal_Mappers_None
  by (simp add: rfold_append collect_def Errors_Add_def)

lemma lossless_Mappers:
  "\<forall>(m, D) \<in> set ms. lossless J m D \<Longrightarrow> lossless J (Mappers (map fst ms)) (chain_dom J ms)"
proof (induction ms)
  case Nil
  then show ?case by (auto simp: lossless_def)
next
  case (Cons md ms)
  obtain m D where md: "md = (m, D)" by (cases md)
  from Cons.prems md have m: "lossless J m D" by simp
  from Cons have ms: "lossless J (Mappers (map fst ms)) (chain_dom J ms)" by simp
  show ?case
    unfolding lossless_def
  proof (intro allI impI)
    fix d assume "chain_dom J (md # ms) d"
    then have D: "D d" and rest: "\<And>d'. FromInternal J m d = Ok d' \<Longrightarrow> chain_dom J ms d'" by (simp_all add: md)
    obtain d1 where d1: "FromInternal J m d = Ok d1"
      and back1: "\<And>x. deq d1 x \<Longrightarrow> \<exists>e. ToInternal J m x = Ok (None, e) \<and> deq d e"
      using m D by (auto simp: lossless_def)
    obtain d2 where d2: "FromInternal J (Mappers (map fst ms)) d1 = Ok d2"
      and back2: "\<And>x. deq d2 x \<Longrightarrow> \<exists>e. ToInternal J (Mappers (map fst ms)) x = Ok (None, e) \<and> deq d1 e"
      using ms rest [OF d1] unfolding lossless_def by blast
    have "\<exists>e. ToInternal J (Mappers (map fst (md # ms))) x = Ok (None, e) \<and> deq d e" if "deq d2 x" for x
    proof -
      from back2 [OF that] obtain y where y: "ToInternal J (Mappers (map fst ms)) x = Ok (None, y)" "deq d1 y" by blast
      from back1 [OF y(2)] obtain e where "ToInternal J m y = Ok (None, e)" "deq d e" by blast
      with ToInternal_Mappers_Cons [OF y(1)] show ?thesis by (auto simp: md)
    qed
    with d1 d2 show "\<exists>d'. FromInternal J (Mappers (map fst (md # ms))) d = Ok d' \<and>
        (\<forall>x. deq d' x \<longrightarrow> (\<exists>e. ToInternal J (Mappers (map fst (md # ms))) x = Ok (None, e) \<and> deq d e))"
      by (auto simp: md)
  qed
qed

section \<open>Moves and embeddings\<close>

definition simple_key :: "string \<Rightarrow> bool" where
  "simple_key k \<longleftrightarrow> CHR ''/'' \<notin> set k"

lemma slash_path_simple [simp]: "simple_key k \<Longrightarrow> slash_path k = [k]"
  by (simp add: slash_path_def simple_key_def split_char_no_sep)

lemma move_value_simple:
  assumes "f \<noteq> t"
  obtains m' where "move_value [f] [t] (Some m) = Ok (Some m')"
    and "\<And>k. map_of m' k = (if k = t \<and> map_of m f \<noteq> None then map_of m f else if k = f then None else map_of m k)"
proof (cases "map_of m f")
  case None
  show thesis by (rule that [of "mdel_key f m"]) (use None assms in \<open>auto simp: move_value_def go_map\<close>)
next
  case (Some v)
  show thesis
    by (rule that [of "mset_key t v (mdel_key f m)"]) (use Some assms in \<open>auto simp: move_value_def PutValue_def go_map\<close>)
qed

text \<open>A move of one top-level field to a name that is free.\<close>

definition move_dom :: "move \<Rightarrow> gdata \<Rightarrow> bool" where
  "move_dom mv d \<longleftrightarrow> mlookup d (To mv) = None"

lemma lossless_Move:
  assumes "simple_key (From mv)" "simple_key (To mv)" "From mv \<noteq> To mv"
  shows "lossless J (MoveMapper mv) (move_dom mv)"
  unfolding lossless_def
proof (intro allI impI)
  fix d assume "move_dom mv d"
  show "\<exists>d'. FromInternal J (MoveMapper mv) d = Ok d' \<and>
     (\<forall>x. deq d' x \<longrightarrow> (\<exists>e. ToInternal J (MoveMapper mv) x = Ok (None, e) \<and> deq d e))"
  proof (cases d)
    case None
    then show ?thesis by (auto simp: deq_def leaf_To)
  next
    case (Some m)
    obtain m1 where m1: "move_value [From mv] [To mv] (Some m) = Ok (Some m1)"
      "\<And>k. map_of m1 k = (if k = To mv \<and> map_of m (From mv) \<noteq> None then map_of m (From mv)
                         else if k = From mv then None else map_of m k)"
      by (rule move_value_simple [OF assms(3), of m]) blast
    have "\<exists>e. ToInternal J (MoveMapper mv) x = Ok (None, e) \<and> deq (Some m) e" if x: "deq (Some m1) x" for x
    proof -
      from x obtain mx where mx: "x = Some mx" "\<And>k. oeq (map_of m1 k) (map_of mx k)" by (auto simp: deq_Some)
      obtain m2 where m2: "move_value [To mv] [From mv] (Some mx) = Ok (Some m2)"
        "\<And>k. map_of m2 k = (if k = From mv \<and> map_of mx (To mv) \<noteq> None then map_of mx (To mv)
                           else if k = To mv then None else map_of mx k)"
        by (rule move_value_simple [OF assms(3) [symmetric], of mx]) blast
      have "oeq (map_of m k) (map_of m2 k)" for k
        using mx(2) [of k] mx(2) [of "To mv"] \<open>move_dom mv d\<close> assms(3)
        by (auto simp: m1(2) m2(2) move_dom_def Some oeq_Some split: if_splits)
      with m2(1) show ?thesis by (simp add: mx(1) assms Move_ToInternal_def no_error_def deq_Some)
    qed
    with m1(1) show ?thesis by (auto simp: Some assms Move_FromInternal_def)
  qed
qed

lemma embed_out:
  "\<exists>m'. rfold (\<lambda>f d'. case mlookup sub f of None \<Rightarrow> Ok d' | Some v \<Rightarrow> mput d' f v) fs (Some m) = Ok (Some m')
     \<and> (\<forall>k. map_of m' k = (if k \<in> set fs \<and> mlookup sub k \<noteq> None then mlookup sub k else map_of m k))"
proof (induction fs arbitrary: m)
  case (Cons f fs)
  show ?case
  proof (cases "mlookup sub f")
    case None
    with Cons.IH [of m] show ?thesis by (simp add: ex_forward)
  next
    case (Some v)
    from Cons.IH [of "mset_key f v m"] obtain m' where
      m': "rfold (\<lambda>f d'. case mlookup sub f of None \<Rightarrow> Ok d' | Some v \<Rightarrow> mput d' f v) fs (Some (mset_key f v m)) = Ok (Some m')"
      "\<forall>k. map_of m' k = (if k \<in> set fs \<and> mlookup sub k \<noteq> None then mlookup sub k else map_of (mset_key f v m) k)"
      by blast
    have "map_of m' k = (if k \<in> set (f # fs) \<and> mlookup sub k \<noteq> None then mlookup sub k else map_of m k)" for k
      using m'(2) [rule_format, of k] Some by (cases "k = f"; cases "mlookup sub k") (simp_all add: go_map)
    with m'(1) Some show ?thesis by (intro exI [of _ m']) simp
  qed
qed simp

definition embed_step_to :: "string \<Rightarrow> (string \<times> gval) list \<times> gdata \<Rightarrow> (string \<times> gval) list \<times> gdata" where
  "embed_step_to f x = (case mlookup (snd x) f of None \<Rightarrow> fst x | Some v \<Rightarrow> mset_key f v (fst x), mdelete (snd x) f)"

lemma embed_fields_fold: "embed_fields fs d = fold embed_step_to fs ([], d)"
  unfolding embed_fields_def embed_step_to_def by (rule arg_cong [where f = "\<lambda>h. fold h fs ([], d)"]) (auto simp: fun_eq_iff split: option.splits)

lemma embed_in_gen:
  "\<exists>m' sub'. fold embed_step_to fs (sub, Some m) = (sub', Some m')
     \<and> (\<forall>k. map_of m' k = (if k \<in> set fs then None else map_of m k))
     \<and> (\<forall>k. map_of sub' k = (if k \<in> set fs \<and> map_of m k \<noteq> None then map_of m k else map_of sub k))"
proof (induction fs arbitrary: sub m)
  case (Cons f fs)
  let ?sub = "case map_of m f of None \<Rightarrow> sub | Some v \<Rightarrow> mset_key f v sub"
  from Cons.IH [of ?sub "mdel_key f m"] obtain m' sub' where
    fold: "fold embed_step_to fs (?sub, Some (mdel_key f m)) = (sub', Some m')"
    and m': "\<And>k. map_of m' k = (if k \<in> set fs then None else map_of (mdel_key f m) k)"
    and sub': "\<And>k. map_of sub' k = (if k \<in> set fs \<and> map_of (mdel_key f m) k \<noteq> None then map_of (mdel_key f m) k else map_of ?sub k)"
    by blast
  have "map_of m' k = (if k \<in> set (f # fs) then None else map_of m k)" for k
    using m' [of k] by (simp add: go_map)
  moreover have "map_of sub' k = (if k \<in> set (f # fs) \<and> map_of m k \<noteq> None then map_of m k else map_of sub k)" for k
    using sub' [of k] by (cases "k = f"; cases "map_of m f"; cases "map_of m k") (simp_all add: go_map)
  moreover have "fold embed_step_to (f # fs) (sub, Some m) = (sub', Some m')"
    using fold by (simp add: embed_step_to_def [of f] split: option.splits)
  ultimately show ?case by blast
qed simp

lemma embed_in:
  obtains sub m' where "embed_fields fs (Some m) = (sub, Some m')"
    and "\<And>k. map_of m' k = (if k \<in> set fs then None else map_of m k)"
    and "\<And>k. map_of sub k = (if k \<in> set fs then map_of m k else None)"
proof -
  from embed_in_gen [of fs "[]" m] obtain m' sub where "fold embed_step_to fs ([], Some m) = (sub, Some m')"
    and "\<And>k. map_of m' k = (if k \<in> set fs then None else map_of m k)"
    and "\<And>k. map_of sub k = (if k \<in> set fs \<and> map_of m k \<noteq> None then map_of m k else None)" by auto
  then show thesis by (intro that [of sub m']) (auto simp: embed_fields_fold)
qed

text \<open>
  An embedding of the map in the field \<open>EField\<close>: the map is not empty, has only embedded fields, and
  the object has none of them beside it. Where the field is optional it may also be absent.
\<close>

definition embed_dom :: "embed \<Rightarrow> gdata \<Rightarrow> bool" where
  "embed_dom e d \<longleftrightarrow>
     (\<forall>f \<in> set (embeddedFields e). mlookup d f = None) \<and>
     (case mlookup d (EField e) of
        Some (VMap (Some sub)) \<Rightarrow> sub \<noteq> [] \<and> fst ` set sub \<subseteq> set (embeddedFields e)
      | None \<Rightarrow> \<not> EmptyValueOk e
      | _ \<Rightarrow> False)"

lemma empty_by_lookup: "m = [] \<longleftrightarrow> (\<forall>k. map_of m k = None)"
  by (cases m) (auto split: if_splits)

lemma embed_back_present:
  assumes dom: "\<And>f. f \<in> set fs \<Longrightarrow> map_of m f = None" "map_of m F = Some (VMap (Some sub))" "sub \<noteq> []" "fst ` set sub \<subseteq> set fs" "F \<notin> set fs"
    and m1: "\<And>k. map_of m1 k = (if k \<in> set fs \<and> map_of sub k \<noteq> None then map_of sub k else map_of m k)"
    and mx: "\<And>k. oeq (map_of (mdel_key F m1) k) (map_of mx k)"
    and m': "\<And>k. map_of m' k = (if k \<in> set fs then None else map_of mx k)"
    and sub': "\<And>k. map_of sub' k = (if k \<in> set fs then map_of mx k else None)"
  shows "sub' \<noteq> [] \<and> deq (Some m) (Some (mset_key F (VMap (Some sub')) m'))"
proof -
  have sub: "oeq (map_of sub k) (map_of sub' k)" for k
  proof (cases "k \<in> set fs")
    case True
    with dom(5) have "k \<noteq> F" by blast
    then show ?thesis
      using mx [of k] dom(1) [OF True] True by (cases "map_of sub k") (simp_all add: go_map m1 sub')
  next
    case False
    with dom(4) have "map_of sub k = None" by (auto simp: map_of_eq_None_iff)
    with False show ?thesis by (simp add: sub')
  qed
  obtain k v where "map_of sub k = Some v" using dom(3) empty_by_lookup [of sub] by auto
  with sub [of k] have ne: "sub' \<noteq> []" by (auto simp: empty_by_lookup oeq_Some)
  have "oeq (map_of m k) (map_of (mset_key F (VMap (Some sub')) m') k)" for k
  proof (cases "k = F")
    case True
    then show ?thesis using dom(2) sub by (simp add: go_map veq_mapI)
  next
    case False
    then show ?thesis using mx [of k] dom(1) [of k] by (cases "k \<in> set fs") (simp_all add: go_map m1 m')
  qed
  with ne show ?thesis by (simp add: deq_Some)
qed

lemma embed_back_absent:
  assumes dom: "\<And>f. f \<in> set fs \<Longrightarrow> map_of m f = None" "map_of m F = None" "F \<notin> set fs"
    and m1: "\<And>k. map_of m1 k = map_of m k"
    and mx: "\<And>k. oeq (map_of (mdel_key F m1) k) (map_of mx k)"
    and m': "\<And>k. map_of m' k = (if k \<in> set fs then None else map_of mx k)"
    and sub': "\<And>k. map_of sub' k = (if k \<in> set fs then map_of mx k else None)"
  shows "sub' = [] \<and> deq (Some m) (Some m')"
proof -
  have eq: "oeq (map_of m k) (map_of mx k)" for k using mx [of k] dom(2) by (cases "k = F") (simp_all add: go_map m1)
  have "map_of sub' k = None" for k using dom(1) [of k] eq [of k] by (auto simp: sub')
  moreover have "oeq (map_of m k) (map_of m' k)" for k using dom(1) [of k] eq [of k] by (simp add: m')
  ultimately show ?thesis by (auto simp: empty_by_lookup deq_Some)
qed

lemma embed_dom_cases:
  assumes "embed_dom e (Some m)"
  obtains (present) sub where "map_of m (EField e) = Some (VMap (Some sub))" "sub \<noteq> []" "fst ` set sub \<subseteq> set (embeddedFields e)"
    | (absent) "map_of m (EField e) = None" "\<not> EmptyValueOk e"
  using assms by (cases rule: entry_cases [of m "EField e"]) (auto simp: embed_dom_def split: gval.splits option.splits)

lemma lossless_Embed:
  assumes "EField e \<notin> set (embeddedFields e)"
  shows "lossless J (EmbedMapper e) (embed_dom e)"
  unfolding lossless_def
proof (intro allI impI)
  fix d assume dom: "embed_dom e d"
  let ?fs = "embeddedFields e" and ?F = "EField e"
  show "\<exists>d'. FromInternal J (EmbedMapper e) d = Ok d' \<and>
     (\<forall>x. deq d' x \<longrightarrow> (\<exists>y. ToInternal J (EmbedMapper e) x = Ok (None, y) \<and> deq d y))"
  proof (cases d)
    case None
    then show ?thesis by (auto simp: deq_def Embed_ToInternal_def)
  next
    case (Some m)
    let ?sub = "ToMapInterface (mget d ?F)"
    from embed_out [of ?sub ?fs m] obtain m1 where
      m1: "rfold (\<lambda>f d'. case mlookup ?sub f of None \<Rightarrow> Ok d' | Some v \<Rightarrow> mput d' f v) ?fs (Some m) = Ok (Some m1)"
      "\<And>k. map_of m1 k = (if k \<in> set ?fs \<and> mlookup ?sub k \<noteq> None then mlookup ?sub k else map_of m k)" by blast
    have fwd: "FromInternal J (EmbedMapper e) d = Ok (Some (mdel_key ?F m1))"
      using m1(1) by (simp add: Embed_FromInternal_def Some)
    have bwd: "\<exists>y. ToInternal J (EmbedMapper e) x = Ok (None, y) \<and> deq d y" if x: "deq (Some (mdel_key ?F m1)) x" for x
    proof -
      from x obtain mx where mx: "x = Some mx" "\<And>k. oeq (map_of (mdel_key ?F m1) k) (map_of mx k)" by (auto simp: deq_Some)
      obtain sub' m' where e': "embed_fields ?fs (Some mx) = (sub', Some m')"
        and m': "\<And>k. map_of m' k = (if k \<in> set ?fs then None else map_of mx k)"
        and sub': "\<And>k. map_of sub' k = (if k \<in> set ?fs then map_of mx k else None)" by (rule embed_in [of ?fs mx]) blast
      have none: "map_of m f = None" if "f \<in> set ?fs" for f using dom that by (simp add: embed_dom_def Some)
      from dom have "embed_dom e (Some m)" by (simp add: Some)
      then show ?thesis
      proof (cases rule: embed_dom_cases)
        case (present sub)
        have s: "mlookup ?sub k = map_of sub k" for k using present(1) by (simp add: Some)
        have "\<And>k. map_of m1 k = (if k \<in> set ?fs \<and> map_of sub k \<noteq> None then map_of sub k else map_of m k)"
          using m1(2) unfolding s .
        from embed_back_present [OF none present assms this mx(2) m' sub']
        show ?thesis by (simp add: mx(1) Embed_ToInternal_def e' Some)
      next
        case absent
        have "\<And>k. map_of m1 k = map_of m k" using m1(2) absent(1) by (simp add: Some)
        from embed_back_absent [OF none absent(1) assms this mx(2) m' sub'] absent(2)
        show ?thesis by (simp add: mx(1) Embed_ToInternal_def e' Some)
      qed
    qed
    show ?thesis using fwd bwd by blast
  qed
qed

text \<open>The mappers that only change the schema lose nothing at all.\<close>

lemma lossless_schema_only:
  "lossless J (Access fs o') (\<lambda>_. True)" "lossless J (ChangeType f t) (\<lambda>_. True)" "lossless J (Enum f os) (\<lambda>_. True)"
  "lossless J (ReadOnly f o' s) (\<lambda>_. True)" "lossless J (RequiredMapper rs) (\<lambda>_. True)"
  by (simp_all add: lossless_def)

lemma lossless_mono: "lossless J m D \<Longrightarrow> (\<And>d. E d \<Longrightarrow> D d) \<Longrightarrow> lossless J m E"
  by (simp add: lossless_def)

text \<open>The display name mapper is its two moves.\<close>

abbreviation "name_to_id \<equiv> simple_move ''name'' ''id''"
abbreviation "display_to_name \<equiv> simple_move ''displayName'' ''name''"

lemma lossless_DisplayName: "lossless J DisplayName (\<lambda>d. mlookup d ''id'' = None)"
proof -
  have moves: "lossless J (MoveMapper name_to_id) (move_dom name_to_id)"
    "lossless J (MoveMapper display_to_name) (move_dom display_to_name)"
    by (rule lossless_Move; simp add: simple_key_def)+
  have free: "move_dom display_to_name d'" if "Move_FromInternal name_to_id d = Ok d'" for d d'
  proof (cases d)
    case (Some m)
    show ?thesis
      by (rule move_value_simple [of "''name''" "''id''" m])
         (use that Some in \<open>auto simp: Move_FromInternal_def simple_key_def move_dom_def\<close>)
  qed (use that in \<open>simp add: move_dom_def\<close>)
  have "lossless J (Mappers [MoveMapper name_to_id, MoveMapper display_to_name])
      (chain_dom J [(MoveMapper name_to_id, move_dom name_to_id), (MoveMapper display_to_name, move_dom display_to_name)])"
    using lossless_Mappers [of "[(MoveMapper name_to_id, move_dom name_to_id), (MoveMapper display_to_name, move_dom display_to_name)]" J]
      moves by simp
  then have "lossless J (Mappers [MoveMapper name_to_id, MoveMapper display_to_name]) (\<lambda>d. mlookup d ''id'' = None)"
    by (rule lossless_mono) (use free in \<open>auto simp: move_dom_def\<close>)
  moreover have "FromInternal J (Mappers [MoveMapper name_to_id, MoveMapper display_to_name]) d = FromInternal J DisplayName d" for d
    by (simp add: rbind_def split: res.splits)
  moreover have "ToInternal J (Mappers [MoveMapper name_to_id, MoveMapper display_to_name]) d = ToInternal J DisplayName d" for d
    by (simp add: rbind_def collect_def no_error_def Errors_Add_def split: res.splits)
  ultimately show ?thesis by (simp only: lossless_def)
qed

interpretation display: lossless_mapper J DisplayName "\<lambda>d. mlookup d ''id'' = None" for J
  by unfold_locales (rule lossless_DisplayName)

section \<open>Properties\<close>

text \<open>
  No mapper touches a nil map: in both directions every mapper, however nested, returns a nil map
  unchanged, without a panic and without an error.
\<close>

theorem mappers_nil_safe: "FromInternal J m None = Ok None \<and> ToInternal J m None = Ok (None, None)"
  by simp

text \<open>
  C6. A sequence of mappers that each lose nothing loses nothing: the opposite direction runs them in
  reverse order and gives the object back, up to the order of the entries of its maps, without an error.
  The moves of top-level fields to free names and the embeddings are such mappers.
\<close>

theorem mapper_sequence_round_trip:
  assumes "\<forall>(m, D) \<in> set ms. lossless J m D" "chain_dom J ms d"
  shows "\<exists>d' e. FromInternal J (Mappers (map fst ms)) d = Ok d' \<and> ToInternal J (Mappers (map fst ms)) d' = Ok (None, e) \<and> deq d e"
proof -
  from lossless_Mappers [OF assms(1)] assms(2) obtain d' where d': "FromInternal J (Mappers (map fst ms)) d = Ok d'"
    and "\<forall>x. deq d' x \<longrightarrow> (\<exists>e. ToInternal J (Mappers (map fst ms)) x = Ok (None, e) \<and> deq d e)"
    unfolding lossless_def by blast
  then show ?thesis using deq_refl by blast
qed

definition sample_codecs :: codecs where
  "sample_codecs = \<lparr>json_marshal = \<lambda>_. None, json_map = \<lambda>_. None, json_list = \<lambda>_. None, b64_encode = id, b64_decode = id\<rparr>"

definition sample_embed :: embed where
  "sample_embed = embed_zero\<lparr>EField := ''metadata'', embeddedFields := [''uid'']\<rparr>"

definition sample_object :: gdata where
  "sample_object = Some [(''metadata'', VMap (Some [(''uid'', VStr ''u'')])), (''state'', VStr ''active'')]"

lemma mapper_sequence_round_trip_witness:
  "\<exists>d' e. FromInternal sample_codecs (Mappers [EmbedMapper sample_embed, MoveMapper (simple_move ''uid'' ''uuid'')]) sample_object = Ok d'
     \<and> ToInternal sample_codecs (Mappers [EmbedMapper sample_embed, MoveMapper (simple_move ''uid'' ''uuid'')]) d' = Ok (None, e)
     \<and> deq sample_object e"
proof -
  let ?ms = "[(EmbedMapper sample_embed, embed_dom sample_embed), (MoveMapper (simple_move ''uid'' ''uuid''), move_dom (simple_move ''uid'' ''uuid''))]"
  have "lossless sample_codecs (EmbedMapper sample_embed) (embed_dom sample_embed)"
    by (rule lossless_Embed) (simp add: sample_embed_def)
  moreover have "lossless sample_codecs (MoveMapper (simple_move ''uid'' ''uuid'')) (move_dom (simple_move ''uid'' ''uuid''))"
    by (rule lossless_Move) (simp_all add: simple_key_def)
  moreover have "chain_dom sample_codecs ?ms sample_object"
    by (simp add: sample_object_def sample_embed_def embed_zero_def embed_dom_def move_dom_def Embed_FromInternal_def)
  ultimately show ?thesis using mapper_sequence_round_trip [of ?ms sample_codecs sample_object] by simp
qed

text \<open>
  The display name mapper is injective on objects without an ID: two of them with the same API form
  are the same object, up to the order of the entries of its maps.
\<close>

theorem DisplayName_injective:
  "mlookup d ''id'' = None \<Longrightarrow> mlookup e ''id'' = None \<Longrightarrow>
   FromInternal J DisplayName d = FromInternal J DisplayName e \<Longrightarrow> deq d e"
  by (rule display.injective)

lemma DisplayName_injective_witness:
  "deq (Some [(''name'', VStr ''n''), (''displayName'', VStr ''m'')]) (Some [(''displayName'', VStr ''m''), (''name'', VStr ''n'')])"
  by (rule DisplayName_injective [of _ _ sample_codecs]) code_simp+

end
