(* ===== verification/Merge.thy ===== *)
theory Merge
  imports MapperSchema
begin

text \<open>
  The merge of an update into a stored object, \<^verbatim>\<open>types/convert/merge/merge.go\<close>. A schema argument that
  may be nil is an option; only the version and the fields of a schema are read, so both a schema and an
  internal schema are values of the core record.
\<close>

section \<open>Protected keys\<close>

definition isField :: "string \<Rightarrow> bool" where
  "isField k = has_prefix k ''field.cattle.io/''"

definition isProtected :: "string \<Rightarrow> bool" where
  "isProtected k \<longleftrightarrow> \<not> (\<not> str_contains k ''cattle.io/'' \<or> (isField k \<and> k \<noteq> ''field.cattle.io/creatorId''))"

definition copyMap :: "gdata \<Rightarrow> (string \<times> gval) list" where
  "copyMap src = put_all (mentries src) []"

definition mergeProtected :: "gdata \<Rightarrow> gdata \<Rightarrow> gdata" where
  "mergeProtected dest src =
     (if src = None then dest
      else let r1 = fold (\<lambda>(k, v) r. if isProtected k then r else mset_key k v r) (mentries src) (copyMap dest)
           in Some (fold (\<lambda>(k, _) r. if isProtected k \<or> isField k then r
                                     else if mlookup src k = None then mdel_key k r else r) (mentries dest) r1))"

definition mergeMetadata :: "gdata \<Rightarrow> gdata \<Rightarrow> (string \<times> gval) list" where
  "mergeMetadata dest src =
     (let part = (\<lambda>k. VMap (mergeProtected (ToMapInterface (mget dest k)) (ToMapInterface (mget src k))))
      in mset_key ''annotations'' (part ''annotations'') (mset_key ''labels'' (part ''labels'') (copyMap dest)))"

section \<open>Schemas of nested fields\<close>

definition internal_or_self :: "Schema \<Rightarrow> schema_core" where
  "internal_or_self s = (case InternalSchema s of Some i \<Rightarrow> i | None \<Rightarrow> schema_core.truncate s)"

definition isMap :: "string \<Rightarrow> schema_core option \<Rightarrow> Schemas \<Rightarrow> bool" where
  "isMap field schema ss \<longleftrightarrow>
     (case schema of
        None \<Rightarrow> False
      | Some s \<Rightarrow>
          let ty = FType (field_of field s)
          in IsMapType ty \<and> Schema_of ss (Some (SVersion s)) (SubType ty) = None)"

definition getSchema :: "string \<Rightarrow> string \<Rightarrow> schema_core option \<Rightarrow> schema_core option \<Rightarrow> Schemas \<Rightarrow> string \<times> schema_core option" where
  "getSchema field parentFieldType parentSchema schema ss =
     (case schema of
        None \<Rightarrow>
          (case parentSchema of
             Some p \<Rightarrow>
               if IsMapType parentFieldType
               then let subType = SubType parentFieldType
                    in (subType, map_option internal_or_self (Schema_of ss (Some (SVersion p)) subType))
               else ([], None)
           | None \<Rightarrow> ([], None))
      | Some s \<Rightarrow>
          let fieldType = FType (field_of field s)
          in (fieldType, map_option internal_or_self (Schema_of ss (Some (SVersion s)) fieldType)))"

definition copyMapReplace :: "schema_core option \<Rightarrow> gdata \<Rightarrow> bool \<Rightarrow> (string \<times> gval) list" where
  "copyMapReplace schema src replace =
     fold (\<lambda>(k, v) r. case schema of
        Some s \<Rightarrow> if replace \<and> Update (field_of k s) then r else mset_key k v r
      | None \<Rightarrow> mset_key k v r) (mentries src) []"

section \<open>Merging\<close>

fun merge_value :: "Schemas \<Rightarrow> bool \<Rightarrow> string \<Rightarrow> string \<Rightarrow> schema_core option \<Rightarrow> schema_core option \<Rightarrow> gval \<Rightarrow> gval \<Rightarrow> gval" where
  "merge_value ss replace field fieldType parentSchema schema dest src =
     (if isMap field schema ss then src
      else case src of
             VMap sm \<Rightarrow>
               (case dest of
                  VMap dm \<Rightarrow>
                    (case getSchema field fieldType parentSchema schema ss of (ft, fs) \<Rightarrow>
                       VMap (Some (case sm of
                         None \<Rightarrow> copyMapReplace fs dm replace
                       | Some m \<Rightarrow> fold (\<lambda>kv r. mset_key (fst kv)
                                     (merge_value ss replace (fst kv) ft schema fs (mget dm (fst kv)) (snd kv)) r)
                                   m (copyMapReplace fs dm replace))))
                | _ \<Rightarrow> src)
           | _ \<Rightarrow> src)"

declare merge_value.simps [simp del]

definition mergeMaps :: "Schemas \<Rightarrow> bool \<Rightarrow> string \<Rightarrow> schema_core option \<Rightarrow> schema_core option \<Rightarrow> gdata \<Rightarrow> gdata \<Rightarrow> (string \<times> gval) list" where
  "mergeMaps ss replace fieldType parentSchema schema dest src =
     fold (\<lambda>kv r. mset_key (fst kv)
             (merge_value ss replace (fst kv) fieldType parentSchema schema (mget dest (fst kv)) (snd kv)) r)
       (mentries src) (copyMapReplace schema dest replace)"

definition UpdateMerge :: "schema_core option \<Rightarrow> Schemas \<Rightarrow> gdata \<Rightarrow> gdata \<Rightarrow> bool \<Rightarrow> (string \<times> gval) list" where
  "UpdateMerge schema ss dest src replace = mergeMaps ss replace [] None schema dest src"

definition APIUpdateMerge :: "schema_core option \<Rightarrow> Schemas \<Rightarrow> gdata \<Rightarrow> gdata \<Rightarrow> bool \<Rightarrow> (string \<times> gval) list" where
  "APIUpdateMerge schema ss dest src replace =
     (let r0 = UpdateMerge schema ss dest src replace;
          r1 = (case mlookup dest ''status'' of Some s \<Rightarrow> mset_key ''status'' s r0 | None \<Rightarrow> r0)
      in case mlookup dest ''metadata'' of
           Some m \<Rightarrow> mset_key ''metadata''
                      (VMap (Some (mergeMetadata (ToMapInterface m) (ToMapInterface (mget src ''metadata''))))) r1
         | None \<Rightarrow> r1)"

end
