(* ===== verification/MergeLaws.thy ===== *)
theory MergeLaws
  imports Merge
begin

text \<open>
  What an update may change of a stored object: the labels and annotations of the server are kept, those of
  the user are replaced, and the status is kept.
\<close>

lemma map_of_fold_set:
  assumes "gkeys kvs"
  shows "map_of (fold (\<lambda>(k, v) r. if P k then r else mset_key k v r) kvs m) k =
    (if P k then map_of m k else case map_of kvs k of None \<Rightarrow> map_of m k | Some v \<Rightarrow> Some v)"
  using assms
proof (induction kvs arbitrary: m)
  case (Cons kv kvs)
  obtain k' v' where kv: "kv = (k', v')" by (cases kv)
  have "gkeys kvs" "map_of kvs k' = None" using Cons.prems kv by (simp_all add: gkeys_Cons)
  thus ?case using Cons.IH kv by (auto simp: go_map split: option.splits)
qed simp

lemma map_of_fold_del:
  "map_of (fold (\<lambda>(k, v) r. if P k then r else if Q k then mdel_key k r else r) kvs m) k =
    (if \<not> P k \<and> Q k \<and> k \<in> fst ` set kvs then None else map_of m k)"
  by (induction kvs arbitrary: m) (auto simp: go_map)

text \<open>One map of labels or annotations, after the merge.\<close>

definition merged_label :: "gdata \<Rightarrow> gdata \<Rightarrow> string \<Rightarrow> gval option" where
  "merged_label dest src k =
     (if src = None \<or> isProtected k then mlookup dest k
      else case mlookup src k of
             Some v \<Rightarrow> Some v
           | None \<Rightarrow> if isField k then mlookup dest k else None)"

lemma mlookup_mergeProtected:
  assumes "gkeys (mentries dest)" "gkeys (mentries src)"
  shows "mlookup (mergeProtected dest src) k = merged_label dest src k"
proof (cases src)
  case None
  then show ?thesis by (simp add: mergeProtected_def merged_label_def)
next
  case (Some sm)
  have copy: "map_of (copyMap dest) k = mlookup dest k"
    using assms(1) by (cases dest) (simp_all add: copyMap_def map_of_put_all mentries_def mlookup_def split: option.splits)
  have "mlookup dest k = None" if "k \<notin> fst ` set (mentries dest)"
    using that by (cases dest) (auto simp: mlookup_def mentries_def map_of_eq_None_iff)
  thus ?thesis
    using Some assms(2) copy
    by (auto simp: mergeProtected_def merged_label_def mlookup_def[of "Some _"] map_of_fold_del map_of_fold_set mentries_def[of "Some _"]
        split: option.splits)
qed

text \<open>C7. An update through the API keeps what belongs to the server. The status of the stored object stays. Of its labels
  and of its annotations, those with a protected key stay as they are, whatever the update has for them; any
  other key takes the value of the update, and is removed when the update does not have it, unless it is a field
  of the API. Without labels in the update, all of them stay.\<close>

theorem APIUpdateMerge_protects:
  assumes "mlookup dest ''metadata'' = Some (VMap md)" "mlookup src ''metadata'' = Some (VMap ms)"
    and "part \<in> {''labels'', ''annotations''}"
    and "gkeys (mentries (ToMapInterface (mget md part)))" "gkeys (mentries (ToMapInterface (mget ms part)))"
  shows "(mlookup dest ''status'' \<noteq> None \<longrightarrow>
            map_of (APIUpdateMerge schema ss dest src replace) ''status'' = mlookup dest ''status'')
    \<and> (\<exists>m l. map_of (APIUpdateMerge schema ss dest src replace) ''metadata'' = Some (VMap (Some m)) \<and> map_of m part = Some (VMap l)
        \<and> mlookup l k = merged_label (ToMapInterface (mget md part)) (ToMapInterface (mget ms part)) k)"
proof
  show "mlookup dest ''status'' \<noteq> None \<longrightarrow>
      map_of (APIUpdateMerge schema ss dest src replace) ''status'' = mlookup dest ''status''"
    using assms(1) by (auto simp: APIUpdateMerge_def Let_def go_map)
  have "map_of (APIUpdateMerge schema ss dest src replace) ''metadata'' = Some (VMap (Some (mergeMetadata md ms)))"
    using assms(1,2) by (simp add: APIUpdateMerge_def Let_def go_map ToMapInterface_def mget_def)
  moreover have "map_of (mergeMetadata md ms) part = Some (VMap (mergeProtected (ToMapInterface (mget md part)) (ToMapInterface (mget ms part))))"
    using assms(3) by (auto simp: mergeMetadata_def Let_def go_map)
  ultimately show "\<exists>m l. map_of (APIUpdateMerge schema ss dest src replace) ''metadata'' = Some (VMap (Some m)) \<and> map_of m part = Some (VMap l)
        \<and> mlookup l k = merged_label (ToMapInterface (mget md part)) (ToMapInterface (mget ms part)) k"
    using mlookup_mergeProtected[OF assms(4,5)] by blast
qed

definition stored_pod :: gdata where
  "stored_pod = Some [(''metadata'', VMap (Some [(''labels'', VMap (Some [(''cattle.io/creator'', VStr ''norman''), (''app'', VStr ''web'')]))])),
     (''status'', VStr ''running'')]"

definition updated_pod :: gdata where
  "updated_pod = Some [(''metadata'', VMap (Some [(''labels'', VMap (Some [(''cattle.io/creator'', VStr ''mallory''), (''tier'', VStr ''front'')]))])),
     (''status'', VStr ''hacked'')]"

theorem APIUpdateMerge_protects_witness:
  "map_of (APIUpdateMerge None NewSchemas stored_pod updated_pod False) ''status'' = Some (VStr ''running'')
   \<and> (\<exists>m l. map_of (APIUpdateMerge None NewSchemas stored_pod updated_pod False) ''metadata'' = Some (VMap (Some m)) \<and> map_of m ''labels'' = Some (VMap l)
        \<and> mlookup l ''cattle.io/creator'' = Some (VStr ''norman''))"
proof -
  have p: "isProtected ''cattle.io/creator''" by code_simp
  show ?thesis
    using p APIUpdateMerge_protects[of stored_pod "Some [(''labels'', VMap (Some [(''cattle.io/creator'', VStr ''norman''), (''app'', VStr ''web'')]))]"
      updated_pod "Some [(''labels'', VMap (Some [(''cattle.io/creator'', VStr ''mallory''), (''tier'', VStr ''front'')]))]" "''labels''" None NewSchemas False "''cattle.io/creator''"]
    by (simp add: stored_pod_def updated_pod_def mlookup_def mget_def ToMapInterface_def mentries_def gkeys_def merged_label_def)
qed

end
