(* ===== verification/Query.thy ===== *)
theory Query
  imports Reflection "HOL-Library.Multiset"
begin

text \<open>
  Queries on collections: the conditions of \<^verbatim>\<open>types/condition.go\<close>, the parsing of the query string of
  \<^verbatim>\<open>parse/collection.go\<close> and filtering, sorting and paging of \<^verbatim>\<open>api/handler/query.go\<close>.
\<close>

section \<open>Conditions\<close>

type_synonym cond_type = "string \<times> int"

abbreviation "CondEQ \<equiv> (ModifierEQ, 1 :: int)"
abbreviation "CondNE \<equiv> (ModifierNE, 1 :: int)"
abbreviation "CondNull \<equiv> (ModifierNull, 0 :: int)"
abbreviation "CondNotNull \<equiv> (ModifierNotNull, 0 :: int)"
abbreviation "CondIn \<equiv> (ModifierIn, - 1 :: int)"
abbreviation "CondNotIn \<equiv> (ModifierNotIn, - 1 :: int)"
abbreviation "CondOr \<equiv> (''or'', 1 :: int)"
abbreviation "CondAnd \<equiv> (''and'', 1 :: int)"

definition mods :: "(string \<times> cond_type) list" where
  "mods = map (\<lambda>c. (fst c, c)) [CondEQ, CondNE, CondNull, CondNotNull, CondIn, CondNotIn, CondOr, CondAnd]"

text \<open>The condition type of a modifier that is not in \<^const>\<open>mods\<close> is the zero value.\<close>

datatype query_condition =
  QueryCondition (qField: string) (qValue: string) (qValues: "string list") (conditionType: cond_type)
    (left: "query_condition option") (right: "query_condition option")

definition valueOrDefault :: "Schema \<Rightarrow> gdata \<Rightarrow> string \<Rightarrow> gval" where
  "valueOrDefault schema d fieldName =
     (case mget d fieldName of VNil \<Rightarrow> Default (field_of fieldName schema) | v \<Rightarrow> v)"

fun Valid :: "query_condition \<Rightarrow> Schema \<Rightarrow> gdata \<Rightarrow> bool" where
  "Valid (QueryCondition fieldName value vals ct l r) schema d =
     (let str = ToString (valueOrDefault schema d fieldName) in
      if ct = CondAnd then (case l of None \<Rightarrow> False | Some p \<Rightarrow> (case r of None \<Rightarrow> False | Some q \<Rightarrow> Valid p schema d \<and> Valid q schema d))
      else if ct = CondOr then (case l of None \<Rightarrow> False | Some p \<Rightarrow> (case r of None \<Rightarrow> False | Some q \<Rightarrow> Valid p schema d \<or> Valid q schema d))
      else if ct = CondEQ then value = str
      else if ct = CondNE then value \<noteq> str
      else if ct = CondIn then str \<in> set vals
      else if ct = CondNotIn then str \<notin> set vals
      else if ct = CondNotNull then str \<noteq> []
      else if ct = CondNull then str = []
      else False)"

record condition =
  cModifier :: string
  cValue :: gval

definition ToCondition :: "query_condition \<Rightarrow> condition" where
  "ToCondition q =
     \<lparr>cModifier = fst (conditionType q),
      cValue = (if snd (conditionType q) = 1 then VStr (qValue q)
                else if snd (conditionType q) = - 1 then VStrs (qValues q) else VNil)\<rparr>"

definition ValidMod :: "string \<Rightarrow> bool" where
  "ValidMod m \<longleftrightarrow> map_of mods m \<noteq> None"

definition NewConditionFromString :: "string \<Rightarrow> string \<Rightarrow> string list \<Rightarrow> query_condition" where
  "NewConditionFromString fieldName m vals =
     QueryCondition fieldName (case vals of [] \<Rightarrow> [] | v # _ \<Rightarrow> v) (remdups vals)
       (case map_of mods m of None \<Rightarrow> ([], 0) | Some ct \<Rightarrow> ct) None None"

definition EQ :: "string \<Rightarrow> string \<Rightarrow> query_condition" where
  "EQ key value = NewConditionFromString key ModifierEQ [value]"

section \<open>Query options\<close>

record sort_opts =
  SortName :: string
  Order :: string

record pagination =
  Marker :: string
  First :: string
  Previous :: string
  PNext :: string
  PLast :: string
  Limit :: "int option"
  Total :: "int option"
  Partial :: bool

record query_options =
  Sort :: sort_opts
  Pagination :: "pagination option"
  Conditions :: "query_condition list"
  QOptions :: "(string \<times> string) list"
  Namespaces :: "string list option"

abbreviation "ASC \<equiv> ''asc''"
abbreviation "DESC \<equiv> ''desc''"
abbreviation "defaultLimit \<equiv> 1000 :: int"
abbreviation "maxLimit \<equiv> 10000 :: int"

type_synonym query = "(string \<times> string list) list"

text \<open>\<^verbatim>\<open>url.Values.Get\<close>.\<close>

definition query_get :: "query \<Rightarrow> string \<Rightarrow> string" where
  "query_get q k = (case map_of q k of Some (v # _) \<Rightarrow> v | _ \<Rightarrow> [])"

definition parseOrder :: "query \<Rightarrow> string" where
  "parseOrder q = (if query_get q ''order'' = DESC then DESC else ASC)"

definition parseSort :: "Schema \<Rightarrow> query \<Rightarrow> sort_opts" where
  "parseSort schema q =
     (let sortField = query_get q ''sort''
      in \<lparr>SortName = (if map_of (CollectionFilters schema) sortField = None then [] else sortField), Order = parseOrder q\<rparr>)"

definition page_request :: "string \<Rightarrow> int \<Rightarrow> pagination" where
  "page_request marker limit =
     \<lparr>Marker = marker, First = [], Previous = [], PNext = [], PLast = [], Limit = Some limit, Total = None, Partial = False\<rparr>"

definition parsePagination :: "pagination option \<Rightarrow> query \<Rightarrow> pagination" where
  "parsePagination preset q =
     (case preset of
        Some p \<Rightarrow> p
      | None \<Rightarrow>
          let limit = query_get q ''limit'';
              dflt = page_request (query_get q ''marker'') defaultLimit
          in if limit = [] then dflt
             else case parse_int limit of
                    None \<Rightarrow> dflt
                  | Some i \<Rightarrow>
                      if i > maxLimit \<or> i = - 1 then dflt\<lparr>Limit := Some maxLimit\<rparr>
                      else if i \<ge> 0 then dflt\<lparr>Limit := Some i\<rparr>
                      else dflt)"

definition parseNameAndOp :: "string \<Rightarrow> string \<times> string" where
  "parseNameAndOp value =
     (case str_last_index value ''_'' of
        Some i \<Rightarrow> if i > 0 then (take i value, drop (i + 1) value) else (value, ModifierEQ)
      | None \<Rightarrow> (value, ModifierEQ))"

definition parseFilters :: "Schema \<Rightarrow> query \<Rightarrow> query_condition list" where
  "parseFilters schema q =
     concat (map (\<lambda>(key, vals).
       case parseNameAndOp key of (nm, op) \<Rightarrow>
         (case map_of (CollectionFilters schema) nm of
            None \<Rightarrow> []
          | Some ms \<Rightarrow> map (\<lambda>m. NewConditionFromString nm m vals) (filter (\<lambda>m. op = m \<and> ValidMod op) ms))) q)"

definition no_options :: query_options where
  "no_options = \<lparr>Sort = \<lparr>SortName = [], Order = []\<rparr>, Pagination = None, Conditions = [], QOptions = [], Namespaces = None\<rparr>"

definition QueryOptions :: "string \<Rightarrow> pagination option \<Rightarrow> query \<Rightarrow> Schema \<Rightarrow> query_options" where
  "QueryOptions method preset q schema =
     (if method \<noteq> ''GET'' then no_options
      else no_options\<lparr>Sort := parseSort schema q, Pagination := Some (parsePagination preset q), Conditions := parseFilters schema q\<rparr>)"

section \<open>Applying the options\<close>

definition ApplyQueryConditions :: "query_condition list \<Rightarrow> Schema \<Rightarrow> gdata list \<Rightarrow> gdata list" where
  "ApplyQueryConditions conds schema data = filter (\<lambda>item. list_all (\<lambda>c. Valid c schema item) conds) data"

text \<open>The order of Go strings, by bytes.\<close>

fun str_less :: "string \<Rightarrow> string \<Rightarrow> bool" where
  "str_less [] ys = (ys \<noteq> [])"
| "str_less (x # xs) [] = False"
| "str_less (x # xs) (y # ys) =
     (let a = of_char x :: nat; b = of_char y in a < b \<or> (a = b \<and> str_less xs ys))"

text \<open>
  \<^verbatim>\<open>sort.Slice\<close> is not stable: the order of equal elements is unspecified. The sorting function is a
  parameter, of which only the documented behaviour is assumed below.
\<close>

type_synonym 'a sorter = "('a \<Rightarrow> 'a \<Rightarrow> bool) \<Rightarrow> 'a list \<Rightarrow> 'a list"

definition sort_name :: "sort_opts \<Rightarrow> string" where
  "sort_name so = (if SortName so = [] then ''id'' else SortName so)"

definition sort_less :: "sort_opts \<Rightarrow> gdata \<Rightarrow> gdata \<Rightarrow> bool" where
  "sort_less so x y =
     (if Order so = DESC then str_less (ToString (mget y (sort_name so))) (ToString (mget x (sort_name so)))
      else str_less (ToString (mget x (sort_name so))) (ToString (mget y (sort_name so))))"

definition ApplySort :: "gdata sorter \<Rightarrow> sort_opts \<Rightarrow> gdata list \<Rightarrow> gdata list" where
  "ApplySort sortSlice so data = sortSlice (sort_less so) data"

definition item_id :: "gdata \<Rightarrow> string" where
  "item_id item = as_string (mget item ''id'')"

fun index_of :: "('a \<Rightarrow> bool) \<Rightarrow> 'a list \<Rightarrow> nat option" where
  "index_of P [] = None"
| "index_of P (x # xs) = (if P x then Some 0 else map_option Suc (index_of P xs))"

definition start_index :: "string \<Rightarrow> gdata list \<Rightarrow> int" where
  "start_index marker data =
     (if marker = [] then 0
      else case index_of (\<lambda>item. item_id item = marker) data of Some i \<Rightarrow> int i | None \<Rightarrow> 0)"

text \<open>
  The arithmetic is on \<^verbatim>\<open>int64\<close>. The slice expression at the end panics when the upper bound is below
  the lower one, which needs a sum that wraps around.
\<close>

definition reset_page :: "gdata list \<Rightarrow> pagination \<Rightarrow> pagination" where
  "reset_page data p = p\<lparr>PNext := [], Previous := [], Partial := False, Total := Some (int (length data)), First := []\<rparr>"

definition id_at :: "gdata list \<Rightarrow> int \<Rightarrow> string" where
  "id_at data i = item_id (data ! nat i)"

definition fill_page :: "gdata list \<Rightarrow> int \<Rightarrow> int \<Rightarrow> int \<Rightarrow> pagination \<Rightarrow> pagination" where
  "fill_page data limit start nxt p =
     (let len = int (length data);
          prev = (let d = wrap64 (start - limit) in if d \<le> 0 then 0 else d);
          p1 = (if prev < start then p\<lparr>Previous := id_at data prev\<rparr> else p);
          p2 = (if nxt > start \<and> nxt < len then p1\<lparr>PNext := id_at data nxt\<rparr> else p1);
          p3 = (if start > 0 \<or> nxt < len then p2\<lparr>Partial := True\<rparr> else p2);
          lastIndex = wrap64 (len - limit)
      in if Partial p3 then
           let p4 = p3\<lparr>First := id_at data 0\<rparr>
           in if lastIndex > 0 \<and> lastIndex < len then p4\<lparr>PLast := id_at data lastIndex\<rparr> else p4
         else p3)"

definition next_index :: "gdata list \<Rightarrow> int \<Rightarrow> int \<Rightarrow> int" where
  "next_index data limit start =
     (let n = wrap64 (start + limit) in if n > int (length data) then int (length data) else n)"

definition ApplyPagination :: "pagination option \<Rightarrow> gdata list \<Rightarrow> (gdata list \<times> pagination option) res" where
  "ApplyPagination po data =
     (case po of
        None \<Rightarrow> Ok (data, None)
      | Some p \<Rightarrow>
          (case Limit p of
             None \<Rightarrow> Ok (data, Some p)
           | Some l \<Rightarrow>
               let limit = max l 0; p0 = reset_page data p in
               if data = [] then Ok (data, Some p0)
               else let start = start_index (Marker p) data;
                        nxt = next_index data limit start
                    in if nxt < start then Panic
                       else Ok (take (nat (nxt - start)) (drop (nat start) data), Some (fill_page data limit start nxt p0))))"

definition ApplyQueryOptions :: "gdata sorter \<Rightarrow> query_options \<Rightarrow> Schema \<Rightarrow> gdata list \<Rightarrow> (gdata list \<times> pagination option) res" where
  "ApplyQueryOptions sortSlice opts schema data =
     ApplyPagination (Pagination opts) (ApplySort sortSlice (Sort opts) (ApplyQueryConditions (Conditions opts) schema data))"

definition QueryFilter :: "gdata sorter \<Rightarrow> query_options \<Rightarrow> Schema \<Rightarrow> gdata list \<Rightarrow> (gdata list \<times> pagination option) res" where
  "QueryFilter sortSlice opts schema data = ApplyQueryOptions sortSlice opts schema data"

end
