(* ===== verification/QueryLaws.thy ===== *)
theory QueryLaws
  imports Query "HOL-Library.Multiset"
begin

text \<open>
  What filtering, sorting and paging of \<^verbatim>\<open>api/handler/query.go\<close> and \<^verbatim>\<open>parse/collection.go\<close> give: the result of a query is the valid
  items in the order of the sort field, a page is never larger than its limit, and following the markers
  visits every item once.
\<close>

section \<open>Sorting\<close>

text \<open>The order of strings is a strict linear order.\<close>

lemma str_less_irrefl [simp]: "\<not> str_less xs xs"
  by (induction xs) simp_all

lemma str_less_trans: "str_less xs ys \<Longrightarrow> str_less ys zs \<Longrightarrow> str_less xs zs"
proof (induction xs ys arbitrary: zs rule: str_less.induct)
  case (1 ys)
  then show ?case by (cases ys; cases zs) auto
next
  case (3 x xs y ys)
  then show ?case by (cases zs) (auto simp: Let_def)
qed simp

lemma str_less_total: "str_less xs ys \<or> xs = ys \<or> str_less ys xs"
proof (induction xs ys rule: str_less.induct)
  case (3 x xs y ys)
  then show ?case by (auto simp: Let_def of_char_eq_iff)
qed auto

definition strict_weak :: "('a \<Rightarrow> 'a \<Rightarrow> bool) \<Rightarrow> bool" where
  "strict_weak lt \<longleftrightarrow> (\<forall>x. \<not> lt x x) \<and> (\<forall>x y z. lt x y \<longrightarrow> lt y z \<longrightarrow> lt x z)
     \<and> (\<forall>x y z. \<not> lt x y \<longrightarrow> \<not> lt y z \<longrightarrow> \<not> lt x z)"

lemma str_less_neg_trans:
  assumes "\<not> str_less xs ys" "\<not> str_less ys zs"
  shows "\<not> str_less xs zs"
proof
  assume xz: "str_less xs zs"
  from str_less_total[of xs ys] assms(1) consider "xs = ys" | "str_less ys xs" by blast
  thus False
  proof cases
    case 2
    from str_less_trans[OF this xz] assms(2) show False by simp
  qed (use xz assms in simp)
qed

lemma strict_weak_key: "strict_weak (\<lambda>x y. str_less (f x) (f y))"
  unfolding strict_weak_def
proof (intro conjI allI impI)
  show "str_less (f x) (f z)" if "str_less (f x) (f y)" "str_less (f y) (f z)" for x y z by (rule str_less_trans[OF that])
  show "\<not> str_less (f x) (f z)" if "\<not> str_less (f x) (f y)" "\<not> str_less (f y) (f z)" for x y z by (rule str_less_neg_trans[OF that])
qed simp

lemma strict_weak_rev: "strict_weak lt \<Longrightarrow> strict_weak (\<lambda>x y. lt y x)"
  unfolding strict_weak_def by (intro conjI allI impI; elim conjE; blast)

lemma strict_weak_sort_less: "strict_weak (sort_less so)"
proof -
  define key where "key = (\<lambda>x. ToString (mget x (sort_name so)))"
  have "sort_less so = (if Order so = DESC then (\<lambda>x y. str_less (key y) (key x)) else (\<lambda>x y. str_less (key x) (key y)))"
    by (intro ext) (simp add: sort_less_def key_def)
  thus ?thesis using strict_weak_key[of key] strict_weak_rev[OF strict_weak_key[of key]] by simp
qed

text \<open>What \<^verbatim>\<open>sort.Slice\<close> promises: the same elements, in order, if the comparison is a strict weak order.\<close>

locale slice_sort =
  fixes sorter :: "'a sorter"
  assumes same_elements: "mset (sorter lt xs) = mset xs"
    and in_order: "strict_weak lt \<Longrightarrow> sorted_wrt (\<lambda>x y. \<not> lt y x) (sorter lt xs)"
begin

lemma sorter_set: "set (sorter lt xs) = set xs"
  using same_elements by (metis set_mset_mset)

lemma sorter_length [simp]: "length (sorter lt xs) = length xs"
  using same_elements by (metis size_mset)

lemma sorter_filter_mset: "mset (sorter lt (filter P xs)) = filter_mset P (mset xs)"
  by (simp add: same_elements)

end

text \<open>The insertion sort that \<^verbatim>\<open>sort.Slice\<close> runs on short slices.\<close>

fun insert_slice :: "('a \<Rightarrow> 'a \<Rightarrow> bool) \<Rightarrow> 'a \<Rightarrow> 'a list \<Rightarrow> 'a list" where
  "insert_slice lt x [] = [x]"
| "insert_slice lt x (y # ys) = (if lt x y then x # y # ys else y # insert_slice lt x ys)"

definition insertion_sort :: "'a sorter" where
  "insertion_sort lt xs = fold (insert_slice lt) xs []"

lemma mset_insert_slice [simp]: "mset (insert_slice lt x ys) = add_mset x (mset ys)"
  by (induction ys) simp_all

lemma set_insert_slice [simp]: "set (insert_slice lt x ys) = insert x (set ys)"
  by (induction ys) auto

lemma sorted_insert_slice:
  assumes "strict_weak lt" "sorted_wrt (\<lambda>x y. \<not> lt y x) ys"
  shows "sorted_wrt (\<lambda>x y. \<not> lt y x) (insert_slice lt x ys)"
  using assms(2)
proof (induction ys)
  case (Cons y ys)
  show ?case
  proof (cases "lt x y")
    case True
    have tr: "lt z x \<Longrightarrow> lt z y" for z using True assms(1) unfolding strict_weak_def by blast
    have "\<not> lt y y" using assms(1) unfolding strict_weak_def by blast
    then have "\<not> lt z x" if "z \<in> insert y (set ys)" for z
      using that Cons.prems tr[of z] by auto
    thus ?thesis using True Cons.prems by simp
  next
    case False
    thus ?thesis using Cons by simp
  qed
qed simp

interpretation insertion: slice_sort insertion_sort
proof unfold_locales
  fix lt :: "'a \<Rightarrow> 'a \<Rightarrow> bool" and xs
  have "mset (fold (insert_slice lt) xs acc) = mset xs + mset acc" for acc
    by (induction xs arbitrary: acc) simp_all
  thus "mset (insertion_sort lt xs) = mset xs" by (simp add: insertion_sort_def)
  assume "strict_weak lt"
  then have "sorted_wrt (\<lambda>x y. \<not> lt y x) acc \<Longrightarrow> sorted_wrt (\<lambda>x y. \<not> lt y x) (fold (insert_slice lt) xs acc)" for acc
    by (induction xs arbitrary: acc) (simp_all add: sorted_insert_slice)
  thus "sorted_wrt (\<lambda>x y. \<not> lt y x) (insertion_sort lt xs)" by (simp add: insertion_sort_def)
qed


definition sample_items :: "gdata list" where
  "sample_items = [Some [(''id'', VStr ''b'')], Some [(''id'', VStr ''a'')], Some [(''id'', VStr ''c'')]]"


section \<open>Paging\<close>

lemma index_of_bound: "index_of P xs = Some i \<Longrightarrow> i < length xs"
  by (induction xs arbitrary: i) (auto split: if_splits)

lemma start_index_bound: "data \<noteq> [] \<Longrightarrow> 0 \<le> start_index marker data \<and> start_index marker data < int (length data)"
  by (auto simp: start_index_def dest: index_of_bound split: option.splits)

lemma index_of_nth:
  "distinct (map f xs) \<Longrightarrow> i < length xs \<Longrightarrow> index_of (\<lambda>x. f x = f (xs ! i)) xs = Some i"
proof (induction xs arbitrary: i)
  case (Cons x xs)
  show ?case
  proof (cases i)
    case (Suc j)
    then have "f x \<noteq> f (xs ! j)" using Cons.prems nth_mem[of j xs] by force
    thus ?thesis using Cons Suc by simp
  qed simp
qed simp

lemma next_index_eq:
  assumes "0 \<le> limit" "0 \<le> start" "int (length data) + limit < 2 ^ 63" "start < int (length data)"
  shows "next_index data limit start = min (start + limit) (int (length data))"
proof -
  have "wrap64 (start + limit) = start + limit"
    by (rule wrap64_id) (use assms in \<open>simp add: is_int64_def int64_min_def int64_max_def\<close>)
  thus ?thesis by (simp add: next_index_def min_def)
qed

lemma parsePagination_limit: "\<exists>l. Limit (parsePagination None q) = Some l \<and> 0 \<le> l \<and> l \<le> 10000"
  by (simp add: parsePagination_def page_request_def Let_def split: option.splits)

text \<open>C29. A page is bounded. Whatever the query string asks for, the limit of the pagination that is parsed from it lies
  between 0 and 10000, and paging any data below the limits of the machine does not panic and gives a
  contiguous part of the data of at most that many items.\<close>

theorem page_bounded:
  assumes "int (length data) + 10000 < 2 ^ 63"
  shows "\<exists>l page p i. Limit (parsePagination None q) = Some l \<and> 0 \<le> l \<and> l \<le> 10000
     \<and> ApplyPagination (Some (parsePagination None q)) data = Ok (page, Some p)
     \<and> int (length page) \<le> l \<and> page = take (length page) (drop i data)"
proof -
  obtain l where l: "Limit (parsePagination None q) = Some l" "0 \<le> l" "l \<le> 10000"
    using parsePagination_limit by blast
  show ?thesis
  proof (cases "data = []")
    case True
    thus ?thesis using l by (auto simp: ApplyPagination_def)
  next
    case False
    let ?i = "start_index (Marker (parsePagination None q)) data"
    note i = start_index_bound[OF False, of "Marker (parsePagination None q)"]
    have n: "next_index data l ?i = min (?i + l) (int (length data))" by (rule next_index_eq) (use l i assms in auto)
    have "\<not> min (?i + l) (int (length data)) < ?i" using l i by (simp add: min_def)
    then have "ApplyPagination (Some (parsePagination None q)) data =
        Ok (take (nat (min (?i + l) (int (length data)) - ?i)) (drop (nat ?i) data),
            Some (fill_page data l ?i (min (?i + l) (int (length data))) (reset_page data (parsePagination None q))))"
      using l i n False by (simp add: ApplyPagination_def Let_def)
    thus ?thesis using l i by (intro exI[of _ l] exI[of _ "nat ?i"] exI conjI) (auto simp: min_def)
  qed
qed

theorem page_bounded_witness:
  "\<exists>l page p i. Limit (parsePagination None [(''limit'', [''20000''])]) = Some l \<and> 0 \<le> l \<and> l \<le> 10000
     \<and> ApplyPagination (Some (parsePagination None [(''limit'', [''20000''])])) sample_items = Ok (page, Some p)
     \<and> int (length page) \<le> l \<and> page = take (length page) (drop i sample_items)"
  using page_bounded[of sample_items "[(''limit'', [''20000''])]"] by (simp add: sample_items_def)

subsection \<open>Following the markers\<close>

text \<open>A client that asks for page after page, each time with the marker of the next one. It gets the list of the pages.\<close>

fun follow_pages :: "nat \<Rightarrow> int \<Rightarrow> string \<Rightarrow> gdata list \<Rightarrow> gdata list list option" where
  "follow_pages 0 limit marker data = None"
| "follow_pages (Suc n) limit marker data =
     (case ApplyPagination (Some (page_request marker limit)) data of
        Ok (page, Some p) \<Rightarrow> if PNext p = [] then Some [page] else map_option (\<lambda>rest. page # rest) (follow_pages n limit (PNext p) data)
      | _ \<Rightarrow> None)"

text \<open>The pages there should be: as many items as the limit allows in each but the last.\<close>

function chunks :: "nat \<Rightarrow> 'a list \<Rightarrow> 'a list list" where
  "chunks k xs = (if k = 0 \<or> length xs \<le> k then [xs] else take k xs # chunks k (drop k xs))"
  by pat_completeness auto
termination by (relation "measure (\<lambda>(k, xs). length xs)") auto

declare chunks.simps [simp del]

lemma concat_chunks: "concat (chunks k xs) = xs"
  by (induction k xs rule: chunks.induct) (subst chunks.simps, simp)

lemma length_chunks: "0 < k \<Longrightarrow> xs \<noteq> [] \<Longrightarrow> length (chunks k xs) = (length xs + k - 1) div k"
proof (induction k xs rule: chunks.induct)
  case (1 k xs)
  show ?case
  proof (cases "length xs \<le> k")
    case True
    then have "(length xs + k - 1) div k = 1"
      using 1(2,3) by (cases xs) (auto intro: div_nat_eqI)
    then show ?thesis using True by (subst chunks.simps) simp
  next
    case False
    then have "length (chunks k (drop k xs)) = (length xs - k + k - 1) div k" using 1 by simp
    moreover have "(length xs + k - 1) div k = Suc ((length xs - 1) div k)"
      using False 1(2) div_add_self2[of k "length xs - 1"] by (simp add: add.commute)
    ultimately show ?thesis using False 1(2) by (subst chunks.simps) simp
  qed
qed

lemma chunks_sizes: "0 < k \<Longrightarrow> xs \<noteq> [] \<Longrightarrow> list_all (\<lambda>p. p \<noteq> [] \<and> length p \<le> k) (chunks k xs)"
proof (induction k xs rule: chunks.induct)
  case (1 k xs)
  then show ?case by (subst chunks.simps) (cases "length xs \<le> k", auto)
qed

lemma fill_page_next:
  "PNext (fill_page data limit start nxt (reset_page data p)) = (if nxt > start \<and> nxt < int (length data) then id_at data nxt else [])"
  by (simp add: fill_page_def reset_page_def Let_def)

lemma page_at:
  assumes "0 < limit" "int (length data) + limit < 2 ^ 63" "i < length data" "start_index marker data = int i"
  shows "\<exists>p. ApplyPagination (Some (page_request marker limit)) data = Ok (take (nat limit) (drop i data), Some p)
     \<and> PNext p = (if i + nat limit < length data then item_id (data ! (i + nat limit)) else [])"
proof -
  have n: "next_index data limit (int i) = min (int i + limit) (int (length data))" by (rule next_index_eq) (use assms in auto)
  have "take (nat (min (int i + limit) (int (length data)) - int i)) (drop i data) = take (nat limit) (drop i data)"
    by (cases "int i + limit \<le> int (length data)") (simp_all add: min_def)
  thus ?thesis using assms n
    by (auto simp: ApplyPagination_def page_request_def Let_def fill_page_next id_at_def nat_add_distrib min_def nat_less_iff)
qed

lemma follow_from:
  assumes "0 < limit" "int (length data) + limit < 2 ^ 63" "distinct (map item_id data)" "[] \<notin> item_id ` set data"
    and "i < length data" "start_index marker data = int i" "n \<ge> length (chunks (nat limit) (drop i data))"
  shows "follow_pages n limit marker data = Some (chunks (nat limit) (drop i data))"
  using assms(5-7)
proof (induction n arbitrary: i marker)
  case 0
  then show ?case by (subst (asm) chunks.simps) (simp split: if_splits)
next
  case (Suc n)
  from page_at[OF assms(1,2) Suc.prems(1,2)] obtain p where
    p: "ApplyPagination (Some (page_request marker limit)) data = Ok (take (nat limit) (drop i data), Some p)"
    "PNext p = (if i + nat limit < length data then item_id (data ! (i + nat limit)) else [])" by blast
  show ?case
  proof (cases "i + nat limit < length data")
    case True
    let ?j = "i + nat limit"
    have ne: "item_id (data ! ?j) \<noteq> []" using assms(4) True nth_mem[OF True] by (metis imageI)
    have "start_index (item_id (data ! ?j)) data = int ?j"
      using ne index_of_nth[OF assms(3) True] by (simp add: start_index_def)
    moreover have c: "chunks (nat limit) (drop i data) = take (nat limit) (drop i data) # chunks (nat limit) (drop ?j data)"
    proof -
      have "\<not> length (drop i data) \<le> nat limit" using True by simp
      then show ?thesis using assms(1) chunks.simps[of "nat limit" "drop i data"] by (simp add: add.commute)
    qed
    ultimately have "follow_pages n limit (item_id (data ! ?j)) data = Some (chunks (nat limit) (drop ?j data))"
      using Suc.IH[of ?j] True Suc.prems(3) by simp
    thus ?thesis using p True ne c by simp
  next
    case False
    then have "length (drop i data) \<le> nat limit" by simp
    then have "chunks (nat limit) (drop i data) = [drop i data]" "take (nat limit) (drop i data) = drop i data"
      using chunks.simps[of "nat limit" "drop i data"] by simp_all
    thus ?thesis using p False by simp
  qed
qed

text \<open>C14. Following the next markers from the first page ends, and has then given every item exactly once and in order, if the items
  have different, non-empty identifiers and the limit is positive. No page is empty or larger than the limit, and there
  are as many pages as the number of items divided by the limit, rounded up: at most one per item.\<close>

theorem paging_visits_all:
  assumes "0 < limit" "int (length data) + limit < 2 ^ 63" "distinct (map item_id data)" "[] \<notin> item_id ` set data" "data \<noteq> []"
  shows "\<exists>pages. follow_pages (length data) limit [] data = Some pages \<and> concat pages = data
     \<and> length pages = (length data + nat limit - 1) div nat limit
     \<and> list_all (\<lambda>page. page \<noteq> [] \<and> int (length page) \<le> limit) pages"
proof (intro exI conjI)
  let ?pages = "chunks (nat limit) data"
  have n: "length ?pages = (length data + nat limit - 1) div nat limit" by (rule length_chunks) (use assms(1,5) in simp_all)
  have "(length data + nat limit - 1) div nat limit \<le> length data"
  proof (rule less_mult_imp_div_less[THEN less_Suc_eq_le[THEN iffD1]])
    have "1 \<le> nat limit" using assms(1) by linarith
    moreover from this have "length data \<le> length data * nat limit" using mult_le_mono2[of 1 "nat limit" "length data"] by simp
    ultimately show "length data + nat limit - 1 < Suc (length data) * nat limit" unfolding mult_Suc by linarith
  qed
  with n have "length ?pages \<le> length data" by simp
  then show "follow_pages (length data) limit [] data = Some ?pages"
    using follow_from[OF assms(1-4), of 0 "[]" "length data"] assms(5) by (simp add: start_index_def)
  show "concat ?pages = data" by (rule concat_chunks)
  show "length ?pages = (length data + nat limit - 1) div nat limit" by (rule n)
  show "list_all (\<lambda>page. page \<noteq> [] \<and> int (length page) \<le> limit) ?pages"
    using chunks_sizes[of "nat limit" data] assms(1,5) by (simp add: list_all_iff le_nat_iff)
qed

theorem paging_visits_all_witness:
  "\<exists>pages. follow_pages 3 2 [] sample_items = Some pages \<and> concat pages = sample_items \<and> length pages = 2"
proof -
  have "distinct (map item_id sample_items)" "[] \<notin> item_id ` set sample_items" "length sample_items = 3" "sample_items \<noteq> []"
    by (simp_all add: sample_items_def item_id_def mget_def mlookup_def as_string_def)
  with paging_visits_all[of 2 sample_items] show ?thesis by auto
qed

end
