(* ===== verification/UrlBuilder.thy ===== *)
theory UrlBuilder
  imports Query
begin

text \<open>
  Requests and the links the API writes into its responses: what the code reads of a
  \<^verbatim>\<open>net/http\<close> request and of a \<^verbatim>\<open>net/url\<close> URL, and \<^verbatim>\<open>urlbuilder/url.go\<close>.

  A request holds what the server has parsed before the handler runs: the header by canonical names, the
  decoded path and its escaped form, the values of the query, the forms and what the JSON and the YAML
  decoder make of the body.
\<close>

section \<open>Requests\<close>

record http_url =
  uPath :: string
  uEscapedPath :: string
  uQuery :: query

record http_request =
  rMethod :: string
  rHost :: string
  rTLS :: bool
  rHeader :: "(string \<times> string list) list"
  rURL :: http_url
  rCookies :: "(string \<times> string) list"
  rMultipartForm :: "(string \<times> string list) list option"
  rPostForm :: "(string \<times> string list) list"
  rForm :: "(string \<times> string list) list"
  rJSON :: "gdata res"
  rYAML :: "gdata res"

text \<open>\<^verbatim>\<open>textproto.CanonicalMIMEHeaderKey\<close> on names of letters, digits and hyphens, and \<^verbatim>\<open>Header.Get\<close>.\<close>

fun canonical_from :: "bool \<Rightarrow> string \<Rightarrow> string" where
  "canonical_from up [] = []"
| "canonical_from up (c # cs) = (if up then upper_char c else lower_char c) # canonical_from (c = CHR ''-'') cs"

definition CanonicalHeaderKey :: "string \<Rightarrow> string" where
  "CanonicalHeaderKey k = canonical_from True k"

definition header_get :: "http_request \<Rightarrow> string \<Rightarrow> string" where
  "header_get r k = query_get (rHeader r) (CanonicalHeaderKey k)"

section \<open>Escaping\<close>

definition hex_digits :: string where
  "hex_digits = ''0123456789ABCDEF''"

definition is_unreserved :: "char \<Rightarrow> bool" where
  "is_unreserved c \<longleftrightarrow> is_alnum c \<or> c \<in> set ''-_.~''"

definition escape_char :: "char \<Rightarrow> string" where
  "escape_char c =
     (if is_unreserved c then [c]
      else if c = CHR '' '' then ''+''
      else let n = of_char c :: nat in [CHR ''%'', hex_digits ! (n div 16), hex_digits ! (n mod 16)])"

definition QueryEscape :: "string \<Rightarrow> string" where
  "QueryEscape s = concat (map escape_char s)"

text \<open>\<^verbatim>\<open>url.Values.Encode\<close>: the keys in order, each with its values.\<close>

definition values_encode :: "query \<Rightarrow> string" where
  "values_encode q =
     str_join ''&'' (concat (map (\<lambda>k. map (\<lambda>v. QueryEscape k @ ''='' @ QueryEscape v) (case map_of q k of None \<Rightarrow> [] | Some vs \<Rightarrow> vs))
                               (sort (map fst q))))"

definition hex_val :: "char \<Rightarrow> nat option" where
  "hex_val c = map_of (zip ''0123456789ABCDEFabcdef'' [0, 1, 2, 3, 4, 5, 6, 7, 8, 9, 10, 11, 12, 13, 14, 15, 10, 11, 12, 13, 14, 15]) c"

text \<open>\<^verbatim>\<open>url.PathUnescape\<close>; \<^const>\<open>None\<close> is the error.\<close>

fun PathUnescape :: "string \<Rightarrow> string option" where
  "PathUnescape [] = Some []"
| "PathUnescape (c # cs) =
     (if c \<noteq> CHR ''%'' then map_option (Cons c) (PathUnescape cs)
      else case cs of
             h # l # rest \<Rightarrow>
               (case (hex_val h, hex_val l) of
                  (Some a, Some b) \<Rightarrow> map_option (Cons (char_of (16 * a + b))) (PathUnescape rest)
                | _ \<Rightarrow> None)
           | _ \<Rightarrow> None)"

section \<open>The URL builder\<close>

record url_builder =
  requestURL :: string
  responseURLBase :: string
  apiVersion :: APIVersion
  subContext :: string
  bquery :: query

record RawResource =
  rrID :: string
  rrType :: string
  rrSchema :: Schema
  rrLinks :: "(string \<times> string) list"
  rrActions :: "(string \<times> string) list"
  rrValues :: gdata
  ActionLinks :: bool
  DropReadOnly :: bool

definition SetSubContext :: "string \<Rightarrow> url_builder \<Rightarrow> url_builder" where
  "SetSubContext s u = u\<lparr>subContext := s\<rparr>"

definition constructBasicURL :: "url_builder \<Rightarrow> APIVersion \<Rightarrow> string list \<Rightarrow> string" where
  "constructBasicURL u version parts =
     (if [] \<in> set parts then []
      else responseURLBase u @ (if Path version = [] then Path (apiVersion u) else Path version) @ subContext u
           @ concat (map (\<lambda>p. ''/'' @ p) parts))"

definition getPluralName :: "Schema \<Rightarrow> string" where
  "getPluralName schema = to_lower (if PluralName schema = [] then GuessPluralName (ID schema) else PluralName schema)"

definition SchemaLink :: "url_builder \<Rightarrow> Schema \<Rightarrow> string" where
  "SchemaLink u schema = constructBasicURL u (SVersion schema) [''schemas'', ID schema]"

definition Link :: "url_builder \<Rightarrow> string \<Rightarrow> RawResource \<Rightarrow> string" where
  "Link u linkName r =
     (if rrID r = [] \<or> linkName = [] then []
      else case map_of (rrLinks r) ''self'' of
             Some self \<Rightarrow> self @ ''/'' @ to_lower linkName
           | None \<Rightarrow> constructBasicURL u (SVersion (rrSchema r)) [PluralName (rrSchema r), rrID r, to_lower linkName])"

definition ResourceLink :: "url_builder \<Rightarrow> RawResource \<Rightarrow> string" where
  "ResourceLink u r =
     (if rrID r = [] then [] else constructBasicURL u (SVersion (rrSchema r)) [PluralName (rrSchema r), rrID r])"

definition MarkerLink :: "url_builder \<Rightarrow> string \<Rightarrow> string" where
  "MarkerLink u marker = requestURL u @ ''?'' @ values_encode (mset_key ''marker'' [marker] (bquery u))"

definition ReverseSort :: "url_builder \<Rightarrow> string \<Rightarrow> string" where
  "ReverseSort u order =
     (let vals = mdel_key ''marker'' (mdel_key ''order'' (bquery u))
      in requestURL u @ ''?'' @ values_encode (mset_key ''order'' [if order = ASC then DESC else ASC] vals))"

definition SortLink :: "url_builder \<Rightarrow> string \<Rightarrow> string" where
  "SortLink u name =
     requestURL u @ ''?'' @ values_encode (mset_key ''sort'' [name] (mdel_key ''marker'' (mdel_key ''order'' (bquery u))))"

definition RelativeToRoot :: "url_builder \<Rightarrow> string \<Rightarrow> string" where
  "RelativeToRoot u path = responseURLBase u @ path"

definition CollectionLink :: "url_builder \<Rightarrow> Schema \<Rightarrow> APIVersion option \<Rightarrow> string" where
  "CollectionLink u schema versionOverride =
     constructBasicURL u (case versionOverride of None \<Rightarrow> SVersion schema | Some v \<Rightarrow> v) [getPluralName schema]"

definition SubContextCollection :: "url_builder \<Rightarrow> Schema \<Rightarrow> string \<Rightarrow> Schema \<Rightarrow> string" where
  "SubContextCollection u sub contextName schema =
     constructBasicURL u (SVersion sub) [PluralName sub, contextName, getPluralName schema]"

definition VersionLink :: "url_builder \<Rightarrow> APIVersion \<Rightarrow> string" where
  "VersionLink u version = constructBasicURL u version []"

definition FilterLink :: "url_builder \<Rightarrow> Schema \<Rightarrow> string \<Rightarrow> string \<Rightarrow> string" where
  "FilterLink u schema fieldName value =
     constructBasicURL u (SVersion schema) [PluralName schema] @ ''?'' @ QueryEscape fieldName @ ''='' @ QueryEscape value"

definition ResourceLinkByID :: "url_builder \<Rightarrow> Schema \<Rightarrow> string \<Rightarrow> string" where
  "ResourceLinkByID u schema i = constructBasicURL u (SVersion schema) [PluralName schema, i]"

definition ActionLink :: "url_builder \<Rightarrow> string \<Rightarrow> RawResource \<Rightarrow> string" where
  "ActionLink u action r =
     constructBasicURL u (SVersion (rrSchema r)) [PluralName (rrSchema r), rrID r] @ ''?action='' @ QueryEscape action"

definition CollectionAction :: "url_builder \<Rightarrow> Schema \<Rightarrow> APIVersion option \<Rightarrow> string \<Rightarrow> string" where
  "CollectionAction u schema versionOverride action = CollectionLink u schema versionOverride @ ''?action='' @ QueryEscape action"

definition ActionLinkByID :: "url_builder \<Rightarrow> Schema \<Rightarrow> string \<Rightarrow> string \<Rightarrow> string" where
  "ActionLinkByID u schema i action =
     constructBasicURL u (SVersion schema) [PluralName schema, i] @ ''?action='' @ QueryEscape action"

section \<open>Where the request came to\<close>

abbreviation "PrefixHeader \<equiv> ''X-API-URL-Prefix''"
abbreviation "ForwardedHostHeader \<equiv> ''X-Forwarded-Host''"
abbreviation "ForwardedProtoHeader \<equiv> ''X-Forwarded-Proto''"
abbreviation "ForwardedPortHeader \<equiv> ''X-Forwarded-Port''"

definition getOverrideHeader :: "http_request \<Rightarrow> string \<Rightarrow> string \<Rightarrow> string" where
  "getOverrideHeader r header defaultValue =
     (let value = header_get r header
      in if value \<noteq> [] then trim_space (hd (split_char CHR '','' value)) else defaultValue)"

definition strip_port :: "string \<Rightarrow> string \<Rightarrow> string" where
  "strip_port host port =
     (if port \<noteq> [] \<and> str_contains host '':''
         \<and> ((has_prefix host ''['' \<and> str_contains host '']:'') \<or> \<not> has_prefix host ''['')
      then (case str_last_index host '':'' of Some i \<Rightarrow> take i host | None \<Rightarrow> host)
      else host)"

definition getURLFromStandardHeaders :: "http_request \<Rightarrow> string" where
  "getURLFromStandardHeaders r =
     (let proto = getOverrideHeader r ForwardedProtoHeader [];
          host0 = getOverrideHeader r ForwardedHostHeader [];
          host = (if host0 = [] then rHost r else host0);
          port0 = getOverrideHeader r ForwardedPortHeader [];
          port = (if port0 = ''443'' \<or> port0 = ''80'' then [] else port0)
      in if proto = [] \<or> host = [] then []
         else proto @ ''://'' @ strip_port host port @ (if port = [] then [] else '':'' @ port)
              @ header_get r PrefixHeader @ uPath (rURL r))"

definition parseRequestURL :: "http_request \<Rightarrow> string" where
  "parseRequestURL r =
     (let std = getURLFromStandardHeaders r
      in if std \<noteq> [] then std
         else (if rTLS r then ''https'' else ''http'') @ ''://'' @ rHost r @ header_get r PrefixHeader @ uPath (rURL r))"

text \<open>
  \<^verbatim>\<open>url.Parse\<close>, as scheme and host, is only called when the path does not occur in the URL of the request,
  which never happens; it is an argument.
\<close>

definition parseResponseURLBase :: "(string \<Rightarrow> (string \<times> string) res) \<Rightarrow> string \<Rightarrow> http_request \<Rightarrow> string res" where
  "parseResponseURLBase urlParse url r =
     (case str_last_index url (uPath (rURL r)) of
        Some i \<Rightarrow> Ok (take i url)
      | None \<Rightarrow> rbind (urlParse url) (\<lambda>(scheme, host). Ok (scheme @ ''://'' @ host)))"

definition NewURLBuilder :: "(string \<Rightarrow> (string \<times> string) res) \<Rightarrow> http_request \<Rightarrow> APIVersion \<Rightarrow> url_builder res" where
  "NewURLBuilder urlParse r version =
     (let url = parseRequestURL r
      in rbind (parseResponseURLBase urlParse url r) (\<lambda>base.
           Ok \<lparr>requestURL = url, responseURLBase = base, apiVersion = version, subContext = [], bquery = uQuery (rURL r)\<rparr>))"

end
