(* ===== verification/Request.thy ===== *)
theory Request
  imports UrlBuilder Builder
begin

text \<open>
  From a request to its API context: versions, sub contexts, types, IDs, links and actions out of the
  URL, the method and the format of the response, and the body. \<^verbatim>\<open>parse/parse.go\<close>,
  \<^verbatim>\<open>parse/browser.go\<close>, \<^verbatim>\<open>parse/validate.go\<close>, \<^verbatim>\<open>parse/read_input.go\<close>, \<^verbatim>\<open>parse/subcontext.go\<close> and the API
  context of \<^verbatim>\<open>types/server_types.go\<close>.

  The context holds the data of a request. Its providers (access control, query filter, attributes of the
  sub context, writer) are the same for every request of a server and are arguments of the handlers.
\<close>

section \<open>The API context\<close>

record APIContext =
  xAction :: string
  xID :: string
  xType :: string
  xLink :: string
  xMethod :: string
  xSchema :: "Schema option"
  xSchemas :: Schemas
  xVersion :: "APIVersion option"
  xSchemasVersion :: "APIVersion option"
  xQuery :: query
  xResponseFormat :: string
  xURLBuilder :: "url_builder option"
  xSubContext :: "(string \<times> string) list"
  xPagination :: "pagination option"
  xRequest :: http_request

definition NewAPIContext :: "http_request \<Rightarrow> Schemas \<Rightarrow> APIContext" where
  "NewAPIContext req s =
     \<lparr>xAction = [], xID = [], xType = [], xLink = [], xMethod = [], xSchema = None, xSchemas = s, xVersion = None,
      xSchemasVersion = None, xQuery = [], xResponseFormat = [], xURLBuilder = None, xSubContext = [], xPagination = None,
      xRequest = req\<rparr>"

definition Option :: "APIContext \<Rightarrow> string \<Rightarrow> string" where
  "Option x key = query_get (xQuery x) (''_'' @ key)"

section \<open>Format and method\<close>

definition IsBrowser :: "http_request \<Rightarrow> bool \<Rightarrow> bool" where
  "IsBrowser req checkAccepts =
     (let accepts0 = to_lower (header_get req ''Accept'');
          userAgent = to_lower (header_get req ''User-Agent'');
          accepts = (if accepts0 = [] \<or> \<not> checkAccepts then ''*/*'' else accepts0)
      in str_contains userAgent ''mozilla'' \<and> str_contains accepts ''*/*'')"

definition isYaml :: "http_request \<Rightarrow> bool" where
  "isYaml req = str_contains (header_get req ''Accept'') ''application/yaml''"

definition allowedFormats :: "string list" where
  "allowedFormats = [''html'', ''json'', ''yaml'']"

definition parseResponseFormat :: "http_request \<Rightarrow> string" where
  "parseResponseFormat req =
     (let format0 = query_get (uQuery (rURL req)) ''_format'';
          format = (if format0 \<noteq> [] then trim_space (to_lower format0) else format0)
      in if format \<in> set allowedFormats then format
         else if IsBrowser req True then ''html''
         else if isYaml req then ''yaml''
         else ''json'')"

definition parseMethod :: "http_request \<Rightarrow> string" where
  "parseMethod req = (let method = query_get (uQuery (rURL req)) ''_method'' in if method = [] then rMethod req else method)"

definition parseAction :: "http_url \<Rightarrow> string \<times> string" where
  "parseAction url = (let action = query_get (uQuery url) ''action'' in if action = ''remove'' then ([], ''DELETE'') else (action, []))"

section \<open>The URL\<close>

record ParsedURL =
  pVersion :: "APIVersion option"
  pSchemasVersion :: "APIVersion option"
  pType :: string
  pID :: string
  pLink :: string
  pMethod :: string
  pAction :: string
  pSubContext :: "(string \<times> string) list"
  pSubContextPrefix :: string
  pQuery :: query

definition ParsedURL_zero :: ParsedURL where
  "ParsedURL_zero = \<lparr>pVersion = None, pSchemasVersion = None, pType = [], pID = [], pLink = [], pMethod = [], pAction = [],
     pSubContext = [], pSubContextPrefix = [], pQuery = []\<rparr>"

text \<open>\<^verbatim>\<open>multiSlashRegexp.ReplaceAllString(path, "/")\<close> and a slice expression with a lower bound.\<close>

fun squeeze_slashes :: "string \<Rightarrow> string" where
  "squeeze_slashes (c # d # cs) =
     (if c = CHR ''/'' \<and> d = CHR ''/'' then squeeze_slashes (d # cs) else c # squeeze_slashes (d # cs))"
| "squeeze_slashes cs = cs"

definition slice_from :: "nat \<Rightarrow> 'a list \<Rightarrow> 'a list res" where
  "slice_from n xs = (if n \<le> length xs then Ok (drop n xs) else Panic)"

text \<open>
  The versions whose path begins the path of the request, the longest first. They are prefixes of one
  string, so that two of the same length have the same path, of which a registry has one version.
\<close>

definition path_matches :: "string \<Rightarrow> APIVersion \<Rightarrow> bool" where
  "path_matches path v =
     (has_prefix path (Path v)
      \<and> (let afterPath = drop (length (Path v)) path
         in length afterPath < 3 \<or> str_contains (take 3 afterPath) ''/''))"

definition versionsForPath :: "Schemas \<Rightarrow> string \<Rightarrow> APIVersion list" where
  "versionsForPath s path = sort_key (\<lambda>v. - int (length (Path v))) (filter (path_matches path) (versions s))"

definition path_parts :: "string \<Rightarrow> string list" where
  "path_parts escapedPath =
     map (\<lambda>p. case PathUnescape p of Some part \<Rightarrow> part | None \<Rightarrow> p)
       (split_char CHR ''/'' (if has_suffix escapedPath ''/'' then butlast escapedPath else escapedPath))"

definition sub_context_version :: "Schemas \<Rightarrow> APIVersion list \<Rightarrow> string list
    \<Rightarrow> APIVersion option \<times> APIVersion option \<times> string \<times> string list \<times> (string \<times> string) list" where
  "sub_context_version s vs paths =
     (let attrs = [(SubContextSchema (vs ! 0), paths ! 0)];
          own = (None, Some (vs ! 0), ''/'' @ paths ! 0, tl paths, attrs)
      in case find (\<lambda>(i, v). Schema_of s (Some v) (paths ! 1) \<noteq> None) (enumerate 0 vs) of
           None \<Rightarrow> own
         | Some (i, v) \<Rightarrow> if i = 0 then own else (None, Some v, [], tl paths, attrs))"

definition parseVersionAndSubContext :: "Schemas \<Rightarrow> string
    \<Rightarrow> (APIVersion option \<times> APIVersion option \<times> string \<times> string list \<times> (string \<times> string) list) res" where
  "parseVersionAndSubContext s escapedPath =
     (let vs = versionsForPath s escapedPath in
      if vs = [] then Ok (None, None, [], [], [])
      else let version = vs ! 0;
               versionParts = split_char CHR ''/'' (Path version);
               pathParts = path_parts escapedPath
           in rbind (slice_from (length versionParts) pathParts) (\<lambda>paths.
                if \<not> SubContext version \<or> length vs < 2 then Ok (None, Some version, [], paths, [])
                else if length paths \<ge> 1 \<and> (paths ! 0 = ''schema'' \<or> paths ! 0 = ''schemas'') then Ok (None, Some version, [], paths, [])
                else if length paths < 2 then
                  Ok (Some (if paths = [] then version else version\<lparr>Path := Path version @ ''/'' @ paths ! 0\<rparr>),
                      Some (vs ! 1), [], drop (length versionParts - 1) pathParts, [])
                else Ok (sub_context_version s vs paths)))"

definition DefaultURLParser :: "Schemas \<Rightarrow> http_url \<Rightarrow> ParsedURL res" where
  "DefaultURLParser s url =
     rbind (parseVersionAndSubContext s (squeeze_slashes (uEscapedPath url))) (\<lambda>(schemaVersion, version, pre, parts, sub).
       if version = None then Ok ParsedURL_zero
       else Ok \<lparr>pVersion = version, pSchemasVersion = schemaVersion, pType = safeIndex parts 0, pID = safeIndex parts 1,
                pLink = safeIndex parts 2, pMethod = snd (parseAction url), pAction = fst (parseAction url),
                pSubContext = sub, pSubContextPrefix = pre, pQuery = uQuery url\<rparr>)"

section \<open>The context of a request\<close>

definition builtin_Version :: APIVersion where
  "builtin_Version = \<lparr>Group = ''meta.cattle.io'', Version = ''v1'', Path = ''/meta'', SubContext = False, SubContextSchema = []\<rparr>"

definition DefaultResolver :: "string \<Rightarrow> APIContext \<Rightarrow> APIContext \<times> err option" where
  "DefaultResolver typeName x =
     (if typeName = [] then (x, None)
      else let own = Schema_of (xSchemas x) (xVersion x) typeName;
               schema = (if own = None \<and> (typeName = ''schema'' \<or> typeName = ''schemas'')
                         then Schema_of (xSchemas x) (Some builtin_Version) typeName else own)
           in (if schema = None then x else x\<lparr>xSchema := schema\<rparr>, None))"

definition ValidateMethod :: "APIContext \<Rightarrow> err option" where
  "ValidateMethod x =
     (let refuse = Some (NewAPIError MethodNotAllowed (''Method '' @ xMethod x @ '' not supported'')) in
      if xAction x \<noteq> [] \<and> xMethod x = ''POST'' then None
      else if xMethod x \<notin> {''POST'', ''GET'', ''PUT'', ''DELETE''} then refuse
      else if xType x = [] \<or> xLink x \<noteq> [] then None
      else case xSchema x of
             None \<Rightarrow> None
           | Some schema \<Rightarrow>
               if xMethod x \<in> set (if xID x = [] then CollectionMethods schema else ResourceMethods schema) then None else refuse)"

type_synonym url_parser = "Schemas \<Rightarrow> http_url \<Rightarrow> (ParsedURL \<times> err option) res"
type_synonym resolver = "string \<Rightarrow> APIContext \<Rightarrow> APIContext \<times> err option"

definition as_api_root :: "APIContext \<Rightarrow> APIContext" where
  "as_api_root x = x\<lparr>xMethod := ''GET'', xType := ''apiRoot'', xSchema := Schema_of (xSchemas x) (Some builtin_Version) ''apiRoot''\<rparr>"

definition resolved :: "resolver \<Rightarrow> APIContext \<Rightarrow> APIContext \<times> err option" where
  "resolved resolve x0 =
     (case resolve (xType x0) x0 of (x, e) \<Rightarrow>
        if e \<noteq> None then (x, e)
        else case xSchema x of
               None \<Rightarrow>
                 ((as_api_root x)\<lparr>xID := (case xVersion x of Some v \<Rightarrow> Path v | None \<Rightarrow> [])\<rparr>,
                  if xType x \<noteq> [] then Some (NewAPIError NotFound (''failed to find schema '' @ xType x)) else None)
             | Some schema \<Rightarrow> (let x1 = x\<lparr>xType := ID schema\<rparr> in (x1, ValidateMethod x1)))"

text \<open>The builder for the first answer, without a version; an error leaves none.\<close>

definition builder_or_nil :: "url_builder res \<Rightarrow> url_builder option" where
  "builder_or_nil r = (case r of Ok u \<Rightarrow> Some u | _ \<Rightarrow> None)"

definition parsed_context :: "http_request \<Rightarrow> url_builder option \<Rightarrow> Schemas \<Rightarrow> ParsedURL \<Rightarrow> APIContext" where
  "parsed_context req u s p =
     (NewAPIContext req s)\<lparr>xMethod := (if pMethod p \<noteq> [] then pMethod p else parseMethod req),
        xResponseFormat := parseResponseFormat req, xURLBuilder := u, xSubContext := pSubContext p, xType := pType p,
        xID := pID p, xLink := pLink p, xAction := pAction p, xQuery := pQuery p, xVersion := pVersion p,
        xSchemasVersion := pSchemasVersion p\<rparr>"

definition Parse :: "(string \<Rightarrow> (string \<times> string) res) \<Rightarrow> http_request \<Rightarrow> Schemas \<Rightarrow> url_parser \<Rightarrow> resolver
    \<Rightarrow> (APIContext \<times> err option) res" where
  "Parse urlParse req s urlParser resolve =
     rbind (urlParser s (rURL req)) (\<lambda>(p, e).
       let x = parsed_context req (builder_or_nil (NewURLBuilder urlParse req version_zero)) s p in
       if e \<noteq> None then Ok (x, e)
       else case xVersion x of
              None \<Rightarrow> Ok (as_api_root x, None)
            | Some v \<Rightarrow>
                (case NewURLBuilder urlParse req v of
                   Err e' \<Rightarrow> Ok (x\<lparr>xURLBuilder := None\<rparr>, Some e')
                 | Panic \<Rightarrow> Panic
                 | Ok u \<Rightarrow>
                     Ok (resolved resolve
                           (x\<lparr>xURLBuilder := Some (if pSubContextPrefix p \<noteq> [] then SetSubContext (pSubContextPrefix p) u else u)\<rparr>))))"

section \<open>The body\<close>

definition ReadBody :: "http_request \<Rightarrow> gdata res" where
  "ReadBody req =
     (if rMethod req \<notin> {''PUT'', ''POST''} then Ok None
      else case (if header_get req ''Content-type'' = ''application/yaml'' then rYAML req else rJSON req) of
             Err e \<Rightarrow> Err (NewAPIError InvalidBodyContent (''Failed to parse body: '' @ err_string e))
           | r \<Rightarrow> r)"

definition valuesToBody :: "(string \<times> string list) list \<Rightarrow> gdata" where
  "valuesToBody input = Some (map (\<lambda>(k, vs). (k, VStrs vs)) input)"

definition Body :: "http_request \<Rightarrow> gdata res" where
  "Body req =
     (case rMultipartForm req of
        Some m \<Rightarrow> Ok (valuesToBody m)
      | None \<Rightarrow> if rPostForm req \<noteq> [] then Ok (valuesToBody (rForm req)) else ReadBody req)"

section \<open>Attributes of the sub context\<close>

definition sub_context_entry :: "APIContext \<Rightarrow> Schema \<Rightarrow> string \<times> string \<Rightarrow> (string \<times> string) list \<Rightarrow> (string \<times> string) list" where
  "sub_context_entry x schema kv result =
     (case Schema_of (xSchemas x) None (fst kv) of
        None \<Rightarrow> result
      | Some sub \<Rightarrow>
          (case find (\<lambda>(name, f). FType f = ToReference (ID sub) \<or> FType f = ToFullReference (Path (SVersion sub)) (ID sub))
                     (ResourceFields schema) of
             None \<Rightarrow> result
           | Some (name, f) \<Rightarrow> mset_key name (snd kv) result))"

definition sub_context_create :: "APIContext \<Rightarrow> Schema \<Rightarrow> (string \<times> string) list" where
  "sub_context_create x schema = fold (sub_context_entry x schema) (xSubContext x) []"

definition SubContext_Query :: "APIContext \<Rightarrow> Schema \<Rightarrow> query_condition list" where
  "SubContext_Query x schema = map (\<lambda>(name, value). NewConditionFromString name ModifierEQ [value]) (sub_context_create x schema)"

definition SubContext_Create :: "APIContext \<Rightarrow> Schema \<Rightarrow> (string \<times> gval) list" where
  "SubContext_Create x schema = map (\<lambda>(name, value). (name, VStr value)) (sub_context_create x schema)"

section \<open>Resources as maps\<close>

definition str_map :: "(string \<times> string) list \<Rightarrow> gval" where
  "str_map m = VMap (Some (map (\<lambda>(k, v). (k, VStr v)) m))"

definition RawResource_ToMap :: "RawResource \<Rightarrow> (string \<times> gval) list" where
  "RawResource_ToMap r =
     (let put = (\<lambda>c k v m. if c \<and> \<not> DropReadOnly r then mset_key k v m else m)
      in put (rrActions r \<noteq> []) (if ActionLinks r then ''actionLinks'' else ''actions'') (str_map (rrActions r))
          (put (rrLinks r \<noteq> []) ''links'' (str_map (rrLinks r))
          (put (BaseType (rrSchema r) \<noteq> []) ''baseType'' (VStr (BaseType (rrSchema r)))
          (put (rrType r \<noteq> []) ''type'' (VStr (rrType r))
          (put (rrID r \<noteq> []) ''id'' (VStr (rrID r)) (put_all (mentries (rrValues r)) []))))))"

definition AddAction :: "url_builder \<Rightarrow> string \<Rightarrow> RawResource \<Rightarrow> RawResource" where
  "AddAction u name r = r\<lparr>rrActions := mset_key name (ActionLink u name r) (rrActions r)\<rparr>"

end
