(* ===== verification/RequestLaws.thy ===== *)
theory RequestLaws
  imports Request
begin

text \<open>
  What parsing a request guarantees: it does not panic, and the links that the URL builder writes lead
  back to what they were written for.
\<close>

section \<open>Base of the links\<close>

lemma has_prefix_length: "has_prefix s p \<Longrightarrow> length p \<le> length s"
  by (simp add: has_prefix_iff_prefix prefix_length_le)

lemma str_last_index_short: "length s < length p \<Longrightarrow> str_last_index s p = None"
proof (induction s)
  case (Cons c s)
  then have "\<not> has_prefix (c # s) p" using has_prefix_length by fastforce
  with Cons show ?case by simp
qed auto

lemma str_last_index_self: "str_last_index p p = Some 0"
  by (cases p) (simp_all add: str_last_index_short has_prefix_def)

lemma str_last_index_suffix: "str_last_index (xs @ p) p = Some (length xs)"
  by (induction xs) (simp_all add: str_last_index_self)

lemma parseRequestURL_path: "\<exists>pre. parseRequestURL r = pre @ uPath (rURL r)"
proof -
  have "getURLFromStandardHeaders r \<noteq> [] \<longrightarrow> suffix (uPath (rURL r)) (getURLFromStandardHeaders r)"
    unfolding getURLFromStandardHeaders_def Let_def by (auto intro!: suffix_appendI suffix_ConsI)
  then have "suffix (uPath (rURL r)) (parseRequestURL r)"
    unfolding parseRequestURL_def Let_def by (auto intro!: suffix_appendI suffix_ConsI)
  then show ?thesis by (auto simp: suffix_def)
qed

lemma NewURLBuilder_base:
  "\<exists>u. NewURLBuilder urlParse r v = Ok u \<and> requestURL u = responseURLBase u @ uPath (rURL r) \<and> apiVersion u = v \<and> subContext u = []"
proof -
  obtain pre where "parseRequestURL r = pre @ uPath (rURL r)" using parseRequestURL_path by blast
  then show ?thesis by (simp add: NewURLBuilder_def parseResponseURLBase_def str_last_index_suffix)
qed

section \<open>Paths\<close>

definition plain_segment :: "string \<Rightarrow> bool" where
  "plain_segment s \<longleftrightarrow> s \<noteq> [] \<and> CHR ''/'' \<notin> set s \<and> CHR ''%'' \<notin> set s"

definition slashed :: "string list \<Rightarrow> string" where
  "slashed parts = concat (map (\<lambda>p. ''/'' @ p) parts)"

definition plain_path :: "string \<Rightarrow> bool" where
  "plain_path p \<longleftrightarrow> squeeze_slashes p = p \<and> \<not> has_suffix p ''/''"

lemma PathUnescape_plain: "CHR ''%'' \<notin> set s \<Longrightarrow> PathUnescape s = Some s"
  by (induction s) auto

lemma squeeze_Cons: "c \<noteq> CHR ''/'' \<Longrightarrow> squeeze_slashes (c # s) = c # squeeze_slashes s"
  by (cases s) auto

lemma squeeze_slash: "hd (s @ [CHR ''.'']) \<noteq> CHR ''/'' \<Longrightarrow> squeeze_slashes (CHR ''/'' # s) = CHR ''/'' # squeeze_slashes s"
  by (cases s) auto

lemma squeeze_append:
  "(p = [] \<or> last p \<noteq> CHR ''/'') \<Longrightarrow> squeeze_slashes (p @ CHR ''/'' # s) = squeeze_slashes p @ squeeze_slashes (CHR ''/'' # s)"
  by (induction p rule: squeeze_slashes.induct) (auto split: if_splits)

lemma squeeze_segment: "CHR ''/'' \<notin> set s \<Longrightarrow> squeeze_slashes (s @ t) = s @ squeeze_slashes t"
  by (induction s) (auto simp: squeeze_Cons)

lemma squeeze_slashed: "list_all plain_segment segs \<Longrightarrow> squeeze_slashes (slashed segs) = slashed segs"
proof (induction segs)
  case (Cons x segs)
  then have "hd (x @ slashed segs @ [CHR ''.'']) \<noteq> CHR ''/''" by (cases x) (auto simp: plain_segment_def)
  with Cons show ?case by (simp add: slashed_def plain_segment_def squeeze_slash squeeze_segment)
qed (simp add: slashed_def)

lemma has_suffix_slash: "has_suffix p ''/'' \<longleftrightarrow> p \<noteq> [] \<and> last p = CHR ''/''"
  by (cases p rule: rev_cases) (auto simp: has_suffix_def)

lemma squeeze_path: "plain_path p \<Longrightarrow> list_all plain_segment segs \<Longrightarrow> squeeze_slashes (p @ slashed segs) = p @ slashed segs"
  by (cases segs) (use squeeze_slashed [of segs] in \<open>auto simp: plain_path_def has_suffix_slash slashed_def squeeze_append\<close>)

lemma slashed_last: "segs \<noteq> [] \<Longrightarrow> list_all plain_segment segs \<Longrightarrow> slashed segs \<noteq> [] \<and> last (slashed segs) \<noteq> CHR ''/''"
  by (induction segs rule: rev_induct) (auto simp: slashed_def plain_segment_def dest: last_in_set)

lemma split_slashed: "CHR ''/'' \<notin> set x \<Longrightarrow> list_all plain_segment segs \<Longrightarrow> split_char CHR ''/'' (x @ slashed segs) = x # segs"
proof (induction segs arbitrary: x)
  case (Cons y ys)
  then have "split_char CHR ''/'' (y @ slashed ys) = y # ys" by (auto simp: plain_segment_def)
  moreover have "x @ slashed (y # ys) = x @ CHR ''/'' # (y @ slashed ys)" by (simp add: slashed_def)
  ultimately show ?case using split_char_append [OF Cons.prems(1)] by simp
qed (simp add: slashed_def split_char_no_sep)

lemma split_char_split: "split_char d (s @ d # t) = split_char d s @ split_char d t"
  by (induction s) (auto split: list.splits)

lemma split_path:
  assumes "segs \<noteq> []" "list_all plain_segment segs"
  shows "split_char CHR ''/'' (p @ slashed segs) = split_char CHR ''/'' p @ segs"
proof -
  obtain y ys where segs: "segs = y # ys" using assms(1) list.exhaust by blast
  then have "p @ slashed segs = p @ CHR ''/'' # (y @ slashed ys)" by (simp add: slashed_def)
  then have "split_char CHR ''/'' (p @ slashed segs) = split_char CHR ''/'' p @ split_char CHR ''/'' (y @ slashed ys)"
    by (simp only: split_char_split)
  also have "split_char CHR ''/'' (y @ slashed ys) = y # ys" using assms(2) segs by (intro split_slashed) (auto simp: plain_segment_def)
  finally show ?thesis using segs by simp
qed

lemma path_parts_path:
  assumes "segs \<noteq> []" "list_all plain_segment segs"
  shows "\<exists>pre. path_parts (p @ slashed segs) = pre @ segs \<and> length pre = length (split_char CHR ''/'' p)"
proof -
  have "\<not> has_suffix (p @ slashed segs) ''/''" using slashed_last [OF assms] by (simp add: has_suffix_slash)
  moreover have "map (\<lambda>p. case PathUnescape p of Some part \<Rightarrow> part | None \<Rightarrow> p) segs = segs"
    using assms(2) by (intro map_idI) (auto simp: list_all_iff plain_segment_def PathUnescape_plain)
  ultimately show ?thesis by (simp add: path_parts_def split_path [OF assms])
qed

section \<open>Parsing does not panic\<close>

lemma split_char_length_le:
  assumes "has_prefix p v" "\<not> has_suffix v ''/''"
  shows "length (split_char CHR ''/'' v) \<le> length (path_parts p)"
proof -
  obtain t where p: "p = v @ t" using assms(1) by (auto simp: has_prefix_iff_prefix prefix_def)
  show ?thesis
  proof (cases "t = []")
    case True
    then show ?thesis using assms(2) p by (simp add: path_parts_def)
  next
    case False
    then have "butlast p = v @ butlast t" using p by (simp add: butlast_append)
    then show ?thesis using p by (simp add: path_parts_def length_split_char)
  qed
qed

lemma versionsForPath_matches: "v \<in> set (versionsForPath s p) \<Longrightarrow> v \<in> set (versions s) \<and> path_matches p v"
  by (simp add: versionsForPath_def)

text \<open>Parsing a URL does not panic, whatever the request, when no registered version has a path that ends with
  a slash: the parts of the path are always at least as many as those of the version that matched.\<close>

theorem DefaultURLParser_no_panic:
  assumes "\<forall>v \<in> set (versions s). \<not> has_suffix (Path v) ''/''"
  shows "\<exists>p. DefaultURLParser s url = Ok p"
proof -
  have "\<exists>r. parseVersionAndSubContext s path = Ok r" for path
  proof (cases "versionsForPath s path")
    case (Cons v vs)
    then have "path_matches path v" "v \<in> set (versions s)" using versionsForPath_matches [of v s path] by auto
    then have "length (split_char CHR ''/'' (Path v)) \<le> length (path_parts path)"
      using assms split_char_length_le by (auto simp: path_matches_def)
    with Cons show ?thesis by (simp add: parseVersionAndSubContext_def slice_from_def Let_def del: split_paired_Ex)
  qed (simp add: parseVersionAndSubContext_def)
  then obtain r where "parseVersionAndSubContext s (squeeze_slashes (uEscapedPath url)) = Ok r" by blast
  then show ?thesis by (cases r) (simp add: DefaultURLParser_def)
qed

lemma DefaultURLParser_no_panic_witness:
  "\<exists>p. DefaultURLParser (NewSchemas\<lparr>versions := [sample_version]\<rparr>) \<lparr>uPath = ''/v3/'', uEscapedPath = ''/v3/'', uQuery = []\<rparr> = Ok p"
  by (rule DefaultURLParser_no_panic) (simp add: sample_version_def has_suffix_def)

text \<open>C40. A registered version whose path ends with a slash makes the parser panic on the path of the version:
  the trailing slash is cut off the path of the request, and not off the path of the version.\<close>

theorem DefaultURLParser_panics:
  assumes "versions s = [v]" "Path v = p @ ''/''" "squeeze_slashes (Path v) = Path v" "uEscapedPath url = Path v"
  shows "DefaultURLParser s url = Panic"
proof -
  have "versionsForPath s (Path v) = [v]" using assms(1) by (simp add: versionsForPath_def path_matches_def has_prefix_def)
  moreover have "length (path_parts (Path v)) < length (split_char CHR ''/'' (Path v))"
    using assms(2) by (simp add: path_parts_def has_suffix_slash length_split_char)
  ultimately have "parseVersionAndSubContext s (Path v) = Panic"
    by (simp add: parseVersionAndSubContext_def slice_from_def Let_def)
  then show ?thesis using assms(3,4) by (simp add: DefaultURLParser_def)
qed

lemma DefaultURLParser_panics_witness:
  "DefaultURLParser (NewSchemas\<lparr>versions := [sample_version\<lparr>Path := ''/v3/''\<rparr>]\<rparr>) \<lparr>uPath = ''/v3/'', uEscapedPath = ''/v3/'', uQuery = []\<rparr> = Panic"
  by (rule DefaultURLParser_panics [where v = "sample_version\<lparr>Path := ''/v3/''\<rparr>" and p = "''/v3''"]) simp_all

section \<open>Links lead back\<close>

text \<open>The version that the parser chooses: the registered one with the longest path.\<close>

definition longest_match :: "Schemas \<Rightarrow> string \<Rightarrow> APIVersion \<Rightarrow> bool" where
  "longest_match s path v \<longleftrightarrow> v \<in> set (versions s) \<and> path_matches path v
     \<and> (\<forall>w \<in> set (versions s). path_matches path w \<longrightarrow> w = v \<or> length (Path w) < length (Path v))"

lemma versionsForPath_hd:
  assumes "longest_match s path v"
  shows "\<exists>vs. versionsForPath s path = v # vs"
proof -
  let ?vs = "versionsForPath s path" let ?k = "\<lambda>v. - int (length (Path v))"
  have v: "v \<in> set ?vs" using assms by (simp add: versionsForPath_def longest_match_def)
  then obtain w ws where w: "?vs = w # ws" by (cases ?vs) auto
  have "sorted (map ?k ?vs)" by (simp add: versionsForPath_def)
  then have "?k w \<le> ?k v" using v w by auto
  moreover have "w = v \<or> length (Path w) < length (Path v)"
    using assms versionsForPath_matches [of w s path] w by (auto simp: longest_match_def)
  ultimately show ?thesis using w by auto
qed

lemma parse_plain_version:
  assumes "longest_match s (Path v @ slashed segs) v" "\<not> SubContext v" "segs \<noteq> []" "list_all plain_segment segs"
  shows "parseVersionAndSubContext s (Path v @ slashed segs) = Ok (None, Some v, [], segs, [])"
proof -
  obtain vs where vs: "versionsForPath s (Path v @ slashed segs) = v # vs" using versionsForPath_hd [OF assms(1)] by blast
  obtain pre where "path_parts (Path v @ slashed segs) = pre @ segs" "length pre = length (split_char CHR ''/'' (Path v))"
    using path_parts_path [OF assms(3,4)] by blast
  then show ?thesis using vs assms(2) by (simp add: parseVersionAndSubContext_def slice_from_def)
qed

lemma ResourceLinkByID_path:
  assumes "SVersion schema = v" "Path v \<noteq> []" "PluralName schema \<noteq> []" "i \<noteq> []" "subContext u = []"
  shows "drop (length (responseURLBase u)) (ResourceLinkByID u schema i) = Path v @ slashed [PluralName schema, i]"
  using assms by (simp add: ResourceLinkByID_def constructBasicURL_def slashed_def)

definition default_url_parser :: url_parser where
  "default_url_parser s url = rbind (DefaultURLParser s url) (\<lambda>p. Ok (p, None))"

text \<open>A request for a resource: no action, and a method of the schema, by \<^verbatim>\<open>_method\<close> or not.\<close>

definition resource_request :: "http_request \<Rightarrow> Schema \<Rightarrow> bool" where
  "resource_request req schema \<longleftrightarrow> query_get (uQuery (rURL req)) ''action'' = []
     \<and> parseMethod req \<in> {''POST'', ''GET'', ''PUT'', ''DELETE''} \<and> parseMethod req \<in> set (ResourceMethods schema)"

lemma Parse_resource:
  assumes path: "squeeze_slashes (uEscapedPath (rURL req)) = path"
    and parsed: "parseVersionAndSubContext s path = Ok (None, Some v, [], [t, i], [])"
    and schema: "Schema_of s (Some v) t = Some schema" "t \<noteq> []" and req: "resource_request req schema" "i \<noteq> []"
  shows "\<exists>x. Parse urlParse req s default_url_parser DefaultResolver = Ok (x, None)
     \<and> xSchema x = Some schema \<and> xType x = ID schema \<and> xID x = i \<and> xLink x = [] \<and> xVersion x = Some v \<and> xMethod x = parseMethod req"
proof -
  let ?p = "\<lparr>pVersion = Some v, pSchemasVersion = None, pType = t, pID = i, pLink = [], pMethod = [], pAction = [],
                pSubContext = [], pSubContextPrefix = [], pQuery = uQuery (rURL req)\<rparr>"
  have p: "DefaultURLParser s (rURL req) = Ok ?p"
    using path parsed req by (simp add: DefaultURLParser_def safeIndex_def parseAction_def resource_request_def Let_def)
  obtain u where u: "NewURLBuilder urlParse req v = Ok u" using NewURLBuilder_base by blast
  define x where "x = (parsed_context req (builder_or_nil (NewURLBuilder urlParse req version_zero)) s ?p)\<lparr>xURLBuilder := Some u\<rparr>"
  have x: "xType x = t" "xVersion x = Some v" "xSchemas x = s" "xSchema x = None" "xID x = i" "xLink x = []" "xAction x = []"
    "xMethod x = parseMethod req"
    by (simp_all add: x_def parsed_context_def NewAPIContext_def)
  have run: "Parse urlParse req s default_url_parser DefaultResolver = Ok (resolved DefaultResolver x)"
    using p u by (simp add: Parse_def default_url_parser_def x_def parsed_context_def NewAPIContext_def Let_def)
  have "DefaultResolver t x = (x\<lparr>xSchema := Some schema\<rparr>, None)" using schema x by (simp add: DefaultResolver_def Let_def)
  moreover have "ValidateMethod (x\<lparr>xSchema := Some schema, xType := ID schema\<rparr>) = None"
    using req x by (simp add: ValidateMethod_def resource_request_def Let_def)
  ultimately have "resolved DefaultResolver x = (x\<lparr>xSchema := Some schema, xType := ID schema\<rparr>, None)"
    using x(1) by (simp add: resolved_def Let_def)
  with run x show ?thesis by simp
qed

text \<open>C4. The link to a resource leads back to it. The path of the link that the URL builder of any request
  writes for an ID of a schema is parsed to the version, the schema and the ID it was written for, provided
  that the version is registered with the longest matching path and that ID and plural name are plain:
  the builder does not escape them.\<close>

theorem resource_link_parses:
  assumes u: "NewURLBuilder urlParse r w = Ok u"
    and link: "uEscapedPath (rURL req) = drop (length (responseURLBase u)) (ResourceLinkByID u schema i)"
    and v: "SVersion schema = v" "Path v \<noteq> []" "plain_path (Path v)" "\<not> SubContext v"
    and match: "longest_match s (uEscapedPath (rURL req)) v"
    and plain: "plain_segment (PluralName schema)" "plain_segment i"
    and schema: "Schema_of s (Some v) (PluralName schema) = Some schema" and req: "resource_request req schema"
  shows "\<exists>x. Parse urlParse req s default_url_parser DefaultResolver = Ok (x, None)
     \<and> xSchema x = Some schema \<and> xType x = ID schema \<and> xID x = i \<and> xLink x = [] \<and> xVersion x = Some v \<and> xMethod x = parseMethod req"
proof -
  let ?segs = "[PluralName schema, i]"
  have segs: "?segs \<noteq> []" "list_all plain_segment ?segs" using plain by simp_all
  have ne: "PluralName schema \<noteq> []" "i \<noteq> []" using plain by (simp_all add: plain_segment_def)
  have "subContext u = []" using NewURLBuilder_base [of urlParse r w] u by auto
  then have path: "uEscapedPath (rURL req) = Path v @ slashed ?segs" using ResourceLinkByID_path [OF v(1,2) ne] link by simp
  show ?thesis
  proof (rule Parse_resource [OF _ _ schema ne(1) req ne(2)])
    show "squeeze_slashes (uEscapedPath (rURL req)) = Path v @ slashed ?segs" unfolding path by (rule squeeze_path [OF v(3) segs(2)])
    show "parseVersionAndSubContext s (Path v @ slashed ?segs) = Ok (None, Some v, [], ?segs, [])"
      by (rule parse_plain_version [OF match [unfolded path] v(4) segs])
  qed
qed

definition sample_pod :: Schema where
  "sample_pod = (sample_schema ''pod'')\<lparr>PluralName := ''pods'', ResourceMethods := [''GET''], CollectionMethods := [''GET'']\<rparr>"

definition sample_registry :: Schemas where
  "sample_registry = NewSchemas\<lparr>sheap := [sample_pod], schemasByPath := [(''/v3'', [(''pod'', 0)])], versions := [sample_version]\<rparr>"

definition sample_request :: "string \<Rightarrow> http_request" where
  "sample_request path = \<lparr>rMethod = ''GET'', rHost = ''example.com'', rTLS = True, rHeader = [],
     rURL = \<lparr>uPath = path, uEscapedPath = path, uQuery = []\<rparr>, rCookies = [], rMultipartForm = None, rPostForm = [], rForm = [],
     rJSON = Ok None, rYAML = Ok None\<rparr>"

lemma sample_pod_simps [simp]:
  "SVersion sample_pod = sample_version" "PluralName sample_pod = ''pods''" "ID sample_pod = ''pod''"
  "ResourceMethods sample_pod = [''GET'']" "CollectionMethods sample_pod = [''GET'']"
  by (simp_all add: sample_pod_def)

lemma resource_link_parses_witness:
  "\<exists>x. Parse (\<lambda>_. Panic) (sample_request ''/v3/pods/p1'') sample_registry default_url_parser DefaultResolver = Ok (x, None)
     \<and> xSchema x = Some sample_pod \<and> xType x = ''pod'' \<and> xID x = ''p1'' \<and> xLink x = [] \<and> xVersion x = Some sample_version
     \<and> xMethod x = ''GET''"
proof -
  let ?req = "sample_request ''/v3/pods/p1''"
  obtain u where u: "NewURLBuilder (\<lambda>_. Panic) (sample_request ''/'') sample_version = Ok u" "subContext u = []"
    using NewURLBuilder_base by blast
  have req: "rURL ?req = \<lparr>uPath = ''/v3/pods/p1'', uEscapedPath = ''/v3/pods/p1'', uQuery = []\<rparr>" "rMethod ?req = ''GET''"
    by (simp_all add: sample_request_def)
  have "drop (length (responseURLBase u)) (ResourceLinkByID u sample_pod ''p1'') = ''/v3/pods/p1''"
    using ResourceLinkByID_path [of sample_pod sample_version "''p1''" u] u(2) by (simp add: slashed_def)
  moreover have "longest_match sample_registry ''/v3/pods/p1'' sample_version"
    by (simp add: longest_match_def sample_registry_def path_matches_def has_prefix_def str_contains_def)
  moreover have "\<not> SubContext sample_version" by (simp add: sample_version_def version_zero_def)
  moreover have "plain_path ''/v3''" by (simp add: plain_path_def has_suffix_def)
  moreover have "plain_segment ''pods''" "plain_segment ''p1''" by (simp_all add: plain_segment_def)
  moreover have "Schema_of sample_registry (Some sample_version) ''pods'' = Some sample_pod" by code_simp
  moreover have "resource_request ?req sample_pod" using req by (simp add: resource_request_def parseMethod_def query_get_def)
  moreover have "parseMethod ?req = ''GET''" using req by (simp add: parseMethod_def query_get_def)
  ultimately show ?thesis
    using resource_link_parses [OF u(1), of ?req sample_pod "''p1''" sample_version sample_registry] req
    by simp
qed

section \<open>Links into a sub context\<close>

lemma parse_sub_context:
  assumes w: "longest_match s path w" "SubContext w" and v: "v \<in> set (versions s)" "path_matches path v" "v \<noteq> w"
    and path: "path_parts path = pre @ [name, t]" "length pre = length (split_char CHR ''/'' (Path w))"
    and name: "name \<notin> {''schema'', ''schemas''}" and schema: "Schema_of s (Some w) t \<noteq> None"
  shows "parseVersionAndSubContext s path = Ok (None, Some w, ''/'' @ name, [t], [(SubContextSchema w, name)])"
proof -
  obtain vs where vs: "versionsForPath s path = w # vs" using versionsForPath_hd [OF w(1)] by blast
  have "v \<in> set (versionsForPath s path)" using v by (simp add: versionsForPath_def)
  then have "vs \<noteq> []" using vs v(3) by auto
  moreover have "sub_context_version s (w # vs) [name, t] = (None, Some w, ''/'' @ name, [t], [(SubContextSchema w, name)])"
    using schema by (simp add: sub_context_version_def)
  ultimately show ?thesis using vs w(2) path name by (simp add: parseVersionAndSubContext_def slice_from_def)
qed

lemma path_matches_slashed:
  assumes "segs \<noteq> []"
  shows "path_matches (Path v @ slashed segs) v"
proof -
  obtain y ys where "segs = y # ys" using assms list.exhaust by blast
  then have "slashed segs = CHR ''/'' # y @ slashed ys" by (simp add: slashed_def)
  then show ?thesis by (simp add: path_matches_def has_prefix_append str_contains_def has_prefix_def Let_def)
qed

definition collection_request :: "http_request \<Rightarrow> Schema \<Rightarrow> bool" where
  "collection_request req schema \<longleftrightarrow> query_get (uQuery (rURL req)) ''action'' = []
     \<and> parseMethod req \<in> {''POST'', ''GET'', ''PUT'', ''DELETE''} \<and> parseMethod req \<in> set (CollectionMethods schema)"

lemma Parse_collection:
  assumes path: "squeeze_slashes (uEscapedPath (rURL req)) = path"
    and parsed: "parseVersionAndSubContext s path = Ok (None, Some w, pre, [t], sub)" "pre \<noteq> []"
    and schema: "Schema_of s (Some w) t = Some schema" "t \<noteq> []" and req: "collection_request req schema"
  shows "\<exists>x. Parse urlParse req s default_url_parser DefaultResolver = Ok (x, None)
     \<and> xSchema x = Some schema \<and> xSchemas x = s \<and> xID x = [] \<and> xVersion x = Some w \<and> xSubContext x = sub
     \<and> map_option subContext (xURLBuilder x) = Some pre"
proof -
  let ?p = "\<lparr>pVersion = Some w, pSchemasVersion = None, pType = t, pID = [], pLink = [], pMethod = [], pAction = [],
                pSubContext = sub, pSubContextPrefix = pre, pQuery = uQuery (rURL req)\<rparr>"
  have p: "DefaultURLParser s (rURL req) = Ok ?p"
    using path parsed req by (simp add: DefaultURLParser_def safeIndex_def parseAction_def collection_request_def Let_def)
  obtain u where u: "NewURLBuilder urlParse req w = Ok u" using NewURLBuilder_base by blast
  define x where "x = (parsed_context req (builder_or_nil (NewURLBuilder urlParse req version_zero)) s ?p)\<lparr>xURLBuilder := Some (SetSubContext pre u)\<rparr>"
  have x: "xType x = t" "xVersion x = Some w" "xSchemas x = s" "xSchema x = None" "xID x = []" "xLink x = []" "xAction x = []"
    "xMethod x = parseMethod req" "xSubContext x = sub" "xURLBuilder x = Some (SetSubContext pre u)"
    by (simp_all add: x_def parsed_context_def NewAPIContext_def)
  have run: "Parse urlParse req s default_url_parser DefaultResolver = Ok (resolved DefaultResolver x)"
    using p u parsed(2) by (simp add: Parse_def default_url_parser_def x_def parsed_context_def NewAPIContext_def Let_def)
  have "DefaultResolver t x = (x\<lparr>xSchema := Some schema\<rparr>, None)" using schema x by (simp add: DefaultResolver_def Let_def)
  moreover have "ValidateMethod (x\<lparr>xSchema := Some schema, xType := ID schema\<rparr>) = None"
    using req x by (simp add: ValidateMethod_def collection_request_def Let_def)
  ultimately have "resolved DefaultResolver x = (x\<lparr>xSchema := Some schema, xType := ID schema\<rparr>, None)"
    using x(1) by (simp add: resolved_def Let_def)
  with run x show ?thesis by (simp add: SetSubContext_def)
qed

text \<open>C22. The link to a collection inside a sub context leads into it. With a version \<open>w\<close> for the sub context of
  the resources of \<open>sub\<close>, as in \<^verbatim>\<open>/v3/project\<close> below \<^verbatim>\<open>/v3\<close>, the path \<^verbatim>\<open>/v3/projects/NAME/pods\<close> of the link is
  parsed to the version of the sub context, the schema of the collection and the attribute that names the
  resource, and the links of the answer stay below it.\<close>

theorem sub_context_link_parses:
  assumes u: "NewURLBuilder urlParse r w0 = Ok u"
    and link: "uEscapedPath (rURL req) = drop (length (responseURLBase u)) (SubContextCollection u sub name schema)"
    and v: "SVersion sub = v" "Path v \<noteq> []" "plain_path (Path v)" "v \<in> set (versions s)" "v \<noteq> w"
    and w: "SubContext w" "Path w = Path v @ ''/'' @ q" "plain_segment q" "longest_match s (uEscapedPath (rURL req)) w"
    and plain: "plain_segment (PluralName sub)" "plain_segment name" "plain_segment (getPluralName schema)"
      "name \<notin> {''schema'', ''schemas''}"
    and schema: "Schema_of s (Some w) (getPluralName schema) = Some schema" and req: "collection_request req schema"
  shows "\<exists>x. Parse urlParse req s default_url_parser DefaultResolver = Ok (x, None)
     \<and> xSchema x = Some schema \<and> xSchemas x = s \<and> xID x = [] \<and> xVersion x = Some w \<and> xSubContext x = [(SubContextSchema w, name)]
     \<and> map_option subContext (xURLBuilder x) = Some (''/'' @ name)"
proof -
  let ?segs = "[PluralName sub, name, getPluralName schema]"
  have segs: "?segs \<noteq> []" "list_all plain_segment ?segs" using plain by simp_all
  have ne: "PluralName sub \<noteq> []" "name \<noteq> []" "getPluralName schema \<noteq> []" using plain by (simp_all add: plain_segment_def)
  have "subContext u = []" using NewURLBuilder_base [of urlParse r w0] u by auto
  then have path: "uEscapedPath (rURL req) = Path v @ slashed ?segs"
    using link v(1,2) ne by (simp add: SubContextCollection_def constructBasicURL_def slashed_def)
  obtain pre where pre: "path_parts (Path v @ slashed ?segs) = pre @ ?segs" "length pre = length (split_char CHR ''/'' (Path v))"
    using path_parts_path [OF segs] by blast
  have len: "length (pre @ [PluralName sub]) = length (split_char CHR ''/'' (Path w))"
    using pre(2) w(2,3) by (simp add: split_char_split split_char_no_sep plain_segment_def)
  show ?thesis
  proof (rule Parse_collection [OF _ _ _ schema ne(3) req])
    show "squeeze_slashes (uEscapedPath (rURL req)) = Path v @ slashed ?segs" unfolding path by (rule squeeze_path [OF v(3) segs(2)])
    show "parseVersionAndSubContext s (Path v @ slashed ?segs) =
            Ok (None, Some w, ''/'' @ name, [getPluralName schema], [(SubContextSchema w, name)])"
      by (rule parse_sub_context [OF w(4) [unfolded path] w(1) v(4) path_matches_slashed [OF segs(1)] v(5) _ len plain(4)])
         (simp_all add: pre schema)
  qed simp
qed

definition sample_project :: Schema where
  "sample_project = (sample_schema ''project'')\<lparr>PluralName := ''projects''\<rparr>"

definition sample_sub_version :: APIVersion where
  "sample_sub_version = sample_version\<lparr>Path := ''/v3/project'', SubContext := True, SubContextSchema := ''/v3/schemas/project''\<rparr>"

definition sample_sub_pod :: Schema where
  "sample_sub_pod = sample_pod\<lparr>SVersion := sample_sub_version,
     ResourceFields := [(''id'', field_zero\<lparr>FType := ''string''\<rparr>), (''projectId'', field_zero\<lparr>FType := ''reference[/v3/schemas/project]''\<rparr>)]\<rparr>"

definition sample_sub_registry :: Schemas where
  "sample_sub_registry = NewSchemas\<lparr>sheap := [sample_project, sample_sub_pod],
     schemasByPath := [(''/v3'', [(''project'', 0)]), (''/v3/project'', [(''pod'', 1)])], versions := [sample_version, sample_sub_version]\<rparr>"

lemma sub_context_link_parses_witness:
  "\<exists>x. Parse (\<lambda>_. Panic) (sample_request ''/v3/projects/p1/pods'') sample_sub_registry default_url_parser DefaultResolver = Ok (x, None)
     \<and> xSchema x = Some sample_sub_pod \<and> xSchemas x = sample_sub_registry \<and> xID x = [] \<and> xVersion x = Some sample_sub_version
     \<and> xSubContext x = [(''/v3/schemas/project'', ''p1'')] \<and> map_option subContext (xURLBuilder x) = Some ''/p1''"
proof -
  let ?path = "''/v3/projects/p1/pods''" let ?req = "sample_request ?path"
  obtain u where u: "NewURLBuilder (\<lambda>_. Panic) (sample_request ''/'') sample_version = Ok u" "subContext u = []"
    using NewURLBuilder_base by blast
  have req: "rURL ?req = \<lparr>uPath = ?path, uEscapedPath = ?path, uQuery = []\<rparr>" "rMethod ?req = ''GET''"
    by (simp_all add: sample_request_def)
  have pl: "PluralName sample_project = ''projects''" "SVersion sample_project = sample_version"
    "getPluralName sample_sub_pod = ''pods''" by (simp_all add: sample_project_def) code_simp
  have "uEscapedPath (rURL ?req) = drop (length (responseURLBase u)) (SubContextCollection u sample_project ''p1'' sample_sub_pod)"
    using u(2) req pl by (simp add: SubContextCollection_def constructBasicURL_def)
  moreover have "plain_path (Path sample_version)" by (simp add: plain_path_def has_suffix_def)
  moreover have "sample_version \<in> set (versions sample_sub_registry)" "sample_version \<noteq> sample_sub_version" by code_simp+
  moreover have "SubContext sample_sub_version" "Path sample_sub_version = Path sample_version @ ''/'' @ ''project''"
    by (simp_all add: sample_sub_version_def)
  moreover have "plain_segment ''project''" "plain_segment ''projects''" "plain_segment ''p1''" "plain_segment ''pods''"
    by (simp_all add: plain_segment_def)
  moreover have "longest_match sample_sub_registry (uEscapedPath (rURL ?req)) sample_sub_version"
    unfolding req by (simp add: longest_match_def sample_sub_registry_def sample_sub_version_def path_matches_def has_prefix_def str_contains_def)
  moreover have "Schema_of sample_sub_registry (Some sample_sub_version) (getPluralName sample_sub_pod) = Some sample_sub_pod" by code_simp
  moreover have "collection_request ?req sample_sub_pod"
    using req by (simp add: collection_request_def parseMethod_def query_get_def sample_sub_pod_def)
  ultimately show ?thesis
    using sub_context_link_parses [OF u(1), of ?req sample_project "''p1''" sample_sub_pod sample_version sample_sub_registry
        sample_sub_version "''project''"] pl by (simp add: sample_sub_version_def)
qed

end
