(* ===== verification/Access.thy ===== *)
theory Access
  imports Request
begin

text \<open>
  Access control, \<^verbatim>\<open>authorization/all.go\<close> and the methods of \<^verbatim>\<open>types/schema_funcs.go\<close> for a request, and the
  filters of the API context, \<^verbatim>\<open>types/server_types.go\<close>. \<open>access_control\<close> is the Go interface, \<open>AllAccess\<close>
  the implementation of the repository.
\<close>

record access_control =
  acCanCreate :: "APIContext \<Rightarrow> Schema \<Rightarrow> err option"
  acCanList :: "APIContext \<Rightarrow> Schema \<Rightarrow> err option"
  acCanGet :: "APIContext \<Rightarrow> Schema \<Rightarrow> err option"
  acCanUpdate :: "APIContext \<Rightarrow> gdata \<Rightarrow> Schema \<Rightarrow> err option"
  acCanDelete :: "APIContext \<Rightarrow> gdata \<Rightarrow> Schema \<Rightarrow> err option"
  acCanDo :: "string \<Rightarrow> string \<Rightarrow> string \<Rightarrow> APIContext \<Rightarrow> gdata \<Rightarrow> Schema \<Rightarrow> err option"
  acFilter :: "APIContext \<Rightarrow> Schema \<Rightarrow> gdata \<Rightarrow> (string \<times> string) list \<Rightarrow> gdata"
  acFilterList :: "APIContext \<Rightarrow> Schema \<Rightarrow> gdata list \<Rightarrow> (string \<times> string) list \<Rightarrow> gdata list"

definition allowed :: "string list \<Rightarrow> string \<Rightarrow> string \<Rightarrow> string \<Rightarrow> err option" where
  "allowed methods method verb i =
     (if ContainsString methods method then None else Some (NewAPIError PermissionDenied (verb @ i)))"

definition AllAccess :: access_control where
  "AllAccess = \<lparr>
     acCanCreate = (\<lambda>x s. allowed (CollectionMethods s) ''POST'' ''can not create '' (ID s)),
     acCanList = (\<lambda>x s. allowed (CollectionMethods s) ''GET'' ''can not list '' (ID s)),
     acCanGet = (\<lambda>x s. allowed (ResourceMethods s) ''GET'' ''can not get '' (ID s)),
     acCanUpdate = (\<lambda>x obj s. allowed (ResourceMethods s) ''PUT'' ''can not update '' (ID s)),
     acCanDelete = (\<lambda>x obj s. allowed (ResourceMethods s) ''DELETE'' ''can not delete '' (ID s)),
     acCanDo = (\<lambda>apiGroup resource verb x obj s. allowed (ResourceMethods s) verb (''can not perform '' @ verb @ '' '') (ID s)),
     acFilter = (\<lambda>x s obj context. obj),
     acFilterList = (\<lambda>x s objs context. objs)\<rparr>"

text \<open>The query filter of the server is that of \<^verbatim>\<open>api/handler/query.go\<close>; it writes the page into the options.\<close>

definition FilterList :: "gdata sorter \<Rightarrow> query_options \<Rightarrow> Schema \<Rightarrow> gdata list \<Rightarrow> (gdata list \<times> pagination option) res" where
  "FilterList sortSlice opts schema objs = QueryFilter sortSlice opts schema objs"

definition FilterObject :: "gdata sorter \<Rightarrow> query_options \<Rightarrow> Schema \<Rightarrow> gdata \<Rightarrow> gdata res" where
  "FilterObject sortSlice opts schema obj =
     rbind (QueryFilter sortSlice (opts\<lparr>Pagination := None\<rparr>) schema [obj]) (\<lambda>(result, _).
       Ok (case result of [] \<Rightarrow> None | o1 # _ \<Rightarrow> o1))"

text \<open>
  \<^verbatim>\<open>Filter\<close> returns an interface: the nil map that \<^verbatim>\<open>FilterObject\<close> gives for an object that is filtered out
  becomes \<^term>\<open>VMap None\<close>, which is not nil.
\<close>

definition FilterValue :: "gdata sorter \<Rightarrow> query_options \<Rightarrow> Schema \<Rightarrow> gval \<Rightarrow> gval res" where
  "FilterValue sortSlice opts schema obj =
     (case obj of
        VMaps vs \<Rightarrow> rbind (FilterList sortSlice opts schema (map ToMapInterface vs)) (\<lambda>(result, _). Ok (VMaps (map VMap result)))
      | VMap v \<Rightarrow> rbind (FilterObject sortSlice opts schema v) (\<lambda>result. Ok (VMap result))
      | _ \<Rightarrow> Ok VNil)"

section \<open>Actions on a world\<close>

text \<open>
  What a handler does to the world outside, the Kubernetes API and the random numbers: a result and the
  new state of the world.
\<close>

type_synonym ('w, 'a) act = "'w \<Rightarrow> 'a res \<times> 'w"

definition areturn :: "'a \<Rightarrow> ('w, 'a) act" where
  "areturn v w = (Ok v, w)"

definition alift :: "'a res \<Rightarrow> ('w, 'a) act" where
  "alift r w = (r, w)"

definition abind :: "('w, 'a) act \<Rightarrow> ('a \<Rightarrow> ('w, 'b) act) \<Rightarrow> ('w, 'b) act" where
  "abind m f w = (case m w of (Ok v, w') \<Rightarrow> f v w' | (Err e, w') \<Rightarrow> (Err e, w') | (Panic, w') \<Rightarrow> (Panic, w'))"

fun afold :: "('x \<Rightarrow> 's \<Rightarrow> ('w, 's) act) \<Rightarrow> 'x list \<Rightarrow> 's \<Rightarrow> ('w, 's) act" where
  "afold f [] s = areturn s"
| "afold f (x # xs) s = abind (f x s) (afold f xs)"

end
