(* ===== verification/Stores.thy ===== *)
theory Stores
  imports Access Merge
begin

text \<open>
  The stores behind the API: \<^verbatim>\<open>store/empty\<close>, \<^verbatim>\<open>store/schema\<close>, \<^verbatim>\<open>store/subtype\<close>, \<^verbatim>\<open>store/transform\<close>,
  \<^verbatim>\<open>store/wrapper\<close>, \<^verbatim>\<open>store/proxy\<close> and the store of \<^verbatim>\<open>api/builtin/api_root.go\<close>. A store is a value of the
  data type \<open>store\<close>, with one constructor per Go type that implements the interface; the methods are
  defined by recursion on the stores a store is made of.

  The Kubernetes client is a parameter: \<open>kdo\<close> and \<open>klist\<close> are what a request does to the world \<open>'w\<close>. So are
  the JSON form of a schema, \<^verbatim>\<open>rand.String\<close> and the class of an error that \<^verbatim>\<open>k8s.io/apimachinery\<close> tells.
\<close>

section \<open>Requests to Kubernetes\<close>

record rest_request =
  qVerb :: string
  qPrefix :: "string list"
  qResource :: string
  qNamespace :: string
  qName :: string
  qBody :: gdata
  qHeaders :: "(string \<times> string list) list"

type_synonym TransformerFunc = "APIContext \<Rightarrow> Schema \<Rightarrow> gdata \<Rightarrow> query_options option \<Rightarrow> gdata res"
type_synonym ListTransformerFunc = "APIContext \<Rightarrow> Schema \<Rightarrow> gdata list \<Rightarrow> query_options option \<Rightarrow> gdata list res"
type_synonym StreamTransformerFunc = "APIContext \<Rightarrow> Schema \<Rightarrow> gdata list option \<Rightarrow> query_options option \<Rightarrow> gdata list option res"

record proxy =
  clientGetter :: "APIContext \<Rightarrow> string \<Rightarrow> nat res"
  storageContext :: string
  pPrefix :: "string list"
  pGroup :: string
  pStoreVersion :: string
  pKind :: string
  resourcePlural :: string
  authContext :: "(string \<times> string) list"

datatype store =
    EmptyStore
  | SchemaStore
  | APIRootStore "string list"
  | ProxyStore proxy
  | ErrorStore store
  | SubTypeStore string store
  | TransformStore store "TransformerFunc option" "ListTransformerFunc option" "StreamTransformerFunc option"
  | StoreWrapper store

text \<open>
  The fields of \<^const>\<open>TransformStore\<close> are the inner store, the transformer, the list transformer and the
  stream transformer. A channel is the list of what comes through it until it is closed; a nil channel is
  \<^const>\<open>None\<close>.
\<close>

record 'w env =
  kdo :: "nat \<Rightarrow> rest_request \<Rightarrow> ('w, gdata) act"
  klist :: "nat \<Rightarrow> rest_request \<Rightarrow> ('w, gdata list) act"
  kwatch :: "nat \<Rightarrow> rest_request \<Rightarrow> ('w, (string \<times> gdata) list) act"
  k_IsConflict :: "err \<Rightarrow> bool"
  GetResourceVersion :: "gdata \<Rightarrow> string"
  rand_string :: "'w \<Rightarrow> string \<times> 'w"
  schema_json :: "Schema \<Rightarrow> gdata res"
  access :: access_control
  sort_slice :: "gdata sorter"
  mapper_codecs :: codecs
  store_of :: "Schema \<Rightarrow> store option"

section \<open>The proxy store\<close>

definition NewProxyStore :: "(APIContext \<Rightarrow> string \<Rightarrow> nat res) \<Rightarrow> string \<Rightarrow> string list \<Rightarrow> string \<Rightarrow> string \<Rightarrow> string \<Rightarrow> string \<Rightarrow> store" where
  "NewProxyStore getter ctx pre grp version kind plural =
     ErrorStore (ProxyStore \<lparr>clientGetter = getter, storageContext = ctx, pPrefix = pre, pGroup = grp, pStoreVersion = version,
       pKind = kind, resourcePlural = plural, authContext = [(''apiGroup'', grp), (''resource'', plural)]\<rparr>)"

definition getUser :: "APIContext \<Rightarrow> string" where
  "getUser x = header_get (xRequest x) ''Impersonate-User''"

definition common :: "proxy \<Rightarrow> string \<Rightarrow> string \<Rightarrow> rest_request" where
  "common p namespace verb =
     \<lparr>qVerb = verb, qPrefix = pPrefix p @ (if pGroup p \<noteq> [] then [pGroup p] else []) @ [pStoreVersion p],
      qResource = resourcePlural p, qNamespace = namespace, qName = [], qBody = None, qHeaders = []\<rparr>"

definition doAuthed :: "'w env \<Rightarrow> APIContext \<Rightarrow> nat \<Rightarrow> rest_request \<Rightarrow> ('w, gdata) act" where
  "doAuthed E x client req =
     kdo E client (req\<lparr>qHeaders := map (\<lambda>h. (h, case map_of (rHeader (xRequest x)) (CanonicalHeaderKey h) of None \<Rightarrow> [] | Some vs \<Rightarrow> vs))
                                     [''Impersonate-User'', ''Impersonate-Group'']\<rparr>)"

definition splitID :: "string \<Rightarrow> string \<times> string" where
  "splitID i = (case split_n2 i '':'' of [namespace, name] \<Rightarrow> (namespace, name) | _ \<Rightarrow> ([], i))"

definition store_fromInternal :: "'w env \<Rightarrow> APIContext \<Rightarrow> Schema \<Rightarrow> gdata \<Rightarrow> gdata res" where
  "store_fromInternal E x schema d =
     (let d1 = (if Option x ''export'' = ''true'' then mdelete d ''status'' else d)
      in case SMapper schema of None \<Rightarrow> Ok d1 | Some m \<Rightarrow> FromInternal (mapper_codecs E) m d1)"

definition store_toInternal :: "'w env \<Rightarrow> proxy \<Rightarrow> mapper option \<Rightarrow> gdata \<Rightarrow> gdata res" where
  "store_toInternal E p m d =
     rbind (case m of
              None \<Rightarrow> Ok d
            | Some mp \<Rightarrow> rbind (ToInternal (mapper_codecs E) mp d) (\<lambda>(e, d1). case e of Some e' \<Rightarrow> Err e' | None \<Rightarrow> Ok d1)) (\<lambda>d1.
     rbind (mput d1 ''apiVersion'' (VStr (if pGroup p = [] then pStoreVersion p else pGroup p @ ''/'' @ pStoreVersion p))) (\<lambda>d2.
     mput d2 ''kind'' (VStr (pKind p))))"

definition singleResultRaw :: "'w env \<Rightarrow> APIContext \<Rightarrow> nat \<Rightarrow> rest_request \<Rightarrow> ('w, string \<times> gdata) act" where
  "singleResultRaw E x client req = abind (doAuthed E x client req) (\<lambda>d. areturn (GetResourceVersion E d, d))"

definition singleResult :: "'w env \<Rightarrow> APIContext \<Rightarrow> Schema \<Rightarrow> nat \<Rightarrow> rest_request \<Rightarrow> ('w, gdata) act" where
  "singleResult E x schema client req =
     abind (singleResultRaw E x client req) (\<lambda>(_, d). alift (store_fromInternal E x schema d))"

text \<open>A request is tried again, twice at most, when the client timed out.\<close>

fun retry :: "nat \<Rightarrow> ('w, 'a) act \<Rightarrow> ('w, 'a) act" where
  "retry 0 m = m"
| "retry (Suc n) m = (\<lambda>w. case m w of
       (Err e, w') \<Rightarrow> if str_contains (err_string e) ''Client.Timeout exceeded'' then retry n m w' else (Err e, w')
     | r \<Rightarrow> r)"

definition validID :: "Schema \<Rightarrow> string \<Rightarrow> bool" where
  "validID schema i =
     (let splitted = split_char CHR '':'' (trim_space i)
      in if Scope schema = ''namespace'' then length splitted = 2 \<and> trim_space (splitted ! 0) \<noteq> [] \<and> trim_space (splitted ! 1) \<noteq> []
         else length splitted = 1 \<and> trim_space (splitted ! 0) \<noteq> [])"

definition proxy_byID :: "'w env \<Rightarrow> proxy \<Rightarrow> APIContext \<Rightarrow> Schema \<Rightarrow> string \<Rightarrow> bool \<Rightarrow> ('w, gdata) act" where
  "proxy_byID E p x schema i again =
     (if \<not> validID schema i then alift (Err (NewAPIError NotFound ''failed to find resource by id''))
      else case splitID i of (namespace, name) \<Rightarrow>
        abind (alift (clientGetter p x (storageContext p))) (\<lambda>client.
          let get = singleResult E x schema client ((common p namespace ''GET'')\<lparr>qName := name\<rparr>)
          in if again then retry 2 get else get))"

definition getNamespace :: "APIContext \<Rightarrow> query_options option \<Rightarrow> string res" where
  "getNamespace x opt =
     (case map_of (xSubContext x) ''namespaces'' of
        Some v \<Rightarrow> Ok (ToString (VStr v))
      | None \<Rightarrow>
          (case opt of
             None \<Rightarrow> Panic
           | Some o1 \<Rightarrow>
               Ok (case find (\<lambda>c. (qField c = ''namespaceId'' \<or> qField c = ''namespace'') \<and> qValue c \<noteq> [] \<and> cModifier (ToCondition c) = ModifierEQ)
                             (Conditions o1) of
                     Some c \<Rightarrow> qValue c
                   | None \<Rightarrow> [])))"

definition retryList :: "'w env \<Rightarrow> proxy \<Rightarrow> APIContext \<Rightarrow> string \<Rightarrow> ('w, gdata list) act" where
  "retryList E p x namespace =
     abind (alift (clientGetter p x (storageContext p))) (\<lambda>client. retry 2 (klist E client (common p namespace ''GET'')))"

text \<open>
  The namespaces are listed concurrently. Here they are listed in the order they are given: the result of
  another schedule is a permutation of this one.
\<close>

definition proxy_List :: "'w env \<Rightarrow> proxy \<Rightarrow> APIContext \<Rightarrow> Schema \<Rightarrow> query_options option \<Rightarrow> ('w, gdata list) act" where
  "proxy_List E p x schema opt =
     abind (case opt of
              Some o1 \<Rightarrow>
                (case Namespaces o1 of
                   Some nss \<Rightarrow> afold (\<lambda>ns items. abind (retryList E p x ns) (\<lambda>more. areturn (items @ more))) nss []
                 | None \<Rightarrow> abind (alift (getNamespace x opt)) (retryList E p x))
            | None \<Rightarrow> abind (alift (getNamespace x opt)) (retryList E p x)) (\<lambda>items.
     abind (afold (\<lambda>d result. abind (alift (store_fromInternal E x schema d)) (\<lambda>d'. areturn (result @ [d']))) items []) (\<lambda>result.
     areturn (acFilterList (access E) x schema result (authContext p))))"

definition GenerateName :: "string \<Rightarrow> string \<Rightarrow> string res" where
  "GenerateName typeName rnd =
     (case typeName of
        [] \<Rightarrow> Panic
      | c # cs \<Rightarrow> Ok (to_lower (c # filter (\<lambda>c. c \<notin> set lower_letters) cs) @ ''-'' @ rnd))"

definition name_object :: "'w env \<Rightarrow> Schema \<Rightarrow> gdata \<Rightarrow> ('w, gdata) act" where
  "name_object E schema d =
     (if as_string (GetValueN d [''metadata'', ''name'']) = [] \<and> as_string (GetValueN d [''metadata'', ''generateName'']) = []
      then (\<lambda>w. case rand_string E w of (rnd, w') \<Rightarrow>
              (rbind (GenerateName (ID schema) rnd) (\<lambda>name. PutValue d (VStr name) [''metadata'', ''name'']), w'))
      else areturn d)"

definition proxy_Create :: "'w env \<Rightarrow> proxy \<Rightarrow> APIContext \<Rightarrow> Schema \<Rightarrow> gdata \<Rightarrow> ('w, gdata) act" where
  "proxy_Create E p x schema d =
     abind (alift (store_toInternal E p (SMapper schema) d)) (\<lambda>d1.
     let namespace = as_string (GetValueN d1 [''metadata'', ''namespace'']) in
     abind (alift (PutValue d1 (VStr (getUser x)) [''metadata'', ''annotations'', ''field.cattle.io/creatorId''])) (\<lambda>d2.
     abind (alift (PutValue d2 (VStr ''norman'') [''metadata'', ''labels'', ''cattle.io/creator''])) (\<lambda>d3.
     abind (name_object E schema d3) (\<lambda>d4.
     abind (alift (clientGetter p x (storageContext p))) (\<lambda>client.
     singleResult E x schema client ((common p namespace ''POST'')\<lparr>qBody := d4\<rparr>))))))"

definition merged_object :: "APIContext \<Rightarrow> Schema \<Rightarrow> string \<Rightarrow> string \<Rightarrow> string \<Rightarrow> gdata \<Rightarrow> gdata \<Rightarrow> gdata res" where
  "merged_object x schema resourceVersion namespace name existing d =
     rbind (PutValue (Some (APIUpdateMerge (InternalSchema schema) (xSchemas x) existing d (Option x ''replace'' = ''true'')))
              (VStr resourceVersion) [''metadata'', ''resourceVersion'']) (\<lambda>e1.
     rbind (PutValue e1 (VStr namespace) [''metadata'', ''namespace'']) (\<lambda>e2.
     PutValue e2 (VStr name) [''metadata'', ''name'']))"

fun update_loop :: "nat \<Rightarrow> 'w env \<Rightarrow> proxy \<Rightarrow> APIContext \<Rightarrow> Schema \<Rightarrow> nat \<Rightarrow> string \<Rightarrow> string \<Rightarrow> gdata \<Rightarrow> ('w, gdata) act" where
  "update_loop n E p x schema client namespace name d =
     abind (singleResultRaw E x client ((common p namespace ''GET'')\<lparr>qName := name\<rparr>)) (\<lambda>(resourceVersion, existing).
     abind (alift (merged_object x schema resourceVersion namespace name existing d)) (\<lambda>body w.
       case singleResult E x schema client ((common p namespace ''PUT'')\<lparr>qBody := body, qName := name\<rparr>) w of
         (Err e, w') \<Rightarrow>
           if k_IsConflict E e then (case n of 0 \<Rightarrow> (Err e, w') | Suc m \<Rightarrow> update_loop m E p x schema client namespace name d w')
           else (Err e, w')
       | r \<Rightarrow> r))"

declare update_loop.simps [simp del]

definition proxy_Update :: "'w env \<Rightarrow> proxy \<Rightarrow> APIContext \<Rightarrow> Schema \<Rightarrow> gdata \<Rightarrow> string \<Rightarrow> ('w, gdata) act" where
  "proxy_Update E p x schema d i =
     abind (alift (clientGetter p x (storageContext p))) (\<lambda>client.
     case splitID i of (namespace, name) \<Rightarrow>
       abind (alift (store_toInternal E p (SMapper schema) d)) (update_loop 4 E p x schema client namespace name))"

definition proxy_Delete :: "'w env \<Rightarrow> proxy \<Rightarrow> APIContext \<Rightarrow> Schema \<Rightarrow> string \<Rightarrow> ('w, gdata) act" where
  "proxy_Delete E p x schema i =
     abind (alift (clientGetter p x (storageContext p))) (\<lambda>client.
     case splitID i of (namespace, name) \<Rightarrow>
       abind (doAuthed E x client ((common p namespace ''DELETE'')\<lparr>qBody := Some [(''propagationPolicy'', VStr ''Background'')], qName := name\<rparr>))
         (\<lambda>_ w. case proxy_byID E p x schema i False w of (Err e, w') \<Rightarrow> (Ok None, w') | r \<Rightarrow> r))"

text \<open>
  Watching. The subscribers of one client share a watch through a broadcaster; here each has its own, of
  which it sees the events from its subscription on.
\<close>

definition watch_event :: "'w env \<Rightarrow> APIContext \<Rightarrow> Schema \<Rightarrow> string \<times> gdata \<Rightarrow> gdata list \<Rightarrow> gdata list res" where
  "watch_event E x schema ev result =
     rbind (store_fromInternal E x schema (snd ev)) (\<lambda>d.
       Ok (result @ [if fst ev = ''DELETED'' then map_option (mset_key ''.removed'' (VBool True)) d else d]))"

definition realWatch :: "'w env \<Rightarrow> proxy \<Rightarrow> APIContext \<Rightarrow> Schema \<Rightarrow> query_options \<Rightarrow> ('w, gdata list) act" where
  "realWatch E p x schema opt =
     abind (alift (getNamespace x (Some opt))) (\<lambda>namespace.
     abind (alift (clientGetter p x (storageContext p))) (\<lambda>client.
     abind (kwatch E client (common p namespace ''GET'')) (\<lambda>events.
     alift (rfold (watch_event E x schema) events []))))"

definition Chan :: "gdata list option \<Rightarrow> (gdata \<Rightarrow> gdata res) \<Rightarrow> gdata list option res" where
  "Chan c f =
     (case c of
        None \<Rightarrow> Ok None
      | Some ds \<Rightarrow> rbind (rfold (\<lambda>d result. rbind (f d) (\<lambda>d'. Ok (if d' = None then result else result @ [d']))) ds []) (\<lambda>r. Ok (Some r)))"

definition proxy_Watch :: "'w env \<Rightarrow> proxy \<Rightarrow> APIContext \<Rightarrow> Schema \<Rightarrow> ('w, gdata list option) act" where
  "proxy_Watch E p x schema =
     abind (realWatch E p x schema no_options) (\<lambda>ds. alift (Chan (Some ds) (\<lambda>d. Ok (acFilter (access E) x schema d (authContext p)))))"

section \<open>The schema store\<close>

definition keep_allowed :: "string list \<Rightarrow> (string \<times> err option) list \<Rightarrow> string list" where
  "keep_allowed methods checks = map fst (filter (\<lambda>(m, e). ContainsString methods m \<and> e = None) checks)"

definition modifyForAccessControl :: "access_control \<Rightarrow> APIContext \<Rightarrow> Schema \<Rightarrow> Schema" where
  "modifyForAccessControl A x s =
     s\<lparr>ResourceMethods := keep_allowed (ResourceMethods s)
           [(''PUT'', acCanUpdate A x None s), (''DELETE'', acCanDelete A x None s), (''GET'', acCanGet A x s)],
       CollectionMethods := keep_allowed (CollectionMethods s) [(''POST'', acCanCreate A x s), (''GET'', acCanList A x s)]\<rparr>"

definition schema_map :: "APIContext \<Rightarrow> (string \<times> Schema) list res" where
  "schema_map x =
     (case xVersion x of
        None \<Rightarrow> Panic
      | Some v \<Rightarrow> Ok (map (\<lambda>(k, r). (k, deref (xSchemas x) r)) (SchemasForVersion (xSchemas x) v)))"

definition schema_ByID :: "'w env \<Rightarrow> APIContext \<Rightarrow> string \<Rightarrow> gdata res" where
  "schema_ByID E x i =
     rbind (schema_map x) (\<lambda>ss.
       case find (\<lambda>(k, s). equal_fold (ID s) i) ss of
         Some (k, s) \<Rightarrow> schema_json E (modifyForAccessControl (access E) x s)
       | None \<Rightarrow> Err (NewAPIError NotFound ''no such schema''))"

text \<open>The innermost type of a field type.\<close>

lemma SubType_shorter: "SubType t = t \<or> length (SubType t) < length t"
  by (auto simp: SubType_def split: option.splits)

function base_type :: "string \<Rightarrow> string" where
  "base_type t = (if SubType t = t then t else base_type (SubType t))"
  by auto
termination
proof (relation "measure length")
  fix t assume "SubType t \<noteq> t"
  then show "(SubType t, t) \<in> measure length" using SubType_shorter [of t] by simp
qed simp

declare base_type.simps [simp del]

definition named_types :: "Schema \<Rightarrow> string list" where
  "named_types s =
     map (\<lambda>(name, f). base_type (FType f)) (ResourceFields s)
     @ filter (\<lambda>t. t \<noteq> []) (concat (map (\<lambda>(name, a). [Output a, Input a]) (ResourceActions s)))
     @ filter (\<lambda>t. t \<noteq> []) (concat (map (\<lambda>(name, a). [Output a, Input a]) (CollectionActions s)))"

text \<open>
  \<^verbatim>\<open>addSchema\<close> marks a schema and adds the schemas its types name before it adds the schema itself. The
  state is the marked names and the schemas added so far; the fuel bounds the depth of the calls.
\<close>

fun addSchema :: "nat \<Rightarrow> (string \<times> Schema) list \<Rightarrow> Schema \<Rightarrow> string list \<times> Schema list \<Rightarrow> (string list \<times> Schema list) option" where
  "addSchema 0 ss s st = None"
| "addSchema (Suc n) ss s (marked, added) =
     map_option (\<lambda>(m, a). (m, a @ [s]))
       (fold (\<lambda>t st. case st of
                None \<Rightarrow> None
              | Some (m, a) \<Rightarrow>
                  (case map_of ss t of
                     Some s' \<Rightarrow> if t \<in> set m then st else addSchema n ss s' (m, a)
                   | None \<Rightarrow> st))
          (named_types s) (Some (ID s # marked, added)))"

definition list_schemas :: "nat \<Rightarrow> access_control \<Rightarrow> APIContext \<Rightarrow> (string \<times> Schema) list \<Rightarrow> (string list \<times> Schema list) option" where
  "list_schemas n A x ss =
     fold (\<lambda>(k, s) st. case st of
             None \<Rightarrow> None
           | Some (m, a) \<Rightarrow>
               if ID s \<in> set m then st
               else if acCanList A x s = None \<or> acCanGet A x s = None then addSchema n ss s (m, a)
               else st) ss (Some ([], []))"

text \<open>A version has finitely many schemas, so that their number plus one is enough fuel.\<close>

definition schema_List :: "'w env \<Rightarrow> APIContext \<Rightarrow> gdata list res option" where
  "schema_List E x =
     (case schema_map x of
        Ok ss \<Rightarrow>
          map_option (\<lambda>(m, a). rfold (\<lambda>s ds. rbind (schema_json E (modifyForAccessControl (access E) x s)) (\<lambda>d. Ok (ds @ [d]))) a [])
            (list_schemas (Suc (length ss)) (access E) x ss)
      | Err e \<Rightarrow> Some (Err e)
      | Panic \<Rightarrow> Some Panic)"

section \<open>The root of the API\<close>

definition apiVersionToAPIRootMap :: "APIVersion \<Rightarrow> gdata" where
  "apiVersionToAPIRootMap v =
     Some [(''type'', VStr ''/meta/schemas/apiRoot''),
           (''apiVersion'', VMap (Some [(''version'', VStr (Version v)), (''group'', VStr (Group v)), (''path'', VStr (Path v))])),
           (''path'', VStr (Path v))]"

definition root_ByID :: "APIContext \<Rightarrow> string \<Rightarrow> gdata" where
  "root_ByID x i = (case find (\<lambda>v. Path v = i) (versions (xSchemas x)) of Some v \<Rightarrow> apiVersionToAPIRootMap v | None \<Rightarrow> None)"

definition root_List :: "string list \<Rightarrow> APIContext \<Rightarrow> gdata list" where
  "root_List roots x = map apiVersionToAPIRootMap (versions (xSchemas x)) @ map (\<lambda>r. Some [(''path'', VStr r)]) roots"

section \<open>Stores around stores\<close>

text \<open>
  Each of the operations below is that of a store around another one, whose own operation is an argument.
\<close>

definition translated :: "('w, 'a) act \<Rightarrow> ('w, 'a) act" where
  "translated m w = (case m w of (Err e, w') \<Rightarrow> (Err (the (translateError (Some e))), w') | r \<Rightarrow> r)"

text \<open>
  A list returns the options too: they are behind a pointer, and a store may add conditions to them that
  the stores around it then apply. Reading the conditions of a nil pointer panics.
\<close>

type_synonym listing = "gdata list \<times> query_options option"

definition add_conditions :: "query_condition list \<Rightarrow> query_options option \<Rightarrow> query_options option res" where
  "add_conditions cs opt = (case opt of None \<Rightarrow> Panic | Some o1 \<Rightarrow> Ok (Some (o1\<lparr>Conditions := Conditions o1 @ cs\<rparr>)))"

subsection \<open>Sub types\<close>

definition sub_kind :: "string \<Rightarrow> string" where
  "sub_kind t = Uncapitalize (case str_index t ''namespaced'' of None \<Rightarrow> t | Some i \<Rightarrow> take i t @ drop (i + length ''namespaced'') t)"

definition subtype_Create :: "string \<Rightarrow> gdata \<Rightarrow> (gdata \<Rightarrow> ('w, gdata) act) \<Rightarrow> ('w, gdata) act" where
  "subtype_Create t d inner = inner (map_option (mset_key ''kind'' (VStr t)) d)"

definition subtype_Update :: "string \<Rightarrow> gdata \<Rightarrow> (gdata \<Rightarrow> ('w, gdata) act) \<Rightarrow> ('w, gdata) act" where
  "subtype_Update t d inner = inner (map_option (\<lambda>m. mset_key ''type'' (VStr (sub_kind t)) (mset_key ''kind'' (VStr (sub_kind t)) m)) d)"

definition subtype_List :: "string \<Rightarrow> query_options option \<Rightarrow> (query_options option \<Rightarrow> ('w, 'a) act) \<Rightarrow> ('w, 'a) act" where
  "subtype_List t opt inner = abind (alift (add_conditions [NewConditionFromString ''type'' ModifierEQ [t]] opt)) inner"

definition subtype_Watch :: "string \<Rightarrow> query_options option \<Rightarrow> (query_options option \<Rightarrow> ('w, 'a) act) \<Rightarrow> ('w, 'a) act" where
  "subtype_Watch t opt inner = abind (alift (add_conditions [NewConditionFromString ''type'' ModifierEQ [t]] opt)) inner"

subsection \<open>Transformers\<close>

definition transform_ByID :: "TransformerFunc option \<Rightarrow> APIContext \<Rightarrow> Schema \<Rightarrow> string \<Rightarrow> ('w, gdata) act \<Rightarrow> ('w, gdata) act" where
  "transform_ByID f x schema i inner =
     abind inner (\<lambda>d.
       case f of
         None \<Rightarrow> areturn d
       | Some tr \<Rightarrow>
           abind (alift (tr x schema d (Some (no_options\<lparr>QOptions := [(''ByID'', ''true'')]\<rparr>)))) (\<lambda>obj.
             if obj = None then alift (Err (NewAPIError NotFound (i @ '' not found''))) else areturn obj))"

definition transform_items :: "TransformerFunc \<Rightarrow> APIContext \<Rightarrow> Schema \<Rightarrow> query_options option \<Rightarrow> gdata list \<Rightarrow> gdata list res" where
  "transform_items tr x schema opt ds =
     rfold (\<lambda>d result. rbind (tr x schema d opt) (\<lambda>d'. Ok (if d' = None then result else result @ [d']))) ds []"

definition transform_List :: "TransformerFunc option \<Rightarrow> ListTransformerFunc option \<Rightarrow> APIContext \<Rightarrow> Schema \<Rightarrow> ('w, listing) act \<Rightarrow> ('w, listing) act" where
  "transform_List f lf x schema inner =
     abind inner (\<lambda>(ds, opt).
       case lf of
         Some ltr \<Rightarrow> abind (alift (ltr x schema ds opt)) (\<lambda>r. areturn (r, opt))
       | None \<Rightarrow>
           (case f of
              None \<Rightarrow> areturn (ds, opt)
            | Some tr \<Rightarrow> abind (alift (transform_items tr x schema opt ds)) (\<lambda>r. areturn (r, opt))))"

definition transformed :: "TransformerFunc option \<Rightarrow> APIContext \<Rightarrow> Schema \<Rightarrow> gdata \<Rightarrow> gdata res" where
  "transformed f x schema d = (case f of None \<Rightarrow> Ok d | Some tr \<Rightarrow> tr x schema d None)"

definition transform_Create :: "TransformerFunc option \<Rightarrow> APIContext \<Rightarrow> Schema \<Rightarrow> ('w, gdata) act \<Rightarrow> ('w, gdata) act" where
  "transform_Create f x schema inner = abind inner (\<lambda>d. alift (transformed f x schema d))"

definition transform_Update :: "TransformerFunc option \<Rightarrow> APIContext \<Rightarrow> Schema \<Rightarrow> ('w, gdata) act \<Rightarrow> ('w, gdata) act" where
  "transform_Update f x schema inner = abind inner (\<lambda>d. alift (transformed f x schema d))"

text \<open>Unlike the other operations, \<^verbatim>\<open>Delete\<close> and \<^verbatim>\<open>Watch\<close> call a nil transformer.\<close>

definition transform_Delete :: "TransformerFunc option \<Rightarrow> APIContext \<Rightarrow> Schema \<Rightarrow> ('w, gdata) act \<Rightarrow> ('w, gdata) act" where
  "transform_Delete f x schema inner =
     abind inner (\<lambda>obj.
       if obj = None then areturn None
       else case f of None \<Rightarrow> alift Panic | Some tr \<Rightarrow> alift (tr x schema obj None))"

definition transform_Watch :: "TransformerFunc option \<Rightarrow> StreamTransformerFunc option \<Rightarrow> APIContext \<Rightarrow> Schema \<Rightarrow> query_options option
    \<Rightarrow> ('w, gdata list option) act \<Rightarrow> ('w, gdata list option) act" where
  "transform_Watch f sf x schema opt inner =
     abind inner (\<lambda>c.
       case sf of
         Some g \<Rightarrow> alift (g x schema c opt)
       | None \<Rightarrow> alift (Chan c (\<lambda>d. case f of
                   None \<Rightarrow> Panic
                 | Some tr \<Rightarrow> (case tr x schema d opt of Err _ \<Rightarrow> Ok None | r \<Rightarrow> r))))"

subsection \<open>The wrapper of every store\<close>

definition ctx_conditions :: "APIContext \<Rightarrow> Schema \<Rightarrow> query_options" where
  "ctx_conditions x schema = no_options\<lparr>Conditions := SubContext_Query x schema\<rparr>"

definition wrapper_ByID :: "'w env \<Rightarrow> APIContext \<Rightarrow> Schema \<Rightarrow> ('w, gdata) act \<Rightarrow> ('w, gdata) act" where
  "wrapper_ByID E x schema inner =
     abind inner (\<lambda>d. alift (FilterObject (sort_slice E) (ctx_conditions x schema) schema d))"

definition wrapper_List :: "'w env \<Rightarrow> APIContext \<Rightarrow> Schema \<Rightarrow> query_options option \<Rightarrow> (query_options option \<Rightarrow> ('w, listing) act) \<Rightarrow> ('w, listing) act" where
  "wrapper_List E x schema opt inner =
     abind (alift (add_conditions (SubContext_Query x schema) opt)) (\<lambda>opt1.
     abind (inner opt1) (\<lambda>(ds, opt2).
       case opt2 of
         None \<Rightarrow> alift Panic
       | Some o2 \<Rightarrow>
           abind (alift (FilterList (sort_slice E) o2 schema ds)) (\<lambda>(r, page). areturn (r, Some (o2\<lparr>Pagination := page\<rparr>)))))"

definition wrapper_Watch :: "'w env \<Rightarrow> APIContext \<Rightarrow> Schema \<Rightarrow> ('w, gdata list option) act \<Rightarrow> ('w, gdata list option) act" where
  "wrapper_Watch E x schema inner =
     abind inner (\<lambda>c. alift (Chan c (\<lambda>d. FilterObject (sort_slice E) (ctx_conditions x schema) schema d)))"

definition with_attributes :: "APIContext \<Rightarrow> Schema \<Rightarrow> gdata \<Rightarrow> gdata" where
  "with_attributes x schema d =
     (if SubContext_Create x schema = [] then d
      else Some (put_all (SubContext_Create x schema) (mentries d)))"

definition wrapper_Create :: "APIContext \<Rightarrow> Schema \<Rightarrow> gdata \<Rightarrow> (gdata \<Rightarrow> ('w, gdata) act) \<Rightarrow> ('w, gdata) act" where
  "wrapper_Create x schema d inner = inner (with_attributes x schema d)"

section \<open>The methods of a store\<close>

fun st_Context :: "store \<Rightarrow> string" where
  "st_Context EmptyStore = []"
| "st_Context SchemaStore = []"
| "st_Context (APIRootStore roots) = []"
| "st_Context (ProxyStore p) = storageContext p"
| "st_Context (ErrorStore s) = st_Context s"
| "st_Context (SubTypeStore t s) = st_Context s"
| "st_Context (TransformStore s f lf sf) = st_Context s"
| "st_Context (StoreWrapper s) = st_Context s"

fun st_ByID :: "'w env \<Rightarrow> store \<Rightarrow> APIContext \<Rightarrow> Schema \<Rightarrow> string \<Rightarrow> ('w, gdata) act" where
  "st_ByID E EmptyStore x schema i = areturn None"
| "st_ByID E SchemaStore x schema i = alift (schema_ByID E x i)"
| "st_ByID E (APIRootStore roots) x schema i = areturn (root_ByID x i)"
| "st_ByID E (ProxyStore p) x schema i = proxy_byID E p x schema i True"
| "st_ByID E (ErrorStore s) x schema i = translated (st_ByID E s x schema i)"
| "st_ByID E (SubTypeStore t s) x schema i = st_ByID E s x schema i"
| "st_ByID E (TransformStore s f lf sf) x schema i = transform_ByID f x schema i (st_ByID E s x schema i)"
| "st_ByID E (StoreWrapper s) x schema i = wrapper_ByID E x schema (st_ByID E s x schema i)"

fun st_List :: "'w env \<Rightarrow> store \<Rightarrow> APIContext \<Rightarrow> Schema \<Rightarrow> query_options option \<Rightarrow> ('w, listing) act" where
  "st_List E EmptyStore x schema opt = areturn ([], opt)"
| "st_List E SchemaStore x schema opt =
     abind (alift (case schema_List E x of Some r \<Rightarrow> r | None \<Rightarrow> Panic)) (\<lambda>ds. areturn (ds, opt))"
| "st_List E (APIRootStore roots) x schema opt = areturn (root_List roots x, opt)"
| "st_List E (ProxyStore p) x schema opt = abind (proxy_List E p x schema opt) (\<lambda>ds. areturn (ds, opt))"
| "st_List E (ErrorStore s) x schema opt = translated (st_List E s x schema opt)"
| "st_List E (SubTypeStore t s) x schema opt = subtype_List t opt (st_List E s x schema)"
| "st_List E (TransformStore s f lf sf) x schema opt = transform_List f lf x schema (st_List E s x schema opt)"
| "st_List E (StoreWrapper s) x schema opt = wrapper_List E x schema opt (st_List E s x schema)"

fun st_Create :: "'w env \<Rightarrow> store \<Rightarrow> APIContext \<Rightarrow> Schema \<Rightarrow> gdata \<Rightarrow> ('w, gdata) act" where
  "st_Create E EmptyStore x schema d = areturn None"
| "st_Create E SchemaStore x schema d = areturn None"
| "st_Create E (APIRootStore roots) x schema d = areturn None"
| "st_Create E (ProxyStore p) x schema d = proxy_Create E p x schema d"
| "st_Create E (ErrorStore s) x schema d = translated (st_Create E s x schema d)"
| "st_Create E (SubTypeStore t s) x schema d = subtype_Create t d (st_Create E s x schema)"
| "st_Create E (TransformStore s f lf sf) x schema d = transform_Create f x schema (st_Create E s x schema d)"
| "st_Create E (StoreWrapper s) x schema d = wrapper_Create x schema d (st_Create E s x schema)"

text \<open>\<^verbatim>\<open>validateGet\<close> reads the store of the schema, which is the wrapper itself once the schema is set up.\<close>

definition validateGet :: "'w env \<Rightarrow> APIContext \<Rightarrow> Schema \<Rightarrow> string \<Rightarrow> ('w, unit) act" where
  "validateGet E x schema i =
     (case store_of E schema of
        None \<Rightarrow> areturn ()
      | Some s \<Rightarrow>
          abind (st_ByID E s x schema i) (\<lambda>existing.
          abind (alift (FilterValue (sort_slice E) (ctx_conditions x schema) schema (VMap existing))) (\<lambda>v.
            if v = VNil then alift (Err (NewAPIError NotFound (''failed to find '' @ i))) else areturn ())))"

definition wrapper_Update :: "'w env \<Rightarrow> APIContext \<Rightarrow> Schema \<Rightarrow> string \<Rightarrow> ('w, gdata) act \<Rightarrow> ('w, gdata) act" where
  "wrapper_Update E x schema i inner =
     abind (validateGet E x schema i) (\<lambda>_.
     abind inner (\<lambda>d. alift (FilterObject (sort_slice E) (ctx_conditions x schema) schema d)))"

definition wrapper_Delete :: "'w env \<Rightarrow> APIContext \<Rightarrow> Schema \<Rightarrow> string \<Rightarrow> ('w, gdata) act \<Rightarrow> ('w, gdata) act" where
  "wrapper_Delete E x schema i inner = abind (validateGet E x schema i) (\<lambda>_. inner)"

fun st_Update :: "'w env \<Rightarrow> store \<Rightarrow> APIContext \<Rightarrow> Schema \<Rightarrow> gdata \<Rightarrow> string \<Rightarrow> ('w, gdata) act" where
  "st_Update E EmptyStore x schema d i = areturn None"
| "st_Update E SchemaStore x schema d i = areturn None"
| "st_Update E (APIRootStore roots) x schema d i = areturn None"
| "st_Update E (ProxyStore p) x schema d i = proxy_Update E p x schema d i"
| "st_Update E (ErrorStore s) x schema d i = translated (st_Update E s x schema d i)"
| "st_Update E (SubTypeStore t s) x schema d i = subtype_Update t d (\<lambda>d'. st_Update E s x schema d' i)"
| "st_Update E (TransformStore s f lf sf) x schema d i = transform_Update f x schema (st_Update E s x schema d i)"
| "st_Update E (StoreWrapper s) x schema d i = wrapper_Update E x schema i (st_Update E s x schema d i)"

fun st_Delete :: "'w env \<Rightarrow> store \<Rightarrow> APIContext \<Rightarrow> Schema \<Rightarrow> string \<Rightarrow> ('w, gdata) act" where
  "st_Delete E EmptyStore x schema i = areturn None"
| "st_Delete E SchemaStore x schema i = areturn None"
| "st_Delete E (APIRootStore roots) x schema i = areturn None"
| "st_Delete E (ProxyStore p) x schema i = proxy_Delete E p x schema i"
| "st_Delete E (ErrorStore s) x schema i = translated (st_Delete E s x schema i)"
| "st_Delete E (SubTypeStore t s) x schema i = st_Delete E s x schema i"
| "st_Delete E (TransformStore s f lf sf) x schema i = transform_Delete f x schema (st_Delete E s x schema i)"
| "st_Delete E (StoreWrapper s) x schema i = wrapper_Delete E x schema i (st_Delete E s x schema i)"

fun st_Watch :: "'w env \<Rightarrow> store \<Rightarrow> APIContext \<Rightarrow> Schema \<Rightarrow> query_options option \<Rightarrow> ('w, gdata list option) act" where
  "st_Watch E EmptyStore x schema opt = areturn None"
| "st_Watch E SchemaStore x schema opt = areturn None"
| "st_Watch E (APIRootStore roots) x schema opt = areturn None"
| "st_Watch E (ProxyStore p) x schema opt = proxy_Watch E p x schema"
| "st_Watch E (ErrorStore s) x schema opt = translated (st_Watch E s x schema opt)"
| "st_Watch E (SubTypeStore t s) x schema opt = subtype_Watch t opt (st_Watch E s x schema)"
| "st_Watch E (TransformStore s f lf sf) x schema opt = transform_Watch f sf x schema opt (st_Watch E s x schema opt)"
| "st_Watch E (StoreWrapper s) x schema opt = wrapper_Watch E x schema (st_Watch E s x schema opt)"

end
