(* ===== verification/StoreLaws.thy ===== *)
theory StoreLaws
  imports Stores QueryLaws RequestLaws
begin

text \<open>
  What the stores guarantee, and what the store wrapper does not: the list of schemas is found with the fuel
  it is given and has every schema once, and an object outside the sub context of a request is hidden from
  reads but not protected from updates and deletes.
\<close>

section \<open>The wrapper and the sub context\<close>

lemma FilterObject_conditions:
  assumes "slice_sort sortSlice" "\<not> list_all (\<lambda>c. Valid c schema d) (Conditions opts)"
  shows "FilterObject sortSlice opts schema d = Ok None"
proof -
  have "sortSlice (sort_less (Sort opts)) [] = []"
    using slice_sort.same_elements[OF assms(1), of "sort_less (Sort opts)" "[]"] by simp
  thus ?thesis
    using assms(2) by (simp add: FilterObject_def QueryFilter_def ApplyQueryOptions_def ApplySort_def ApplyPagination_def ApplyQueryConditions_def)
qed

lemma FilterValue_map:
  "\<exists>r. FilterValue sortSlice opts schema (VMap d) = Ok (VMap r)"
  by (auto simp: FilterValue_def FilterObject_def QueryFilter_def ApplyQueryOptions_def ApplyPagination_def split: list.splits)

lemma FilterObject_ok: "\<exists>r. FilterObject sortSlice opts schema d = Ok r"
  by (auto simp: FilterObject_def QueryFilter_def ApplyQueryOptions_def ApplyPagination_def)

lemma validateGet_passes:
  assumes "store_of E schema = Some (StoreWrapper s)" "st_ByID E s x schema i w = (Ok d, w1)"
  shows "validateGet E x schema i w = (Ok (), w1)"
proof -
  obtain r where r: "FilterObject (sort_slice E) (ctx_conditions x schema) schema d = Ok r" using FilterObject_ok by blast
  obtain v where v: "FilterValue (sort_slice E) (ctx_conditions x schema) schema (VMap r) = Ok (VMap v)" using FilterValue_map by blast
  show ?thesis using assms r v by (simp add: validateGet_def wrapper_ByID_def abind_def alift_def areturn_def)
qed

text \<open>C33. The sub context of a request does not protect what it hides. For an object that does not meet the conditions of the
  sub context, the wrapper gives nil when it is read, but an update and a delete reach the inner store: the check
  compares with nil the interface that holds the nil map of the filtered object, which is never nil.\<close>

theorem sub_context_not_protected:
  assumes "slice_sort (sort_slice E)" "store_of E schema = Some (StoreWrapper s)" "st_ByID E s x schema i w = (Ok d, w1)"
    and "\<not> list_all (\<lambda>c. Valid c schema d) (SubContext_Query x schema)"
  shows "st_ByID E (StoreWrapper s) x schema i w = (Ok None, w1)
    \<and> st_Delete E (StoreWrapper s) x schema i w = st_Delete E s x schema i w1
    \<and> snd (st_Update E (StoreWrapper s) x schema new i w) = snd (st_Update E s x schema new i w1)"
proof (intro conjI)
  have "FilterObject (sort_slice E) (ctx_conditions x schema) schema d = Ok None"
    by (rule FilterObject_conditions[OF assms(1)]) (simp add: ctx_conditions_def assms(4))
  thus "st_ByID E (StoreWrapper s) x schema i w = (Ok None, w1)"
    using assms(3) by (simp add: wrapper_ByID_def abind_def alift_def)
  note ok = validateGet_passes[OF assms(2,3)]
  show "st_Delete E (StoreWrapper s) x schema i w = st_Delete E s x schema i w1"
    by (simp add: wrapper_Delete_def abind_def ok)
  show "snd (st_Update E (StoreWrapper s) x schema new i w) = snd (st_Update E s x schema new i w1)"
    by (auto simp: wrapper_Update_def abind_def ok alift_def split: prod.splits res.splits)
qed

text \<open>A Kubernetes server whose only object belongs to the project \<^verbatim>\<open>p2\<close>, and which logs the requests it gets.\<close>

definition foreign_pod :: gdata where
  "foreign_pod = Some [(''id'', VStr ''pod1''), (''projectId'', VStr ''p2'')]"

definition sample_proxy :: proxy where
  "sample_proxy = \<lparr>clientGetter = (\<lambda>x ctx. Ok 0), storageContext = [], pPrefix = [''api''], pGroup = [], pStoreVersion = ''v1'', pKind = ''Pod'',
     resourcePlural = ''pods'', authContext = []\<rparr>"

definition sample_env :: "string list env" where
  "sample_env = \<lparr>kdo = (\<lambda>c r w. (Ok foreign_pod, w @ [qVerb r])), klist = (\<lambda>c r w. (Ok [foreign_pod], w)), kwatch = (\<lambda>c r w. (Ok [], w)),
     k_IsConflict = (\<lambda>e. False), GetResourceVersion = (\<lambda>d. ''1''), rand_string = (\<lambda>w. (''abcde'', w)), schema_json = (\<lambda>s. Ok None),
     access = AllAccess, sort_slice = insertion_sort,
     mapper_codecs = \<lparr>json_marshal = (\<lambda>_. None), json_map = (\<lambda>_. None), json_list = (\<lambda>_. None), b64_encode = id, b64_decode = id\<rparr>,
     store_of = (\<lambda>s. Some (StoreWrapper (ProxyStore sample_proxy)))\<rparr>"

definition project_context :: APIContext where
  "project_context = (NewAPIContext (sample_request ''/v3/projects/p1/pods/pod1'') sample_sub_registry)
     \<lparr>xSubContext := [(''/v3/schemas/project'', ''p1'')], xSchema := Some sample_sub_pod\<rparr>"

theorem sub_context_not_protected_witness:
  "st_ByID sample_env (StoreWrapper (ProxyStore sample_proxy)) project_context sample_sub_pod ''pod1'' [] = (Ok None, [''GET''])
   \<and> snd (st_Delete sample_env (StoreWrapper (ProxyStore sample_proxy)) project_context sample_sub_pod ''pod1'' []) = [''GET'', ''DELETE'', ''GET'']"
proof -
  let ?s = "ProxyStore sample_proxy"
  have get: "st_ByID sample_env ?s project_context sample_sub_pod ''pod1'' [] = (Ok foreign_pod, [''GET''])"
    by code_simp
  have out: "\<not> list_all (\<lambda>c. Valid c sample_sub_pod foreign_pod) (SubContext_Query project_context sample_sub_pod)"
    by code_simp
  have env: "slice_sort (sort_slice sample_env)" "store_of sample_env sample_sub_pod = Some (StoreWrapper ?s)"
    using insertion.slice_sort_axioms by (simp_all add: sample_env_def)
  have "snd (st_Delete sample_env ?s project_context sample_sub_pod ''pod1'' [''GET'']) = [''GET'', ''DELETE'', ''GET'']"
    by code_simp
  with sub_context_not_protected[OF env get out] show ?thesis by simp
qed

section \<open>Listing the schemas\<close>

text \<open>From one state of \<^verbatim>\<open>addSchema\<close> to a later one: schemas that were not marked have been marked and added, each once.\<close>

definition adds :: "string list \<times> Schema list \<Rightarrow> string list \<times> Schema list \<Rightarrow> bool" where
  "adds st st' \<longleftrightarrow> (\<exists>new. snd st' = snd st @ new \<and> distinct (map ID new) \<and> ID ` set new \<subseteq> set (fst st') - set (fst st) \<and> set (fst st) \<subseteq> set (fst st'))"

lemma adds_refl [simp]: "adds st st"
  by (simp add: adds_def)

lemma adds_trans: "adds st1 st2 \<Longrightarrow> adds st2 st3 \<Longrightarrow> adds st1 st3"
proof -
  assume "adds st1 st2" "adds st2 st3"
  then obtain n1 n2 where n: "snd st2 = snd st1 @ n1" "distinct (map ID n1)" "ID ` set n1 \<subseteq> set (fst st2) - set (fst st1)" "set (fst st1) \<subseteq> set (fst st2)"
    "snd st3 = snd st2 @ n2" "distinct (map ID n2)" "ID ` set n2 \<subseteq> set (fst st3) - set (fst st2)" "set (fst st2) \<subseteq> set (fst st3)"
    by (auto simp: adds_def)
  then have "snd st3 = snd st1 @ (n1 @ n2) \<and> distinct (map ID (n1 @ n2)) \<and> ID ` set (n1 @ n2) \<subseteq> set (fst st3) - set (fst st1) \<and> set (fst st1) \<subseteq> set (fst st3)"
    by auto
  thus ?thesis unfolding adds_def by blast
qed

text \<open>A map of schemas by their names.\<close>

definition by_name :: "(string \<times> Schema) list \<Rightarrow> bool" where
  "by_name ss \<longleftrightarrow> list_all (\<lambda>(k, s). ID s = k) ss"

definition unmarked :: "(string \<times> Schema) list \<Rightarrow> string list \<Rightarrow> nat" where
  "unmarked ss m = card (fst ` set ss - set m)"

lemma unmarked_less: "k \<in> fst ` set ss \<Longrightarrow> k \<notin> set m \<Longrightarrow> insert k (set m) \<subseteq> set m' \<Longrightarrow> unmarked ss m' < unmarked ss m"
  unfolding unmarked_def by (intro psubset_card_mono) auto

lemma unmarked_mono: "set m \<subseteq> set m' \<Longrightarrow> unmarked ss m' \<le> unmarked ss m"
  unfolding unmarked_def by (intro card_mono) auto

lemma by_name_lookup: "by_name ss \<Longrightarrow> map_of ss t = Some s \<Longrightarrow> ID s = t \<and> t \<in> fst ` set ss"
  by (drule map_of_SomeD) (force simp: by_name_def list_all_iff)

lemma fold_adds:
  assumes "\<And>y st. y \<in> set ys \<Longrightarrow> adds st0 st \<Longrightarrow> \<exists>st'. f y (Some st) = Some st' \<and> adds st st'"
  shows "\<exists>st. fold f ys (Some st0) = Some st \<and> adds st0 st"
  using assms
proof (induction ys arbitrary: st0)
  case (Cons y ys)
  from Cons.prems[of y st0] obtain st1 where st1: "f y (Some st0) = Some st1" "adds st0 st1" by auto
  have "\<exists>st. fold f ys (Some st1) = Some st \<and> adds st1 st"
    by (rule Cons.IH) (use Cons.prems adds_trans[OF st1(2)] in auto)
  thus ?case using st1 adds_trans[OF st1(2)] by auto
qed simp

lemma addSchema_adds:
  assumes "by_name ss" "ID s \<in> fst ` set ss" "ID s \<notin> set marked" "unmarked ss marked \<le> n"
  shows "\<exists>st. addSchema n ss s (marked, added) = Some st \<and> adds (marked, added) st \<and> ID s \<in> set (fst st)"
  using assms(2-)
proof (induction n arbitrary: s marked added)
  case 0
  then have "unmarked ss (ID s # marked) < 0" using unmarked_less[of "ID s" ss marked "ID s # marked"] by simp
  thus ?case by simp
next
  case (Suc n)
  let ?st0 = "(ID s # marked, added)"
  have less: "unmarked ss (ID s # marked) \<le> n" using unmarked_less[of "ID s" ss marked "ID s # marked"] Suc.prems by simp
  let ?f = "\<lambda>t st. case st of None \<Rightarrow> None | Some (m, a) \<Rightarrow>
                  (case map_of ss t of Some s' \<Rightarrow> if t \<in> set m then st else addSchema n ss s' (m, a) | None \<Rightarrow> st)"
  have "\<exists>st. fold ?f (named_types s) (Some ?st0) = Some st \<and> adds ?st0 st"
  proof (rule fold_adds)
    fix t st assume "t \<in> set (named_types s)" and st: "adds ?st0 st"
    obtain m a where ma: "st = (m, a)" by (cases st)
    then have "set (ID s # marked) \<subseteq> set m" using st by (auto simp: adds_def)
    then have um: "unmarked ss m \<le> n" using unmarked_mono[of "ID s # marked" m ss] less by simp
    show "\<exists>st'. ?f t (Some st) = Some st' \<and> adds st st'"
    proof (cases "map_of ss t")
      case (Some s')
      note nm = by_name_lookup[OF assms(1) Some]
      show ?thesis
      proof (cases "t \<in> set m")
        case False
        with Suc.IH[of s' m a] nm um show ?thesis using Some ma by auto
      qed (use Some ma in simp)
    qed (use ma in simp)
  qed
  then obtain m a where f: "fold ?f (named_types s) (Some ?st0) = Some (m, a)" and st: "adds ?st0 (m, a)" by auto
  from st obtain new where new: "a = added @ new" "distinct (map ID new)" "ID ` set new \<subseteq> set m - set (ID s # marked)" "set (ID s # marked) \<subseteq> set m"
    by (auto simp: adds_def)
  have "snd (m, a @ [s]) = snd (marked, added) @ (new @ [s]) \<and> distinct (map ID (new @ [s]))
      \<and> ID ` set (new @ [s]) \<subseteq> set (fst (m, a @ [s])) - set (fst (marked, added)) \<and> set (fst (marked, added)) \<subseteq> set (fst (m, a @ [s]))"
    using new Suc.prems by auto
  then have "adds (marked, added) (m, a @ [s])" unfolding adds_def by blast
  thus ?case using f new(4) by simp
qed

text \<open>C30. Listing the schemas ends: one call more than there are schemas is enough fuel, however the types of the schemas name
  each other. No schema is listed twice.\<close>

theorem list_schemas_once:
  assumes "list_all (\<lambda>(k, s). ID s = k) ss"
  shows "\<exists>m a. list_schemas (Suc (length ss)) A x ss = Some (m, a) \<and> distinct (map ID a)"
proof -
  have nm: "by_name ss" using assms by (simp add: by_name_def)
  let ?f = "\<lambda>(k, s) st. case st of None \<Rightarrow> None | Some (m, a) \<Rightarrow>
      if ID s \<in> set m then st else if acCanList A x s = None \<or> acCanGet A x s = None then addSchema (Suc (length ss)) ss s (m, a) else st"
  have "\<exists>st. fold ?f ss (Some ([], [])) = Some st \<and> adds ([], []) st"
  proof (rule fold_adds)
    fix y st assume y: "y \<in> set ss" and "adds ([], []) st"
    obtain k s m a where ks: "y = (k, s)" "st = (m, a)" by (cases y; cases st) simp
    then have ID: "ID s \<in> fst ` set ss" using y assms by (force simp: list_all_iff)
    have "unmarked ss m \<le> card (fst ` set ss)" unfolding unmarked_def by (intro card_mono) auto
    also have "\<dots> \<le> length ss" using card_length[of "map fst ss"] by simp
    finally have "unmarked ss m \<le> Suc (length ss)" by simp
    then have "ID s \<notin> set m \<Longrightarrow> \<exists>st'. addSchema (Suc (length ss)) ss s (m, a) = Some st' \<and> adds (m, a) st'"
      using addSchema_adds[OF nm ID, of m "Suc (length ss)" a] by blast
    thus "\<exists>st'. ?f y (Some st) = Some st' \<and> adds st st'" using ks by auto
  qed
  then obtain m a where "fold ?f ss (Some ([], [])) = Some (m, a)" "adds ([], []) (m, a)" by auto
  thus ?thesis by (auto simp: list_schemas_def adds_def)
qed

theorem list_schemas_once_witness:
  "\<exists>m a. list_schemas 2 AllAccess project_context [(''pod'', sample_pod)] = Some (m, a) \<and> distinct (map ID a)"
  using list_schemas_once[of "[(''pod'', sample_pod)]" AllAccess project_context] by (simp add: numeral_2_eq_2)

end
