(* ===== verification/Server.thy ===== *)
theory Server
  imports Stores
begin

text \<open>
  The API server: the checks of \<^verbatim>\<open>api/validate.go\<close>, the handlers of \<^verbatim>\<open>api/handler\<close>, the response writer of
  \<^verbatim>\<open>api/writer\<close>, the formatters of \<^verbatim>\<open>api/builtin\<close>, the access helpers of \<^verbatim>\<open>api/access\<close>, the error handler of
  \<^verbatim>\<open>httperror/handler\<close> and the dispatch of \<^verbatim>\<open>api/server.go\<close>.

  The function fields of a schema (handlers, formatters, validator) are a record of their own, looked up by
  schema in the configuration of the server.
\<close>

section \<open>Collections\<close>

datatype out_item = OutResource RawResource | OutValue gval

record collection =
  clType :: string
  clResourceType :: string
  clCreateTypes :: "(string \<times> string) list"
  clLinks :: "(string \<times> string) list"
  clActions :: "(string \<times> string) list"
  clPagination :: "pagination option"
  clSort :: sort_opts
  clReverse :: string
  clSortLinks :: "(string \<times> string) list"
  clFilters :: "(string \<times> condition list) list"
  clData :: "out_item list"

section \<open>Configuration\<close>

text \<open>A reply is a call of \<^verbatim>\<open>WriteResponse\<close>: the context as it is then, a status and an object.\<close>

type_synonym reply = "APIContext \<times> int \<times> gval"
type_synonym 'w handle_fn = "APIContext \<Rightarrow> ('w, reply list) act"
type_synonym 'w RequestHandler = "APIContext \<Rightarrow> 'w handle_fn option \<Rightarrow> ('w, reply list) act"
type_synonym 'w ActionHandler = "string \<Rightarrow> action \<Rightarrow> APIContext \<Rightarrow> ('w, reply list) act"

record 'w handlers =
  hActionHandler :: "'w ActionHandler option"
  hLinkHandler :: "'w RequestHandler option"
  hListHandler :: "'w RequestHandler option"
  hCreateHandler :: "'w RequestHandler option"
  hDeleteHandler :: "'w RequestHandler option"
  hUpdateHandler :: "'w RequestHandler option"
  hErrorHandler :: "(APIContext \<Rightarrow> err \<Rightarrow> reply list) option"
  hInputFormatter :: "(APIContext \<Rightarrow> Schema \<Rightarrow> gdata \<Rightarrow> bool \<Rightarrow> gdata res) option"
  hFormatter :: "(APIContext \<Rightarrow> RawResource \<Rightarrow> RawResource) option"
  hCollectionFormatter :: "(APIContext \<Rightarrow> collection \<Rightarrow> collection) option"
  hValidator :: "(APIContext \<Rightarrow> Schema \<Rightarrow> gdata \<Rightarrow> err option) option"
  hStore :: "store option"

record 'w api_server = "'w env" +
  handlers_of :: "Schema \<Rightarrow> 'w handlers"
  defaults :: "'w handlers"
  store_wrapper :: "(store \<Rightarrow> store) option"
  url_parse :: "string \<Rightarrow> (string \<times> string) res"
  url_parser_of :: url_parser
  resolver_of :: resolver
  ref_validate :: "(string \<Rightarrow> string \<Rightarrow> bool) option"
  ref_lookup :: "(string \<Rightarrow> string \<Rightarrow> RawResource option) option"
  dns1123 :: "string \<Rightarrow> string list"
  dns1035 :: "string \<Rightarrow> string list"
  dns_subdomain :: "string \<Rightarrow> string list"
  build_fuel :: nat

definition or_default :: "'a option \<Rightarrow> 'a option \<Rightarrow> 'a option" where
  "or_default a b = (case a of None \<Rightarrow> b | Some _ \<Rightarrow> a)"

definition server_setupDefaults :: "'w handlers \<Rightarrow> (store \<Rightarrow> store) option \<Rightarrow> 'w handlers \<Rightarrow> 'w handlers" where
  "server_setupDefaults D wrap h =
     (let st = or_default (hStore h) (hStore D)
      in h\<lparr>hActionHandler := or_default (hActionHandler h) (hActionHandler D),
           hListHandler := or_default (hListHandler h) (hListHandler D),
           hLinkHandler := or_default (hLinkHandler h) (hLinkHandler D),
           hCreateHandler := or_default (hCreateHandler h) (hCreateHandler D),
           hUpdateHandler := or_default (hUpdateHandler h) (hUpdateHandler D),
           hDeleteHandler := or_default (hDeleteHandler h) (hDeleteHandler D),
           hErrorHandler := or_default (hErrorHandler h) (hErrorHandler D),
           hStore := (case (st, wrap) of (Some s, Some f) \<Rightarrow> Some (f s) | _ \<Rightarrow> st)\<rparr>)"

section \<open>Building objects\<close>

definition NewBuilder :: "('w, 'z) api_server_scheme \<Rightarrow> APIContext \<Rightarrow> builder" where
  "NewBuilder S x =
     \<lparr>bVersion = xVersion x, bSchemas = xSchemas x, RefValidator = ref_validate S, edit = (Option x ''edit'' = ''true''),
      export = (Option x ''export'' = ''true''),
      Validator = (\<lambda>schema. map_option (\<lambda>v d. v x schema d) (hValidator (handlers_of S schema))),
      IsDNS1123Label = dns1123 S, IsDNS1035Label = dns1035 S, IsDNS1123Subdomain = dns_subdomain S\<rparr>"

text \<open>Running out of fuel stands for a recursion that does not end, which Go stops with a panic.\<close>

definition construct :: "('w, 'z) api_server_scheme \<Rightarrow> builder \<Rightarrow> Schema \<Rightarrow> gdata \<Rightarrow> Operation \<Rightarrow> gdata res" where
  "construct S b schema d op = (case Construct (build_fuel S) b schema d op of Some r \<Rightarrow> r | None \<Rightarrow> Panic)"

definition ParseAndValidateBody :: "('w, 'z) api_server_scheme \<Rightarrow> APIContext \<Rightarrow> Schema \<Rightarrow> bool \<Rightarrow> gdata res" where
  "ParseAndValidateBody S x schema create =
     rbind (Body (xRequest x)) (\<lambda>d0.
     let d1 = (if create then with_attributes x schema d0 else d0) in
     rbind (case hInputFormatter (handlers_of S schema) of None \<Rightarrow> Ok d1 | Some f \<Rightarrow> f x schema d1 create) (\<lambda>d2.
       construct S (NewBuilder S x) schema d2 (if create then OpCreate else OpUpdate)))"

definition ParseAndValidateActionBody :: "('w, 'z) api_server_scheme \<Rightarrow> APIContext \<Rightarrow> Schema \<Rightarrow> gdata res" where
  "ParseAndValidateActionBody S x schema = rbind (Body (xRequest x)) (\<lambda>d. construct S (NewBuilder S x) schema d OpCreate)"

section \<open>The default handlers\<close>

text \<open>A handler reads the schema of the context without a check: with none it panics.\<close>

definition with_schema :: "APIContext \<Rightarrow> (Schema \<Rightarrow> ('w, 'a) act) \<Rightarrow> ('w, 'a) act" where
  "with_schema x f = (case xSchema x of None \<Rightarrow> alift Panic | Some s \<Rightarrow> f s)"

definition with_store :: "('w, 'z) api_server_scheme \<Rightarrow> Schema \<Rightarrow> (store \<Rightarrow> ('w, 'a) act) \<Rightarrow> ('w, 'a) act" where
  "with_store S schema f = (case store_of S schema of None \<Rightarrow> alift (Err (NewAPIError NotFound ''no store found'')) | Some st \<Rightarrow> f st)"

definition env_of :: "('w, 'z) api_server_scheme \<Rightarrow> 'w env" where
  "env_of S = env.truncate S"

definition CreateHandler :: "('w, 'z) api_server_scheme \<Rightarrow> 'w RequestHandler" where
  "CreateHandler S x nxt =
     with_schema x (\<lambda>schema.
     abind (alift (ParseAndValidateBody S x schema True)) (\<lambda>d.
     with_store S schema (\<lambda>st.
     abind (st_Create (env_of S) st x schema d) (\<lambda>d'. areturn [(x, 201, VMap d')]))))"

definition UpdateHandler :: "('w, 'z) api_server_scheme \<Rightarrow> 'w RequestHandler" where
  "UpdateHandler S x nxt =
     with_schema x (\<lambda>schema.
     abind (alift (ParseAndValidateBody S x schema False)) (\<lambda>d.
     with_store S schema (\<lambda>st.
     abind (st_Update (env_of S) st x schema d (xID x)) (\<lambda>d'. areturn [(x, 200, VMap d')]))))"

definition DeleteHandler :: "('w, 'z) api_server_scheme \<Rightarrow> 'w RequestHandler" where
  "DeleteHandler S x nxt =
     with_schema x (\<lambda>schema.
     with_store S schema (\<lambda>st.
     abind (st_Delete (env_of S) st x schema (xID x)) (\<lambda>obj.
       areturn [if obj = None then (x, 204, VNil) else (x, 200, VMap obj)])))"

text \<open>
  The list handler saves the page it parsed on the context, where the writer finds it again after the
  store has filled it in.
\<close>

definition ListHandler :: "('w, 'z) api_server_scheme \<Rightarrow> 'w RequestHandler" where
  "ListHandler S x nxt =
     with_schema x (\<lambda>schema.
     with_store S schema (\<lambda>st.
       if xID x = [] then
         abind (st_List (env_of S) st x schema (Some (QueryOptions (rMethod (xRequest x)) (xPagination x) (xQuery x) schema))) (\<lambda>(ds, opt).
           areturn [(x\<lparr>xPagination := (case opt of None \<Rightarrow> None | Some o1 \<Rightarrow> Pagination o1)\<rparr>, 200, VMaps (map VMap ds))])
       else if xLink x = [] then
         abind (st_ByID (env_of S) st x schema (xID x)) (\<lambda>d. areturn [(x, 200, VMap d)])
       else
         abind (st_ByID (env_of S) st x schema (xID x)) (\<lambda>_.
           case hLinkHandler (handlers_of S schema) of None \<Rightarrow> alift Panic | Some h \<Rightarrow> h x None)))"

definition LinkNotFound :: "'w RequestHandler" where
  "LinkNotFound x nxt = alift (Err (NewAPIError NotFound ''Link not found''))"

section \<open>Checks before the dispatch\<close>

definition ValidateAction :: "('w, 'z) api_server_scheme \<Rightarrow> APIContext \<Rightarrow> action option res" where
  "ValidateAction S x =
     (if xAction x = [] \<or> xLink x \<noteq> [] \<or> xMethod x \<noteq> ''POST'' then Ok None
      else case xSchema x of
             None \<Rightarrow> Panic
           | Some schema \<Rightarrow>
               let invalid = Err (NewAPIError InvalidAction (''Invalid action: '' @ xAction x)) in
               (case map_of (if xID x \<noteq> [] then ResourceActions schema else CollectionActions schema) (xAction x) of
                  None \<Rightarrow> invalid
                | Some a \<Rightarrow>
                    (case ref_lookup S of
                       None \<Rightarrow> Ok (Some a)
                     | Some lookup \<Rightarrow>
                         if xID x = [] then Ok (Some a)
                         else (case lookup (xType x) (xID x) of
                                 None \<Rightarrow> Err (NewAPIError NotFound (''Failed to find type: '' @ xType x @ '' id: '' @ xID x))
                               | Some r \<Rightarrow> if map_of (rrActions r) (xAction x) = None then invalid else Ok (Some a)))))"

text \<open>
  \<^verbatim>\<open>CheckCSRF\<close> gives the cookie that it sets, if any. \<open>token\<close> is the new random token, as hexadecimal digits, or
  the error of \<^verbatim>\<open>rand.Read\<close>. \<^verbatim>\<open>Request.Cookie\<close> has no other error than \<^verbatim>\<open>ErrNoCookie\<close>, so the branch for one is never taken.
\<close>

definition CheckCSRF :: "err + string \<Rightarrow> APIContext \<Rightarrow> string option res" where
  "CheckCSRF token x =
     (if \<not> IsBrowser (xRequest x) False then Ok None
      else case map_of (rCookies (xRequest x)) ''CSRF'' of
             None \<Rightarrow>
               (case token of
                  Inl e \<Rightarrow> Err (WrapAPIError e ServerError ''Failed in CSRF processing'')
                | Inr t \<Rightarrow> Ok (Some t))
           | Some cookie \<Rightarrow>
               if xMethod x \<noteq> ''GET'' \<and> cookie \<noteq> header_get (xRequest x) ''X-API-CSRF''
                  \<and> cookie \<noteq> query_get (uQuery (rURL (xRequest x))) ''CSRF''
               then Err (NewAPIError InvalidCSRFToken ''Invalid CSRF token'')
               else Ok (Some cookie))"

section \<open>Access by the name of a type\<close>

definition access_schema :: "APIContext \<Rightarrow> APIVersion option \<Rightarrow> string \<Rightarrow> Schema res" where
  "access_schema x version typeName =
     (case Schema_of (xSchemas x) version typeName of
        None \<Rightarrow> Err (PlainErr (''failed to find schema '' @ typeName))
      | Some s \<Rightarrow> Ok s)"

definition nonnil_store :: "('w, 'z) api_server_scheme \<Rightarrow> Schema \<Rightarrow> store res" where
  "nonnil_store S schema = (case store_of S schema of None \<Rightarrow> Panic | Some st \<Rightarrow> Ok st)"

text \<open>What the caller gets, before it is decoded into a Go value.\<close>

definition access_Create :: "('w, 'z) api_server_scheme \<Rightarrow> APIContext \<Rightarrow> APIVersion option \<Rightarrow> string \<Rightarrow> gdata \<Rightarrow> ('w, gdata) act" where
  "access_Create S x version typeName d =
     abind (alift (access_schema x version typeName)) (\<lambda>schema.
     abind (alift (nonnil_store S schema)) (\<lambda>st.
     abind (st_Create (env_of S) st x schema d) (\<lambda>item.
     alift (construct S ((NewBuilder S x)\<lparr>bVersion := version\<rparr>) schema item OpList))))"

definition access_ByID :: "('w, 'z) api_server_scheme \<Rightarrow> APIContext \<Rightarrow> APIVersion option \<Rightarrow> string \<Rightarrow> string \<Rightarrow> ('w, gdata) act" where
  "access_ByID S x version typeName i =
     abind (alift (access_schema x version typeName)) (\<lambda>schema.
     abind (alift (nonnil_store S schema)) (\<lambda>st.
     abind (st_ByID (env_of S) st x schema i) (\<lambda>item.
     alift (construct S ((NewBuilder S x)\<lparr>bVersion := version\<rparr>) schema item OpList))))"

definition access_List :: "('w, 'z) api_server_scheme \<Rightarrow> APIContext \<Rightarrow> APIVersion option \<Rightarrow> string \<Rightarrow> query_options option \<Rightarrow> ('w, gdata list) act" where
  "access_List S x version typeName opt =
     abind (alift (access_schema x version typeName)) (\<lambda>schema.
     abind (alift (nonnil_store S schema)) (\<lambda>st.
     abind (st_List (env_of S) st x schema opt) (\<lambda>(items, _).
     alift (rfold (\<lambda>item r. rbind (construct S ((NewBuilder S x)\<lparr>bVersion := version\<rparr>) schema item OpList) (\<lambda>d. Ok (r @ [d]))) items []))))"

section \<open>Writing a response\<close>

definition AddCollectionAction :: "url_builder \<Rightarrow> Schema \<Rightarrow> string \<Rightarrow> collection \<Rightarrow> collection" where
  "AddCollectionAction u schema name c = c\<lparr>clActions := mset_key name (CollectionAction u schema None name) (clActions c)\<rparr>"

definition writer_toString :: "gval \<Rightarrow> string" where
  "writer_toString v = (if v = VNil then [] else sprint v)"

definition back_ref_links :: "('w, 'z) api_server_scheme \<Rightarrow> url_builder \<Rightarrow> APIContext \<Rightarrow> Schema \<Rightarrow> APIVersion option \<Rightarrow> string
    \<Rightarrow> (string \<times> string) list \<Rightarrow> (string \<times> string) list" where
  "back_ref_links S u x schema sub i links =
     fold (\<lambda>(fieldName, ref) links.
        let back = deref (xSchemas x) ref in
        if acCanList (access S) x back \<noteq> None then links
        else mset_key (PluralName back)
               (if sub = None then FilterLink u back fieldName i else SubContextCollection u schema i back) links)
       (References (xSchemas x) schema) links"

definition sub_context_links :: "('w, 'z) api_server_scheme \<Rightarrow> url_builder \<Rightarrow> APIContext \<Rightarrow> Schema \<Rightarrow> APIVersion option \<Rightarrow> string
    \<Rightarrow> (string \<times> string) list \<Rightarrow> (string \<times> string) list" where
  "sub_context_links S u x schema sub i links =
     (case sub of
        None \<Rightarrow> links
      | Some v \<Rightarrow>
          fold (\<lambda>(name, ref) links.
            let s = deref (xSchemas x) ref in
            if acCanList (access S) x s = None then mset_key (PluralName s) (SubContextCollection u schema i s) links else links)
          (SchemasForVersion (xSchemas x) v) links)"

definition addLinks :: "('w, 'z) api_server_scheme \<Rightarrow> url_builder \<Rightarrow> APIContext \<Rightarrow> Schema \<Rightarrow> gdata \<Rightarrow> RawResource \<Rightarrow> RawResource" where
  "addLinks S u x schema input r =
     (if rrID r = [] then r
      else let self = ResourceLink u r;
               l1 = mset_key ''self'' self (rrLinks r);
               l2 = (if acCanUpdate (access S) x input schema = None then mset_key ''update'' self l1 else l1);
               l3 = (if acCanDelete (access S) x input schema = None then mset_key ''remove'' self l2 else l2);
               sub = SubContextVersionForSchema (xSchemas x) schema
           in r\<lparr>rrLinks := sub_context_links S u x schema sub (rrID r) (back_ref_links S u x schema sub (rrID r) l3)\<rparr>)"

definition writer_convert :: "('w, 'z) api_server_scheme \<Rightarrow> url_builder \<Rightarrow> builder \<Rightarrow> APIContext \<Rightarrow> gdata \<Rightarrow> RawResource option res" where
  "writer_convert S u b x input =
     (case Schema_of (xSchemas x) (xVersion x) (GetFullType input) of
        None \<Rightarrow> Ok None
      | Some schema \<Rightarrow>
          (case construct S b schema input (if xMethod x = ''POST'' then OpListForCreate else OpList) of
             Panic \<Rightarrow> Panic
           | Err _ \<Rightarrow> Ok None
           | Ok d \<Rightarrow>
               let r0 = \<lparr>rrID = writer_toString (mget input ''id''), rrType = ID schema, rrSchema = schema, rrLinks = [], rrActions = [],
                         rrValues = d, ActionLinks = (header_get (xRequest x) ''X-API-Action-Links'' \<noteq> []), DropReadOnly = False\<rparr>;
                   r1 = addLinks S u x schema input r0
               in Ok (Some (case hFormatter (handlers_of S schema) of None \<Rightarrow> r1 | Some f \<Rightarrow> f x r1))))"

definition collection_filters :: "query_condition list \<Rightarrow> (string \<times> string list) list \<Rightarrow> (string \<times> condition list) list" where
  "collection_filters conds filters =
     (let f1 = fold (\<lambda>c fs. mset_key (qField c) ((case map_of fs (qField c) of None \<Rightarrow> [] | Some l \<Rightarrow> l) @ [ToCondition c]) fs) conds []
      in fold (\<lambda>(name, _) fs. if map_of fs name = None then mset_key name [] fs else fs) filters f1)"

definition page_links :: "url_builder \<Rightarrow> pagination \<Rightarrow> pagination" where
  "page_links u p =
     (let link = (\<lambda>m. if m \<noteq> [] then MarkerLink u m else m)
      in if Partial p then p\<lparr>PNext := link (PNext p), Previous := link (Previous p), First := link (First p), PLast := link (PLast p)\<rparr>
         else p)"

definition newCollection :: "('w, 'z) api_server_scheme \<Rightarrow> url_builder \<Rightarrow> APIContext \<Rightarrow> Schema \<Rightarrow> collection" where
  "newCollection S u x schema =
     (let opts = QueryOptions (rMethod (xRequest x)) (xPagination x) (xQuery x) schema
      in \<lparr>clType = ''collection'', clResourceType = xType x,
          clCreateTypes = (if xMethod x = ''GET'' \<and> acCanCreate (access S) x schema = None
                           then [(ID schema, CollectionLink u schema (xVersion x))] else []),
          clLinks = [(''self'', requestURL u)], clActions = [],
          clPagination = map_option (page_links u) (Pagination opts),
          clSort = Sort opts, clReverse = ReverseSort u (Order (Sort opts)),
          clSortLinks = fold (\<lambda>(name, _) links.
             (case map_of (ResourceFields schema) name of
                Some f \<Rightarrow> if FType f = ''string'' \<or> FType f = ''enum'' then mset_key name (SortLink u name) links else links
              | None \<Rightarrow> links)) (CollectionFilters schema) [],
          clFilters = collection_filters (Conditions opts) (CollectionFilters schema), clData = []\<rparr>)"

definition format_collection :: "('w, 'z) api_server_scheme \<Rightarrow> APIContext \<Rightarrow> Schema \<Rightarrow> collection \<Rightarrow> collection" where
  "format_collection S x schema c = (case hCollectionFormatter (handlers_of S schema) of None \<Rightarrow> c | Some f \<Rightarrow> f x c)"

definition writeItem :: "('w, 'z) api_server_scheme \<Rightarrow> url_builder \<Rightarrow> builder \<Rightarrow> APIContext \<Rightarrow> gval \<Rightarrow> out_item list \<Rightarrow> out_item list res" where
  "writeItem S u b x v items =
     (case v of
        VMap m \<Rightarrow> rbind (writer_convert S u b x m) (\<lambda>r. Ok (case r of None \<Rightarrow> items | Some res \<Rightarrow> items @ [OutResource res]))
      | _ \<Rightarrow> Ok (items @ [OutValue v]))"

text \<open>\<^verbatim>\<open>writeMapSlice\<close> and \<^verbatim>\<open>writeInterfaceSlice\<close>, which differ in the type of the slice only.\<close>

definition writeSlice :: "('w, 'z) api_server_scheme \<Rightarrow> url_builder \<Rightarrow> builder \<Rightarrow> APIContext \<Rightarrow> gval list \<Rightarrow> collection res" where
  "writeSlice S u b x vs =
     (case xSchema x of
        None \<Rightarrow> Panic
      | Some schema \<Rightarrow>
          rbind (rfold (writeItem S u b x) vs []) (\<lambda>items.
            Ok (format_collection S x schema ((newCollection S u x schema)\<lparr>clData := items\<rparr>))))"

text \<open>
  \<^term>\<open>OutNil\<close> is no body. A resource that can not be converted is a nil pointer, which is not a nil
  interface, and is encoded as \<^verbatim>\<open>null\<close>.
\<close>

datatype written = OutNil | OutNull | OutOne RawResource | OutCollection collection

definition VersionBody :: "('w, 'z) api_server_scheme \<Rightarrow> url_builder \<Rightarrow> APIContext \<Rightarrow> APIVersion option \<Rightarrow> gval \<Rightarrow> written res" where
  "VersionBody S u x version obj =
     (let b = (NewBuilder S x)\<lparr>bVersion := version\<rparr>
      in case obj of
           VList vs \<Rightarrow> rbind (writeSlice S u b x vs) (\<lambda>c. Ok (OutCollection c))
         | VMaps vs \<Rightarrow> rbind (writeSlice S u b x vs) (\<lambda>c. Ok (OutCollection c))
         | VMap m \<Rightarrow> rbind (writer_convert S u b x m) (\<lambda>r. Ok (case r of None \<Rightarrow> OutNull | Some res \<Rightarrow> OutOne res))
         | _ \<Rightarrow> Ok OutNil)"

record http_response =
  wStatus :: int
  wHeader :: "(string \<times> string) list"
  wBody :: written

definition AddCommonResponseHeader :: "url_builder \<Rightarrow> APIContext \<Rightarrow> (string \<times> string) list \<Rightarrow> (string \<times> string) list" where
  "AddCommonResponseHeader u x header =
     (let h1 = mset_key ''Expires'' ''Wed 24 Feb 1982 18:42:00 GMT'' header
      in case Schema_of (xSchemas x) (Some builtin_Version) ''schema'' of
           None \<Rightarrow> h1
         | Some schema \<Rightarrow> mset_key ''X-Api-Schemas'' (CollectionLink u schema (or_default (xSchemasVersion x) (xVersion x))) h1)"

text \<open>
  The writers for JSON, YAML and HTML have the same object in the body; the page around it in HTML and the
  encoders of the libraries are not modelled. The builder of URLs is never nil, as \<open>NewURLBuilder\<close> does
  not fail.
\<close>

definition content_headers :: "string \<Rightarrow> (string \<times> string) list" where
  "content_headers format =
     (if format = ''html'' then [(''Content-Type'', ''text/html''), (''X-Frame-Options'', ''deny'')]
      else if format = ''yaml'' then [(''Content-Type'', ''application/yaml'')]
      else [(''Content-Type'', ''application/json'')])"

text \<open>Headers and status are written before the body is made.\<close>

definition write_start :: "url_builder \<Rightarrow> APIContext \<Rightarrow> int \<Rightarrow> http_response" where
  "write_start u x code =
     \<lparr>wStatus = code, wHeader = put_all (content_headers (xResponseFormat x)) (AddCommonResponseHeader u x []), wBody = OutNil\<rparr>"

text \<open>What a writer has written, and whether it came to its end: a panic in the body leaves the status and the headers.\<close>

definition Write :: "('w, 'z) api_server_scheme \<Rightarrow> reply \<Rightarrow> (http_response \<times> bool) res" where
  "Write S r =
     (case r of (x, code, obj) \<Rightarrow>
        case xURLBuilder x of
          None \<Rightarrow> Panic
        | Some u \<Rightarrow>
          (case VersionBody S u x (xVersion x) obj of
             Ok out \<Rightarrow> Ok ((write_start u x code)\<lparr>wBody := out\<rparr>, True)
           | _ \<Rightarrow> Ok (write_start u x code, False)))"

section \<open>Errors\<close>

definition toError :: "error_code \<Rightarrow> string \<Rightarrow> string \<Rightarrow> (string \<times> gval) list" where
  "toError code message fieldName =
     [(''type'', VStr ''/meta/schemas/error''), (''status'', VGoInt (Status code)), (''code'', VStr (Code code)), (''message'', VStr message)]
     @ (if fieldName \<noteq> [] then [(''fieldName'', VStr fieldName)] else [])"

definition api_ErrorHandler :: "APIContext \<Rightarrow> err \<Rightarrow> reply list" where
  "api_ErrorHandler x e =
     (case e of
        APIError code message cause fieldName \<Rightarrow> [(x, Status code, VMap (Some (toError code message fieldName)))]
      | _ \<Rightarrow> [(x, Status ServerError, VMap (Some (toError ServerError (err_string e) [])))])"

section \<open>Dispatch\<close>

definition parser :: "('w, 'z) api_server_scheme \<Rightarrow> Schemas \<Rightarrow> http_request \<Rightarrow> (APIContext \<times> err option) res" where
  "parser S ss req = Parse (url_parse S) req ss (url_parser_of S) (resolver_of S)"

text \<open>The check, the handler and the handler after it for a method without a link.\<close>

definition method_handler :: "('w, 'z) api_server_scheme \<Rightarrow> APIContext \<Rightarrow> Schema
    \<Rightarrow> err option \<times> 'w RequestHandler option \<times> 'w RequestHandler option" where
  "method_handler S x schema =
     (let A = access S; H = handlers_of S schema; D = defaults S in
      if xMethod x = ''GET'' then
        (if xID x = [] then acCanList A x schema else acCanGet A x schema, hListHandler H, hListHandler D)
      else if xMethod x = ''POST'' then (acCanCreate A x schema, hCreateHandler H, hCreateHandler D)
      else if xMethod x = ''PUT'' then (acCanUpdate A x None schema, hUpdateHandler H, hUpdateHandler D)
      else if xMethod x = ''DELETE'' then (acCanDelete A x None schema, hDeleteHandler H, hDeleteHandler D)
      else (None, None, None))"

definition handleAction :: "('w, 'z) api_server_scheme \<Rightarrow> action \<Rightarrow> APIContext \<Rightarrow> Schema \<Rightarrow> ('w, reply list) act" where
  "handleAction S a x schema =
     abind (if xID x \<noteq> [] then abind (access_ByID S x (xVersion x) (xType x) (xID x)) (\<lambda>_. areturn ()) else areturn ()) (\<lambda>_.
       case hActionHandler (handlers_of S schema) of None \<Rightarrow> alift Panic | Some h \<Rightarrow> h (xAction x) a x)"

definition run_handler :: "'w RequestHandler option \<Rightarrow> 'w RequestHandler option \<Rightarrow> APIContext \<Rightarrow> ('w, reply list) act" where
  "run_handler h nxt x =
     (case h of
        None \<Rightarrow> alift (Err (NewAPIError NotFound []))
      | Some f \<Rightarrow> f x (map_option (\<lambda>g x'. g x' None) nxt))"

definition dispatch :: "('w, 'z) api_server_scheme \<Rightarrow> action option \<Rightarrow> APIContext \<Rightarrow> ('w, reply list) act" where
  "dispatch S a x =
     (case xSchema x of
        None \<Rightarrow> areturn []
      | Some schema \<Rightarrow>
          (case a of
             Some act \<Rightarrow> handleAction S act x schema
           | None \<Rightarrow>
               if xType x = [] then areturn []
               else if xLink x \<noteq> [] then run_handler (hListHandler (handlers_of S schema)) (hListHandler (defaults S)) x
               else (case method_handler S x schema of (denied, h, nxt) \<Rightarrow>
                       (case denied of Some e \<Rightarrow> alift (Err e) | None \<Rightarrow> run_handler h nxt x))))"

text \<open>\<^verbatim>\<open>handle\<close> gives the context too, by which an error is handled.\<close>

definition checked_dispatch :: "('w, 'z) api_server_scheme \<Rightarrow> err + string \<Rightarrow> APIContext \<Rightarrow> ('w, reply list) act" where
  "checked_dispatch S token x =
     abind (alift (CheckCSRF token x)) (\<lambda>_. abind (alift (ValidateAction S x)) (\<lambda>a. dispatch S a x))"

definition handle :: "('w, 'z) api_server_scheme \<Rightarrow> err + string \<Rightarrow> Schemas \<Rightarrow> http_request \<Rightarrow> 'w \<Rightarrow> (APIContext option \<times> reply list res) \<times> 'w" where
  "handle S token ss req w =
     (case parser S ss req of
        Ok (x, Some e) \<Rightarrow> ((Some x, Err e), w)
      | Ok (x, None) \<Rightarrow> (case checked_dispatch S token x w of (r, w') \<Rightarrow> ((Some x, r), w'))
      | Err e \<Rightarrow> ((None, Err e), w)
      | Panic \<Rightarrow> ((None, Panic), w))"

definition handleError :: "('w, 'z) api_server_scheme \<Rightarrow> APIContext \<Rightarrow> err \<Rightarrow> reply list res" where
  "handleError S x e =
     (case xSchema x of
        None \<Rightarrow> (case hErrorHandler (defaults S) of None \<Rightarrow> Panic | Some h \<Rightarrow> Ok (h x e))
      | Some schema \<Rightarrow> Ok (case hErrorHandler (handlers_of S schema) of None \<Rightarrow> [] | Some h \<Rightarrow> h x e))"

text \<open>
  The responses to a request. A panic is recovered and answered with status 500 and no body, unless a writer has
  written its status already, since a status that is written after another one is dropped by \<^verbatim>\<open>net/http\<close>.
\<close>

definition replies :: "('w, 'z) api_server_scheme \<Rightarrow> APIContext option \<Rightarrow> reply list res \<Rightarrow> reply list res" where
  "replies S x r =
     (case (x, r) of
        (Some x', Err e) \<Rightarrow> handleError S x' e
      | _ \<Rightarrow> r)"

definition internal_error :: http_response where
  "internal_error = \<lparr>wStatus = 500, wHeader = [], wBody = OutNil\<rparr>"

fun write_all :: "('w, 'z) api_server_scheme \<Rightarrow> reply list \<Rightarrow> http_response list" where
  "write_all S [] = []"
| "write_all S (r # rs) = (case Write S r of Ok (h, True) \<Rightarrow> h # write_all S rs | Ok (h, False) \<Rightarrow> [h] | _ \<Rightarrow> [internal_error])"

definition api_ServeHTTP :: "('w, 'z) api_server_scheme \<Rightarrow> err + string \<Rightarrow> Schemas \<Rightarrow> http_request \<Rightarrow> 'w \<Rightarrow> http_response list \<times> 'w" where
  "api_ServeHTTP S token ss req w =
     (case handle S token ss req w of ((x, r), w') \<Rightarrow>
        (case replies S x r of Ok rs \<Rightarrow> write_all S rs | _ \<Rightarrow> [internal_error], w'))"

section \<open>The built-in schemas\<close>

definition as_map :: "gval \<Rightarrow> gdata" where
  "as_map v = (case v of VMap m \<Rightarrow> m | _ \<Rightarrow> None)"

definition apiVersionFromMap :: "Schemas \<Rightarrow> gdata \<Rightarrow> APIVersion" where
  "apiVersionFromMap s m =
     (let v = version_zero\<lparr>Path := as_string (mget m ''path''), Version := as_string (mget m ''version''), Group := as_string (mget m ''group'')\<rparr>
      in case find (\<lambda>w. APIVersion_Equals w v) (versions s) of Some w \<Rightarrow> w | None \<Rightarrow> v)"

definition getSchemaCollectionLink :: "url_builder \<Rightarrow> Schema option \<Rightarrow> APIVersion option \<Rightarrow> string" where
  "getSchemaCollectionLink u schema v =
     (case schema of
        Some s \<Rightarrow> if ''GET'' \<in> set (CollectionMethods s) then CollectionLink u s v else []
      | None \<Rightarrow> [])"

definition SchemaFormatter :: "url_builder \<Rightarrow> APIContext \<Rightarrow> RawResource \<Rightarrow> RawResource" where
  "SchemaFormatter u x r =
     (let v = apiVersionFromMap (xSchemas x) (as_map (mget (rrValues r) ''version''))
      in case Schema_of (xSchemas x) (Some v) (rrID r) of
           None \<Rightarrow> r
         | Some s \<Rightarrow>
             let link = getSchemaCollectionLink u (Some s) (Some v);
                 l1 = (if link \<noteq> [] then mset_key ''collection'' link (rrLinks r) else rrLinks r)
             in r\<lparr>rrLinks := mset_key ''self'' (SchemaLink u s) l1\<rparr>)"

definition addCollectionLink :: "url_builder \<Rightarrow> Schema \<Rightarrow> (string \<times> string) list \<Rightarrow> (string \<times> string) list" where
  "addCollectionLink u s links =
     (let link = getSchemaCollectionLink u (Some s) None in if link \<noteq> [] then mset_key (PluralName s) link links else links)"

definition APIRootFormatter :: "url_builder \<Rightarrow> APIContext \<Rightarrow> RawResource \<Rightarrow> RawResource" where
  "APIRootFormatter u x r =
     (let path = as_string (mget (rrValues r) ''path'') in
      if path = [] then r
      else let vals = mdelete (rrValues r) ''path'';
               v = apiVersionFromMap (xSchemas x) (as_map (mget vals ''apiVersion''));
               l1 = mset_key ''self'' (VersionLink u v) (mset_key ''root'' (RelativeToRoot u path) (rrLinks r))
           in r\<lparr>rrValues := vals,
                rrLinks := fold (\<lambda>(name, ref). addCollectionLink u (deref (xSchemas x) ref)) (SchemasForVersion (xSchemas x) v) l1\<rparr>)"

definition typed_fields :: "(string \<times> string \<times> bool) list \<Rightarrow> fields" where
  "typed_fields fs = map (\<lambda>(name, ty, nullable). (name, field_zero\<lparr>FType := ty, Nullable := nullable\<rparr>)) fs"

definition builtin_schema :: "string \<Rightarrow> string \<Rightarrow> string list \<Rightarrow> fields \<Rightarrow> Schema" where
  "builtin_schema i plural methods fs =
     schema_zero\<lparr>ID := i, PluralName := plural, SVersion := builtin_Version, CollectionMethods := methods, ResourceMethods := methods,
                 ResourceFields := fs\<rparr>"

definition builtin_Schema :: Schema where
  "builtin_Schema = builtin_schema ''schema'' ''schemas'' [''GET'']
     (typed_fields [(''collectionActions'', ''map[json]'', False), (''collectionFields'', ''map[json]'', False),
       (''collectionFilters'', ''map[json]'', False), (''collectionMethods'', ''array[string]'', False), (''pluralName'', ''string'', False),
       (''resourceActions'', ''map[json]'', False), (''resourceFields'', ''map[json]'', False), (''resourceMethods'', ''array[string]'', False),
       (''version'', ''map[json]'', False)])"

definition builtin_Error :: Schema where
  "builtin_Error = builtin_schema ''error'' [] []
     (typed_fields [(''code'', ''string'', False), (''detail'', ''string'', True), (''message'', ''string'', True),
       (''fieldName'', ''string'', True), (''status'', ''int'', False)])"

definition builtin_Collection :: Schema where
  "builtin_Collection = builtin_schema ''collection'' [] []
     (typed_fields [(''data'', ''array[json]'', False), (''pagination'', ''map[json]'', False), (''sort'', ''map[json]'', False),
       (''filters'', ''map[json]'', False)])"

definition builtin_APIRoot :: Schema where
  "builtin_APIRoot = builtin_schema ''apiRoot'' [] [''GET''] (typed_fields [(''apiVersion'', ''map[json]'', False), (''path'', ''string'', False)])"

definition builtin_Schemas :: "Schemas option" where
  "builtin_Schemas =
     Option.bind (AddSchema 0 builtin_Schema NewSchemas) (\<lambda>s1.
     Option.bind (AddSchema 0 builtin_Error s1) (\<lambda>s2.
     Option.bind (AddSchema 0 builtin_Collection s2) (AddSchema 0 builtin_APIRoot)))"

section \<open>A new server\<close>

text \<open>\<^verbatim>\<open>NewAPIServer\<close>: the handlers that a schema without its own gets.\<close>

definition server_Defaults :: "('w, 'z) api_server_scheme \<Rightarrow> 'w handlers" where
  "server_Defaults S =
     \<lparr>hActionHandler = None, hLinkHandler = Some LinkNotFound, hListHandler = Some (ListHandler S), hCreateHandler = Some (CreateHandler S),
      hDeleteHandler = Some (DeleteHandler S), hUpdateHandler = Some (UpdateHandler S), hErrorHandler = Some api_ErrorHandler,
      hInputFormatter = None, hFormatter = None, hCollectionFormatter = None, hValidator = None, hStore = None\<rparr>"

text \<open>
  \<^verbatim>\<open>AddSchemas\<close> of the server adds the built-in schemas once, unless told not to, and then the others. The flag is
  the \<^verbatim>\<open>sync.Once\<close>.
\<close>

definition add_all :: "nat \<Rightarrow> Schema list \<Rightarrow> Schemas \<Rightarrow> Schemas option" where
  "add_all n xs s = fold (\<lambda>x acc. Option.bind acc (AddSchema n x)) xs (Some s)"

definition server_AddSchemas :: "nat \<Rightarrow> bool \<Rightarrow> Schemas \<Rightarrow> bool \<times> Schemas \<Rightarrow> ((bool \<times> Schemas) \<times> err option) option" where
  "server_AddSchemas n ignoreBuiltin new st =
     (case st of (done_once, s) \<Rightarrow>
        if Schemas_Err new \<noteq> None then Some (st, Schemas_Err new)
        else Option.bind (if done_once \<or> ignoreBuiltin then Some s
                          else Option.bind builtin_Schemas (\<lambda>b. add_all n (map (deref b) (schemas b)) s)) (\<lambda>s1.
             map_option (\<lambda>s2. ((True, s2), Schemas_Err s2)) (add_all n (map (deref new) (schemas new)) s1)))"

end
