(* ===== verification/ServerLaws.thy ===== *)
theory ServerLaws
  imports Server StoreLaws
begin

text \<open>
  What the API server guarantees of a request that it refuses: the stores are not touched, and the answer is that
  of the error handler.
\<close>

section \<open>Why a request is refused\<close>

text \<open>
  The reasons are stated over the request, the schema and the access control, and not over the checks of the server.
  A request of a browser is forged when it has the CSRF cookie, is not a GET, and repeats the cookie neither in the header
  nor in the query.
\<close>

definition forged :: "APIContext \<Rightarrow> bool" where
  "forged x \<longleftrightarrow> IsBrowser (xRequest x) False \<and> xMethod x \<noteq> ''GET'' \<and>
     (\<exists>cookie. map_of (rCookies (xRequest x)) ''CSRF'' = Some cookie
        \<and> cookie \<notin> {header_get (xRequest x) ''X-API-CSRF'', query_get (uQuery (rURL (xRequest x))) ''CSRF''})"

text \<open>An action is asked for by a POST. It exists when the schema has it for resources or for the collection, and the
  resource, where it can be looked up, has it too.\<close>

definition asks_action :: "APIContext \<Rightarrow> bool" where
  "asks_action x \<longleftrightarrow> xAction x \<noteq> [] \<and> xLink x = [] \<and> xMethod x = ''POST''"

definition schema_action :: "APIContext \<Rightarrow> Schema \<Rightarrow> bool" where
  "schema_action x schema \<longleftrightarrow> map_of (if xID x = [] then CollectionActions schema else ResourceActions schema) (xAction x) \<noteq> None"

definition resource_lookup :: "('w, 'z) api_server_scheme \<Rightarrow> APIContext \<Rightarrow> RawResource option option" where
  "resource_lookup S x = (if xID x = [] then None else map_option (\<lambda>look. look (xType x) (xID x)) (ref_lookup S))"

text \<open>Which access is needed for a method without a link.\<close>

inductive denied :: "access_control \<Rightarrow> APIContext \<Rightarrow> Schema \<Rightarrow> err \<Rightarrow> bool" where
  list: "xMethod x = ''GET'' \<Longrightarrow> xID x = [] \<Longrightarrow> acCanList A x schema = Some e \<Longrightarrow> denied A x schema e"
| get: "xMethod x = ''GET'' \<Longrightarrow> xID x \<noteq> [] \<Longrightarrow> acCanGet A x schema = Some e \<Longrightarrow> denied A x schema e"
| create: "xMethod x = ''POST'' \<Longrightarrow> acCanCreate A x schema = Some e \<Longrightarrow> denied A x schema e"
| update: "xMethod x = ''PUT'' \<Longrightarrow> acCanUpdate A x None schema = Some e \<Longrightarrow> denied A x schema e"
| delete: "xMethod x = ''DELETE'' \<Longrightarrow> acCanDelete A x None schema = Some e \<Longrightarrow> denied A x schema e"

inductive refused :: "('w, 'z) api_server_scheme \<Rightarrow> APIContext \<Rightarrow> Schema \<Rightarrow> err \<Rightarrow> bool" where
  csrf: "forged x \<Longrightarrow> refused S x schema (NewAPIError InvalidCSRFToken ''Invalid CSRF token'')"
| no_action: "\<not> forged x \<Longrightarrow> asks_action x \<Longrightarrow> \<not> schema_action x schema
    \<or> (\<exists>r. resource_lookup S x = Some (Some r) \<and> map_of (rrActions r) (xAction x) = None)
    \<Longrightarrow> refused S x schema (NewAPIError InvalidAction (''Invalid action: '' @ xAction x))"
| no_resource: "\<not> forged x \<Longrightarrow> asks_action x \<Longrightarrow> schema_action x schema \<Longrightarrow> resource_lookup S x = Some None
    \<Longrightarrow> refused S x schema (NewAPIError NotFound (''Failed to find type: '' @ xType x @ '' id: '' @ xID x))"
| access: "\<not> forged x \<Longrightarrow> \<not> asks_action x \<Longrightarrow> xType x \<noteq> [] \<Longrightarrow> xLink x = [] \<Longrightarrow> denied (access S) x schema e \<Longrightarrow> refused S x schema e"

section \<open>A refused request has no effect\<close>

lemma CheckCSRF_forged: "forged x \<Longrightarrow> CheckCSRF token x = Err (NewAPIError InvalidCSRFToken ''Invalid CSRF token'')"
  by (auto simp: forged_def CheckCSRF_def)

lemma CheckCSRF_genuine: "\<not> forged x \<Longrightarrow> \<exists>cookie. CheckCSRF (Inr t) x = Ok cookie"
  by (auto simp: forged_def CheckCSRF_def split: option.splits)

lemma ValidateAction_none: "\<not> asks_action x \<Longrightarrow> ValidateAction S x = Ok None"
  by (auto simp: asks_action_def ValidateAction_def)

lemma ValidateAction_invalid:
  assumes "xSchema x = Some schema" "asks_action x"
    and "\<not> schema_action x schema \<or> (\<exists>r. resource_lookup S x = Some (Some r) \<and> map_of (rrActions r) (xAction x) = None)"
  shows "ValidateAction S x = Err (NewAPIError InvalidAction (''Invalid action: '' @ xAction x))"
  using assms
  by (auto simp: ValidateAction_def asks_action_def schema_action_def resource_lookup_def Let_def split: if_splits option.splits)

lemma ValidateAction_missing:
  assumes "xSchema x = Some schema" "asks_action x" "schema_action x schema" "resource_lookup S x = Some None"
  shows "ValidateAction S x = Err (NewAPIError NotFound (''Failed to find type: '' @ xType x @ '' id: '' @ xID x))"
  using assms
  by (auto simp: ValidateAction_def asks_action_def schema_action_def resource_lookup_def Let_def split: if_splits option.splits)

lemma method_handler_denied: "denied (access S) x schema e \<Longrightarrow> fst (method_handler S x schema) = Some e"
  by (auto simp: method_handler_def Let_def elim: denied.cases)

lemma invalid_dispatch:
  assumes "\<not> forged x" "ValidateAction S x = Err e"
  shows "checked_dispatch S (Inr t) x w = (Err e, w)"
  using assms CheckCSRF_genuine[OF assms(1), of t] by (auto simp: checked_dispatch_def abind_def alift_def)

lemma refused_dispatch:
  assumes "refused S x schema e" "xSchema x = Some schema"
  shows "checked_dispatch S (Inr t) x w = (Err e, w)"
  using assms
proof cases
  case csrf
  then show ?thesis by (simp add: checked_dispatch_def abind_def alift_def CheckCSRF_forged)
next
  case no_action
  from ValidateAction_invalid[OF assms(2) no_action(3,4)] show ?thesis unfolding no_action(1) by (rule invalid_dispatch[OF no_action(2)])
next
  case no_resource
  from ValidateAction_missing[OF assms(2) no_resource(3-5)] show ?thesis unfolding no_resource(1) by (rule invalid_dispatch[OF no_resource(2)])
next
  case access
  then obtain cookie where "CheckCSRF (Inr t) x = Ok cookie" using CheckCSRF_genuine by blast
  moreover obtain h nxt where "method_handler S x schema = (Some e, h, nxt)"
    using method_handler_denied[OF access(5)] by (metis prod.collapse)
  ultimately show ?thesis using access assms(2) ValidateAction_none[OF access(2), of S]
    by (simp add: checked_dispatch_def abind_def alift_def dispatch_def)
qed

text \<open>C12. A refused request has no effect. When a browser sends a request other than a GET that does not repeat its CSRF cookie, when a
  POST asks for an action that the schema or the resource does not have, or when the access control denies the list, get,
  create, update or delete that the method stands for, the world is left as it was and the answer is what the error handler
  writes for the error of that reason. The reasons are tried in this order.\<close>

theorem refused_request_no_effect:
  assumes "parser S ss req = Ok (x, None)" "xSchema x = Some schema" "refused S x schema e"
  shows "api_ServeHTTP S (Inr t) ss req w =
    (case handleError S x e of Ok rs \<Rightarrow> write_all S rs | _ \<Rightarrow> [internal_error], w)"
  using assms refused_dispatch[OF assms(3,2)] by (simp add: api_ServeHTTP_def handle_def replies_def)

definition no_handlers :: "'w handlers" where
  "no_handlers = \<lparr>hActionHandler = None, hLinkHandler = None, hListHandler = None, hCreateHandler = None, hDeleteHandler = None,
     hUpdateHandler = None, hErrorHandler = Some api_ErrorHandler, hInputFormatter = None, hFormatter = None, hCollectionFormatter = None,
     hValidator = None, hStore = None\<rparr>"

definition sample_server :: "string list api_server" where
  "sample_server = env.extend (sample_env\<lparr>access := AllAccess\<lparr>acCanDelete := (\<lambda>x obj s. Some (NewAPIError PermissionDenied ''can not delete ''))\<rparr>\<rparr>)
     \<lparr>handlers_of = (\<lambda>s. no_handlers\<lparr>hDeleteHandler := Some (\<lambda>x nxt w. (Ok [], w @ [''deleted'']))\<rparr>), defaults = no_handlers, store_wrapper = None,
      url_parse = (\<lambda>_. Panic), url_parser_of = default_url_parser, resolver_of = DefaultResolver, ref_validate = None, ref_lookup = None,
      dns1123 = (\<lambda>_. []), dns1035 = (\<lambda>_. []), dns_subdomain = (\<lambda>_. []), build_fuel = 5\<rparr>"

definition deletable_pod :: Schema where
  "deletable_pod = sample_pod\<lparr>ResourceMethods := [''GET'', ''DELETE'']\<rparr>"

definition deletable_registry :: Schemas where
  "deletable_registry = sample_registry\<lparr>sheap := [deletable_pod]\<rparr>"

definition delete_request :: http_request where
  "delete_request = (sample_request ''/v3/pods/p1'')\<lparr>rMethod := ''DELETE''\<rparr>"

definition delete_context :: APIContext where
  "delete_context = fst (ok_val (parser sample_server deletable_registry delete_request))"

theorem refused_request_no_effect_witness:
  "snd (api_ServeHTTP sample_server (Inr ''token'') deletable_registry delete_request []) = []"
proof -
  have "case parser sample_server deletable_registry delete_request of Ok (x, None) \<Rightarrow> True | _ \<Rightarrow> False" by code_simp
  then have p: "parser sample_server deletable_registry delete_request = Ok (delete_context, None)"
    by (auto simp: delete_context_def split: res.splits option.splits)
  have s: "xSchema delete_context = Some deletable_pod" by code_simp
  have "\<not> IsBrowser (xRequest delete_context) False" "xType delete_context = ''pod''" "xLink delete_context = []"
    "xMethod delete_context = ''DELETE''" by code_simp+
  moreover have "acCanDelete (access sample_server) delete_context None deletable_pod = Some (NewAPIError PermissionDenied ''can not delete '')"
    by code_simp
  ultimately have r: "refused sample_server delete_context deletable_pod (NewAPIError PermissionDenied ''can not delete '')"
    by (intro refused.access denied.delete) (simp_all add: forged_def asks_action_def)
  show ?thesis by (simp add: refused_request_no_effect[OF p s r])
qed

end
