(* ===== verification/Broadcast.thy ===== *)
theory Broadcast
  imports Server
begin

text \<open>
  Events: the broadcaster of \<^verbatim>\<open>pkg/broadcast/broadcaster.go\<close>, which copies one stream of events to many subscribers, and
  the subscription handler of \<^verbatim>\<open>pkg/subscribe/handler.go\<close>, which writes the events of the matching stores to a web
  socket.

  A step of the broadcaster is what happens while it holds its lock: a subscription, an item or the end of the
  input stream, and the calls of \<^verbatim>\<open>unsub\<close> that goroutines make, at the end of a subscriber's context or for a slow
  consumer. A subscriber may read from its channel at any time. Sending on a closed channel, and closing it
  again, panic.
\<close>

section \<open>The broadcaster\<close>

record channel =
  chBuf :: "gdata list"
  chClosed :: bool
  chRead :: "gdata list"
  chSince :: nat

text \<open>
  \<open>bSlow\<close> are the subscribers for which \<^verbatim>\<open>stream\<close> has started \<^verbatim>\<open>go b.unsub(sub, true)\<close>. For the statements, a channel also
  has what was read from it and how many items had been streamed when it was made, and the broadcaster the items that have
  been streamed.
\<close>

record broadcaster =
  bRunning :: bool
  bSubs :: "nat list"
  bChans :: "nat \<Rightarrow> channel"
  bNext :: nat
  bSlow :: "nat list"
  bItems :: "gdata list"

definition new_channel :: "nat \<Rightarrow> channel" where
  "new_channel n = \<lparr>chBuf = [], chClosed = False, chRead = [], chSince = n\<rparr>"

definition new_broadcaster :: broadcaster where
  "new_broadcaster = \<lparr>bRunning = False, bSubs = [], bChans = (\<lambda>_. new_channel 0), bNext = 0, bSlow = [], bItems = []\<rparr>"

text \<open>\<^verbatim>\<open>Subscribe\<close> starts the stream if it does not run; \<open>connected\<close> tells whether \<^verbatim>\<open>connect\<close> succeeds.\<close>

definition bc_Subscribe :: "bool \<Rightarrow> broadcaster \<Rightarrow> nat option \<times> broadcaster" where
  "bc_Subscribe connected b =
     (if \<not> bRunning b \<and> \<not> connected then (None, b)
      else (Some (bNext b),
            b\<lparr>bRunning := True, bSubs := bSubs b @ [bNext b], bChans := (bChans b)(bNext b := new_channel (length (bItems b))),
              bNext := Suc (bNext b)\<rparr>))"

definition unsub :: "nat \<Rightarrow> broadcaster \<Rightarrow> broadcaster res" where
  "unsub sub b =
     (if sub \<in> set (bSubs b) then
        if chClosed (bChans b sub) then Panic
        else Ok (b\<lparr>bChans := (bChans b)(sub := (bChans b sub)\<lparr>chClosed := True\<rparr>), bSubs := remove1 sub (bSubs b)\<rparr>)
      else Ok b)"

definition send_item :: "gdata \<Rightarrow> nat \<Rightarrow> broadcaster \<Rightarrow> broadcaster res" where
  "send_item item sub b =
     (let c = bChans b sub in
      if chClosed c then Panic
      else if length (chBuf c) < 100 then Ok (b\<lparr>bChans := (bChans b)(sub := c\<lparr>chBuf := chBuf c @ [cloneMap item]\<rparr>)\<rparr>)
      else Ok (b\<lparr>bSlow := bSlow b @ [sub]\<rparr>))"

definition stream_item :: "gdata \<Rightarrow> broadcaster \<Rightarrow> broadcaster res" where
  "stream_item item b = rbind (rfold (send_item item) (bSubs b) b) (\<lambda>b1. Ok (b1\<lparr>bItems := bItems b1 @ [item]\<rparr>))"

definition stream_end :: "broadcaster \<Rightarrow> broadcaster res" where
  "stream_end b = rbind (rfold unsub (bSubs b) b) (\<lambda>b1. Ok (b1\<lparr>bRunning := False\<rparr>))"

definition receive :: "nat \<Rightarrow> broadcaster \<Rightarrow> broadcaster" where
  "receive sub b =
     (let c = bChans b sub in
      case chBuf c of
        [] \<Rightarrow> b
      | item # rest \<Rightarrow> b\<lparr>bChans := (bChans b)(sub := c\<lparr>chBuf := rest, chRead := chRead c @ [item]\<rparr>)\<rparr>)"

datatype bevent = ESubscribe bool | EItem gdata | EEnd | EContextDone nat | ESlowUnsub nat | EReceive nat

text \<open>The stream acts while it runs, and the goroutine for a slow consumer once it was started.\<close>

definition bstep :: "bevent \<Rightarrow> broadcaster \<Rightarrow> broadcaster res" where
  "bstep e b =
     (case e of
        ESubscribe connected \<Rightarrow> Ok (snd (bc_Subscribe connected b))
      | EItem item \<Rightarrow> if bRunning b then stream_item item b else Ok b
      | EEnd \<Rightarrow> if bRunning b then stream_end b else Ok b
      | EContextDone sub \<Rightarrow> unsub sub b
      | ESlowUnsub sub \<Rightarrow> if sub \<in> set (bSlow b) then unsub sub b else Ok b
      | EReceive sub \<Rightarrow> Ok (receive sub b))"

section \<open>Subscriptions\<close>

definition sub_matches :: "string list \<Rightarrow> string \<Rightarrow> bool" where
  "sub_matches items item = (if items = [] then True else ContainsString items item)"

definition getMatchingSchemas :: "('w, 'z) api_server_scheme \<Rightarrow> APIContext \<Rightarrow> Schema list res" where
  "getMatchingSchemas S x =
     (case xVersion x of
        None \<Rightarrow> Panic
      | Some v \<Rightarrow>
          let resourceTypes = (case map_of (uQuery (rURL (xRequest x))) ''resourceTypes'' of None \<Rightarrow> [] | Some l \<Rightarrow> l)
          in Ok (filter (\<lambda>schema. sub_matches resourceTypes (ID schema) \<and> store_of S schema \<noteq> None)
                   (map (\<lambda>nr. deref (xSchemas x) (snd nr)) (SchemasForVersion (xSchemas x) v))))"

text \<open>A message has its header and its body; \<open>None\<close> is the empty object of a ping. \<open>ws\<close> writes a message or fails.\<close>

type_synonym frame = "string \<times> written option"

definition sub_header :: "gdata \<Rightarrow> string" where
  "sub_header item = (if mget item ''.removed'' = VBool True then ''resource.remove'' else ''resource.change'')"

definition sub_item :: "('w, 'z) api_server_scheme \<Rightarrow> url_builder \<Rightarrow> APIContext \<Rightarrow> (frame \<Rightarrow> 'c \<Rightarrow> bool \<times> 'c) \<Rightarrow> gdata \<Rightarrow> bool \<times> 'c \<Rightarrow> (bool \<times> 'c) res" where
  "sub_item S u x ws item st =
     (case Schema_of (xSchemas x) (xVersion x) (ToString (mget item ''type'')) of
        None \<Rightarrow> Ok st
      | Some schema \<Rightarrow>
          (case VersionBody S u x (Some (SVersion schema)) (VMap item) of
             Panic \<Rightarrow> Panic
           | Err e \<Rightarrow> Ok (True, snd st)
           | Ok body \<Rightarrow> (case ws (sub_header item, Some body) (snd st) of (written, c) \<Rightarrow> Ok (fst st \<or> \<not> written, c))))"

text \<open>What the loop of the handler selects: an item, the end of the events, or a tick of the timer.\<close>

datatype sub_event = SItem gdata | SClosed | STick

fun sub_loop :: "('w, 'z) api_server_scheme \<Rightarrow> url_builder \<Rightarrow> APIContext \<Rightarrow> (frame \<Rightarrow> 'c \<Rightarrow> bool \<times> 'c) \<Rightarrow> sub_event list \<Rightarrow> bool \<times> 'c \<Rightarrow> (bool \<times> 'c) res" where
  "sub_loop S u x ws [] st = Ok st"
| "sub_loop S u x ws (SClosed # es) st = Ok st"
| "sub_loop S u x ws (STick # es) st =
     (case ws (''ping'', None) (snd st) of (written, c) \<Rightarrow> sub_loop S u x ws es (fst st \<or> \<not> written, c))"
| "sub_loop S u x ws (SItem item # es) st = rbind (sub_item S u x ws item st) (sub_loop S u x ws es)"

text \<open>\<open>sub_handler\<close> gives whether the subscription was cancelled. \<open>upgraded\<close> is the error of \<^verbatim>\<open>Upgrade\<close>.\<close>

definition sub_handler :: "('w, 'z) api_server_scheme \<Rightarrow> url_builder \<Rightarrow> err option \<Rightarrow> (frame \<Rightarrow> 'c \<Rightarrow> bool \<times> 'c) \<Rightarrow> sub_event list \<Rightarrow> APIContext \<Rightarrow> 'c \<Rightarrow> (bool \<times> 'c) res" where
  "sub_handler S u upgraded ws es x c =
     rbind (getMatchingSchemas S x) (\<lambda>ss.
       if ss = [] then Err (NewAPIError NotFound ''no resources types matched'')
       else case upgraded of Some e \<Rightarrow> Err e | None \<Rightarrow> sub_loop S u x ws es (False, c))"

text \<open>\<^verbatim>\<open>streamStore\<close>: the events that are passed on and the error that ends the watch.\<close>

definition streamStore :: "('w, 'z) api_server_scheme \<Rightarrow> APIContext \<Rightarrow> Schema \<Rightarrow> ('w, gdata list \<times> err option) act" where
  "streamStore S x schema w =
     (case store_of S schema of
        None \<Rightarrow> (Panic, w)
      | Some st \<Rightarrow>
          (case st_Watch (env_of S) st x schema (Some (QueryOptions (rMethod (xRequest x)) (xPagination x) (xQuery x) schema)) w of
             (Panic, w1) \<Rightarrow> (Panic, w1)
           | (Err e, w1) \<Rightarrow> (Ok ([], Some e), w1)
           | (Ok None, w1) \<Rightarrow> (Ok ([], None), w1)
           | (Ok (Some events), w1) \<Rightarrow> (Ok (events, Some (PlainErr ''disconnect'')), w1)))"

section \<open>Subscribers get every item\<close>

definition chan_complete :: "gdata list \<Rightarrow> channel \<Rightarrow> bool" where
  "chan_complete items c \<longleftrightarrow> chSince c \<le> length items \<and> chRead c @ chBuf c = map cloneMap (drop (chSince c) items)"

definition binv :: "broadcaster \<Rightarrow> bool" where
  "binv b \<longleftrightarrow> distinct (bSubs b) \<and> list_all (\<lambda>s. s < bNext b \<and> \<not> chClosed (bChans b s)) (bSubs b)
     \<and> list_all (\<lambda>s. s \<in> set (bSlow b) \<or> chan_complete (bItems b) (bChans b s)) (bSubs b)"

text \<open>While an item is sent, the subscribers in \<open>done\<close> have got it.\<close>

definition sending :: "gdata \<Rightarrow> nat set \<Rightarrow> broadcaster \<Rightarrow> bool" where
  "sending item done b \<longleftrightarrow> distinct (bSubs b) \<and> list_all (\<lambda>s. s < bNext b \<and> \<not> chClosed (bChans b s)) (bSubs b)
     \<and> list_all (\<lambda>s. s \<in> set (bSlow b) \<or> chan_complete (bItems b @ (if s \<in> done then [item] else [])) (bChans b s)) (bSubs b)"

lemma chan_complete_snoc:
  "chan_complete items c \<Longrightarrow> chan_complete (items @ [item]) (c\<lparr>chBuf := chBuf c @ [cloneMap item]\<rparr>)"
  by (auto simp: chan_complete_def simp flip: append_assoc)

lemma send_item_sending:
  assumes "sending item done b" "sub \<in> set (bSubs b)" "sub \<notin> done"
  shows "\<exists>b'. send_item item sub b = Ok b' \<and> sending item (insert sub done) b' \<and> bSubs b' = bSubs b \<and> bItems b' = bItems b"
proof -
  have op: "\<not> chClosed (bChans b sub)" and cmpl: "sub \<in> set (bSlow b) \<or> chan_complete (bItems b) (bChans b sub)"
    using assms by (auto simp: sending_def list_all_iff)
  show ?thesis
  proof (cases "length (chBuf (bChans b sub)) < 100")
    case True
    let ?b = "b\<lparr>bChans := (bChans b)(sub := (bChans b sub)\<lparr>chBuf := chBuf (bChans b sub) @ [cloneMap item]\<rparr>)\<rparr>"
    have "sending item (insert sub done) ?b"
      using assms op cmpl chan_complete_snoc[of "bItems b" "bChans b sub" item] by (auto simp: sending_def list_all_iff)
    moreover have "send_item item sub b = Ok ?b" using True op by (simp add: send_item_def Let_def)
    ultimately show ?thesis by simp
  next
    case False
    have "sending item (insert sub done) (b\<lparr>bSlow := bSlow b @ [sub]\<rparr>)"
      using assms by (auto simp: sending_def list_all_iff)
    moreover have "send_item item sub b = Ok (b\<lparr>bSlow := bSlow b @ [sub]\<rparr>)" using False op by (simp add: send_item_def)
    ultimately show ?thesis by simp
  qed
qed

lemma send_all:
  assumes "sending item done b" "set subs \<subseteq> set (bSubs b)" "distinct subs" "set subs \<inter> done = {}"
  shows "\<exists>b'. rfold (send_item item) subs b = Ok b' \<and> sending item (done \<union> set subs) b' \<and> bSubs b' = bSubs b \<and> bItems b' = bItems b"
  using assms
proof (induction subs arbitrary: b "done")
  case (Cons sub subs)
  then obtain b1 where b1: "send_item item sub b = Ok b1" "sending item (insert sub done) b1" "bSubs b1 = bSubs b" "bItems b1 = bItems b"
    using send_item_sending[of item "done" b sub] by auto
  with Cons.prems Cons.IH[of "insert sub done" b1] show ?case by auto
qed auto

lemma unsub_inv:
  assumes "binv b"
  shows "\<exists>b'. unsub sub b = Ok b' \<and> binv b' \<and> set (bSubs b') = set (bSubs b) - {sub}"
proof (cases "sub \<in> set (bSubs b)")
  case True
  thus ?thesis using assms by (auto simp: unsub_def binv_def list_all_iff)
next
  case False
  thus ?thesis using assms by (simp add: unsub_def)
qed

lemma unsub_all:
  "binv b \<Longrightarrow> \<exists>b'. rfold unsub subs b = Ok b' \<and> binv b' \<and> set (bSubs b') = set (bSubs b) - set subs"
proof (induction subs arbitrary: b)
  case (Cons sub subs)
  from unsub_inv[OF Cons.prems, of sub]
  obtain b1 where "unsub sub b = Ok b1" "binv b1" "set (bSubs b1) = set (bSubs b) - {sub}" by blast
  with Cons.IH[of b1] show ?case by auto
qed auto

lemma receive_inv: "binv b \<Longrightarrow> binv (receive sub b)"
  by (auto simp: binv_def receive_def list_all_iff chan_complete_def Let_def split: list.splits)

lemma subscribe_inv: "binv b \<Longrightarrow> binv (snd (bc_Subscribe connected b))"
  by (auto simp: binv_def bc_Subscribe_def list_all_iff chan_complete_def new_channel_def)

lemma bstep_ok:
  assumes "binv b"
  shows "\<exists>b'. bstep e b = Ok b' \<and> binv b'"
proof (cases e)
  case (EItem item)
  have s: "sending item {} b" using assms by (simp add: binv_def sending_def)
  have "distinct (bSubs b)" using assms by (simp add: binv_def)
  from send_all[OF s order_refl this] obtain b1 where
    "rfold (send_item item) (bSubs b) b = Ok b1" "sending item (set (bSubs b)) b1" "bSubs b1 = bSubs b" "bItems b1 = bItems b" by auto
  thus ?thesis using assms EItem by (auto simp: bstep_def stream_item_def sending_def binv_def list_all_iff)
next
  case EEnd
  from unsub_all[OF assms, of "bSubs b"] obtain b1 where "rfold unsub (bSubs b) b = Ok b1" "binv b1" by blast
  thus ?thesis using assms EEnd by (auto simp: bstep_def stream_end_def binv_def)
next
  case (EContextDone sub)
  from unsub_inv[OF assms, of sub] show ?thesis using EContextDone by (auto simp: bstep_def)
next
  case (ESlowUnsub sub)
  from unsub_inv[OF assms, of sub] show ?thesis using ESlowUnsub assms by (auto simp: bstep_def)
qed (use assms in \<open>simp_all add: bstep_def receive_inv subscribe_inv\<close>)

definition bc_init :: "broadcaster \<Rightarrow> bool" where
  "bc_init b \<longleftrightarrow> b = new_broadcaster"

definition bc_step :: "broadcaster \<Rightarrow> broadcaster \<Rightarrow> bool" where
  "bc_step b b' \<longleftrightarrow> (\<exists>e. bstep e b = Ok b')"

interpretation bc_sys: invariant_system bc_init bc_step binv
proof unfold_locales
  show "bc_init b \<Longrightarrow> binv b" for b
    by (simp add: bc_init_def binv_def new_broadcaster_def)
  show "binv b \<Longrightarrow> bc_step b b' \<Longrightarrow> binv b'" for b b'
    unfolding bc_step_def by (metis bstep_ok res.inject(1))
qed

text \<open>C5. Whatever the order of subscriptions, items, ends of the stream, cancellations and reads, the broadcaster does not
  panic: it neither sends on a closed channel nor closes one twice. A subscriber that has not been given up
  as a slow consumer has, read and waiting together, every item since its subscription, in order.\<close>

theorem broadcast_delivers:
  assumes "reach bc_init bc_step b"
  shows "bstep e b \<noteq> Panic \<and>
    list_all (\<lambda>s. s \<in> set (bSlow b) \<or>
       chRead (bChans b s) @ chBuf (bChans b s) = map cloneMap (drop (chSince (bChans b s)) (bItems b))) (bSubs b)"
proof -
  have inv: "binv b" by (rule bc_sys.reach_inv[OF assms])
  from bstep_ok[OF inv, of e] have "bstep e b \<noteq> Panic" by auto
  with inv show ?thesis by (auto simp: binv_def list_all_iff chan_complete_def)
qed

definition busy_broadcaster :: broadcaster where
  "busy_broadcaster = ok_val (rfold bstep [ESubscribe True, EItem None, ESubscribe True, EItem (Some []), EReceive 0] new_broadcaster)"

lemma reach_rfold:
  assumes "reach bc_init bc_step b"
  shows "reach bc_init bc_step (ok_val (rfold bstep es b)) \<and> rfold bstep es b = Ok (ok_val (rfold bstep es b))"
  using assms
proof (induction es arbitrary: b)
  case (Cons e es)
  from bstep_ok[OF bc_sys.reach_inv[OF Cons.prems], of e] obtain b1 where b1: "bstep e b = Ok b1" by blast
  then have "reach bc_init bc_step b1" using Cons.prems unfolding bc_step_def by (blast intro: reach.intros(2))
  with Cons.IH b1 show ?case by simp
qed simp

theorem broadcast_delivers_witness:
  "bstep (EItem None) busy_broadcaster \<noteq> Panic \<and> bSubs busy_broadcaster = [0, 1] \<and> bSlow busy_broadcaster = []
   \<and> chRead (bChans busy_broadcaster 0) @ chBuf (bChans busy_broadcaster 0) = map cloneMap [None, Some []]
   \<and> chRead (bChans busy_broadcaster 1) @ chBuf (bChans busy_broadcaster 1) = map cloneMap [Some []]"
proof -
  have "reach bc_init bc_step new_broadcaster" by (intro reach.intros) (simp add: bc_init_def)
  then have "reach bc_init bc_step busy_broadcaster" unfolding busy_broadcaster_def by (rule reach_rfold[THEN conjunct1])
  note delivered = broadcast_delivers[OF this, of "EItem None"]
  have "bSubs busy_broadcaster = [0, 1]" "bSlow busy_broadcaster = []" "bItems busy_broadcaster = [None, Some []]"
    "chSince (bChans busy_broadcaster 0) = 0" "chSince (bChans busy_broadcaster 1) = 1"
    by code_simp+
  with delivered show ?thesis by simp
qed

end
