(* ===== verification/ObjectClient.thy ===== *)
theory ObjectClient
  imports Values
begin

text \<open>
  Kubernetes objects and the client for them, \<^verbatim>\<open>objectclient/object_client.go\<close>. An object is its
  \<^verbatim>\<open>GroupVersionKind\<close>, the metadata that the code reads and writes, and the rest of it as a map. The REST
  client is a parameter: what a request does to the world, with an error on the left or the decoded object
  on the right.
\<close>

section \<open>Objects\<close>

record gvk =
  gGroup :: string
  gVersion :: string
  gKind :: string

type_synonym strmap = "(string \<times> string) list option"

record kobj =
  kGVK :: gvk
  kName :: string
  kNamespace :: string
  kLabels :: strmap
  kAnnotations :: strmap
  kFinalizers :: "string list"
  kDeletion :: bool
  kResourceVersion :: string
  kBody :: gdata

definition no_gvk :: gvk where
  "no_gvk = \<lparr>gGroup = [], gVersion = [], gKind = []\<rparr>"

definition no_object :: kobj where
  "no_object = \<lparr>kGVK = no_gvk, kName = [], kNamespace = [], kLabels = None, kAnnotations = None, kFinalizers = [],
     kDeletion = False, kResourceVersion = [], kBody = None\<rparr>"

text \<open>Reading a nil map gives the zero value; the setters below make a map first.\<close>

definition sm_get :: "strmap \<Rightarrow> string \<Rightarrow> string" where
  "sm_get m k = (case m of None \<Rightarrow> [] | Some kvs \<Rightarrow> (case map_of kvs k of None \<Rightarrow> [] | Some v \<Rightarrow> v))"

definition sm_entries :: "strmap \<Rightarrow> (string \<times> string) list" where
  "sm_entries m = (case m of None \<Rightarrow> [] | Some kvs \<Rightarrow> kvs)"

definition sm_put :: "string \<Rightarrow> string \<Rightarrow> strmap \<Rightarrow> strmap" where
  "sm_put k v m = Some (mset_key k v (sm_entries m))"

text \<open>\<^verbatim>\<open>GroupVersion.String\<close> and \<^verbatim>\<open>GroupVersionKind.String\<close>.\<close>

definition gv_string :: "gvk \<Rightarrow> string" where
  "gv_string g = (if gGroup g = [] then gVersion g else gGroup g @ ''/'' @ gVersion g)"

definition gvk_string :: "gvk \<Rightarrow> string" where
  "gvk_string g = gGroup g @ ''/'' @ gVersion g @ '', Kind='' @ gKind g"

text \<open>\<^verbatim>\<open>reflect.DeepEqual\<close>: two maps are equal when they have the same entries, in whatever order.\<close>

fun DeepEqual :: "gval \<Rightarrow> gval \<Rightarrow> bool" where
  "DeepEqual (VMap (Some kvs)) (VMap (Some kvs')) \<longleftrightarrow>
     length kvs = length kvs' \<and>
     list_all (\<lambda>kv. case map_of kvs' (fst kv) of None \<Rightarrow> False | Some v' \<Rightarrow> DeepEqual (snd kv) v') kvs"
| "DeepEqual (VList vs) (VList vs') \<longleftrightarrow> list_all2 DeepEqual vs vs'"
| "DeepEqual (VMaps vs) (VMaps vs') \<longleftrightarrow> list_all2 DeepEqual vs vs'"
| "DeepEqual v v' \<longleftrightarrow> v = v'"

definition sm_equal :: "strmap \<Rightarrow> strmap \<Rightarrow> bool" where
  "sm_equal m m' = DeepEqual (VMap (map_option (map (\<lambda>kv. (fst kv, VStr (snd kv)))) m))
                             (VMap (map_option (map (\<lambda>kv. (fst kv, VStr (snd kv)))) m'))"

definition objects_equal :: "kobj \<Rightarrow> kobj \<Rightarrow> bool" where
  "objects_equal o1 o2 \<longleftrightarrow>
     kGVK o1 = kGVK o2 \<and> kName o1 = kName o2 \<and> kNamespace o1 = kNamespace o2 \<and> sm_equal (kLabels o1) (kLabels o2)
     \<and> sm_equal (kAnnotations o1) (kAnnotations o2) \<and> kFinalizers o1 = kFinalizers o2 \<and> kDeletion o1 = kDeletion o2
     \<and> kResourceVersion o1 = kResourceVersion o2 \<and> DeepEqual (VMap (kBody o1)) (VMap (kBody o2))"

section \<open>Requests\<close>

datatype payload = NoPayload | ObjectPayload kobj | PatchPayload string string | DeletePayload string

record obj_request =
  oVerb :: string
  oPrefix :: "string list"
  oNamespace :: string
  oResource :: string
  oName :: string
  oSelector :: string
  oPayload :: payload

record 'w rest =
  rest_do :: "obj_request \<Rightarrow> 'w \<Rightarrow> (err + kobj) \<times> 'w"
  rest_list :: "obj_request \<Rightarrow> 'w \<Rightarrow> (err + kobj list) \<times> 'w"

record object_client =
  ocGVK :: gvk
  ocResource :: string
  ocNamespaced :: bool
  ocNamespace :: string

text \<open>A call gives an object and an error; with an error the object is the empty one that the factory made.\<close>

type_synonym ('w, 'a) call = "'w \<Rightarrow> ('a \<times> err option) \<times> 'w"

definition into :: "'a \<Rightarrow> ('w \<Rightarrow> (err + 'a) \<times> 'w) \<Rightarrow> ('w, 'a) call" where
  "into dflt m w = (case m w of (Inl e, w') \<Rightarrow> ((dflt, Some e), w') | (Inr o1, w') \<Rightarrow> ((o1, None), w'))"

definition getAPIPrefix :: "object_client \<Rightarrow> string" where
  "getAPIPrefix p = (if gGroup (ocGVK p) = [] then ''api'' else ''apis'')"

definition oc_request :: "object_client \<Rightarrow> string \<Rightarrow> string \<Rightarrow> obj_request" where
  "oc_request p verb namespace =
     \<lparr>oVerb = verb, oPrefix = [getAPIPrefix p, gGroup (ocGVK p), gVersion (ocGVK p)], oNamespace = namespace,
      oResource = ocResource p, oName = [], oSelector = [], oPayload = NoPayload\<rparr>"

text \<open>\<^verbatim>\<open>NamespaceIfScoped\<close>.\<close>

definition if_scoped :: "object_client \<Rightarrow> string \<Rightarrow> string" where
  "if_scoped p namespace = (if ocNamespaced p then namespace else [])"

definition object_ns :: "object_client \<Rightarrow> kobj \<Rightarrow> string" where
  "object_ns p o1 = if_scoped p (if kNamespace o1 \<noteq> [] then kNamespace o1 else ocNamespace p)"

definition create_body :: "object_client \<Rightarrow> kobj \<Rightarrow> kobj" where
  "create_body p o1 =
     (let g0 = kGVK o1;
          g1 = (if gKind g0 = [] then g0\<lparr>gKind := gKind (ocGVK p)\<rparr> else g0);
          g2 = (if gv_string g1 = [] then g1\<lparr>gGroup := gGroup (ocGVK p), gVersion := gVersion (ocGVK p)\<rparr> else g1)
      in o1\<lparr>kLabels := sm_put ''cattle.io/creator'' ''norman'' (kLabels o1), kGVK := g2\<rparr>)"

definition oc_Create :: "'w rest \<Rightarrow> object_client \<Rightarrow> kobj \<Rightarrow> ('w, kobj) call" where
  "oc_Create R p o1 =
     into no_object (rest_do R ((oc_request p ''POST'' (object_ns p o1))\<lparr>oPayload := ObjectPayload (create_body p o1)\<rparr>))"

definition oc_GetNamespaced :: "'w rest \<Rightarrow> object_client \<Rightarrow> string \<Rightarrow> string \<Rightarrow> ('w, kobj) call" where
  "oc_GetNamespaced R p namespace name = into no_object (rest_do R ((oc_request p ''GET'' namespace)\<lparr>oName := name\<rparr>))"

definition oc_Get :: "'w rest \<Rightarrow> object_client \<Rightarrow> string \<Rightarrow> ('w, kobj) call" where
  "oc_Get R p name = into no_object (rest_do R ((oc_request p ''GET'' (if_scoped p (ocNamespace p)))\<lparr>oName := name\<rparr>))"

definition oc_Update :: "'w rest \<Rightarrow> object_client \<Rightarrow> string \<Rightarrow> kobj \<Rightarrow> ('w, kobj) call" where
  "oc_Update R p name o1 =
     (if name = [] then (\<lambda>w. ((no_object, Some (PlainErr ''object missing name'')), w))
      else into no_object (rest_do R ((oc_request p ''PUT'' (object_ns p o1))\<lparr>oName := name, oPayload := ObjectPayload o1\<rparr>)))"

definition oc_DeleteNamespaced :: "'w rest \<Rightarrow> object_client \<Rightarrow> string \<Rightarrow> string \<Rightarrow> string \<Rightarrow> ('w, kobj) call" where
  "oc_DeleteNamespaced R p namespace name policy =
     into no_object (rest_do R ((oc_request p ''DELETE'' namespace)\<lparr>oName := name, oPayload := DeletePayload policy\<rparr>))"

definition oc_Delete :: "'w rest \<Rightarrow> object_client \<Rightarrow> string \<Rightarrow> string \<Rightarrow> ('w, kobj) call" where
  "oc_Delete R p name policy =
     into no_object (rest_do R ((oc_request p ''DELETE'' (if_scoped p (ocNamespace p)))\<lparr>oName := name, oPayload := DeletePayload policy\<rparr>))"

definition oc_List :: "'w rest \<Rightarrow> object_client \<Rightarrow> string \<Rightarrow> ('w, kobj list) call" where
  "oc_List R p selector = into [] (rest_list R ((oc_request p ''GET'' (if_scoped p (ocNamespace p)))\<lparr>oSelector := selector\<rparr>))"

definition oc_DeleteCollection :: "'w rest \<Rightarrow> object_client \<Rightarrow> string \<Rightarrow> string \<Rightarrow> ('w, kobj) call" where
  "oc_DeleteCollection R p policy selector =
     into no_object (rest_do R ((oc_request p ''DELETE'' (if_scoped p (ocNamespace p)))\<lparr>oSelector := selector, oPayload := DeletePayload policy\<rparr>))"

definition oc_Patch :: "'w rest \<Rightarrow> object_client \<Rightarrow> string \<Rightarrow> kobj \<Rightarrow> string \<Rightarrow> string \<Rightarrow> ('w, kobj) call" where
  "oc_Patch R p name o1 patchType data =
     (if name = [] then (\<lambda>w. ((no_object, Some (PlainErr ''object missing name'')), w))
      else into no_object (rest_do R ((oc_request p ''PATCH'' (object_ns p o1))\<lparr>oName := name, oPayload := PatchPayload patchType data\<rparr>)))"

section \<open>Lemmas\<close>

lemma sm_get_put [simp]: "sm_get (sm_put k v m) k' = (if k' = k then v else sm_get m k')"
  by (simp add: sm_get_def sm_put_def sm_entries_def go_map split: option.splits)

lemma into_cases:
  obtains e where "fst (into dflt m w) = (dflt, Some e)" | o1 where "fst (into dflt m w) = (o1, None)" "fst (m w) = Inr o1"
  by (cases "m w"; cases "fst (m w)") (auto simp: into_def)

end
