(* ===== verification/Lifecycle.thy ===== *)
theory Lifecycle
  imports ObjectClient Helpers
begin

text \<open>
  The life cycle of an object around the handlers of a user, \<^verbatim>\<open>lifecycle/object.go\<close>: a finalizer is added before
  \<^verbatim>\<open>Create\<close> runs, an annotation records that it ran, and the finalizer is removed after \<^verbatim>\<open>Finalize\<close> ran.

  A handler gets a copy of the object, which it may change, and returns an object or nil, and an error. Its
  result here is the changed copy, the returned object and the error.
\<close>

type_synonym 'w life_fn = "kobj \<Rightarrow> 'w \<Rightarrow> (kobj \<times> kobj option \<times> err option) \<times> 'w"

record 'w lifecycle =
  life_Create :: "'w life_fn"
  life_Finalize :: "'w life_fn"
  life_Updated :: "'w life_fn"
  life_conditions :: "(bool \<times> bool) option"

text \<open>\<open>life_conditions\<close> holds \<^verbatim>\<open>HasCreate\<close> and \<^verbatim>\<open>HasFinalize\<close> when the life cycle implements them.\<close>

record 'w lifecycle_adapter =
  laName :: string
  clusterScoped :: bool
  life :: "'w lifecycle"
  laRest :: "'w rest"
  laClient :: object_client

definition createKey :: "('w, 'z) lifecycle_adapter_scheme \<Rightarrow> string" where
  "createKey a = ''lifecycle.cattle.io/create.'' @ laName a"

definition constructFinalizerKey :: "('w, 'z) lifecycle_adapter_scheme \<Rightarrow> string" where
  "constructFinalizerKey a =
     (if clusterScoped a then ''clusterscoped.controller.cattle.io/'' else ''controller.cattle.io/'') @ laName a"

definition hasFinalize :: "('w, 'z) lifecycle_adapter_scheme \<Rightarrow> bool" where
  "hasFinalize a = (case life_conditions (life a) of None \<Rightarrow> True | Some c \<Rightarrow> snd c)"

definition hasCreate :: "('w, 'z) lifecycle_adapter_scheme \<Rightarrow> bool" where
  "hasCreate a = (case life_conditions (life a) of None \<Rightarrow> True | Some c \<Rightarrow> fst c)"

definition la_Update :: "('w, 'z) lifecycle_adapter_scheme \<Rightarrow> string \<Rightarrow> kobj \<Rightarrow> ('w, kobj) call" where
  "la_Update a name o1 = oc_Update (laRest a) (laClient a) name o1"

text \<open>Neither object is nil where the code calls \<^verbatim>\<open>update\<close>, except the returned one after an error.\<close>

definition update_object :: "('w, 'z) lifecycle_adapter_scheme \<Rightarrow> string \<Rightarrow> kobj \<Rightarrow> kobj option \<Rightarrow> ('w, kobj) call" where
  "update_object a name orig o1 w =
     (case o1 of
        None \<Rightarrow> ((orig, None), w)
      | Some o2 \<Rightarrow> if \<not> objects_equal orig o2 then la_Update a name o2 w else ((o2, None), w))"

definition record_change :: "('w, 'z) lifecycle_adapter_scheme \<Rightarrow> kobj \<Rightarrow> 'w life_fn \<Rightarrow> ('w, kobj) call" where
  "record_change a o1 f w =
     (case f o1 w of ((copy, ret, e), w1) \<Rightarrow>
        (case e of
           Some e' \<Rightarrow> (case update_object a (kName o1) o1 ret w1 of ((o2, _), w2) \<Rightarrow> ((o2, Some e'), w2))
         | None \<Rightarrow> (case ret of None \<Rightarrow> ((copy, None), w1) | Some _ \<Rightarrow> update_object a (kName o1) o1 ret w1)))"

fun removeFinalizer :: "nat \<Rightarrow> ('w, 'z) lifecycle_adapter_scheme \<Rightarrow> string \<Rightarrow> kobj \<Rightarrow> ('w, kobj option) call" where
  "removeFinalizer 0 a name o1 w = ((None, Some (PlainErr (''failed to remove finalizer on '' @ name))), w)"
| "removeFinalizer (Suc n) a name o1 w =
     (let o2 = o1\<lparr>kFinalizers := filter (\<lambda>f. f \<noteq> name) (kFinalizers o1)\<rparr>
      in case la_Update a (kName o2) o2 w of
           ((o3, None), w1) \<Rightarrow> ((Some o3, None), w1)
         | ((_, Some _), w1) \<Rightarrow>
             (case oc_GetNamespaced (laRest a) (laClient a) (kNamespace o2) (kName o2) w1 of
                ((_, Some e), w2) \<Rightarrow> ((None, Some e), w2)
              | ((o4, None), w2) \<Rightarrow> removeFinalizer n a name o4 w2))"

text \<open>\<^verbatim>\<open>finalize\<close> and \<^verbatim>\<open>create\<close> give an object or nil, whether to go on, and an error.\<close>

type_synonym 'w stage = "'w \<Rightarrow> (kobj option \<times> bool \<times> err option) \<times> 'w"

definition life_finalize :: "('w, 'z) lifecycle_adapter_scheme \<Rightarrow> kobj \<Rightarrow> 'w stage" where
  "life_finalize a o1 w =
     (if \<not> hasFinalize a then ((Some o1, True, None), w)
      else if \<not> kDeletion o1 then ((None, True, None), w)
      else if \<not> ContainsString (kFinalizers o1) (constructFinalizerKey a) then ((None, False, None), w)
      else case record_change a o1 (life_Finalize (life a)) w of
             ((_, Some e), w1) \<Rightarrow> ((Some o1, False, Some e), w1)
           | ((o2, None), w1) \<Rightarrow>
               (case removeFinalizer 3 a (constructFinalizerKey a) o2 w1 of ((o3, e), w2) \<Rightarrow> ((o3, False, e), w2)))"

definition isInitialized :: "('w, 'z) lifecycle_adapter_scheme \<Rightarrow> kobj \<Rightarrow> bool" where
  "isInitialized a o1 \<longleftrightarrow> sm_get (kAnnotations o1) (createKey a) = ''true''"

definition setInitialized :: "('w, 'z) lifecycle_adapter_scheme \<Rightarrow> kobj \<Rightarrow> ('w, kobj) call" where
  "setInitialized a o1 = la_Update a (kName o1) (o1\<lparr>kAnnotations := sm_put (createKey a) ''true'' (kAnnotations o1)\<rparr>)"

definition addFinalizer :: "('w, 'z) lifecycle_adapter_scheme \<Rightarrow> kobj \<Rightarrow> ('w, kobj) call" where
  "addFinalizer a o1 w =
     (if ContainsString (kFinalizers o1) (constructFinalizerKey a) then ((o1, None), w)
      else la_Update a (kName o1) (o1\<lparr>kFinalizers := kFinalizers o1 @ [constructFinalizerKey a]\<rparr>) w)"

definition run_create :: "('w, 'z) lifecycle_adapter_scheme \<Rightarrow> kobj \<Rightarrow> 'w stage" where
  "run_create a o1 w =
     (if \<not> hasCreate a then ((Some o1, True, None), w)
      else case record_change a o1 (life_Create (life a)) w of
             ((o2, Some e), w1) \<Rightarrow> ((Some o2, False, Some e), w1)
           | ((o2, None), w1) \<Rightarrow> (case setInitialized a o2 w1 of ((o3, e), w2) \<Rightarrow> ((Some o3, False, e), w2)))"

definition life_create :: "('w, 'z) lifecycle_adapter_scheme \<Rightarrow> kobj \<Rightarrow> 'w stage" where
  "life_create a o1 w =
     (if isInitialized a o1 then ((None, True, None), w)
      else if hasFinalize a then
        (case addFinalizer a o1 w of
           ((o2, Some e), w1) \<Rightarrow> ((Some o2, False, Some e), w1)
         | ((o2, None), w1) \<Rightarrow> run_create a o2 w1)
      else run_create a o1 w)"

definition life_sync :: "('w, 'z) lifecycle_adapter_scheme \<Rightarrow> kobj option \<Rightarrow> 'w \<Rightarrow> (kobj option \<times> err option) \<times> 'w" where
  "life_sync a input w =
     (case input of
        None \<Rightarrow> ((None, None), w)
      | Some o0 \<Rightarrow>
          (case life_finalize a o0 w of ((n1, cont1, e1), w1) \<Rightarrow>
             if e1 \<noteq> None \<or> \<not> cont1 then ((None, e1), w1)
             else let o1 = (case n1 of Some o' \<Rightarrow> o' | None \<Rightarrow> o0) in
               (case life_create a o1 w1 of ((n2, cont2, e2), w2) \<Rightarrow>
                  if e2 \<noteq> None \<or> \<not> cont2 then ((None, e2), w2)
                  else let o2 = (case n2 of Some o' \<Rightarrow> o' | None \<Rightarrow> o1) in
                    (case record_change a o2 (life_Updated (life a)) w2 of ((o3, e3), w3) \<Rightarrow> ((Some o3, e3), w3)))))"

section \<open>What the life cycle guarantees\<close>

lemma record_change_cong:
  assumes "laRest a = laRest b" "laClient a = laClient b"
  shows "record_change a = record_change b"
proof -
  have upd: "update_object a = update_object b"
    by (intro ext) (unfold update_object_def la_Update_def assms, rule refl)
  show ?thesis by (intro ext) (unfold record_change_def upd, rule refl)
qed

lemma removeFinalizer_cong:
  assumes "laRest a = laRest b" "laClient a = laClient b"
  shows "removeFinalizer n a name o1 w = removeFinalizer n b name o1 w"
  by (induction n arbitrary: o1 w) (simp_all add: la_Update_def assms split: prod.splits option.splits)

lemma record_change_life [simp]: "record_change (a\<lparr>life := l\<rparr>) = record_change a"
  by (rule record_change_cong) simp_all

lemma removeFinalizer_life [simp]: "removeFinalizer n (a\<lparr>life := l\<rparr>) name o1 w = removeFinalizer n a name o1 w"
  by (rule removeFinalizer_cong) simp_all

lemma hasFinalize_life [simp]: "life_conditions l = life_conditions (life a) \<Longrightarrow> hasFinalize (a\<lparr>life := l\<rparr>) = hasFinalize a"
  by (simp add: hasFinalize_def)

lemma hasCreate_life [simp]: "life_conditions l = life_conditions (life a) \<Longrightarrow> hasCreate (a\<lparr>life := l\<rparr>) = hasCreate a"
  by (simp add: hasCreate_def)

lemma adapter_life [simp]:
  "constructFinalizerKey (a\<lparr>life := l\<rparr>) = constructFinalizerKey a"
  "isInitialized (a\<lparr>life := l\<rparr>) o1 = isInitialized a o1"
  "setInitialized (a\<lparr>life := l\<rparr>) o1 = setInitialized a o1"
  "addFinalizer (a\<lparr>life := l\<rparr>) o1 = addFinalizer a o1"
  by (simp_all add: constructFinalizerKey_def isInitialized_def setInitialized_def addFinalizer_def createKey_def la_Update_def fun_eq_iff)

lemma sync_deleting:
  assumes "hasFinalize a" "kDeletion o1"
  shows "life_sync a (Some o1) w = (case life_finalize a o1 w of ((n1, c1, e1), w1) \<Rightarrow> ((None, e1), w1))"
  using assms by (auto simp: life_sync_def life_finalize_def split: prod.splits option.splits)

lemma removeFinalizer_removes:
  assumes "removeFinalizer n a name o1 w = ((o2, None), w2)"
  shows "\<exists>o3 w3. name \<notin> set (kFinalizers o3) \<and> o2 \<noteq> None \<and> la_Update a (kName o3) o3 w3 = ((the o2, None), w2)"
  using assms
proof (induction n arbitrary: o1 w)
  case (Suc n)
  let ?o = "o1\<lparr>kFinalizers := filter (\<lambda>f. f \<noteq> name) (kFinalizers o1)\<rparr>"
  show ?case
  proof (cases "la_Update a (kName ?o) ?o w")
    case (Pair r w1)
    then obtain o3 e where upd: "la_Update a (kName ?o) ?o w = ((o3, e), w1)" by (cases r) simp
    show ?thesis
    proof (cases e)
      case None
      thus ?thesis using Suc.prems upd by (intro exI[of _ ?o] exI[of _ w]) (auto simp: Let_def)
    next
      case (Some e')
      thus ?thesis using Suc.prems upd Suc.IH by (auto simp: Let_def split: prod.splits option.splits)
    qed
  qed
qed simp

lemma life_sync_cong:
  assumes "life_finalize a o1 = life_finalize b o1" "life_create a = life_create b" "record_change a = record_change b"
    and "life_Updated (life a) = life_Updated (life b)"
  shows "life_sync a (Some o1) w = life_sync b (Some o1) w"
  unfolding life_sync_def option.case assms ..

lemma life_create_Finalize:
  "life_create (a\<lparr>life := (life a)\<lparr>life_Finalize := h\<rparr>\<rparr>) = life_create a"
proof -
  have "run_create (a\<lparr>life := (life a)\<lparr>life_Finalize := h\<rparr>\<rparr>) = run_create a"
    by (intro ext) (simp add: run_create_def)
  thus ?thesis by (intro ext) (simp add: life_create_def)
qed

text \<open>C8. The handlers of a life cycle run in their phases only. For an object that is being deleted, a life cycle
  with a finalizer does the same whatever \<^verbatim>\<open>Create\<close> and \<^verbatim>\<open>Updated\<close> are. For one that is not being deleted it does the
  same whatever \<^verbatim>\<open>Finalize\<close> is. For one that is marked as initialized it does the same whatever \<^verbatim>\<open>Create\<close> is. So
  \<^verbatim>\<open>Create\<close> is not run again after \<^verbatim>\<open>setInitialized\<close>.\<close>

theorem life_phases:
  "(hasFinalize a \<and> kDeletion o1 \<longrightarrow>
      life_sync (a\<lparr>life := (life a)\<lparr>life_Create := f, life_Updated := g\<rparr>\<rparr>) (Some o1) w = life_sync a (Some o1) w)
   \<and> (\<not> kDeletion o1 \<longrightarrow>
      life_sync (a\<lparr>life := (life a)\<lparr>life_Finalize := h\<rparr>\<rparr>) (Some o1) w = life_sync a (Some o1) w)
   \<and> (isInitialized a o1 \<longrightarrow>
      life_sync (a\<lparr>life := (life a)\<lparr>life_Create := f\<rparr>\<rparr>) (Some o1) w = life_sync a (Some o1) w)"
proof (intro conjI impI)
  assume "hasFinalize a \<and> kDeletion o1"
  thus "life_sync (a\<lparr>life := (life a)\<lparr>life_Create := f, life_Updated := g\<rparr>\<rparr>) (Some o1) w = life_sync a (Some o1) w"
    by (simp add: sync_deleting life_finalize_def)
next
  assume "\<not> kDeletion o1"
  thus "life_sync (a\<lparr>life := (life a)\<lparr>life_Finalize := h\<rparr>\<rparr>) (Some o1) w = life_sync a (Some o1) w"
    by (intro life_sync_cong) (simp_all add: life_create_Finalize, simp add: life_finalize_def fun_eq_iff)
next
  assume init: "isInitialized a o1"
  show "life_sync (a\<lparr>life := (life a)\<lparr>life_Create := f\<rparr>\<rparr>) (Some o1) w = life_sync a (Some o1) w"
  proof (cases "hasFinalize a \<and> kDeletion o1")
    case True
    thus ?thesis by (simp add: sync_deleting life_finalize_def)
  next
    case False
    thus ?thesis using init by (auto simp: life_sync_def life_finalize_def life_create_def)
  qed
qed

text \<open>A life cycle over a server that keeps the objects it is sent and logs them.\<close>

definition sample_life_fn :: "string \<Rightarrow> kobj list life_fn" where
  "sample_life_fn v o1 w = ((o1, Some (o1\<lparr>kLabels := sm_put ''ran'' v (kLabels o1)\<rparr>), None), w)"

definition failing_life_fn :: "kobj list life_fn" where
  "failing_life_fn o1 w = ((o1, None, Some (PlainErr ''busy'')), w)"

definition sample_rest :: "kobj list rest" where
  "sample_rest = \<lparr>rest_do = (\<lambda>r w. case oPayload r of ObjectPayload o1 \<Rightarrow> (Inr o1, o1 # w) | _ \<Rightarrow> (Inl (PlainErr ''not found''), w)),
     rest_list = (\<lambda>r w. (Inr w, w))\<rparr>"

definition sample_adapter :: "kobj list lifecycle_adapter" where
  "sample_adapter = \<lparr>laName = ''nodes'', clusterScoped = False,
     life = \<lparr>life_Create = sample_life_fn ''create'', life_Finalize = sample_life_fn ''finalize'', life_Updated = sample_life_fn ''updated'',
       life_conditions = None\<rparr>,
     laRest = sample_rest,
     laClient = \<lparr>ocGVK = \<lparr>gGroup = [], gVersion = ''v1'', gKind = ''Node''\<rparr>, ocResource = ''nodes'', ocNamespaced = False, ocNamespace = []\<rparr>\<rparr>"

definition sample_node :: "bool \<Rightarrow> kobj" where
  "sample_node deleting = no_object\<lparr>kName := ''n1'', kFinalizers := [''controller.cattle.io/nodes''], kDeletion := deleting,
     kAnnotations := Some [(''lifecycle.cattle.io/create.nodes'', ''true'')]\<rparr>"

theorem life_phases_witness:
  "life_sync (sample_adapter\<lparr>life := (life sample_adapter)\<lparr>life_Create := failing_life_fn, life_Updated := failing_life_fn\<rparr>\<rparr>) (Some (sample_node True)) []
     = life_sync sample_adapter (Some (sample_node True)) []
   \<and> life_sync (sample_adapter\<lparr>life := (life sample_adapter)\<lparr>life_Finalize := failing_life_fn\<rparr>\<rparr>) (Some (sample_node False)) []
     = life_sync sample_adapter (Some (sample_node False)) []
   \<and> life_sync (sample_adapter\<lparr>life := (life sample_adapter)\<lparr>life_Create := failing_life_fn\<rparr>\<rparr>) (Some (sample_node False)) []
     = life_sync sample_adapter (Some (sample_node False)) []"
  using life_phases[of sample_adapter "sample_node True" failing_life_fn failing_life_fn "[]" failing_life_fn]
    life_phases[of sample_adapter "sample_node False" failing_life_fn failing_life_fn "[]" failing_life_fn]
  by (simp add: hasFinalize_def sample_adapter_def sample_node_def no_object_def isInitialized_def createKey_def sm_get_def)

text \<open>C9. The finalizer goes last. When an object with the finalizer of the life cycle is being deleted and \<^verbatim>\<open>Finalize\<close> fails,
  the error is returned and nothing follows the update that \<^verbatim>\<open>record\<close> makes. When \<^verbatim>\<open>sync\<close> succeeds, the last request was
  the successful update of an object that no longer has the finalizer.\<close>

theorem life_finalizer:
  assumes "hasFinalize a" "kDeletion o1" "constructFinalizerKey a \<in> set (kFinalizers o1)"
  shows "(life_Finalize (life a) o1 w = ((c, r, Some e), w1) \<longrightarrow>
           life_sync a (Some o1) w = ((None, Some e), snd (update_object a (kName o1) o1 r w1)))
    \<and> (life_sync a (Some o1) w = ((n2, None), w2) \<longrightarrow>
         (\<exists>o3 w3 o4. constructFinalizerKey a \<notin> set (kFinalizers o3) \<and> la_Update a (kName o3) o3 w3 = ((o4, None), w2)))"
proof (intro conjI impI)
  assume "life_Finalize (life a) o1 w = ((c, r, Some e), w1)"
  thus "life_sync a (Some o1) w = ((None, Some e), snd (update_object a (kName o1) o1 r w1))"
    using assms by (auto simp: sync_deleting life_finalize_def ContainsString_iff record_change_def split: prod.splits)
next
  assume "life_sync a (Some o1) w = ((n2, None), w2)"
  then obtain o2 w1 o5 where "removeFinalizer 3 a (constructFinalizerKey a) o2 w1 = ((o5, None), w2)"
    using assms by (auto simp: sync_deleting life_finalize_def ContainsString_iff split: prod.splits option.splits)
  from removeFinalizer_removes[OF this]
  show "\<exists>o3 w3 o4. constructFinalizerKey a \<notin> set (kFinalizers o3) \<and> la_Update a (kName o3) o3 w3 = ((o4, None), w2)"
    by blast
qed

theorem life_finalizer_witness:
  "life_sync (sample_adapter\<lparr>life := (life sample_adapter)\<lparr>life_Finalize := failing_life_fn\<rparr>\<rparr>) (Some (sample_node True)) []
     = ((None, Some (PlainErr ''busy'')), [])
   \<and> (\<exists>o3 w3 o4. ''controller.cattle.io/nodes'' \<notin> set (kFinalizers o3)
        \<and> la_Update sample_adapter (kName o3) o3 w3 = ((o4, None), snd (life_sync sample_adapter (Some (sample_node True)) [])))"
proof
  let ?a = "sample_adapter\<lparr>life := (life sample_adapter)\<lparr>life_Finalize := failing_life_fn\<rparr>\<rparr>"
  note defs = hasFinalize_def sample_adapter_def sample_node_def no_object_def constructFinalizerKey_def failing_life_fn_def update_object_def
  show "life_sync ?a (Some (sample_node True)) [] = ((None, Some (PlainErr ''busy'')), [])"
    using life_finalizer[of ?a "sample_node True" "[]" "sample_node True" None "PlainErr ''busy''" "[]" None "[]"] by (simp add: defs)
  have "life_sync sample_adapter (Some (sample_node True)) [] = ((fst (fst (life_sync sample_adapter (Some (sample_node True)) [])), None),
    snd (life_sync sample_adapter (Some (sample_node True)) []))"
    by code_simp
  thus "\<exists>o3 w3 o4. ''controller.cattle.io/nodes'' \<notin> set (kFinalizers o3)
        \<and> la_Update sample_adapter (kName o3) o3 w3 = ((o4, None), snd (life_sync sample_adapter (Some (sample_node True)) []))"
    using life_finalizer[of sample_adapter "sample_node True" "[]" undefined None undefined undefined] by (simp add: defs)
qed

end
