(* ===== verification/Controllers.thy ===== *)
theory Controllers
  imports Errors GoStd Helpers
begin

text \<open>
  The generic controller of \<^verbatim>\<open>controller\<close>: \<^verbatim>\<open>generic_controller.go\<close>, \<^verbatim>\<open>starter.go\<close>, \<^verbatim>\<open>cluster_check.go\<close>, and the handlers that
  \<^verbatim>\<open>pkg/changeset\<close> adds to controllers. The work queue and the informer of the Kubernetes client are parameters
  that act on the world \<open>'w\<close>. A handler is called with a key and the object or nil; it gives an object or nil, an
  error, or a panic. The mutex makes each of \<^verbatim>\<open>AddHandler\<close>, \<^verbatim>\<open>Sync\<close> and \<^verbatim>\<open>Start\<close> one step; the goroutine that waits for the
  end of a handler's context is the step \<open>cancel_handler\<close>.
\<close>

section \<open>State\<close>

datatype work_key = KeyStr string | GenKey int string

type_synonym ('w, 'o) handler_fn = "string \<Rightarrow> 'o option \<Rightarrow> 'w \<Rightarrow> 'o option res \<times> 'w"

text \<open>\<open>hd_ptr\<close> is the address of the definition.\<close>

record ('w, 'o) handlerDef =
  hd_ptr :: nat
  hd_name :: string
  hd_generation :: int
  hd_handler :: "('w, 'o) handler_fn"

record ('w, 'o) genericController =
  threadinessOverride :: int
  cGeneration :: int
  cHandlers :: "('w, 'o) handlerDef list"
  cName :: string
  cRunning :: bool
  cSynced :: bool
  cWorkers :: int

record ('w, 'o) machinery =
  q_Add :: "work_key \<Rightarrow> 'w \<Rightarrow> 'w"
  q_Get :: "'w \<Rightarrow> work_key option \<times> 'w"
  q_Done :: "work_key \<Rightarrow> 'w \<Rightarrow> 'w"
  q_Forget :: "work_key \<Rightarrow> 'w \<Rightarrow> 'w"
  q_AddRateLimited :: "work_key \<Rightarrow> 'w \<Rightarrow> 'w"
  q_ShutDown :: "'w \<Rightarrow> 'w"
  wait_for_sync :: "'w \<Rightarrow> bool \<times> 'w"
  store_GetByKey :: "'w \<Rightarrow> string \<Rightarrow> 'o option res"
  store_ListKeys :: "'w \<Rightarrow> string list"
  meta_key :: "'o \<Rightarrow> string option"
  k8s_IsConflict :: "err \<Rightarrow> bool"
  panic_error :: err

definition NewGenericController :: "string \<Rightarrow> ('w, 'o) genericController" where
  "NewGenericController name = \<lparr>threadinessOverride = 0, cGeneration = 0, cHandlers = [], cName = name, cRunning = False,
     cSynced = False, cWorkers = 0\<rparr>"

definition SetThreadinessOverride :: "int \<Rightarrow> ('w, 'o) genericController \<Rightarrow> ('w, 'o) genericController" where
  "SetThreadinessOverride count g = g\<lparr>threadinessOverride := count\<rparr>"

definition HandlerCount :: "('w, 'o) genericController \<Rightarrow> int" where
  "HandlerCount g = int (length (cHandlers g))"

section \<open>Queueing\<close>

definition Enqueue :: "('w, 'o) machinery \<Rightarrow> string \<Rightarrow> string \<Rightarrow> 'w \<Rightarrow> 'w" where
  "Enqueue M namespace name =
     (if namespace = [] then q_Add M (KeyStr name) else q_Add M (KeyStr (namespace @ ''/'' @ name)))"

text \<open>What is queued is a generation key or an object of the informer.\<close>

definition queueObject :: "('w, 'o) machinery \<Rightarrow> work_key + 'o \<Rightarrow> 'w \<Rightarrow> 'w" where
  "queueObject M x w =
     (case x of
        Inl k \<Rightarrow> q_Add M k w
      | Inr o1 \<Rightarrow> (case meta_key M o1 of None \<Rightarrow> w | Some k \<Rightarrow> q_Add M (KeyStr k) w))"

section \<open>Handlers\<close>

definition AddHandler :: "nat \<Rightarrow> string \<Rightarrow> ('w, 'o) handler_fn \<Rightarrow> ('w, 'o) genericController \<Rightarrow> ('w, 'o) genericController" where
  "AddHandler ptr name handler g =
     g\<lparr>cHandlers := cHandlers g @ [\<lparr>hd_ptr = ptr, hd_name = name, hd_generation = cGeneration g, hd_handler = handler\<rparr>]\<rparr>"

fun remaining_handlers :: "('w, 'o) handlerDef \<Rightarrow> ('w, 'o) handlerDef list \<Rightarrow> ('w, 'o) handlerDef list" where
  "remaining_handlers h [] = []"
| "remaining_handlers h (handler # hs) =
     (if hd_ptr handler \<noteq> hd_ptr h then h # remaining_handlers h hs else remaining_handlers h hs)"

definition cancel_handler :: "('w, 'o) handlerDef \<Rightarrow> ('w, 'o) genericController \<Rightarrow> ('w, 'o) genericController" where
  "cancel_handler h g = g\<lparr>cHandlers := remaining_handlers h (cHandlers g)\<rparr>"

section \<open>Starting\<close>

definition g_sync :: "('w, 'o) machinery \<Rightarrow> ('w, 'o) genericController \<Rightarrow> 'w \<Rightarrow> err option \<times> ('w, 'o) genericController \<times> 'w" where
  "g_sync M g w =
     (if cSynced g then (None, g, w)
      else case wait_for_sync M w of
             (False, w1) \<Rightarrow> (Some (PlainErr (''failed to sync controller '' @ cName g)), g, w1)
           | (True, w1) \<Rightarrow> (None, g\<lparr>cSynced := True\<rparr>, w1))"

definition g_run :: "int \<Rightarrow> ('w, 'o) genericController \<Rightarrow> ('w, 'o) genericController" where
  "g_run threadiness g = g\<lparr>cWorkers := cWorkers g + max 0 threadiness\<rparr>"

text \<open>The loop over the handlers breaks at the first one of the current generation.\<close>

definition requeue_new :: "('w, 'o) machinery \<Rightarrow> ('w, 'o) genericController \<Rightarrow> 'w \<Rightarrow> 'w" where
  "requeue_new M g w =
     (if list_ex (\<lambda>h. hd_generation h = cGeneration g) (cHandlers g)
      then fold (\<lambda>key. queueObject M (Inl (GenKey (cGeneration g) key))) (store_ListKeys M w) w
      else w)"

definition g_Start :: "('w, 'o) machinery \<Rightarrow> int \<Rightarrow> ('w, 'o) genericController \<Rightarrow> 'w \<Rightarrow> err option \<times> ('w, 'o) genericController \<times> 'w" where
  "g_Start M threadiness g w =
     (case g_sync M g w of
        (Some e, g1, w1) \<Rightarrow> (Some e, g1, w1)
      | (None, g1, w1) \<Rightarrow>
          let g2 = (if \<not> cRunning g1
                    then g_run (if threadinessOverride g1 > 0 then threadinessOverride g1 else threadiness) g1 else g1);
              w2 = (if cRunning g1 then requeue_new M g2 w1 else w1)
          in (None, g2\<lparr>cGeneration := cGeneration g2 + 1, cRunning := True\<rparr>, w2))"

text \<open>The starters run one after the other; \<^verbatim>\<open>Sync\<close> of \<^verbatim>\<open>starter.go\<close> runs them all and gives the first error.\<close>

fun start_all :: "('w, 'o) machinery \<Rightarrow> int \<Rightarrow> ('w, 'o) genericController list \<Rightarrow> 'w \<Rightarrow> err option \<times> ('w, 'o) genericController list \<times> 'w" where
  "start_all M threadiness [] w = (None, [], w)"
| "start_all M threadiness (g # gs) w =
     (case g_Start M threadiness g w of
        (Some e, g1, w1) \<Rightarrow> (Some e, g1 # gs, w1)
      | (None, g1, w1) \<Rightarrow> (case start_all M threadiness gs w1 of (e, gs1, w2) \<Rightarrow> (e, g1 # gs1, w2)))"

fun sync_all :: "('w, 'o) machinery \<Rightarrow> ('w, 'o) genericController list \<Rightarrow> 'w \<Rightarrow> err option \<times> ('w, 'o) genericController list \<times> 'w" where
  "sync_all M [] w = (None, [], w)"
| "sync_all M (g # gs) w =
     (case g_sync M g w of (e, g1, w1) \<Rightarrow>
        (case sync_all M gs w1 of (e', gs1, w2) \<Rightarrow> (if e = None then e' else e, g1 # gs1, w2)))"

definition SyncThenStart :: "('w, 'o) machinery \<Rightarrow> int \<Rightarrow> ('w, 'o) genericController list \<Rightarrow> 'w \<Rightarrow> err option \<times> ('w, 'o) genericController list \<times> 'w" where
  "SyncThenStart M threadiness gs w =
     (case sync_all M gs w of
        (Some e, gs1, w1) \<Rightarrow> (Some e, gs1, w1)
      | (None, gs1, w1) \<Rightarrow> start_all M threadiness gs1 w1)"

section \<open>Work\<close>

text \<open>\<^verbatim>\<open>errors.Cause\<close>: of the error types only \<^verbatim>\<open>handlerError\<close> has a method \<^verbatim>\<open>Cause\<close>.\<close>

fun err_cause :: "err \<Rightarrow> err" where
  "err_cause (HandlerError name e) = err_cause e"
| "err_cause e = e"

definition is_forget :: "err \<Rightarrow> bool" where
  "is_forget e = (case e of ForgetError _ _ \<Rightarrow> True | _ \<Rightarrow> False)"

definition ignoreError :: "('w, 'o) machinery \<Rightarrow> err \<Rightarrow> bool \<Rightarrow> bool" where
  "ignoreError M e checkString =
     (let c = err_cause e in
      if k8s_IsConflict M c then True
      else if is_forget c then True
      else if checkString then has_suffix (err_string c) ''please apply your changes to the latest version and try again''
      else False)"

definition filterConflictsError :: "('w, 'o) machinery \<Rightarrow> err \<Rightarrow> err option" where
  "filterConflictsError M e =
     (if ignoreError M e False then None
      else case err_cause e of
             MultiErrors es \<Rightarrow> NewErrors (map Some (filter (\<lambda>e'. \<not> ignoreError M e' True) es))
           | _ \<Rightarrow> Some e)"

text \<open>The loop over the handlers: the result is the list of errors, or None when a handler panicked.\<close>

fun call_handlers :: "int \<Rightarrow> string \<Rightarrow> ('w, 'o) handlerDef list \<Rightarrow> 'o option \<Rightarrow> err list \<Rightarrow> 'w \<Rightarrow> err list option \<times> 'w" where
  "call_handlers generation s [] o1 errs w = (Some errs, w)"
| "call_handlers generation s (h # hs) o1 errs w =
     (if generation > -1 \<and> hd_generation h \<noteq> generation then call_handlers generation s hs o1 errs w
      else case hd_handler h s o1 w of
             (Panic, w1) \<Rightarrow> (None, w1)
           | (Err e, w1) \<Rightarrow> call_handlers generation s hs o1 (errs @ [HandlerError (hd_name h) e]) w1
           | (Ok None, w1) \<Rightarrow> call_handlers generation s hs o1 errs w1
           | (Ok (Some o2), w1) \<Rightarrow> call_handlers generation s hs (Some o2) errs w1)"

definition syncHandler :: "('w, 'o) machinery \<Rightarrow> ('w, 'o) genericController \<Rightarrow> work_key \<Rightarrow> 'w \<Rightarrow> err option \<times> 'w" where
  "syncHandler M g key w =
     (let (generation, s) = (case key of KeyStr s \<Rightarrow> (-1, s) | GenKey n s \<Rightarrow> (n, s)) in
      case store_GetByKey M w s of
        Panic \<Rightarrow> (Some (panic_error M), w)
      | Err e \<Rightarrow> (Some e, w)
      | Ok o1 \<Rightarrow>
          (case call_handlers generation s (cHandlers g) o1 [] w of
             (None, w1) \<Rightarrow> (Some (panic_error M), w1)
           | (Some errs, w1) \<Rightarrow> (NewErrors (map Some errs), w1)))"

definition plain_key :: "work_key \<Rightarrow> work_key" where
  "plain_key key = (case key of GenKey _ s \<Rightarrow> KeyStr s | KeyStr s \<Rightarrow> KeyStr s)"

definition dropped :: "err option \<Rightarrow> bool" where
  "dropped e = (case e of None \<Rightarrow> True | Some (HandlerError name e') \<Rightarrow> is_forget e' | Some e' \<Rightarrow> is_forget e')"

definition processNextWorkItem :: "('w, 'o) machinery \<Rightarrow> ('w, 'o) genericController \<Rightarrow> 'w \<Rightarrow> bool \<times> 'w" where
  "processNextWorkItem M g w =
     (case q_Get M w of
        (None, w1) \<Rightarrow> (False, w1)
      | (Some key, w1) \<Rightarrow>
          (case syncHandler M g key w1 of (e, w2) \<Rightarrow>
             (True, q_Done M key (if dropped e then q_Forget M key w2 else q_AddRateLimited M (plain_key key) w2))))"

text \<open>A worker runs until the queue is shut down: None when the items given do not suffice.\<close>

fun runWorker :: "nat \<Rightarrow> ('w, 'o) machinery \<Rightarrow> ('w, 'o) genericController \<Rightarrow> 'w \<Rightarrow> 'w option" where
  "runWorker 0 M g w = None"
| "runWorker (Suc n) M g w =
     (case processNextWorkItem M g w of (False, w1) \<Rightarrow> Some w1 | (True, w1) \<Rightarrow> runWorker n M g w1)"

section \<open>Change sets\<close>

definition split_key :: "string \<Rightarrow> string \<times> string" where
  "split_key key = (case split_n2 key ''/'' of [ns, name] \<Rightarrow> (ns, name) | [name] \<Rightarrow> ([], name) | _ \<Rightarrow> ([], []))"

definition watch_handler :: "('w, 'o) machinery \<Rightarrow> (string \<Rightarrow> string \<Rightarrow> 'w \<Rightarrow> 'w)
    \<Rightarrow> (string \<Rightarrow> string \<Rightarrow> 'o option \<Rightarrow> 'w \<Rightarrow> (string \<times> string) list res \<times> 'w) \<Rightarrow> ('w, 'o) handler_fn" where
  "watch_handler M enq resolve key o0 w =
     (case store_GetByKey M w key of
        Panic \<Rightarrow> (Panic, w)
      | Err e \<Rightarrow> (Err e, w)
      | Ok o1 \<Rightarrow>
          (case resolve (fst (split_key key)) (snd (split_key key)) o1 w of
             (Panic, w1) \<Rightarrow> (Panic, w1)
           | (Err e, w1) \<Rightarrow> (Err e, w1)
           | (Ok keys, w1) \<Rightarrow> (Ok None, fold (\<lambda>k. if snd k \<noteq> [] then enq (fst k) (snd k) else id) keys w1)))"

fun changeset_Watch :: "nat \<Rightarrow> string \<Rightarrow> (string \<Rightarrow> string \<Rightarrow> 'o option \<Rightarrow> 'w \<Rightarrow> (string \<times> string) list res \<times> 'w)
    \<Rightarrow> (string \<Rightarrow> string \<Rightarrow> 'w \<Rightarrow> 'w) \<Rightarrow> (('w, 'o) machinery \<times> ('w, 'o) genericController) list
    \<Rightarrow> (('w, 'o) machinery \<times> ('w, 'o) genericController) list" where
  "changeset_Watch ptr name resolve enq [] = []"
| "changeset_Watch ptr name resolve enq ((M, g) # cs) =
     (M, AddHandler ptr name (watch_handler M enq resolve) g) # changeset_Watch (Suc ptr) name resolve enq cs"

section \<open>Objects of a cluster\<close>

text \<open>A Go value as \<^verbatim>\<open>ObjectInCluster\<close> reads it. The fields of a struct include the promoted ones. The string of a
  value that is no string names its type.\<close>

datatype go_value =
    GString string
  | GStringMap "(string \<times> string) list"
  | GStruct "(string \<times> go_value) list"
  | GPtr "go_value option"
  | GOther string

fun go_String :: "go_value \<Rightarrow> string" where
  "go_String (GString s) = s"
| "go_String (GStringMap m) = ''<map[string]string Value>''"
| "go_String (GStruct fs) = ''<struct Value>''"
| "go_String (GPtr p) = ''<ptr Value>''"
| "go_String (GOther t) = ''<'' @ t @ '' Value>''"

fun FieldByName :: "go_value \<Rightarrow> string \<Rightarrow> go_value option res" where
  "FieldByName (GStruct fs) name = Ok (map_of fs name)"
| "FieldByName v name = Panic"

fun getFieldValue :: "go_value \<Rightarrow> string list \<Rightarrow> go_value option res" where
  "getFieldValue v [] = Panic"
| "getFieldValue v [name] = FieldByName v name"
| "getFieldValue v (name # names) =
     rbind (FieldByName v name) (\<lambda>field. case field of None \<Rightarrow> Panic | Some v' \<Rightarrow> getFieldValue v' names)"

definition getValue_names :: "go_value \<Rightarrow> string list \<Rightarrow> go_value option res" where
  "getValue_names v names =
     (case names of
        [] \<Rightarrow> Panic
      | name # rest \<Rightarrow>
          rbind (FieldByName v name) (\<lambda>field.
            case field of None \<Rightarrow> Ok None | Some v' \<Rightarrow> if rest = [] then Ok field else getFieldValue v' rest))"

definition getValue :: "go_value option \<Rightarrow> string list \<Rightarrow> go_value option res" where
  "getValue o1 names =
     (case o1 of
        None \<Rightarrow> Panic
      | Some (GPtr None) \<Rightarrow> Panic
      | Some (GPtr (Some v)) \<Rightarrow> getValue_names v names
      | Some v \<Rightarrow> getValue_names v names)"

definition string_of_field :: "go_value option \<Rightarrow> string list \<Rightarrow> string res" where
  "string_of_field o1 names = rbind (getValue o1 names) (\<lambda>c. Ok (case c of None \<Rightarrow> [] | Some v \<Rightarrow> go_String v))"

definition before_colon :: "string \<Rightarrow> string" where
  "before_colon s = (case split_n2 s '':'' of [a, b] \<Rightarrow> a | _ \<Rightarrow> [])"

definition annotated_project :: "go_value option \<Rightarrow> string res" where
  "annotated_project o1 =
     rbind (getValue o1 [''Annotations'']) (\<lambda>a.
       case a of
         None \<Rightarrow> Ok []
       | Some (GStringMap m) \<Rightarrow> Ok (case map_of m ''field.cattle.io/projectId'' of None \<Rightarrow> [] | Some s \<Rightarrow> before_colon s)
       | Some _ \<Rightarrow> Panic)"

definition or_else :: "string res \<Rightarrow> string res \<Rightarrow> string res" where
  "or_else r next = rbind r (\<lambda>clusterName. if clusterName = [] then next else Ok clusterName)"

definition ObjectInCluster :: "string \<Rightarrow> go_value option \<Rightarrow> bool res" where
  "ObjectInCluster cluster o1 =
     rbind (or_else (or_else (or_else (or_else (or_else
         (string_of_field o1 [''ClusterName''])
         (string_of_field o1 [''Spec'', ''ClusterName'']))
         (rbind (string_of_field o1 [''ProjectName'']) (\<lambda>s. Ok (before_colon s))))
         (rbind (string_of_field o1 [''Spec'', ''ProjectName'']) (\<lambda>s. Ok (before_colon s))))
         (annotated_project o1))
         (string_of_field o1 [''Namespace'']))
       (\<lambda>clusterName. Ok (clusterName = cluster))"

section \<open>What the controller guarantees\<close>

lemma remaining_handlers_eq:
  "remaining_handlers h hs = replicate (length (filter (\<lambda>x. hd_ptr x \<noteq> hd_ptr h) hs)) h"
  by (induction hs) simp_all

lemma one_pointer:
  assumes "distinct (map hd_ptr hs)" "h \<in> set hs"
  shows "Suc (length (filter (\<lambda>x. hd_ptr x \<noteq> hd_ptr h) hs)) = length hs"
  using assms
proof (induction hs)
  case (Cons x hs)
  show ?case
  proof (cases "x = h")
    case True
    then have "filter (\<lambda>y. hd_ptr y \<noteq> hd_ptr h) hs = hs" using Cons.prems by (intro filter_True) (metis distinct.simps(2) list.simps(9) image_eqI set_map)
    thus ?thesis using True by simp
  next
    case False
    then have "hd_ptr x \<noteq> hd_ptr h" using Cons.prems by auto
    thus ?thesis using False Cons by auto
  qed
qed simp

text \<open>C36. When the context of a handler ends, the controller is left with copies of that handler in place of the
  others: the loop appends the ended handler for each of the others. With two handlers, the one that ended
  keeps running and the other one never runs again.\<close>

theorem cancel_keeps_cancelled:
  assumes "distinct (map hd_ptr (cHandlers g))" "h \<in> set (cHandlers g)"
  shows "cHandlers (cancel_handler h g) = replicate (length (cHandlers g) - 1) h"
  using one_pointer[OF assms] by (simp add: cancel_handler_def remaining_handlers_eq flip: One_nat_def)

definition sample_handler :: "string \<Rightarrow> (string list, string) handler_fn" where
  "sample_handler name key o1 w = (Ok None, name # w)"

definition sample_controller :: "(string list, string) genericController" where
  "sample_controller =
     AddHandler 2 ''b'' (sample_handler ''b'') (AddHandler 1 ''a'' (sample_handler ''a'') ((NewGenericController ''pods'')\<lparr>cRunning := True, cSynced := True\<rparr>))"

theorem cancel_keeps_cancelled_witness:
  "map hd_name (cHandlers sample_controller) = [''a'', ''b'']
   \<and> map hd_name (cHandlers (cancel_handler (hd (cHandlers sample_controller)) sample_controller)) = [''a'']"
  using cancel_keeps_cancelled[of sample_controller "hd (cHandlers sample_controller)"]
  by (simp add: sample_controller_def AddHandler_def NewGenericController_def)

lemma call_handlers_skip:
  assumes "generation > -1" "list_all (\<lambda>h. hd_generation h \<noteq> generation) hs"
  shows "call_handlers generation s (hs @ hs') o1 errs w = call_handlers generation s hs' o1 errs w"
  using assms by (induction hs) simp_all

text \<open>C31. A handler that is added to a running controller sees what is already there. The next \<^verbatim>\<open>Start\<close> queues every
  key of the store with the generation of the handler, and the work on such a key calls the new handler and
  none of the earlier ones.\<close>

theorem late_handler_sees_store:
  assumes "cSynced g" "cRunning g" "cGeneration g \<ge> 0"
    and "list_all (\<lambda>h. hd_generation h < cGeneration g) (cHandlers g)"
    and "store_GetByKey M w1 key = Ok o1"
  shows "g_Start M n (AddHandler ptr name f g) w =
           (None, (AddHandler ptr name f g)\<lparr>cGeneration := cGeneration g + 1\<rparr>, fold (\<lambda>k. q_Add M (GenKey (cGeneration g) k)) (store_ListKeys M w) w)
         \<and> syncHandler M ((AddHandler ptr name f g)\<lparr>cGeneration := cGeneration g + 1\<rparr>) (GenKey (cGeneration g) key) w1 =
             (case f key o1 w1 of
                (Panic, w2) \<Rightarrow> (Some (panic_error M), w2)
              | (Err e, w2) \<Rightarrow> (Some (HandlerError name e), w2)
              | (Ok _, w2) \<Rightarrow> (None, w2))"
proof
  let ?g = "AddHandler ptr name f g"
  have "\<lparr>hd_ptr = ptr, hd_name = name, hd_generation = cGeneration g, hd_handler = f\<rparr> \<in> set (cHandlers ?g)"
    by (simp add: AddHandler_def)
  then have "list_ex (\<lambda>h. hd_generation h = cGeneration ?g) (cHandlers ?g)"
    by (force simp: list_ex_iff AddHandler_def)
  moreover have "(\<lambda>k. queueObject M (Inl (GenKey (cGeneration g) k))) = (\<lambda>k. q_Add M (GenKey (cGeneration g) k))"
    by (intro ext) (simp add: queueObject_def)
  ultimately show "g_Start M n ?g w = (None, ?g\<lparr>cGeneration := cGeneration g + 1\<rparr>, fold (\<lambda>k. q_Add M (GenKey (cGeneration g) k)) (store_ListKeys M w) w)"
    using assms by (simp add: g_Start_def g_sync_def requeue_new_def AddHandler_def)
next
  have "list_all (\<lambda>h. hd_generation h \<noteq> cGeneration g) (cHandlers g)"
    using assms(4) by (auto simp: list_all_iff)
  from call_handlers_skip[OF _ this]
  show "syncHandler M ((AddHandler ptr name f g)\<lparr>cGeneration := cGeneration g + 1\<rparr>) (GenKey (cGeneration g) key) w1 =
          (case f key o1 w1 of
             (Panic, w2) \<Rightarrow> (Some (panic_error M), w2)
           | (Err e, w2) \<Rightarrow> (Some (HandlerError name e), w2)
           | (Ok _, w2) \<Rightarrow> (None, w2))"
    using assms by (auto simp: syncHandler_def AddHandler_def NewErrors_def non_nil_def split: prod.splits res.splits option.splits)
qed

definition sample_machinery :: "(string list, string) machinery" where
  "sample_machinery = \<lparr>q_Add = (\<lambda>k w. (case k of KeyStr s \<Rightarrow> s | GenKey n s \<Rightarrow> ''generation '' @ s) # w), q_Get = (\<lambda>w. (None, w)),
     q_Done = (\<lambda>k w. w), q_Forget = (\<lambda>k w. w), q_AddRateLimited = (\<lambda>k w. w), q_ShutDown = (\<lambda>w. w), wait_for_sync = (\<lambda>w. (True, w)),
     store_GetByKey = (\<lambda>w s. Ok (if s = ''default/p'' then Some ''p'' else None)), store_ListKeys = (\<lambda>w. [''default/p'']),
     meta_key = Some, k8s_IsConflict = (\<lambda>e. False), panic_error = PlainErr ''recovered from panic''\<rparr>"

theorem late_handler_sees_store_witness:
  "let g = snd (snd (g_Start sample_machinery 1 sample_controller []), fst (snd (g_Start sample_machinery 1 sample_controller [])));
       h = (AddHandler 3 ''c'' (sample_handler ''c'') g)\<lparr>cGeneration := cGeneration g + 1\<rparr>
   in snd (snd (g_Start sample_machinery 1 (AddHandler 3 ''c'' (sample_handler ''c'') g) [])) = [''generation default/p'']
      \<and> syncHandler sample_machinery h (GenKey 1 ''default/p'') [] = (None, [''c''])"
  using late_handler_sees_store[of "fst (snd (g_Start sample_machinery 1 sample_controller []))" sample_machinery "[]" "''default/p''"
      "Some ''p''" 1 3 "''c''" "sample_handler ''c''" "[]"]
  by (simp add: sample_machinery_def sample_controller_def g_Start_def g_sync_def requeue_new_def queueObject_def AddHandler_def
      NewGenericController_def sample_handler_def)

end
