(* ===== verification/Condition.thy ===== *)
theory Condition
  imports Errors GoStd
begin

text \<open>
  Status conditions of objects, \<^verbatim>\<open>condition/condition.go\<close>. The code reads and writes through reflection the slice
  \<^verbatim>\<open>Status.Conditions\<close> of the objects it is given; an object here is that slice, in a heap, since the object that a
  condition function returns may be the one that was passed in. The clock is part of the heap: each use of it
  reads the next time, so that nothing is assumed of how time passes.
\<close>

section \<open>Conditions in a heap of objects\<close>

record GenericCondition =
  gcType :: string
  gcStatus :: string
  gcLastUpdateTime :: string
  gcLastTransitionTime :: string
  gcReason :: string
  gcMessage :: string

record 'w cheap =
  conds :: "nat \<Rightarrow> GenericCondition list"
  clock :: "nat \<Rightarrow> string"
  ticks :: nat
  cworld :: 'w

text \<open>The errors of condition functions: a \<^verbatim>\<open>conditionError\<close> or another error.\<close>

datatype cond_err = ConditionError string string | OtherError err

fun cond_err_string :: "cond_err \<Rightarrow> string" where
  "cond_err_string (ConditionError reason message) = message"
| "cond_err_string (OtherError e) = err_string e"

definition cond_Error :: "string \<Rightarrow> cond_err \<Rightarrow> cond_err" where
  "cond_Error reason e = ConditionError reason (cond_err_string e)"

fun findCond :: "GenericCondition list \<Rightarrow> string \<Rightarrow> GenericCondition option" where
  "findCond [] name = None"
| "findCond (c # cs) name = (if gcType c = name then Some c else findCond cs name)"

definition new_cond :: "string \<Rightarrow> GenericCondition" where
  "new_cond name = \<lparr>gcType = name, gcStatus = ''Unknown'', gcLastUpdateTime = [], gcLastTransitionTime = [], gcReason = [], gcMessage = []\<rparr>"

text \<open>A change through \<^verbatim>\<open>findOrCreateCond\<close> changes the first condition of the name, which is appended if there is none.\<close>

fun with_cond :: "string \<Rightarrow> (GenericCondition \<Rightarrow> GenericCondition) \<Rightarrow> GenericCondition list \<Rightarrow> GenericCondition list" where
  "with_cond name f [] = [f (new_cond name)]"
| "with_cond name f (c # cs) = (if gcType c = name then f c # cs else c # with_cond name f cs)"

definition cond_get :: "(GenericCondition \<Rightarrow> string) \<Rightarrow> string \<Rightarrow> nat \<Rightarrow> 'w cheap \<Rightarrow> string" where
  "cond_get field name a h = (case findCond (conds h a) name of None \<Rightarrow> [] | Some c \<Rightarrow> field c)"

abbreviation getStatus :: "string \<Rightarrow> nat \<Rightarrow> 'w cheap \<Rightarrow> string" where "getStatus \<equiv> cond_get gcStatus"
abbreviation getTS :: "string \<Rightarrow> nat \<Rightarrow> 'w cheap \<Rightarrow> string" where "getTS \<equiv> cond_get gcLastUpdateTime"
abbreviation GetReason :: "string \<Rightarrow> nat \<Rightarrow> 'w cheap \<Rightarrow> string" where "GetReason \<equiv> cond_get gcReason"
abbreviation GetMessage :: "string \<Rightarrow> nat \<Rightarrow> 'w cheap \<Rightarrow> string" where "GetMessage \<equiv> cond_get gcMessage"

definition cond_put :: "string \<Rightarrow> (GenericCondition \<Rightarrow> GenericCondition) \<Rightarrow> nat \<Rightarrow> 'w cheap \<Rightarrow> 'w cheap" where
  "cond_put name f a h = h\<lparr>conds := (conds h)(a := with_cond name f (conds h a))\<rparr>"

definition the_cond :: "string \<Rightarrow> nat \<Rightarrow> 'w cheap \<Rightarrow> GenericCondition" where
  "the_cond name a h = (case findCond (conds h a) name of None \<Rightarrow> new_cond name | Some c \<Rightarrow> c)"

text \<open>\<^verbatim>\<open>setValue\<close> touches the time stamp when the value changes.\<close>

definition setValue :: "(GenericCondition \<Rightarrow> string) \<Rightarrow> (string \<Rightarrow> GenericCondition \<Rightarrow> GenericCondition) \<Rightarrow> string \<Rightarrow> string \<Rightarrow> nat \<Rightarrow> 'w cheap \<Rightarrow> 'w cheap" where
  "setValue field upd name newValue a h =
     (if field (the_cond name a h) \<noteq> newValue
      then (cond_put name (\<lambda>c. (upd newValue c)\<lparr>gcLastUpdateTime := clock h (ticks h)\<rparr>) a h)\<lparr>ticks := ticks h + 1\<rparr>
      else cond_put name (\<lambda>c. c) a h)"

definition setStatus :: "string \<Rightarrow> string \<Rightarrow> nat \<Rightarrow> 'w cheap \<Rightarrow> 'w cheap" where
  "setStatus name = setValue gcStatus (\<lambda>v. gcStatus_update (\<lambda>_. v)) name"

definition Message :: "string \<Rightarrow> string \<Rightarrow> nat \<Rightarrow> 'w cheap \<Rightarrow> 'w cheap" where
  "Message name = setValue gcMessage (\<lambda>v. gcMessage_update (\<lambda>_. v)) name"

definition set_reason_value :: "string \<Rightarrow> string \<Rightarrow> nat \<Rightarrow> 'w cheap \<Rightarrow> 'w cheap" where
  "set_reason_value name = setValue gcReason (\<lambda>v. gcReason_update (\<lambda>_. v)) name"

definition LastUpdated :: "string \<Rightarrow> string \<Rightarrow> nat \<Rightarrow> 'w cheap \<Rightarrow> 'w cheap" where
  "LastUpdated name ts = cond_put name (gcLastUpdateTime_update (\<lambda>_. ts))"

definition Reason :: "string \<Rightarrow> string \<Rightarrow> nat \<Rightarrow> 'w cheap \<Rightarrow> 'w cheap" where
  "Reason name reason = cond_put name (gcReason_update (\<lambda>_. reason))"

definition CreateUnknownIfNotExists :: "string \<Rightarrow> nat \<Rightarrow> 'w cheap \<Rightarrow> 'w cheap" where
  "CreateUnknownIfNotExists name a h = (if findCond (conds h a) name = None then setStatus name ''Unknown'' a h else h)"

definition SetMessageIfBlank :: "string \<Rightarrow> string \<Rightarrow> nat \<Rightarrow> 'w cheap \<Rightarrow> 'w cheap" where
  "SetMessageIfBlank name message a h = (if GetMessage name a h = [] then Message name message a h else h)"

section \<open>Running a function under a condition\<close>

definition is_conflict :: "(err \<Rightarrow> bool) \<Rightarrow> cond_err \<Rightarrow> bool" where
  "is_conflict IsConf e = (case e of ConditionError _ _ \<Rightarrow> False | OtherError e' \<Rightarrow> IsConf e')"

definition error_reason :: "cond_err \<Rightarrow> string" where
  "error_reason e =
     (case e of
        ConditionError reason _ \<Rightarrow> reason
      | OtherError (ForgetError _ reason) \<Rightarrow> (if reason \<noteq> [] then reason else ''Error'')
      | OtherError _ \<Rightarrow> ''Error'')"

definition ReasonAndMessageFromError :: "(err \<Rightarrow> bool) \<Rightarrow> string \<Rightarrow> cond_err \<Rightarrow> nat \<Rightarrow> 'w cheap \<Rightarrow> 'w cheap" where
  "ReasonAndMessageFromError IsConf name e a h =
     (if is_conflict IsConf e then h
      else set_reason_value name (error_reason e) a (Message name (cond_err_string e) a h))"

text \<open>\<^verbatim>\<open>temfileRegexp.ReplaceAllString\<close>: the leftmost matches of \<^verbatim>\<open>/tmp/[-_a-zA-Z0-9]+\<close>, as long as possible, are replaced.\<close>

definition name_char :: "char \<Rightarrow> bool" where
  "name_char c \<longleftrightarrow> c \<in> set (''-_0123456789'' @ upper_letters @ lower_letters)"

function redact :: "string \<Rightarrow> string" where
  "redact s =
     (case s of
        [] \<Rightarrow> []
      | c # cs \<Rightarrow>
          if has_prefix s ''/tmp/'' \<and> drop 5 s \<noteq> [] \<and> name_char (hd (drop 5 s))
          then ''file_path_redacted'' @ redact (dropWhile name_char (drop 5 s))
          else c # redact cs)"
  by pat_completeness auto
termination
proof (relation "measure length")
  fix s :: string and c :: char and cs :: string
  assume "s = c # cs"
  then show "(dropWhile name_char (drop 5 s), s) \<in> measure length"
    using length_dropWhile_le[of name_char "drop 5 s"] by simp
qed auto

declare redact.simps [simp del]

text \<open>A condition function gives an object or nil, and an error.\<close>

type_synonym 'w cond_fn = "'w cheap \<Rightarrow> (nat option \<times> cond_err option) \<times> 'w cheap"

definition is_forget_err :: "cond_err \<Rightarrow> bool" where
  "is_forget_err e = (case e of OtherError (ForgetError _ _) \<Rightarrow> True | _ \<Rightarrow> False)"

definition doInternal :: "(err \<Rightarrow> bool) \<Rightarrow> string \<Rightarrow> bool \<Rightarrow> nat \<Rightarrow> 'w cond_fn \<Rightarrow> 'w cheap \<Rightarrow> (nat \<times> cond_err option) \<times> 'w cheap" where
  "doInternal IsConf name setReturned a f h =
     (let h0 = (if getStatus name a h \<noteq> ''False'' then setStatus name ''Unknown'' a h else h) in
      case f h0 of ((ret, e), h1) \<Rightarrow>
        let b = (case ret of None \<Rightarrow> a | Some a' \<Rightarrow> a');
            t = (if setReturned then b else a)
        in case e of
             Some e' \<Rightarrow>
               if is_forget_err e' then
                 ((b, e), if GetMessage name t h1 = [] then ReasonAndMessageFromError IsConf name e' t h1 else h1)
               else ((b, e), ReasonAndMessageFromError IsConf name e' t (setStatus name ''False'' t h1))
           | None \<Rightarrow> ((b, None), Message name [] t (Reason name [] t (setStatus name ''True'' t h1))))"

definition settle :: "string \<Rightarrow> string \<Rightarrow> string \<Rightarrow> string \<Rightarrow> string \<Rightarrow> nat \<Rightarrow> 'w cheap \<Rightarrow> 'w cheap" where
  "settle name status ts reason message t h =
     (if status = getStatus name t h \<and> reason = GetReason name t h then
        let h1 = (if message \<noteq> GetMessage name t h then Message name (redact (GetMessage name t h)) t h else h)
        in if message = GetMessage name t h1 then LastUpdated name ts t h1 else h1
      else h)"

definition do2 :: "(err \<Rightarrow> bool) \<Rightarrow> string \<Rightarrow> bool \<Rightarrow> nat \<Rightarrow> 'w cond_fn \<Rightarrow> 'w cheap \<Rightarrow> (nat \<times> bool \<times> cond_err option) \<times> 'w cheap" where
  "do2 IsConf name setReturned a f h =
     (let status = getStatus name a h; ts = getTS name a h; reason = GetReason name a h; message = GetMessage name a h in
      case doInternal IsConf name setReturned a f h of ((b, e), h1) \<Rightarrow>
        let t = (if setReturned then b else a);
            h2 = settle name status ts reason message t h1;
            changed = (status \<noteq> getStatus name t h2 \<or> ts \<noteq> getTS name t h2 \<or> reason \<noteq> GetReason name t h2 \<or> message \<noteq> GetMessage name t h2)
        in ((b, changed, e), h2))"

definition cond_Do :: "(err \<Rightarrow> bool) \<Rightarrow> string \<Rightarrow> nat \<Rightarrow> 'w cond_fn \<Rightarrow> 'w cheap \<Rightarrow> (nat \<times> cond_err option) \<times> 'w cheap" where
  "cond_Do IsConf name a f h = (case do2 IsConf name True a f h of ((b, changed, e), h1) \<Rightarrow> ((b, e), h1))"

definition DoUntilTrue :: "(err \<Rightarrow> bool) \<Rightarrow> string \<Rightarrow> nat \<Rightarrow> 'w cond_fn \<Rightarrow> 'w cheap \<Rightarrow> (nat \<times> cond_err option) \<times> 'w cheap" where
  "DoUntilTrue IsConf name a f h = (if getStatus name a h = ''True'' then ((a, None), h) else cond_Do IsConf name a f h)"

definition Once :: "(err \<Rightarrow> bool) \<Rightarrow> string \<Rightarrow> nat \<Rightarrow> 'w cond_fn \<Rightarrow> 'w cheap \<Rightarrow> (nat \<times> cond_err option) \<times> 'w cheap" where
  "Once IsConf name a f h =
     (if getStatus name a h = ''False'' then ((a, Some (OtherError (ForgetError (PlainErr (GetReason name a h)) []))), h)
      else DoUntilTrue IsConf name a f h)"

text \<open>\<^verbatim>\<open>Track\<close> works on a copy of the object, at the fresh address \<open>copy\<close>. The client's update gives a new object or fails.\<close>

definition Track :: "(err \<Rightarrow> bool) \<Rightarrow> (nat \<Rightarrow> 'w cheap \<Rightarrow> nat option \<times> 'w cheap) \<Rightarrow> string \<Rightarrow> nat \<Rightarrow> nat \<Rightarrow> 'w cond_fn \<Rightarrow> 'w cheap
    \<Rightarrow> (nat \<times> cond_err option) \<times> 'w cheap" where
  "Track IsConf upd name copy a f h =
     (case do2 IsConf name False copy f (h\<lparr>conds := (conds h)(copy := conds h a)\<rparr>) of ((b, changed, e), h1) \<Rightarrow>
        if \<not> changed then ((b, e), h1)
        else let h2 = setStatus name (getStatus name copy h1) b h1;
                 h3 = LastUpdated name (getTS name copy h2) b h2;
                 h4 = Reason name (GetReason name copy h3) b h3;
                 h5 = Message name (GetMessage name copy h4) b h4
             in case upd b h5 of (Some u, h6) \<Rightarrow> ((u, e), h6) | (None, h6) \<Rightarrow> ((b, e), h6))"

section \<open>Conditions do not flap\<close>

lemma findCond_with_cond:
  assumes "findCond cs name = Some c" "gcType (f c) = name"
  shows "findCond (with_cond name f cs) name = Some (f c)"
  using assms by (induction cs) (auto split: if_splits)

lemma with_cond_twice:
  assumes "findCond cs name = Some c" "gcType (f c) = name"
  shows "with_cond name g (with_cond name f cs) = with_cond name (\<lambda>x. g (f x)) cs"
  using assms by (induction cs) (auto split: if_splits)

lemma with_cond_same:
  assumes "findCond cs name = Some c" "f c = c"
  shows "with_cond name f cs = cs"
  using assms by (induction cs) (auto split: if_splits)

lemma findCond_type: "findCond cs name = Some c \<Longrightarrow> gcType c = name"
  by (induction cs) (auto split: if_splits)

text \<open>An object whose only change is in the condition \<open>c\<close> of the name.\<close>

definition has_cond :: "string \<Rightarrow> nat \<Rightarrow> GenericCondition list \<Rightarrow> GenericCondition \<Rightarrow> 'w cheap \<Rightarrow> bool" where
  "has_cond name a cs c h \<longleftrightarrow> conds h a = with_cond name (\<lambda>_. c) cs \<and> gcType c = name \<and> findCond cs name \<noteq> None"

lemma has_cond_found: "has_cond name a cs c h \<Longrightarrow> findCond (conds h a) name = Some c"
  using findCond_with_cond[of cs name _ "\<lambda>_. c"] by (auto simp: has_cond_def)

lemma has_cond_get [simp]: "has_cond name a cs c h \<Longrightarrow> cond_get field name a h = field c"
  by (simp add: cond_get_def has_cond_found)

lemma has_cond_put:
  assumes "has_cond name a cs c h" "gcType (f c) = name"
  shows "has_cond name a cs (f c) (cond_put name f a h)"
  using assms with_cond_twice[of cs name _ "\<lambda>_. c" f] by (auto simp: has_cond_def cond_put_def)

lemma has_cond_ticks: "has_cond name a cs c (h\<lparr>ticks := n\<rparr>) = has_cond name a cs c h"
  by (simp add: has_cond_def)

lemma has_cond_setValue:
  assumes "has_cond name a cs c h" "\<And>v x. gcType (upd v x) = gcType x"
  shows "has_cond name a cs (if field c = v then c else (upd v c)\<lparr>gcLastUpdateTime := clock h (ticks h)\<rparr>) (setValue field upd name v a h)"
proof -
  have t: "gcType c = name" using assms(1) by (simp add: has_cond_def)
  have "the_cond name a h = c" by (simp add: the_cond_def has_cond_found[OF assms(1)])
  show ?thesis
    using has_cond_put[OF assms(1), of "\<lambda>x. (upd v x)\<lparr>gcLastUpdateTime := clock h (ticks h)\<rparr>"] has_cond_put[OF assms(1), of "\<lambda>x. x"] t \<open>the_cond name a h = c\<close>
    by (simp add: setValue_def assms(2) has_cond_ticks)
qed

lemma setValue_same:
  assumes "has_cond name a cs c h" "field c = v"
  shows "has_cond name a cs c (setValue field upd name v a h)"
  using assms has_cond_put[OF assms(1), of "\<lambda>x. x"]
  by (simp add: setValue_def the_cond_def has_cond_found[OF assms(1)]) (simp add: has_cond_def)

lemma settle_same:
  assumes "has_cond name a cs c1 h" "gcType c1 = gcType c" "gcStatus c1 = gcStatus c" "gcReason c1 = gcReason c"
    and "gcLastTransitionTime c1 = gcLastTransitionTime c"
    and "gcMessage c = gcMessage c1 \<or> gcMessage c = redact (gcMessage c1)"
  shows "has_cond name a cs c (settle name (gcStatus c) (gcLastUpdateTime c) (gcReason c) (gcMessage c) a h)"
proof (cases "gcMessage c = gcMessage c1")
  case True
  then have "c1\<lparr>gcLastUpdateTime := gcLastUpdateTime c\<rparr> = c" using assms by simp
  moreover have "gcType c = name" using assms(1,2) by (simp add: has_cond_def)
  ultimately have "has_cond name a cs c (LastUpdated name (gcLastUpdateTime c) a h)"
    using has_cond_put[OF assms(1), of "gcLastUpdateTime_update (\<lambda>_. gcLastUpdateTime c)"] by (simp add: LastUpdated_def)
  thus ?thesis using assms True by (simp add: settle_def)
next
  case False
  let ?h = "Message name (redact (gcMessage c1)) a h"
  obtain c2 where c2: "has_cond name a cs c2 ?h" "gcMessage c2 = gcMessage c" "c2\<lparr>gcLastUpdateTime := gcLastUpdateTime c\<rparr> = c"
    using has_cond_setValue[OF assms(1), of "\<lambda>v. gcMessage_update (\<lambda>_. v)" gcMessage "gcMessage c"] assms False
    by (auto simp: Message_def)
  have "has_cond name a cs c (LastUpdated name (gcLastUpdateTime c) a ?h)"
    using has_cond_put[OF c2(1), of "gcLastUpdateTime_update (\<lambda>_. gcLastUpdateTime c)"] c2(3) assms(1,2)
    by (simp add: LastUpdated_def has_cond_def)
  thus ?thesis using assms False c2 by (simp add: settle_def)
qed

text \<open>The errors that mark an object as failed, and the functions that end with one and leave the conditions of the object alone.\<close>

definition marks :: "(err \<Rightarrow> bool) \<Rightarrow> cond_err \<Rightarrow> bool" where
  "marks IsConf e \<longleftrightarrow> \<not> is_forget_err e \<and> \<not> is_conflict IsConf e"

definition fails_with :: "cond_err \<Rightarrow> nat \<Rightarrow> 'w cond_fn \<Rightarrow> bool" where
  "fails_with e a f \<longleftrightarrow> (\<forall>h. \<exists>ret h1. f h = ((ret, Some e), h1) \<and> (ret = None \<or> ret = Some a) \<and> conds h1 a = conds h a)"

text \<open>Running such a function on an object that has failed with the same reason stores the message of the error.\<close>

lemma failing_doInternal:
  assumes c: "findCond (conds h a) name = Some c" "gcStatus c = ''False''" "gcReason c = error_reason e"
    and e: "marks IsConf e" "fails_with e a f"
  shows "\<exists>c1 h2. doInternal IsConf name True a f h = ((a, Some e), h2) \<and> has_cond name a (conds h a) c1 h2 \<and> gcMessage c1 = cond_err_string e
    \<and> gcType c1 = gcType c \<and> gcStatus c1 = gcStatus c \<and> gcReason c1 = gcReason c \<and> gcLastTransitionTime c1 = gcLastTransitionTime c"
proof -
  obtain ret h1 where f: "f h = ((ret, Some e), h1)" "ret = None \<or> ret = Some a" "conds h1 a = conds h a"
    using e(2) unfolding fails_with_def by blast
  have "has_cond name a (conds h a) c h1"
    using c(1) f(3) findCond_type[OF c(1)] with_cond_same[OF c(1), of "\<lambda>_. c"] by (simp add: has_cond_def)
  then have "has_cond name a (conds h a) c (setStatus name ''False'' a h1)"
    unfolding setStatus_def by (rule setValue_same) (simp add: c(2))
  from has_cond_setValue[OF this, of "\<lambda>v. gcMessage_update (\<lambda>_. v)" gcMessage "cond_err_string e"]
  obtain c1 where c1: "has_cond name a (conds h a) c1 (Message name (cond_err_string e) a (setStatus name ''False'' a h1))"
    and rest: "gcMessage c1 = cond_err_string e" "gcType c1 = gcType c" "gcStatus c1 = gcStatus c" "gcReason c1 = gcReason c"
      "gcLastTransitionTime c1 = gcLastTransitionTime c"
    by (auto simp: Message_def)
  let ?h = "ReasonAndMessageFromError IsConf name e a (setStatus name ''False'' a h1)"
  have "has_cond name a (conds h a) c1 ?h"
    using c(3) e(1) rest setValue_same[OF c1, of gcReason "error_reason e"]
    by (simp add: marks_def ReasonAndMessageFromError_def set_reason_value_def)
  moreover have "doInternal IsConf name True a f h = ((a, Some e), ?h)"
    using c e(1) f by (auto simp: doInternal_def cond_get_def marks_def)
  ultimately show ?thesis using rest by blast
qed

lemma same_failure:
  assumes c: "findCond (conds h a) name = Some c" "gcStatus c = ''False''" "gcReason c = error_reason e"
    and e: "marks IsConf e" "fails_with e a f" and m: "gcMessage c = cond_err_string e \<or> gcMessage c = redact (cond_err_string e)"
  shows "\<exists>h'. do2 IsConf name True a f h = ((a, False, Some e), h') \<and> conds h' a = conds h a"
proof -
  obtain c1 h2 where h2: "doInternal IsConf name True a f h = ((a, Some e), h2)" "has_cond name a (conds h a) c1 h2"
    and rest: "gcType c1 = gcType c" "gcStatus c1 = gcStatus c" "gcReason c1 = gcReason c" "gcLastTransitionTime c1 = gcLastTransitionTime c"
    and msg: "gcMessage c1 = cond_err_string e"
    using failing_doInternal[OF c e] by blast
  have "has_cond name a (conds h a) c (settle name (gcStatus c) (gcLastUpdateTime c) (gcReason c) (gcMessage c) a h2)"
    by (rule settle_same[OF h2(2) rest]) (use msg m in auto)
  then show ?thesis
    using with_cond_same[OF c(1), of "\<lambda>_. c"]
    by (simp add: do2_def h2(1) cond_get_def[of _ _ _ h] c(1)) (simp add: has_cond_def)
qed

lemma other_failure:
  assumes c: "findCond (conds h a) name = Some c" "gcStatus c = ''False''" "gcReason c = error_reason e"
    and e: "marks IsConf e" "fails_with e a f" and m: "gcMessage c \<noteq> cond_err_string e" "gcMessage c \<noteq> redact (cond_err_string e)"
  shows "\<exists>h' c'. do2 IsConf name True a f h = ((a, True, Some e), h') \<and> findCond (conds h' a) name = Some c'
    \<and> gcStatus c' = ''False'' \<and> gcReason c' = error_reason e \<and> gcMessage c' = redact (cond_err_string e)"
proof -
  obtain c1 h2 where h2: "doInternal IsConf name True a f h = ((a, Some e), h2)" "has_cond name a (conds h a) c1 h2"
    and rest: "gcStatus c1 = gcStatus c" "gcReason c1 = gcReason c" and msg: "gcMessage c1 = cond_err_string e"
    using failing_doInternal[OF c e] by blast
  let ?h = "Message name (redact (cond_err_string e)) a h2"
  obtain c2 where c2: "has_cond name a (conds h a) c2 ?h" "gcMessage c2 = redact (cond_err_string e)" "gcStatus c2 = gcStatus c" "gcReason c2 = gcReason c"
    using has_cond_setValue[OF h2(2), of "\<lambda>v. gcMessage_update (\<lambda>_. v)" gcMessage "redact (cond_err_string e)"] rest
    by (auto simp: Message_def split: if_splits)
  have "settle name (gcStatus c) (gcLastUpdateTime c) (gcReason c) (gcMessage c) a h2 = ?h"
    using h2(2) rest msg m c2 by (simp add: settle_def)
  then have "do2 IsConf name True a f h = ((a, True, Some e), ?h)"
    using c2 m by (simp add: do2_def h2(1) cond_get_def[of _ _ _ h] c(1))
  then show ?thesis using has_cond_found[OF c2(1)] c2 c by auto
qed

text \<open>Functions that run under a condition one after the other: for each, whether a change is reported, and the conditions of the
  object before and after.\<close>

fun runs :: "(err \<Rightarrow> bool) \<Rightarrow> string \<Rightarrow> nat \<Rightarrow> 'w cond_fn list \<Rightarrow> 'w cheap \<Rightarrow> (bool \<times> GenericCondition list \<times> GenericCondition list) list" where
  "runs IsConf name a [] h = []"
| "runs IsConf name a (f # fs) h =
     (case do2 IsConf name True a f h of ((b, changed, e), h1) \<Rightarrow> (changed, conds h a, conds h1 a) # runs IsConf name a fs h1)"

definition same_kind :: "(err \<Rightarrow> bool) \<Rightarrow> nat \<Rightarrow> string \<Rightarrow> string \<Rightarrow> cond_err \<Rightarrow> 'w cond_fn \<Rightarrow> bool" where
  "same_kind IsConf a reason message e f \<longleftrightarrow>
     error_reason e = reason \<and> redact (cond_err_string e) = message \<and> marks IsConf e \<and> fails_with e a f"

lemma settled_runs:
  assumes "list_all2 (same_kind IsConf a r m) es fs" "findCond (conds h a) name = Some c" "gcStatus c = ''False''" "gcReason c = r" "gcMessage c = m"
  shows "list_all (\<lambda>(changed, before, after). \<not> changed \<and> before = after) (runs IsConf name a fs h)"
  using assms
proof (induction es fs arbitrary: h rule: list_all2_induct)
  case (Cons e es f fs)
  then obtain h' where "do2 IsConf name True a f h = ((a, False, Some e), h')" "conds h' a = conds h a"
    using same_failure[of h a name c e IsConf f] by (auto simp: same_kind_def)
  then show ?case using Cons by simp
qed simp

text \<open>C15. A failed condition flaps at most once. When an object is marked as failed and functions fail on it again and again, with the reason
  of the mark and with messages that are the same up to the names of temporary files, its conditions change at most once,
  and not at all when the message of the mark is that message with the names replaced. A change is reported exactly when there is one;
  without a change the time stamp stays too. The one change puts the message with the names replaced into the mark.\<close>

theorem condition_no_flapping:
  assumes "list_all2 (same_kind IsConf a r m) es fs" "findCond (conds h a) name = Some c" "gcStatus c = ''False''" "gcReason c = r"
  shows "length (filter fst (runs IsConf name a fs h)) \<le> (if gcMessage c = m then 0 else 1)
    \<and> list_all (\<lambda>(changed, before, after). changed \<longleftrightarrow> before \<noteq> after) (runs IsConf name a fs h)"
  using assms
proof (induction es fs arbitrary: h c rule: list_all2_induct)
  case (Cons e es f fs)
  then have e: "error_reason e = r" "redact (cond_err_string e) = m" "marks IsConf e" "fails_with e a f" by (simp_all add: same_kind_def)
  show ?case
  proof (cases "gcMessage c = cond_err_string e \<or> gcMessage c = m")
    case True
    then obtain h' where "do2 IsConf name True a f h = ((a, False, Some e), h')" "conds h' a = conds h a"
      using same_failure[OF Cons.prems(1,2) _ e(3,4)] Cons.prems(3) e by auto
    then show ?thesis using Cons.IH[of h' c] Cons.prems by simp
  next
    case False
    then obtain h' c' where h': "do2 IsConf name True a f h = ((a, True, Some e), h')" "findCond (conds h' a) name = Some c'"
      "gcStatus c' = ''False''" "gcReason c' = r" "gcMessage c' = m"
      using other_failure[OF Cons.prems(1,2) _ e(3,4)] Cons.prems(3) e by auto
    moreover have "conds h a \<noteq> conds h' a" using h'(2,5) Cons.prems(1) False by auto
    ultimately show ?thesis using Cons.IH[of h' c'] False by simp
  qed
qed simp

definition sample_cond :: GenericCondition where
  "sample_cond = \<lparr>gcType = ''Ready'', gcStatus = ''False'', gcLastUpdateTime = ''monday'', gcLastTransitionTime = [], gcReason = ''Error'',
     gcMessage = ''cannot open /tmp/a''\<rparr>"

definition sample_heap :: "unit cheap" where
  "sample_heap = \<lparr>conds = (\<lambda>_. [sample_cond]), clock = (\<lambda>_. ''tuesday''), ticks = 0, cworld = ()\<rparr>"

definition failing :: "string \<Rightarrow> unit cond_fn" where
  "failing file h = ((None, Some (OtherError (PlainErr (''cannot open /tmp/'' @ file)))), h)"

lemma failing_same_kind:
  assumes "redact (''cannot open /tmp/'' @ file) = m"
  shows "same_kind (\<lambda>_. False) a ''Error'' m (OtherError (PlainErr (''cannot open /tmp/'' @ file))) (failing file)"
  using assms by (simp add: same_kind_def fails_with_def failing_def marks_def is_forget_err_def is_conflict_def error_reason_def)

theorem condition_no_flapping_witness:
  "length (filter fst (runs (\<lambda>_. False) ''Ready'' 0 (map failing [''a'', ''b'', ''c'']) sample_heap)) \<le> 1"
proof -
  let ?e = "\<lambda>file. OtherError (PlainErr (''cannot open /tmp/'' @ file))"
  have m: "redact (''cannot open /tmp/'' @ ''a'') = ''cannot open file_path_redacted''"
    "redact (''cannot open /tmp/'' @ ''b'') = ''cannot open file_path_redacted''"
    "redact (''cannot open /tmp/'' @ ''c'') = ''cannot open file_path_redacted''" by code_simp+
  have "list_all2 (same_kind (\<lambda>_. False) 0 ''Error'' ''cannot open file_path_redacted'') (map ?e [''a'', ''b'', ''c'']) (map failing [''a'', ''b'', ''c''])"
    unfolding list.map by (intro list.rel_intros failing_same_kind m)
  moreover have "findCond (conds sample_heap 0) ''Ready'' = Some sample_cond" "gcStatus sample_cond = ''False''" "gcReason sample_cond = ''Error''"
    by (simp_all add: sample_heap_def sample_cond_def)
  ultimately have "length (filter fst (runs (\<lambda>_. False) ''Ready'' 0 (map failing [''a'', ''b'', ''c'']) sample_heap))
      \<le> (if gcMessage sample_cond = ''cannot open file_path_redacted'' then 0 else 1)"
    by (rule condition_no_flapping[THEN conjunct1])
  also have "gcMessage sample_cond \<noteq> ''cannot open file_path_redacted''" by (simp add: sample_cond_def)
  then have "(if gcMessage sample_cond = ''cannot open file_path_redacted'' then 0 else 1) = (1::nat)" by (rule if_not_P)
  finally show ?thesis .
qed

end
