(* ===== verification/ObjectSets.thy ===== *)
theory ObjectSets
  imports ObjectClient
begin

text \<open>
  Sets of objects that belong to an owner, \<^verbatim>\<open>pkg/objectset\<close>: \<^verbatim>\<open>objectset.go\<close>, \<^verbatim>\<open>desiredset.go\<close>, \<^verbatim>\<open>desiredset_apply.go\<close>,
  \<^verbatim>\<open>desiredset_process.go\<close>, \<^verbatim>\<open>desiredset_compare.go\<close> and \<^verbatim>\<open>template.go\<close>. \<^verbatim>\<open>Apply\<close> marks the desired objects with the hash of
  the owner, lists the objects of each kind that carry the hash, and creates, patches and deletes the difference.

  Hashing, compression, JSON, the computation of patches, the scheme of kinds, the rate limiter and discovery
  are parameters, which may fail but do not panic, as are the orders that \<^verbatim>\<open>sort.Slice\<close> gives. An error that \<^verbatim>\<open>errors.Wrapf\<close> wraps is its text.
\<close>

section \<open>Collections\<close>

record objectKey =
  okName :: string
  okNamespace :: string

definition newObjectKey :: "kobj \<Rightarrow> objectKey" where
  "newObjectKey o1 = \<lparr>okName = kName o1, okNamespace = kNamespace o1\<rparr>"

definition objectKey_String :: "objectKey \<Rightarrow> string" where
  "objectKey_String k = (if okNamespace k = [] then okName k else okNamespace k @ ''/'' @ okName k)"

type_synonym keyed = "(objectKey \<times> kobj) list"
type_synonym objectCollection = "(gvk \<times> keyed) list"

definition kinds_get :: "objectCollection \<Rightarrow> gvk \<Rightarrow> keyed" where
  "kinds_get c g = (case map_of c g of None \<Rightarrow> [] | Some m \<Rightarrow> m)"

definition collection_add :: "kobj \<Rightarrow> objectCollection \<Rightarrow> objectCollection" where
  "collection_add o1 c = AList.update (kGVK o1) (AList.update (newObjectKey o1) o1 (kinds_get c (kGVK o1))) c"

record objectSet =
  osErrs :: "err option list"
  osObjects :: objectCollection
  osNsed :: "(gvk \<times> bool) list"
  osInputs :: "kobj list"
  osOrder :: "kobj list"

definition NewObjectSet :: objectSet where
  "NewObjectSet = \<lparr>osErrs = [], osObjects = [], osNsed = [], osInputs = [], osOrder = []\<rparr>"

definition AddInput :: "kobj option list \<Rightarrow> objectSet \<Rightarrow> objectSet" where
  "AddInput objs s = s\<lparr>osInputs := osInputs s @ map the (filter (\<lambda>x. x \<noteq> None) objs)\<rparr>"

definition os_AddErr :: "err option \<Rightarrow> objectSet \<Rightarrow> objectSet" where
  "os_AddErr e s = s\<lparr>osErrs := osErrs s @ [e]\<rparr>"

definition os_Err :: "objectSet \<Rightarrow> err option" where
  "os_Err s = NewErrors (osErrs s)"

definition os_add :: "kobj option \<Rightarrow> objectSet \<Rightarrow> objectSet" where
  "os_add x s =
     (case x of
        None \<Rightarrow> s
      | Some o1 \<Rightarrow>
          let g = kGVK o1; nsed = (kNamespace o1 \<noteq> []) in
          if kName o1 = [] then os_AddErr (Some (PlainErr (gvk_string g @ '' is missing name''))) s
          else if map_of (osNsed s) g = Some (\<not> nsed)
          then os_AddErr (Some (PlainErr (''got '' @ gvk_string g @ '' objects that are both namespaced and not namespaced''))) s
          else s\<lparr>osNsed := AList.update g nsed (osNsed s), osObjects := collection_add o1 (osObjects s), osOrder := osOrder s @ [o1]\<rparr>)"

definition os_Add :: "kobj option list \<Rightarrow> objectSet \<Rightarrow> objectSet" where
  "os_Add objs s = fold os_add objs s"

section \<open>Desired sets\<close>

text \<open>A client of the set has an informer, whose list of the objects with a label may fail, and an object client.
  A resource that discovery gives has its name, whether it is namespaced, and its kind.\<close>

record 'w set_client =
  scInformer :: "string \<Rightarrow> 'w \<Rightarrow> kobj list \<times> err option"
  scClient :: object_client

type_synonym api_resource = "string \<times> bool \<times> string"
type_synonym injector = "kobj list \<Rightarrow> kobj list res"

record 'w processor =
  pSetID :: string
  pCodeVersion :: string
  pDiscovery :: "(string \<Rightarrow> api_resource list res) option"
  pClients :: "(gvk \<times> 'w set_client) list"

record 'w desiredSet =
  discoveredClients :: "(gvk \<times> object_client) list"
  discovery :: "(string \<Rightarrow> api_resource list res) option"
  remove_set :: bool
  setID :: string
  ds_objs :: objectSet
  codeVersion :: string
  clients :: "(gvk \<times> 'w set_client) list"
  owner :: "kobj option"
  injectors :: "injector option list"
  ds_errs :: "err option list"

record 'w set_env =
  sha1_hex :: "string \<Rightarrow> string"
  gzip_base64 :: "string \<Rightarrow> string option"
  gunzip_base64 :: "string \<Rightarrow> string option"
  json_object :: "kobj \<Rightarrow> string res"
  json_data :: "gdata \<Rightarrow> string res"
  parse_data :: "string \<Rightarrow> gdata res"
  unstructured :: "gdata \<Rightarrow> kobj"
  three_way_patch :: "string \<Rightarrow> gvk \<Rightarrow> string \<Rightarrow> string \<Rightarrow> string \<Rightarrow> string res"
  patch_style :: "gvk \<Rightarrow> string res"
  IsAlreadyExists :: "err \<Rightarrow> bool"
  new_limiter :: "string \<Rightarrow> 'w \<Rightarrow> 'w"
  drop_limiter :: "string \<Rightarrow> 'w \<Rightarrow> 'w"
  has_limiter :: "string \<Rightarrow> 'w \<Rightarrow> bool"
  TryAccept :: "string \<Rightarrow> 'w \<Rightarrow> bool \<times> 'w"
  rest_client_error :: "err option"
  sort_keys :: "objectKey list \<Rightarrow> objectKey list"
  sort_gvks :: "gvk list \<Rightarrow> gvk list"
  sort_inputs :: "kobj list \<Rightarrow> kobj list"
  set_rest :: "'w rest"

definition NewProcessor :: "string \<Rightarrow> 'w processor" where
  "NewProcessor sid = \<lparr>pSetID = sid, pCodeVersion = [], pDiscovery = None, pClients = []\<rparr>"

definition AllowDiscovery :: "(string \<Rightarrow> api_resource list res) \<Rightarrow> 'w processor \<Rightarrow> 'w processor" where
  "AllowDiscovery d t = t\<lparr>pDiscovery := Some d\<rparr>"

definition processor_Client :: "'w set_client list \<Rightarrow> 'w processor \<Rightarrow> 'w processor" where
  "processor_Client cs t = t\<lparr>pClients := fold (\<lambda>c. AList.update (ocGVK (scClient c)) c) cs (pClients t)\<rparr>"

definition NewDesiredSet :: "'w processor \<Rightarrow> kobj option \<Rightarrow> objectSet option \<Rightarrow> 'w desiredSet" where
  "NewDesiredSet t own objs =
     \<lparr>discoveredClients = [], discovery = pDiscovery t, remove_set = (objs = None), setID = pSetID t,
      ds_objs = (case objs of None \<Rightarrow> NewObjectSet | Some s \<Rightarrow> s), codeVersion = pCodeVersion t, clients = pClients t,
      owner = own, injectors = [], ds_errs = []\<rparr>"

definition AddInjector :: "injector option \<Rightarrow> 'w desiredSet \<Rightarrow> 'w desiredSet" where
  "AddInjector injr d = d\<lparr>injectors := injectors d @ [injr]\<rparr>"

definition ds_Err :: "'w desiredSet \<Rightarrow> err option" where
  "ds_Err d = NewErrors (osErrs (ds_objs d) @ ds_errs d)"

definition ds_err :: "err option \<Rightarrow> 'w desiredSet \<Rightarrow> 'w desiredSet" where
  "ds_err e d = d\<lparr>ds_errs := ds_errs d @ [e]\<rparr>"

definition Wrapf :: "err \<Rightarrow> string \<Rightarrow> err" where
  "Wrapf e message = PlainErr (message @ '': '' @ err_string e)"

section \<open>Labels\<close>

abbreviation "LabelID \<equiv> ''objectset.rio.cattle.io/id''"
abbreviation "LabelGVK \<equiv> ''objectset.rio.cattle.io/owner-gvk''"
abbreviation "LabelName \<equiv> ''objectset.rio.cattle.io/owner-name''"
abbreviation "LabelNamespace \<equiv> ''objectset.rio.cattle.io/owner-namespace''"
abbreviation "LabelHash \<equiv> ''objectset.rio.cattle.io/hash''"
abbreviation "LabelApplied \<equiv> ''objectset.rio.cattle.io/applied''"
abbreviation "LabelInputID \<equiv> ''objectset.rio.cattle.io/inputid''"

definition hashOrder :: "string list" where
  "hashOrder = [LabelID, LabelGVK, LabelName, LabelNamespace]"

definition objectSetHash :: "'w set_env \<Rightarrow> (string \<times> string) list \<Rightarrow> string" where
  "objectSetHash E labels = sha1_hex E (concat (map (\<lambda>key. sm_get (Some labels) key) hashOrder))"

definition set_annotations :: "'w desiredSet \<Rightarrow> (string \<times> string) list" where
  "set_annotations d =
     (case owner d of
        None \<Rightarrow> [(LabelID, setID d)]
      | Some o1 \<Rightarrow> [(LabelID, setID d), (LabelGVK, gvk_string (kGVK o1)), (LabelName, kName o1), (LabelNamespace, kNamespace o1)])"

definition getLabelsAndAnnotations :: "'w set_env \<Rightarrow> 'w desiredSet \<Rightarrow> (string \<times> string) list \<times> (string \<times> string) list" where
  "getLabelsAndAnnotations E d = ([(LabelHash, objectSetHash E (set_annotations d))], set_annotations d)"

definition setLabels :: "(string \<times> string) list \<Rightarrow> kobj \<Rightarrow> kobj" where
  "setLabels labels o1 = o1\<lparr>kLabels := Some (fold (\<lambda>kv. mset_key (fst kv) (snd kv)) labels (sm_entries (kLabels o1)))\<rparr>"

definition setAnnotations :: "(string \<times> string) list \<Rightarrow> kobj \<Rightarrow> kobj" where
  "setAnnotations annotations o1 =
     o1\<lparr>kAnnotations := Some (fold (\<lambda>kv. mset_key (fst kv) (snd kv)) annotations
          (mdel_key LabelApplied (mdel_key LabelInputID (sm_entries (kAnnotations o1)))))\<rparr>"

definition injectLabelsAndAnnotations :: "(string \<times> string) list \<Rightarrow> (string \<times> string) list \<Rightarrow> 'w desiredSet \<Rightarrow> kobj list" where
  "injectLabelsAndAnnotations labels annotations d =
     concat (map (\<lambda>gm. map (\<lambda>ko. setAnnotations annotations (setLabels labels (snd ko))) (snd gm)) (osObjects (ds_objs d)))"

definition runInjectors :: "'w desiredSet \<Rightarrow> kobj list \<Rightarrow> kobj list res" where
  "runInjectors d objs = rfold (\<lambda>injr l. case injr of None \<Rightarrow> Ok l | Some f \<Rightarrow> f l) (injectors d) objs"

definition collect_objects :: "kobj list \<Rightarrow> objectCollection" where
  "collect_objects objs = fold collection_add objs []"

text \<open>The rate limiter of a set; a set that is removed has none.\<close>

definition getRateLimit :: "'w set_env \<Rightarrow> string \<Rightarrow> 'w desiredSet \<Rightarrow> 'w \<Rightarrow> bool \<times> 'w" where
  "getRateLimit E input d w =
     (if remove_set d then (False, drop_limiter E input w)
      else (True, if has_limiter E input w then w else new_limiter E input w))"

definition gvkOrder :: "'w set_env \<Rightarrow> 'w desiredSet \<Rightarrow> gvk list" where
  "gvkOrder E d =
     (let seen = rev (remdups (rev (map kGVK (osOrder (ds_objs d)))))
      in seen @ sort_gvks E (filter (\<lambda>g. g \<notin> set seen) (remdups (map fst (clients d)))))"

definition inputID :: "'w set_env \<Rightarrow> string \<Rightarrow> 'w desiredSet \<Rightarrow> string \<times> 'w desiredSet" where
  "inputID E labelHash d =
     (let ins = sort_inputs E (osInputs (ds_objs d));
          d1 = d\<lparr>ds_objs := (ds_objs d)\<lparr>osInputs := ins\<rparr>\<rparr>;
          all_ins = (case owner d of None \<Rightarrow> ins | Some o1 \<Rightarrow> o1 # ins)
      in (sha1_hex E (codeVersion d @ labelHash @ concat (map (\<lambda>o1. objectKey_String (newObjectKey o1) @ kResourceVersion o1) all_ins)), d1))"

definition debugID :: "'w desiredSet \<Rightarrow> string" where
  "debugID d = (case owner d of None \<Rightarrow> setID d | Some o1 \<Rightarrow> setID d @ '' '' @ objectKey_String (newObjectKey o1))"

section \<open>Comparing objects\<close>

definition appliedToAnnotation :: "'w set_env \<Rightarrow> string \<Rightarrow> string" where
  "appliedToAnnotation E b =
     (if length b < 1024 then b else case gzip_base64 E b of None \<Rightarrow> b | Some s \<Rightarrow> s)"

definition appliedFromAnnotation :: "'w set_env \<Rightarrow> string \<Rightarrow> string" where
  "appliedFromAnnotation E s =
     (if s = [] \<or> hd s = CHR ''{'' then s else case gunzip_base64 E s of None \<Rightarrow> [] | Some b \<Rightarrow> b)"

definition prepareObjectForCreate :: "'w set_env \<Rightarrow> string \<Rightarrow> kobj \<Rightarrow> kobj res" where
  "prepareObjectForCreate E input o1 =
     rbind (json_object E o1) (\<lambda>serialized.
       Ok (o1\<lparr>kAnnotations := sm_put LabelApplied (appliedToAnnotation E serialized) (sm_put LabelInputID input (kAnnotations o1))\<rparr>))"

definition removeCreationTimestamp :: "gdata \<Rightarrow> bool \<times> gdata" where
  "removeCreationTimestamp data =
     (case mlookup data ''metadata'' of
        None \<Rightarrow> (False, data)
      | Some v \<Rightarrow>
          (case mlookup (ToMapInterface v) ''creationTimestamp'' of
             None \<Rightarrow> (False, data)
           | Some _ \<Rightarrow> (True, map_option (mset_key ''metadata'' (VMap (map_option (mdel_key ''creationTimestamp'') (ToMapInterface v)))) data)))"

definition getOriginal :: "'w set_env \<Rightarrow> string \<Rightarrow> kobj \<Rightarrow> string res" where
  "getOriginal E input o1 =
     (let original = appliedFromAnnotation E (sm_get (kAnnotations o1) LabelApplied) in
      if original = [] then Ok ''{}''
      else rbind (parse_data E original) (\<lambda>m.
        rbind (prepareObjectForCreate E input (unstructured E (snd (removeCreationTimestamp m)))) (json_object E)))"

definition originalAndModifiedForInputID :: "'w set_env \<Rightarrow> string \<Rightarrow> kobj \<Rightarrow> kobj \<Rightarrow> (string \<times> string) res" where
  "originalAndModifiedForInputID E input old new =
     rbind (getOriginal E input old) (\<lambda>original.
       rbind (prepareObjectForCreate E input new) (\<lambda>new'.
         rbind (json_object E new') (\<lambda>modified. Ok (original, modified))))"

fun onlyKeys :: "gdata \<Rightarrow> string list \<Rightarrow> bool" where
  "onlyKeys data [] = False"
| "onlyKeys data (key # ks) =
     (let m = (case data of None \<Rightarrow> [] | Some kvs \<Rightarrow> kvs) in
      if length m > 1 then False
      else if m = [] then True
      else case map_of m key of
             None \<Rightarrow> False
           | Some v \<Rightarrow> if ks = [] then True else onlyKeys (ToMapInterface v) ks)"

definition sanitizePatch :: "'w set_env \<Rightarrow> string \<Rightarrow> string res" where
  "sanitizePatch E patch =
     rbind (parse_data E patch) (\<lambda>data.
       let d1 = map_option (mdel_key ''kind'') data;
           d2 = map_option (mdel_key ''apiVersion'') d1;
           (removed, d3) = removeCreationTimestamp d2;
           modified = (mlookup data ''kind'' \<noteq> None \<or> mlookup d1 ''apiVersion'' \<noteq> None \<or> removed)
       in if onlyKeys d3 [''metadata'', ''annotations'', LabelInputID] then Ok ''{}''
          else if \<not> modified then Ok patch
          else json_data E d3)"

definition doPatch :: "'w set_env \<Rightarrow> gvk \<Rightarrow> string \<Rightarrow> string \<Rightarrow> string \<Rightarrow> (string \<times> string) res" where
  "doPatch E g original modified current =
     rbind (patch_style E g) (\<lambda>style.
       rbind (three_way_patch E style g original modified current) (\<lambda>patch. Ok (style, patch)))"

text \<open>\<^verbatim>\<open>applyPatch\<close> gives whether a patch was sent, and an error.\<close>

definition computed_patch :: "'w set_env \<Rightarrow> gvk \<Rightarrow> string \<Rightarrow> kobj \<Rightarrow> kobj \<Rightarrow> (string \<times> string) res" where
  "computed_patch E g input old new =
     rbind (originalAndModifiedForInputID E input old new) (\<lambda>(original, modified).
       rbind (json_object E old) (\<lambda>current.
         rbind (case doPatch E g original modified current of Err e \<Rightarrow> Err (Wrapf e ''patch generation'') | r \<Rightarrow> r) (\<lambda>(style, patch).
           if patch = ''{}'' then Ok (style, patch)
           else rbind (sanitizePatch E patch) (\<lambda>patch'. Ok (style, patch')))))"

definition applyPatch :: "'w set_env \<Rightarrow> object_client \<Rightarrow> string \<Rightarrow> kobj \<Rightarrow> kobj \<Rightarrow> 'w \<Rightarrow> bool res \<times> 'w" where
  "applyPatch E client input old new w =
     (case computed_patch E (ocGVK client) input old new of
        Err e \<Rightarrow> (Err e, w)
      | Panic \<Rightarrow> (Panic, w)
      | Ok (style, patch) \<Rightarrow>
          if patch = ''{}'' then (Ok False, w)
          else case oc_Patch (set_rest E) client (kName old) old style patch w of
                 ((_, None), w1) \<Rightarrow> (Ok True, w1)
               | ((_, Some e), w1) \<Rightarrow> (Err e, w1))"

section \<open>Processing a kind\<close>

definition find_resource :: "gvk \<Rightarrow> api_resource list \<Rightarrow> api_resource option" where
  "find_resource g rs = List.find (\<lambda>r. snd (snd r) = gKind g) rs"

text \<open>The informer, if the kind has a client, and the object client.\<close>

definition getControllerAndObjectClient :: "'w set_env \<Rightarrow> string \<Rightarrow> gvk \<Rightarrow> 'w desiredSet
    \<Rightarrow> ((string \<Rightarrow> 'w \<Rightarrow> kobj list \<times> err option) option \<times> object_client) res \<times> 'w desiredSet" where
  "getControllerAndObjectClient E dbg g d =
     (case map_of (clients d) g of
        Some c \<Rightarrow> (Ok (Some (scInformer c), scClient c), d)
      | None \<Rightarrow>
          (case discovery d of
             None \<Rightarrow> (Err (PlainErr (''failed to find client for '' @ gvk_string g @ '' for '' @ dbg)), d)
           | Some disc \<Rightarrow>
               (case map_of (discoveredClients d) g of
                  Some oc \<Rightarrow> (Ok (None, oc), d)
                | None \<Rightarrow>
                    (case disc (gv_string g) of
                       Err e \<Rightarrow> (Err e, d)
                     | Panic \<Rightarrow> (Panic, d)
                     | Ok rs \<Rightarrow>
                         (case find_resource g rs of
                            None \<Rightarrow> (Err (PlainErr (''failed to discover client for '' @ gvk_string g @ '' for '' @ dbg)), d)
                          | Some (resource, namespaced, _) \<Rightarrow>
                              (case rest_client_error E of
                                 Some e \<Rightarrow> (Err e, d)
                               | None \<Rightarrow>
                                   let oc = \<lparr>ocGVK = g, ocResource = resource, ocNamespaced = namespaced, ocNamespace = []\<rparr>
                                   in (Ok (None, oc), d\<lparr>discoveredClients := AList.update g oc (discoveredClients d)\<rparr>)))))))"

text \<open>
  What \<^verbatim>\<open>addObjectToMap\<close> is given: a pointer to an object, or an \<^verbatim>\<open>Unstructured\<close> itself. Its methods have pointer receivers, so
  \<^verbatim>\<open>meta.Accessor\<close> does not take the latter for an object.
\<close>

datatype listed = ObjPtr kobj | ObjValue kobj

definition meta_Accessor :: "listed \<Rightarrow> kobj res" where
  "meta_Accessor x = (case x of ObjPtr o1 \<Rightarrow> Ok o1 | ObjValue _ \<Rightarrow> Err (PlainErr ''object does not implement the Object interfaces''))"

definition addObjectToMap :: "listed \<Rightarrow> keyed \<Rightarrow> keyed res" where
  "addObjectToMap x objs = rbind (meta_Accessor x) (\<lambda>o1. Ok (AList.update (newObjectKey o1) o1 objs))"

definition add_listed :: "listed \<Rightarrow> keyed \<times> err list \<Rightarrow> keyed \<times> err list" where
  "add_listed x acc =
     (case addObjectToMap x (fst acc) of Ok objs \<Rightarrow> (objs, snd acc) | Err e \<Rightarrow> (fst acc, snd acc @ [e]) | Panic \<Rightarrow> acc)"

definition list_objects :: "'w set_env \<Rightarrow> (string \<Rightarrow> 'w \<Rightarrow> kobj list \<times> err option) option \<Rightarrow> object_client \<Rightarrow> string \<Rightarrow> 'w
    \<Rightarrow> (keyed \<times> err option) \<times> 'w" where
  "list_objects E informer client selector w =
     (case informer of
        None \<Rightarrow>
          (case oc_List (set_rest E) client selector w of
             ((_, Some e), w1) \<Rightarrow> (([], Some e), w1)
           | ((items, None), w1) \<Rightarrow> ((fst (fold add_listed (map ObjValue items) ([], [])), None), w1))
      | Some inform \<Rightarrow>
          let (objs, errs) = fold add_listed (map ObjPtr (fst (inform selector w))) ([], [])
          in ((objs, NewErrors (map Some errs @ [snd (inform selector w)])), w))"

definition compareSets :: "'w set_env \<Rightarrow> keyed \<Rightarrow> keyed \<Rightarrow> objectKey list \<times> objectKey list \<times> objectKey list" where
  "compareSets E existing new =
     (sort_keys E (filter (\<lambda>k. map_of existing k = None) (map fst new)),
      sort_keys E (filter (\<lambda>k. map_of new k = None) (map fst existing)),
      sort_keys E (filter (\<lambda>k. map_of existing k \<noteq> None) (map fst new)))"

text \<open>The state of \<^verbatim>\<open>process\<close>: the errors so far, the existing objects and the keys to update.\<close>

type_synonym 'w proc = "'w desiredSet \<times> keyed \<times> objectKey list \<times> 'w"

definition create_one :: "'w set_env \<Rightarrow> object_client \<Rightarrow> string \<Rightarrow> string \<Rightarrow> keyed \<Rightarrow> objectKey \<Rightarrow> 'w proc \<Rightarrow> 'w proc" where
  "create_one E client input what objs k st =
     (case st of (d, existing, toUpdate, w) \<Rightarrow>
        (case map_of objs k of
           None \<Rightarrow> st
         | Some o1 \<Rightarrow>
             (case prepareObjectForCreate E input o1 of
                Ok o2 \<Rightarrow>
                  (case oc_Create (set_rest E) client o2 w of
                     ((_, None), w1) \<Rightarrow> (d, existing, toUpdate, w1)
                   | ((_, Some e), w1) \<Rightarrow>
                       if IsAlreadyExists E e then
                         (case oc_GetNamespaced (set_rest E) client (okNamespace k) (okName k) w1 of
                            ((o3, None), w2) \<Rightarrow> (d, AList.update k o3 existing, toUpdate @ [k], w2)
                          | ((_, Some e'), w2) \<Rightarrow> (ds_err (Some (Wrapf e (''failed to create '' @ objectKey_String k @ what))) d, existing, toUpdate, w2))
                       else (ds_err (Some (Wrapf e (''failed to create '' @ objectKey_String k @ what))) d, existing, toUpdate, w1))
              | Err e \<Rightarrow> (ds_err (Some (Wrapf e (''failed to prepare create '' @ objectKey_String k @ what))) d, existing, toUpdate, w)
              | Panic \<Rightarrow> st)))"

definition update_one :: "'w set_env \<Rightarrow> object_client \<Rightarrow> string \<Rightarrow> string \<Rightarrow> keyed \<Rightarrow> keyed \<Rightarrow> objectKey \<Rightarrow> 'w desiredSet \<times> 'w \<Rightarrow> 'w desiredSet \<times> 'w" where
  "update_one E client input what existing objs k st =
     (case (map_of existing k, map_of objs k) of
        (Some old, Some new) \<Rightarrow>
          (case applyPatch E client input old new (snd st) of
             (Err e, w1) \<Rightarrow> (ds_err (Some (Wrapf e (''failed to update '' @ objectKey_String k @ what))) (fst st), w1)
           | (_, w1) \<Rightarrow> (fst st, w1))
      | _ \<Rightarrow> st)"

definition delete_one :: "'w set_env \<Rightarrow> object_client \<Rightarrow> string \<Rightarrow> objectKey \<Rightarrow> 'w desiredSet \<times> 'w \<Rightarrow> 'w desiredSet \<times> 'w" where
  "delete_one E client what k st =
     (case oc_DeleteNamespaced (set_rest E) client (okNamespace k) (okName k) ''Background'' (snd st) of
        ((_, None), w1) \<Rightarrow> (fst st, w1)
      | ((_, Some e), w1) \<Rightarrow> (ds_err (Some (Wrapf e (''failed to delete '' @ objectKey_String k @ what))) (fst st), w1))"

definition process :: "'w set_env \<Rightarrow> string \<Rightarrow> string \<Rightarrow> string \<Rightarrow> gvk \<Rightarrow> keyed \<Rightarrow> 'w desiredSet \<times> 'w \<Rightarrow> 'w desiredSet \<times> 'w" where
  "process E input dbg selector g objs st =
     (case getControllerAndObjectClient E dbg g (fst st) of
        (Err e, d) \<Rightarrow> (ds_err (Some e) d, snd st)
      | (Panic, d) \<Rightarrow> (d, snd st)
      | (Ok (informer, client), d) \<Rightarrow>
          (case list_objects E informer client selector (snd st) of
             ((_, Some e), w1) \<Rightarrow> (ds_err (Some (PlainErr (''failed to list '' @ gvk_string g @ '' for '' @ dbg))) d, w1)
           | ((existing, None), w1) \<Rightarrow>
               let (toCreate, toDelete, toUpdate) = compareSets E existing objs;
                   what = '' '' @ gvk_string g @ '' for '' @ dbg;
                   (d2, existing2, toUpdate2, w2) = fold (create_one E client input what objs) toCreate (d, existing, toUpdate, w1);
                   st3 = fold (update_one E client input what existing2 objs) toUpdate2 (d2, w2)
               in fold (delete_one E client what) toDelete st3))"

section \<open>Applying a set\<close>

definition err_result :: "err option \<Rightarrow> unit res" where
  "err_result e = (case e of None \<Rightarrow> Ok () | Some e' \<Rightarrow> Err e')"

definition Apply :: "'w set_env \<Rightarrow> 'w desiredSet \<Rightarrow> 'w \<Rightarrow> unit res \<times> 'w desiredSet \<times> 'w" where
  "Apply E d w =
     (if ds_Err d \<noteq> None then (err_result (ds_Err d), d, w)
      else let (labelSet, annotationSet) = getLabelsAndAnnotations E d;
               hash = sm_get (Some labelSet) LabelHash;
               (limited, w1) = getRateLimit E hash d w;
               (accepted, w2) = (if limited then TryAccept E hash w1 else (True, w1))
           in if \<not> accepted then (Err (StatusError 409 ''Conflict'' (''delaying object set '' @ setID d)), d, w2)
              else let (input, d1) = inputID E hash d
                   in case runInjectors d1 (injectLabelsAndAnnotations labelSet annotationSet d1) of
                        Ok objList \<Rightarrow>
                          let objs = collect_objects objList;
                              (d2, w3) = fold (\<lambda>g. process E input (debugID d1) (LabelHash @ ''='' @ hash) g (kinds_get objs g)) (gvkOrder E d1) (d1, w2)
                          in (err_result (ds_Err d2), d2, w3)
                      | Err e \<Rightarrow> (err_result (ds_Err (ds_err (Some e) d1)), ds_err (Some e) d1, w2)
                      | Panic \<Rightarrow> (Panic, d1, w2))"

definition Remove_set :: "'w set_env \<Rightarrow> 'w processor \<Rightarrow> kobj option \<Rightarrow> 'w \<Rightarrow> unit res \<times> 'w desiredSet \<times> 'w" where
  "Remove_set E t own w = Apply E (NewDesiredSet t own None) w"

section \<open>What applying a set does\<close>

text \<open>C35. The hash that marks the objects of an owner is taken over the identifier of the set and the kind, the name and the
  namespace of the owner, one after the other with nothing between them. So two owners of one kind whose
  name and namespace give the same string together have the same hash, whatever the digest is. The sets then
  list, patch and delete each other's objects.\<close>

theorem owners_share_hash:
  assumes "owner d1 = Some o1" "owner d2 = Some o2" "setID d1 = setID d2" "kGVK o1 = kGVK o2"
    and "kName o1 @ kNamespace o1 = kName o2 @ kNamespace o2"
  shows "fst (getLabelsAndAnnotations E d1) = fst (getLabelsAndAnnotations E d2)"
  using assms by (simp add: getLabelsAndAnnotations_def set_annotations_def objectSetHash_def hashOrder_def sm_get_def)

definition sample_owner :: "string \<Rightarrow> string \<Rightarrow> kobj" where
  "sample_owner name namespace = no_object\<lparr>kGVK := \<lparr>gGroup = ''apps'', gVersion = ''v1'', gKind = ''Deployment''\<rparr>, kName := name, kNamespace := namespace\<rparr>"

definition sample_set :: "string \<Rightarrow> string \<Rightarrow> 'w desiredSet" where
  "sample_set name namespace = NewDesiredSet (NewProcessor ''stack'') (Some (sample_owner name namespace)) (Some NewObjectSet)"

definition plain_env :: "'w rest \<Rightarrow> 'w set_env" where
  "plain_env R = \<lparr>sha1_hex = (\<lambda>s. s), gzip_base64 = (\<lambda>s. None), gunzip_base64 = (\<lambda>s. None), json_object = (\<lambda>o1. Ok (kName o1)),
     json_data = (\<lambda>d. Ok ''{}''), parse_data = (\<lambda>s. Ok (Some [])), unstructured = (\<lambda>d. no_object),
     three_way_patch = (\<lambda>style g orig new cur. Ok ''{}''), patch_style = (\<lambda>g. Ok ''application/merge-patch+json''),
     IsAlreadyExists = (\<lambda>e. False), new_limiter = (\<lambda>s w. w), drop_limiter = (\<lambda>s w. w), has_limiter = (\<lambda>s w. True),
     TryAccept = (\<lambda>s w. (True, w)), rest_client_error = None, sort_keys = (\<lambda>ks. ks), sort_gvks = (\<lambda>gs. gs), sort_inputs = (\<lambda>os. os),
     set_rest = R\<rparr>"

definition empty_rest :: "unit rest" where
  "empty_rest = \<lparr>rest_do = (\<lambda>r w. (Inr no_object, w)), rest_list = (\<lambda>r w. (Inr [], w))\<rparr>"

theorem owners_share_hash_witness:
  "fst (getLabelsAndAnnotations (plain_env empty_rest) (sample_set ''web-1'' ''prod''))
     = fst (getLabelsAndAnnotations (plain_env empty_rest) (sample_set ''web-'' ''1prod''))
   \<and> sample_owner ''web-1'' ''prod'' \<noteq> sample_owner ''web-'' ''1prod''"
  using owners_share_hash[of "sample_set ''web-1'' ''prod''" "sample_owner ''web-1'' ''prod''" "sample_set ''web-'' ''1prod''" "sample_owner ''web-'' ''1prod''"
      "plain_env empty_rest"]
  by (simp add: sample_set_def NewDesiredSet_def NewProcessor_def sample_owner_def no_object_def)

subsection \<open>The requests of a set\<close>

text \<open>A REST client that also logs the requests it is given.\<close>

definition logged :: "'w rest \<Rightarrow> ('w \<times> obj_request list) rest" where
  "logged R = \<lparr>rest_do = (\<lambda>r w. case rest_do R r (fst w) of (x, w') \<Rightarrow> (x, (w', snd w @ [r]))),
               rest_list = (\<lambda>r w. case rest_list R r (fst w) of (x, w') \<Rightarrow> (x, (w', snd w @ [r])))\<rparr>"

definition extends :: "(obj_request \<Rightarrow> bool) \<Rightarrow> 'w \<times> obj_request list \<Rightarrow> 'w \<times> obj_request list \<Rightarrow> bool" where
  "extends P w w' \<longleftrightarrow> (\<exists>new. snd w' = snd w @ new \<and> list_all P new)"

lemma extends_refl [simp, intro]: "extends P w w"
  by (simp add: extends_def)

lemma extends_trans [trans]: "extends P w1 w2 \<Longrightarrow> extends P w2 w3 \<Longrightarrow> extends P w1 w3"
  unfolding extends_def by (metis append.assoc list_all_append)

lemma extends_fold:
  assumes "\<And>x s. x \<in> set xs \<Longrightarrow> extends P (wld s) (wld (f x s))"
  shows "extends P (wld s) (wld (fold f xs s))"
  using assms
proof (induction xs arbitrary: s)
  case (Cons x xs)
  then have "extends P (wld s) (wld (f x s))" "extends P (wld (f x s)) (wld (fold f xs (f x s)))" by simp_all
  thus ?case using extends_trans by fastforce
qed simp

lemma extends_into:
  assumes "into dflt (rest_do (logged R) r) w = (x, w')" "P r"
  shows "extends P w w'"
  using assms by (auto simp: into_def logged_def extends_def split: prod.splits sum.splits)

lemma extends_into_list:
  assumes "into dflt (rest_list (logged R) r) w = (x, w')" "P r"
  shows "extends P w w'"
  using assms by (auto simp: into_def logged_def extends_def split: prod.splits sum.splits)

definition not_delete :: "obj_request \<Rightarrow> bool" where
  "not_delete r \<longleftrightarrow> oVerb r \<noteq> ''DELETE''"

lemma extends_calls:
  "oc_Create (logged R) client o1 w = (x, w') \<Longrightarrow> extends not_delete w w'"
  "oc_GetNamespaced (logged R) client ns name w = (x, w') \<Longrightarrow> extends not_delete w w'"
  "oc_Patch (logged R) client name o1 style patch w = (x, w') \<Longrightarrow> extends not_delete w w'"
  by (auto simp: oc_Create_def oc_GetNamespaced_def oc_Patch_def oc_request_def not_delete_def intro: extends_into split: if_splits)

lemma extends_list_call: "oc_List (logged R) client selector w = (y, w') \<Longrightarrow> extends not_delete w w'"
  by (auto simp: oc_List_def oc_request_def not_delete_def intro: extends_into_list)

lemma extends_delete_call:
  "oc_DeleteNamespaced (logged R) client ns name policy w = (x, w') \<Longrightarrow>
   extends (\<lambda>r. oNamespace r = ns \<and> oName r = name) w w'"
  by (auto simp: oc_DeleteNamespaced_def oc_request_def intro: extends_into)

lemma extends_create:
  assumes "set_rest E = logged R"
  shows "extends not_delete (snd (snd (snd st))) (snd (snd (snd (create_one E client input what objs k st))))"
  by (cases st)
     (auto simp: create_one_def assms intro: extends_calls extends_trans dest: extends_calls split: option.splits res.splits prod.splits)

lemma extends_update:
  assumes "set_rest E = logged R"
  shows "extends not_delete (snd st) (snd (update_one E client input what existing objs k st))"
  by (auto simp: update_one_def applyPatch_def assms intro: extends_calls split: option.splits res.splits prod.splits if_splits)

lemma extends_mono: "extends P w w' \<Longrightarrow> (\<And>r. P r \<Longrightarrow> Q r) \<Longrightarrow> extends Q w w'"
  unfolding extends_def by (auto simp: list_all_iff)

lemma extends_delete:
  assumes "set_rest E = logged R" "okName k \<in> N (okNamespace k)"
  shows "extends (\<lambda>r. oVerb r = ''DELETE'' \<longrightarrow> oName r \<in> N (oNamespace r)) (snd st) (snd (delete_one E client what k st))"
proof -
  obtain x w' where Pair: "oc_DeleteNamespaced (logged R) client (okNamespace k) (okName k) ''Background'' (snd st) = (x, w')"
    by (metis prod.exhaust)
  then have "extends (\<lambda>r. oVerb r = ''DELETE'' \<longrightarrow> oName r \<in> N (oNamespace r)) (snd st) w'"
    using assms(2) by (intro extends_mono[OF extends_delete_call]) auto
  moreover have "snd (delete_one E client what k st) = w'"
    using Pair by (cases x; cases "snd x") (auto simp: delete_one_def assms(1))
  ultimately show ?thesis by simp
qed

lemma add_listed_ptrs:
  "fst (fold add_listed (map ObjPtr items) (m, es)) = fold (\<lambda>o1. AList.update (newObjectKey o1) o1) items m"
  by (induction items arbitrary: m) (simp_all add: add_listed_def addObjectToMap_def meta_Accessor_def)

lemma add_listed_values:
  "fst (fold add_listed (map ObjValue items) (m, es)) = m"
  by (induction items arbitrary: es) (simp_all add: add_listed_def addObjectToMap_def meta_Accessor_def)

lemma listed_keys:
  "fst ` set (fold (\<lambda>o1. AList.update (newObjectKey o1) o1) items m) = fst ` set m \<union> newObjectKey ` set items"
proof (induction items arbitrary: m)
  case (Cons o1 items)
  have "fst ` set (AList.update (newObjectKey o1) o1 m) = insert (newObjectKey o1) (fst ` set m)"
    using dom_update[of "newObjectKey o1" o1 m] by (simp add: dom_map_of_conv_image_fst)
  thus ?case using Cons by auto
qed simp

text \<open>What \<^verbatim>\<open>list\<close> gives: with an informer, the objects it has for the selector; without one, nothing.\<close>

lemma list_objects_keys:
  assumes "set_rest E = logged R" "list_objects E informer client selector w = ((existing, None), w')"
  shows "fst ` set existing = (case informer of None \<Rightarrow> {} | Some inform \<Rightarrow> newObjectKey ` set (fst (inform selector w)))
       \<and> extends not_delete w w'"
proof (cases informer)
  case None
  then show ?thesis using assms extends_list_call[of R client selector w _ w']
    by (auto simp: list_objects_def add_listed_values split: prod.splits option.splits)
next
  case (Some inform)
  then show ?thesis using assms listed_keys[of "fst (inform selector w)" "[]"] add_listed_ptrs[of "fst (inform selector w)" "[]" "[]"]
    by (auto simp: list_objects_def split: prod.splits)
qed

lemma delete_keys:
  assumes "\<And>ks. set (sort_keys E ks) = set ks"
  shows "set (fst (snd (compareSets E existing new))) = fst ` set existing - fst ` set new"
  by (auto simp: compareSets_def assms map_of_eq_None_iff)

lemma process_extends:
  assumes E: "set_rest E = logged R" "\<And>ks. set (sort_keys E ks) = set ks"
    and ok: "list_objects E informer client selector w = ((existing, None), w1)"
    and get: "getControllerAndObjectClient E dbg g d = (Ok (informer, client), d1)"
    and N: "\<And>k. k \<in> fst ` set existing \<Longrightarrow> k \<notin> fst ` set objs \<Longrightarrow> okName k \<in> N (okNamespace k)"
  shows "extends (\<lambda>r. oVerb r = ''DELETE'' \<longrightarrow> oName r \<in> N (oNamespace r)) w (snd (process E input dbg selector g objs (d, w)))"
proof -
  let ?P = "\<lambda>r. oVerb r = ''DELETE'' \<longrightarrow> oName r \<in> N (oNamespace r)"
  define what where "what = '' '' @ gvk_string g @ '' for '' @ dbg"
  obtain toCreate toDelete toUpdate where cmp: "compareSets E existing objs = (toCreate, toDelete, toUpdate)" by (metis prod.exhaust)
  obtain d2 existing2 toUpdate2 w2 where
    cr: "fold (create_one E client input what objs) toCreate (d1, existing, toUpdate, w1) = (d2, existing2, toUpdate2, w2)" by (metis prod.exhaust)
  let ?st3 = "fold (update_one E client input what existing2 objs) toUpdate2 (d2, w2)"
  have nd: "extends ?P v v'" if "extends not_delete v v'" for v v' :: "'a \<times> obj_request list"
    by (rule extends_mono[OF that]) (simp add: not_delete_def)
  have "extends ?P w w1" using list_objects_keys[OF E(1) ok] by (simp add: nd)
  also have "extends ?P w1 w2"
    using extends_fold[of toCreate not_delete "\<lambda>st. snd (snd (snd st))" "create_one E client input what objs" "(d1, existing, toUpdate, w1)"]
      extends_create[OF E(1)] by (simp add: cr nd)
  also have "extends ?P w2 (snd ?st3)"
    using extends_fold[of toUpdate2 not_delete snd "update_one E client input what existing2 objs" "(d2, w2)"] extends_update[OF E(1)] by (simp add: nd)
  also have "extends ?P (snd ?st3) (snd (fold (delete_one E client what) toDelete ?st3))"
  proof (rule extends_fold)
    fix k st
    assume "k \<in> set toDelete"
    then have "k \<in> fst ` set existing" "k \<notin> fst ` set objs" using delete_keys[OF E(2), of existing objs] cmp by auto
    thus "extends ?P (snd st) (snd (delete_one E client what k st))" by (intro extends_delete[OF E(1)] N)
  qed
  finally show ?thesis
    by (simp only: process_def fst_conv snd_conv get prod.case res.case ok option.case cmp Let_def what_def[symmetric] cr)
qed

lemma process_requests:
  assumes "set_rest E = logged R" "\<And>ks. set (sort_keys E ks) = set ks"
    and N: "\<And>informer client d1 k. getControllerAndObjectClient E dbg g d = (Ok (informer, client), d1) \<Longrightarrow>
       k \<in> (case informer of None \<Rightarrow> {} | Some inform \<Rightarrow> newObjectKey ` set (fst (inform selector w))) \<Longrightarrow>
       k \<notin> fst ` set objs \<Longrightarrow> okName k \<in> N (okNamespace k)"
  shows "extends (\<lambda>r. oVerb r = ''DELETE'' \<longrightarrow> oName r \<in> N (oNamespace r)) w (snd (process E input dbg selector g objs (d, w)))"
proof (cases "getControllerAndObjectClient E dbg g d")
  case (Pair r d1)
  show ?thesis
  proof (cases r)
    case (Ok ic)
    then obtain informer client where get: "getControllerAndObjectClient E dbg g d = (Ok (informer, client), d1)"
      using Pair by (cases ic) simp
    obtain existing e w1 where ls: "list_objects E informer client selector w = ((existing, e), w1)" by (metis prod.exhaust)
    show ?thesis
    proof (cases e)
      case None
      from list_objects_keys[OF assms(1) ls[unfolded None]] N[OF get]
      show ?thesis by (intro process_extends[OF assms(1,2) ls[unfolded None] get]) auto
    next
      case (Some e')
      have "extends not_delete w w1"
        using ls by (auto simp: list_objects_def assms(1) split: option.splits prod.splits intro: extends_list_call)
      thus ?thesis using ls get Some by (auto simp: process_def not_delete_def intro: extends_mono)
    qed
  qed (use Pair in \<open>auto simp: process_def\<close>)
qed

lemma get_client_informer:
  assumes "getControllerAndObjectClient E dbg g d = (Ok (informer, client), d1)"
  shows "informer = map_option scInformer (map_of (clients d) g)"
  using assms by (auto simp: getControllerAndObjectClient_def Let_def split: option.splits res.splits prod.splits)

text \<open>C10. A set deletes only what is its own and no longer desired. For a kind with a client, every delete request that
  \<^verbatim>\<open>process\<close> sends names an object that the informer lists for the label of the set and that is not among the
  desired objects of the kind.\<close>

theorem process_deletes_only_stale:
  assumes "set_rest E = logged R" "\<And>ks. set (sort_keys E ks) = set ks" "map_of (clients d) g = Some c"
    and "process E input dbg selector g objs (d, (w, l)) = (d', (w', l'))"
  shows "\<exists>new. l' = l @ new \<and> list_all (\<lambda>r. oVerb r = ''DELETE'' \<longrightarrow>
           (\<exists>o1 \<in> set (fst (scInformer c selector (w, l))).
              oName r = kName o1 \<and> oNamespace r = kNamespace o1 \<and> map_of objs (newObjectKey o1) = None)) new"
proof -
  define N where "N = (\<lambda>ns. {kName o1 | o1. o1 \<in> set (fst (scInformer c selector (w, l))) \<and> ns = kNamespace o1 \<and> map_of objs (newObjectKey o1) = None})"
  have "extends (\<lambda>r. oVerb r = ''DELETE'' \<longrightarrow> oName r \<in> N (oNamespace r)) (w, l) (snd (process E input dbg selector g objs (d, (w, l))))"
  proof (rule process_requests[OF assms(1,2)])
    fix informer client d1 k
    assume "getControllerAndObjectClient E dbg g d = (Ok (informer, client), d1)"
      and "k \<in> (case informer of None \<Rightarrow> {} | Some inform \<Rightarrow> newObjectKey ` set (fst (inform selector (w, l))))" "k \<notin> fst ` set objs"
    thus "okName k \<in> N (okNamespace k)"
      using get_client_informer[of E dbg g d informer client d1] assms(3) by (auto simp: N_def newObjectKey_def map_of_eq_None_iff)
  qed
  thus ?thesis using assms(4) by (fastforce simp: extends_def N_def list_all_iff)
qed

text \<open>C34. Without a client, the objects of a kind are listed with the discovered client, whose list holds the objects
  themselves and not pointers to them. None of them is taken for an object, the errors are dropped, and the
  kind looks empty: \<^verbatim>\<open>process\<close> never deletes an object of such a kind, whatever the server has.\<close>

theorem discovered_never_deleted:
  assumes "set_rest E = logged R" "\<And>ks. set (sort_keys E ks) = set ks" "map_of (clients d) g = None"
    and "process E input dbg selector g objs (d, (w, l)) = (d', (w', l'))"
  shows "\<exists>new. l' = l @ new \<and> list_all (\<lambda>r. oVerb r \<noteq> ''DELETE'') new"
proof -
  have "extends (\<lambda>r. oVerb r = ''DELETE'' \<longrightarrow> oName r \<in> {}) (w, l) (snd (process E input dbg selector g objs (d, (w, l))))"
  proof (rule process_requests[OF assms(1,2)])
    fix informer client d1 k
    assume "getControllerAndObjectClient E dbg g d = (Ok (informer, client), d1)"
      and "k \<in> (case informer of None \<Rightarrow> {} | Some inform \<Rightarrow> newObjectKey ` set (fst (inform selector (w, l))))"
    thus "okName k \<in> {}" using get_client_informer[of E dbg g d informer client d1] assms(3) by simp
  qed
  thus ?thesis using assms(4) by (auto simp: extends_def list_all_iff)
qed

definition stale_rest :: "unit rest" where
  "stale_rest = \<lparr>rest_do = (\<lambda>r w. (Inr no_object, w)), rest_list = (\<lambda>r w. (Inr [sample_owner ''old'' ''prod''], w))\<rparr>"

definition stale_env :: "(unit \<times> obj_request list) set_env" where
  "stale_env = plain_env (logged stale_rest)"

definition deployments :: gvk where
  "deployments = \<lparr>gGroup = ''apps'', gVersion = ''v1'', gKind = ''Deployment''\<rparr>"

definition deployment_client :: "(unit \<times> obj_request list) set_client" where
  "deployment_client = \<lparr>scInformer = (\<lambda>selector w. ([sample_owner ''old'' ''prod''], None)),
     scClient = \<lparr>ocGVK = deployments, ocResource = ''deployments'', ocNamespaced = True, ocNamespace = []\<rparr>\<rparr>"

definition client_set :: "(unit \<times> obj_request list) desiredSet" where
  "client_set = NewDesiredSet (processor_Client [deployment_client] (NewProcessor ''stack'')) None (Some NewObjectSet)"

definition discovered_set :: "(unit \<times> obj_request list) desiredSet" where
  "discovered_set = NewDesiredSet (AllowDiscovery (\<lambda>gv. Ok [(''deployments'', True, ''Deployment'')]) (NewProcessor ''stack'')) None (Some NewObjectSet)"

lemma stale_env_rest: "set_rest stale_env = logged stale_rest" "set (sort_keys stale_env ks) = set ks"
  by (simp_all add: stale_env_def plain_env_def)

theorem process_deletes_only_stale_witness:
  "\<exists>d' l'. process stale_env [] [] [] deployments [] (client_set, ((), [])) = (d', ((), l'))
     \<and> list_all (\<lambda>r. oVerb r = ''DELETE'') l' \<and> map oName l' = [''old'']"
proof -
  let ?r = "process stale_env [] [] [] deployments [] (client_set, ((), []))"
  have ls: "snd (snd ?r) = [(oc_request (scClient deployment_client) ''DELETE'' ''prod'')\<lparr>oName := ''old'', oPayload := DeletePayload ''Background''\<rparr>]"
    by code_simp
  have cl: "map_of (clients client_set) deployments = Some deployment_client"
    by (simp add: client_set_def NewDesiredSet_def processor_Client_def NewProcessor_def deployment_client_def)
  have "?r = (fst ?r, ((), snd (snd ?r)))" by (cases ?r) simp
  from process_deletes_only_stale[OF stale_env_rest cl this] ls
  have "?r = (fst ?r, ((), snd (snd ?r))) \<and> list_all (\<lambda>r. oVerb r = ''DELETE'') (snd (snd ?r)) \<and> map oName (snd (snd ?r)) = [''old'']"
    by (cases ?r) (simp add: oc_request_def deployment_client_def sample_owner_def no_object_def)
  thus ?thesis by (intro exI[of _ "fst ?r"] exI[of _ "snd (snd ?r)"])
qed

theorem discovered_never_deleted_witness:
  "\<exists>d' l'. process stale_env [] [] [] deployments [] (discovered_set, ((), [])) = (d', ((), l'))
     \<and> length l' = 1 \<and> list_all (\<lambda>r. oVerb r \<noteq> ''DELETE'') l'"
proof -
  let ?r = "process stale_env [] [] [] deployments [] (discovered_set, ((), []))"
  have ls: "length (snd (snd ?r)) = 1" by code_simp
  have cl: "map_of (clients discovered_set) deployments = None"
    by (simp add: discovered_set_def NewDesiredSet_def AllowDiscovery_def NewProcessor_def)
  have r: "?r = (fst ?r, ((), snd (snd ?r)))" by (cases ?r) simp
  from discovered_never_deleted[OF stale_env_rest cl this]
  have "list_all (\<lambda>r. oVerb r \<noteq> ''DELETE'') (snd (snd ?r))" by simp
  thus ?thesis using r ls by (intro exI[of _ "fst ?r"] exI[of _ "snd (snd ?r)"] conjI)
qed

end
