(* ===== verification/Crd.thy ===== *)
theory Crd
  imports Stores
begin

text \<open>
  Custom resource definitions for schemas, \<^verbatim>\<open>store/crd/init.go\<close>: a definition is created for each schema whose definition is not
  established yet, the code waits for it, and the schema gets a proxy store for the accepted names. The client
  of the definitions is a parameter; its \<^verbatim>\<open>Create\<close> gives an object also with an error, and \<open>crd_polls\<close> is the number
  of polls that the library makes in the minute of the wait. The map from schemas to definitions is the list of the
  definitions in the order of the schemas, and the second loop runs over it in that order, which is one of the orders
  in which Go may range over the map.
\<close>

record crd =
  crdName :: string
  crdGroup :: string
  crdVersion :: string
  crdPlural :: string
  crdKind :: string
  crdScope :: string
  acceptedKind :: string
  acceptedPlural :: string
  crdConditions :: "(string \<times> string) list"

definition no_crd :: crd where
  "no_crd = \<lparr>crdName = [], crdGroup = [], crdVersion = [], crdPlural = [], crdKind = [], crdScope = [], acceptedKind = [],
     acceptedPlural = [], crdConditions = []\<rparr>"

record 'w crd_api =
  crd_List :: "('w, crd list) act"
  crd_Create :: "crd \<Rightarrow> 'w \<Rightarrow> (crd \<times> err option) \<times> 'w"
  crd_Get :: "string \<Rightarrow> ('w, crd) act"
  crd_IsAlreadyExists :: "err \<Rightarrow> bool"
  crd_context_error :: "'w \<Rightarrow> err option"
  crd_client :: "('w, unit) act"
  crd_polls :: nat

definition established :: "crd \<Rightarrow> bool" where
  "established c \<longleftrightarrow> (''Established'', ''True'') \<in> set (crdConditions c)"

definition getReadyCRDs :: "'w crd_api \<Rightarrow> ('w, (string \<times> crd) list) act" where
  "getReadyCRDs A =
     abind (crd_List A) (\<lambda>items. areturn (fold (\<lambda>c m. if established c then mset_key (crdName c) c m else m) items []))"

definition crd_for :: "Schema \<Rightarrow> crd" where
  "crd_for schema =
     (let plural = to_lower (PluralName schema) in
      no_crd\<lparr>crdName := to_lower (plural @ ''.'' @ Group (SVersion schema)), crdGroup := Group (SVersion schema), crdVersion := Version (SVersion schema),
        crdPlural := plural, crdKind := Capitalize (ID schema),
        crdScope := (if Scope schema = ''namespace'' then ''Namespaced'' else ''Cluster'')\<rparr>)"

definition createCRD :: "'w crd_api \<Rightarrow> Schema \<Rightarrow> (string \<times> crd) list \<Rightarrow> ('w, crd) act" where
  "createCRD A schema ready w =
     (case map_of ready (crdName (crd_for schema)) of
        Some c \<Rightarrow> (Ok c, w)
      | None \<Rightarrow>
          (case crd_Create A (crd_for schema) w of
             ((c, None), w1) \<Rightarrow> (Ok c, w1)
           | ((c, Some e), w1) \<Rightarrow> if crd_IsAlreadyExists A e then (Ok c, w1) else (Err e, w1)))"

text \<open>\<^verbatim>\<open>wait.Poll\<close>: \<open>n\<close> polls are left.\<close>

fun waitCRD :: "nat \<Rightarrow> 'w crd_api \<Rightarrow> string \<Rightarrow> ('w, crd) act" where
  "waitCRD 0 A name w = (Err (PlainErr ''timed out waiting for the condition''), w)"
| "waitCRD (Suc n) A name w =
     (case crd_Get A name w of
        (Err e, w1) \<Rightarrow> (Err e, w1)
      | (Panic, w1) \<Rightarrow> (Panic, w1)
      | (Ok c, w1) \<Rightarrow>
          if established c then (Ok c, w1)
          else case crd_context_error A w1 of Some e \<Rightarrow> (Err e, w1) | None \<Rightarrow> waitCRD n A name w1)"

definition CreateCRDs :: "'w crd_api \<Rightarrow> Schema list \<Rightarrow> ('w, crd list) act" where
  "CreateCRDs A ss =
     abind (crd_client A) (\<lambda>_.
     abind (getReadyCRDs A) (\<lambda>ready.
     abind (afold (\<lambda>s cs. abind (createCRD A s ready) (\<lambda>c. areturn (cs @ [c]))) ss []) (\<lambda>created.
     abind (getReadyCRDs A) (\<lambda>ready2.
     afold (\<lambda>c cs. abind (case map_of ready2 (crdName c) of Some c' \<Rightarrow> areturn c' | None \<Rightarrow> waitCRD (crd_polls A) A (crdName c))
                         (\<lambda>c'. areturn (cs @ [c']))) created []))))"

definition AssignStores :: "'w crd_api \<Rightarrow> (APIContext \<Rightarrow> string \<Rightarrow> nat res) \<Rightarrow> string \<Rightarrow> Schema list \<Rightarrow> ('w, store list) act" where
  "AssignStores A getter ctx ss =
     abind (CreateCRDs A ss) (\<lambda>cs.
       areturn (map (\<lambda>c. NewProxyStore getter ctx [''apis''] (crdGroup c) (crdVersion c) (acceptedKind c) (acceptedPlural c)) cs))"

text \<open>\<^verbatim>\<open>BatchCreateCRDs\<close> runs in a goroutine and panics on an unknown schema and on an error.\<close>

definition BatchCreateCRDs :: "'w crd_api \<Rightarrow> (APIContext \<Rightarrow> string \<Rightarrow> nat res) \<Rightarrow> string \<Rightarrow> Schemas \<Rightarrow> APIVersion \<Rightarrow> string list \<Rightarrow> ('w, store list) act" where
  "BatchCreateCRDs A getter ctx rs v ids w =
     (if list_ex (\<lambda>i. Schema_of rs (Some v) i = None) ids then (Panic, w)
      else case AssignStores A getter ctx (map (\<lambda>i. the (Schema_of rs (Some v) i)) ids) w of
             (Err e, w1) \<Rightarrow> (Panic, w1)
           | r \<Rightarrow> r)"

section \<open>Every schema gets an established definition\<close>

lemma abind_Ok: "abind m f w = (Ok v, w') \<longleftrightarrow> (\<exists>u w1. m w = (Ok u, w1) \<and> f u w1 = (Ok v, w'))"
  by (auto simp: abind_def split: prod.splits res.splits)

lemma areturn_Ok: "areturn x w = (Ok y, w') \<longleftrightarrow> x = y \<and> w = w'"
  by (simp add: areturn_def)

lemma getReady_established:
  assumes "getReadyCRDs A w = (Ok ready, w')" "map_of ready name = Some c"
  shows "established c \<and> crdName c = name"
proof -
  obtain items w1 where "ready = fold (\<lambda>c m. if established c then mset_key (crdName c) c m else m) items []"
    using assms(1) by (auto simp: getReadyCRDs_def abind_Ok areturn_def)
  moreover have "map_of (fold (\<lambda>c m. if established c then mset_key (crdName c) c m else m) items m) name = Some c \<Longrightarrow>
      map_of m name = Some c \<or> established c \<and> crdName c = name" for m
    by (induction items arbitrary: m) (fastforce simp: go_map split: if_splits)+
  ultimately show ?thesis using assms(2) by fastforce
qed

lemma waitCRD_established: "waitCRD n A name w = (Ok c, w') \<Longrightarrow> established c"
  by (induction n arbitrary: w) (auto split: res.splits prod.splits if_splits option.splits)

lemma afold_append:
  assumes "afold (\<lambda>x ys. abind (f x) (\<lambda>y. areturn (ys @ [y]))) xs acc w = (Ok r, w')"
    and "\<And>x w y w'. x \<in> set xs \<Longrightarrow> f x w = (Ok y, w') \<Longrightarrow> P x y"
  shows "\<exists>ys. r = acc @ ys \<and> list_all2 P xs ys"
  using assms
proof (induction xs arbitrary: acc w)
  case (Cons x xs)
  from Cons.prems(1) obtain y w1 where y: "f x w = (Ok y, w1)" and rest: "afold (\<lambda>x ys. abind (f x) (\<lambda>y. areturn (ys @ [y]))) xs (acc @ [y]) w1 = (Ok r, w')"
    by (auto simp: abind_Ok areturn_Ok)
  from Cons.IH[OF rest] Cons.prems(2) obtain ys where "r = (acc @ [y]) @ ys" "list_all2 P xs ys" by auto
  thus ?case using y Cons.prems(2)[of x w y w1] by (intro exI[of _ "y # ys"]) simp
qed (simp add: areturn_Ok)

text \<open>When \<^verbatim>\<open>CreateCRDs\<close> succeeds, each schema has an established definition.\<close>

lemma CreateCRDs_established:
  assumes "CreateCRDs A ss w = (Ok cs, w')"
  shows "length cs = length ss \<and> list_all established cs"
proof -
  from assms obtain ready w1 created w2 ready2 w3 w0 w00 where
    cr: "afold (\<lambda>s cs. abind (createCRD A s ready) (\<lambda>c. areturn (cs @ [c]))) ss [] w1 = (Ok created, w2)" and
    r2: "getReadyCRDs A w2 = (Ok ready2, w3)" and
    fin: "afold (\<lambda>c cs. abind (case map_of ready2 (crdName c) of Some c' \<Rightarrow> areturn c' | None \<Rightarrow> waitCRD (crd_polls A) A (crdName c))
            (\<lambda>c'. areturn (cs @ [c']))) created [] w3 = (Ok cs, w')"
    unfolding CreateCRDs_def abind_Ok by blast
  from afold_append[OF cr, of "\<lambda>_ _. True"] have "length created = length ss" by (auto dest: list_all2_lengthD)
  moreover have "\<exists>ys. cs = [] @ ys \<and> list_all2 (\<lambda>_ c'. established c') created ys"
  proof (rule afold_append[OF fin])
    fix c v y v' assume "(case map_of ready2 (crdName c) of Some c' \<Rightarrow> areturn c' | None \<Rightarrow> waitCRD (crd_polls A) A (crdName c)) v = (Ok y, v')"
    thus "established y"
      using getReady_established[OF r2] waitCRD_established by (auto simp: areturn_def split: option.splits)
  qed
  ultimately show ?thesis by (auto simp: list_all2_conv_all_nth list_all_length)
qed

end
