(* ===== verification/ApiClient.thy ===== *)
theory ApiClient
  imports Helpers
begin

text \<open>
  The client for APIs that norman serves, \<^verbatim>\<open>clientbase/common.go\<close> and \<^verbatim>\<open>clientbase/ops.go\<close>. It reads the schemas of a server and finds in
  them and in the links of resources the URLs that it sends requests to. Sending a request, JSON, base64 and
  the parsing of URLs are parameters.
\<close>

section \<open>Requests and responses\<close>

record client_request =
  cqMethod :: string
  cqURL :: string
  cqHeader :: "(string \<times> string) list"
  cqBody :: string

record client_response =
  cpCode :: int
  cpStatus :: string
  cpHeader :: "(string \<times> string) list"
  cpContents :: string
  cpReadError :: "err option"

text \<open>\<^verbatim>\<open>ioutil.ReadAll\<close> gives what it could read of the body, and the error that ended the reading.\<close>

definition cpBody :: "client_response \<Rightarrow> err + string" where
  "cpBody resp = (case cpReadError resp of Some e \<Rightarrow> Inl e | None \<Rightarrow> Inr (cpContents resp))"

text \<open>A client error: the \<^verbatim>\<open>APIError\<close> of the package, with code, URL, message, status and body, or another error.\<close>

datatype client_err = BadResponse int string string string string | OtherClientErr err

record parsed_url =
  puBase :: string
  puQuery :: "(string \<times> string list) list"

record 'w transport =
  t_do :: "client_request \<Rightarrow> 'w \<Rightarrow> (err + client_response) \<times> 'w"
  t_request_error :: "string \<Rightarrow> err option"
  t_marshal :: "gval \<Rightarrow> err + string"
  t_unmarshal :: "string \<Rightarrow> err + gval"
  t_base64 :: "string \<Rightarrow> string"
  t_parse_url :: "string \<Rightarrow> err + parsed_url"
  t_url_string :: "parsed_url \<Rightarrow> string"

record client_opts =
  coURL :: string
  coAccessKey :: string
  coSecretKey :: string
  coTokenKey :: string
  coCACerts :: string

text \<open>What the client reads of a schema, a resource and a collection.\<close>

record client_schema =
  csID :: string
  csPluralName :: string
  csCollectionMethods :: "string list"
  csResourceMethods :: "string list"
  csLinks :: "(string \<times> string) list"

record client_resource =
  crType :: string
  crLinks :: "(string \<times> string) list"
  crActions :: "(string \<times> string) list"

record api_operations =
  aoOpts :: client_opts
  aoTypes :: "(string \<times> client_schema) list"

type_synonym ('w, 'a) client_act = "'w \<Rightarrow> (client_err + 'a) \<times> 'w"

definition cfail :: "string \<Rightarrow> ('w, 'a) client_act" where
  "cfail msg w = (Inl (OtherClientErr (PlainErr msg)), w)"

definition getAuthHeader :: "'w transport \<Rightarrow> client_opts \<Rightarrow> string" where
  "getAuthHeader T c =
     (if coTokenKey c \<noteq> [] then ''Bearer '' @ coTokenKey c
      else if coAccessKey c \<noteq> [] \<and> coSecretKey c \<noteq> [] then ''Basic '' @ t_base64 T (coAccessKey c @ '':'' @ coSecretKey c)
      else [])"

definition client_IsNotFound :: "client_err \<Rightarrow> bool" where
  "client_IsNotFound e = (case e of BadResponse code _ _ _ _ \<Rightarrow> code = 404 | OtherClientErr _ \<Rightarrow> False)"

text \<open>The body of an error: the entries of a JSON object, without those that every resource has.\<close>

definition error_body :: "'w transport \<Rightarrow> client_response \<Rightarrow> string" where
  "error_body T resp =
     (case t_unmarshal T (cpContents resp) of
        Inr (VMap (Some data)) \<Rightarrow>
          let kept = filter (\<lambda>kv. fst kv \<notin> set [''id'', ''links'', ''actions'', ''type'', ''status''] \<and> snd kv \<noteq> VNil) data
          in str_join '', '' (map (\<lambda>kv. fst kv @ ''='' @ sprint (snd kv)) kept)
      | Inr VNil \<Rightarrow> []
      | _ \<Rightarrow> (case cpReadError resp of None \<Rightarrow> cpContents resp | Some _ \<Rightarrow> ''Unreadable body.''))"

definition client_NewAPIError :: "'w transport \<Rightarrow> client_response \<Rightarrow> string \<Rightarrow> client_err" where
  "client_NewAPIError T resp url =
     (let body = error_body T resp
      in BadResponse (cpCode resp) url
           (''Bad response statusCode ['' @ show_int (cpCode resp) @ '']. Status ['' @ cpStatus resp @ '']. Body: ['' @ body @ ''] from ['' @ url @ '']'')
           (cpStatus resp) body)"

definition query_add :: "string \<Rightarrow> string \<Rightarrow> (string \<times> string list) list \<Rightarrow> (string \<times> string list) list" where
  "query_add k v q = mset_key k ((case map_of q k of None \<Rightarrow> [] | Some vs \<Rightarrow> vs) @ [v]) q"

definition appendFilters :: "'w transport \<Rightarrow> string \<Rightarrow> (string \<times> gval) list \<Rightarrow> err + string" where
  "appendFilters T url filters =
     (if filters = [] then Inr url
      else map_sum id (\<lambda>u. t_url_string T (u\<lparr>puQuery := fold (\<lambda>kv q. case snd kv of
               VStrs l \<Rightarrow> fold (query_add (fst kv)) l q
             | v \<Rightarrow> query_add (fst kv) (sprint v) q) filters (puQuery u)\<rparr>)) (t_parse_url T url))"

section \<open>Sending\<close>

text \<open>\<open>send\<close> is the common part: the request is made, authorized and sent, and a bad status is an error.\<close>

definition send :: "'w transport \<Rightarrow> api_operations \<Rightarrow> string \<Rightarrow> string \<Rightarrow> (string \<times> string) list \<Rightarrow> string \<Rightarrow> (int \<Rightarrow> bool) \<Rightarrow> ('w, client_response) client_act" where
  "send T a method url headers body good w =
     (case t_request_error T url of
        Some e \<Rightarrow> (Inl (OtherClientErr e), w)
      | None \<Rightarrow>
          (case t_do T \<lparr>cqMethod = method, cqURL = url, cqHeader = (''Authorization'', getAuthHeader T (aoOpts a)) # headers, cqBody = body\<rparr> w of
             (Inl e, w1) \<Rightarrow> (Inl (OtherClientErr e), w1)
           | (Inr resp, w1) \<Rightarrow> if good (cpCode resp) then (Inr resp, w1) else (Inl (client_NewAPIError T resp url), w1)))"

definition decode :: "'w transport \<Rightarrow> err + string \<Rightarrow> client_err + gval" where
  "decode T body =
     (case body of
        Inl e \<Rightarrow> Inl (OtherClientErr e)
      | Inr s \<Rightarrow> map_sum OtherClientErr id (t_unmarshal T s))"

definition decode_wrapped :: "'w transport \<Rightarrow> err + string \<Rightarrow> client_err + gval" where
  "decode_wrapped T body =
     (case body of
        Inl e \<Rightarrow> Inl (OtherClientErr e)
      | Inr s \<Rightarrow> map_sum (\<lambda>e. OtherClientErr (PlainErr (''Failed to parse: '' @ s @ '': '' @ err_string e))) id (t_unmarshal T s))"

definition DoDelete :: "'w transport \<Rightarrow> api_operations \<Rightarrow> string \<Rightarrow> ('w, unit) client_act" where
  "DoDelete T a url w = (case send T a ''DELETE'' url [] [] (\<lambda>c. c < 300) w of (Inl e, w1) \<Rightarrow> (Inl e, w1) | (Inr _, w1) \<Rightarrow> (Inr (), w1))"

definition DoGet :: "'w transport \<Rightarrow> api_operations \<Rightarrow> string \<Rightarrow> (string \<times> gval) list \<Rightarrow> ('w, gval) client_act" where
  "DoGet T a url0 filters w =
     (case appendFilters T url0 filters of
        Inl e \<Rightarrow> (Inl (OtherClientErr e), w)
      | Inr url \<Rightarrow>
          (case send T a ''GET'' url [] [] (\<lambda>c. c = 200) w of
             (Inl e, w1) \<Rightarrow> (Inl e, w1)
           | (Inr resp, w1) \<Rightarrow> (decode_wrapped T (cpBody resp), w1)))"

text \<open>An empty body leaves the object of the caller as it is: \<open>None\<close>.\<close>

definition DoModify :: "'w transport \<Rightarrow> api_operations \<Rightarrow> string \<Rightarrow> string \<Rightarrow> gval \<Rightarrow> ('w, gval option) client_act" where
  "DoModify T a method url obj w =
     (case t_marshal T (if obj = VNil then VMap (Some []) else obj) of
        Inl e \<Rightarrow> (Inl (OtherClientErr e), w)
      | Inr body \<Rightarrow>
          (case send T a method url [(''Content-Type'', ''application/json'')] body (\<lambda>c. c < 300) w of
             (Inl e, w1) \<Rightarrow> (Inl e, w1)
           | (Inr resp, w1) \<Rightarrow> (if cpBody resp = Inr [] then Inr None else map_sum id Some (decode T (cpBody resp)), w1)))"

section \<open>Operations on types\<close>

definition with_type :: "api_operations \<Rightarrow> string \<Rightarrow> (client_schema \<Rightarrow> ('w, 'a) client_act) \<Rightarrow> ('w, 'a) client_act" where
  "with_type a schemaType f =
     (case map_of (aoTypes a) schemaType of None \<Rightarrow> cfail (''Unknown schema type ['' @ schemaType @ '']'') | Some s \<Rightarrow> f s)"

definition DoList :: "'w transport \<Rightarrow> api_operations \<Rightarrow> string \<Rightarrow> (string \<times> gval) list \<Rightarrow> ('w, gval) client_act" where
  "DoList T a schemaType filters =
     with_type a schemaType (\<lambda>schema.
       if \<not> ContainsString (csCollectionMethods schema) ''GET'' then cfail (''Resource type ['' @ schemaType @ ''] is not listable'')
       else case map_of (csLinks schema) ''collection'' of
              None \<Rightarrow> cfail (''Resource type ['' @ schemaType @ ''] does not have a collection URL'')
            | Some url \<Rightarrow> DoGet T a url filters)"

definition DoNext :: "'w transport \<Rightarrow> api_operations \<Rightarrow> string \<Rightarrow> ('w, gval) client_act" where
  "DoNext T a nextURL = DoGet T a nextURL []"

text \<open>Without a collection link, the part of the self link from \<^verbatim>\<open>schemas\<close> on is replaced by the plural name. The link has
  no line break and the plural name no dollar sign, which the template of the regular expression would expand.\<close>

definition create_url :: "client_schema \<Rightarrow> string" where
  "create_url schema =
     (case map_of (csLinks schema) ''collection'' of
        Some url \<Rightarrow> url
      | None \<Rightarrow>
          (let self = (case map_of (csLinks schema) ''self'' of None \<Rightarrow> [] | Some u \<Rightarrow> u)
           in case str_index self ''schemas'' of None \<Rightarrow> self | Some i \<Rightarrow> take i self @ csPluralName schema))"

definition DoCreate :: "'w transport \<Rightarrow> api_operations \<Rightarrow> string \<Rightarrow> gval \<Rightarrow> ('w, gval option) client_act" where
  "DoCreate T a schemaType obj =
     with_type a schemaType (\<lambda>schema.
       if \<not> ContainsString (csCollectionMethods schema) ''POST'' then cfail (''Resource type ['' @ schemaType @ ''] is not creatable'')
       else DoModify T a ''POST'' (create_url schema) obj)"

definition replace_url :: "'w transport \<Rightarrow> bool \<Rightarrow> string \<Rightarrow> err + string" where
  "replace_url T replace url =
     (if replace
      then map_sum (\<lambda>e. PlainErr (''failed to parse url '' @ url @ '': '' @ err_string e))
             (\<lambda>u. t_url_string T (u\<lparr>puQuery := mset_key ''_replace'' [''true''] (puQuery u)\<rparr>)) (t_parse_url T url)
      else Inr url)"

text \<open>The messages about a missing link leave out the resource that they print.\<close>

definition doUpdate :: "'w transport \<Rightarrow> api_operations \<Rightarrow> string \<Rightarrow> bool \<Rightarrow> client_resource option \<Rightarrow> gval \<Rightarrow> ('w, gval option) client_act" where
  "doUpdate T a schemaType replace existing updates =
     (case existing of
        None \<Rightarrow> cfail ''Existing object is nil''
      | Some r \<Rightarrow>
          (case map_of (crLinks r) ''self'' of
             None \<Rightarrow> cfail ''failed to find self URL''
           | Some self \<Rightarrow>
               (case replace_url T replace self of
                  Inl e \<Rightarrow> (\<lambda>w. (Inl (OtherClientErr e), w))
                | Inr url \<Rightarrow>
                    with_type a schemaType (\<lambda>schema.
                      if \<not> ContainsString (csResourceMethods schema) ''PUT'' then cfail (''Resource type ['' @ schemaType @ ''] is not updatable'')
                      else DoModify T a ''PUT'' url updates))))"

definition DoReplace :: "'w transport \<Rightarrow> api_operations \<Rightarrow> string \<Rightarrow> client_resource option \<Rightarrow> gval \<Rightarrow> ('w, gval option) client_act" where
  "DoReplace T a schemaType = doUpdate T a schemaType True"

definition DoUpdate :: "'w transport \<Rightarrow> api_operations \<Rightarrow> string \<Rightarrow> client_resource option \<Rightarrow> gval \<Rightarrow> ('w, gval option) client_act" where
  "DoUpdate T a schemaType = doUpdate T a schemaType False"

definition DoByID :: "'w transport \<Rightarrow> api_operations \<Rightarrow> string \<Rightarrow> string \<Rightarrow> ('w, gval) client_act" where
  "DoByID T a schemaType i =
     with_type a schemaType (\<lambda>schema.
       if \<not> ContainsString (csResourceMethods schema) ''GET'' then cfail (''Resource type ['' @ schemaType @ ''] can not be looked up by ID'')
       else case map_of (csLinks schema) ''collection'' of
              None \<Rightarrow> cfail (''Failed to find collection URL for ['' @ schemaType @ '']'')
            | Some url \<Rightarrow> DoGet T a (url @ ''/'' @ i) [])"

definition DoResourceDelete :: "'w transport \<Rightarrow> api_operations \<Rightarrow> string \<Rightarrow> client_resource \<Rightarrow> ('w, unit) client_act" where
  "DoResourceDelete T a schemaType existing =
     with_type a schemaType (\<lambda>schema.
       if \<not> ContainsString (csResourceMethods schema) ''DELETE'' then cfail (''Resource type ['' @ schemaType @ ''] can not be deleted'')
       else case map_of (crLinks existing) ''self'' of
              None \<Rightarrow> cfail ''failed to find self URL''
            | Some url \<Rightarrow> DoDelete T a url)"

text \<open>The body of the response to an action is read whether the caller wants an object or not.\<close>

definition doAction :: "'w transport \<Rightarrow> api_operations \<Rightarrow> string \<Rightarrow> string \<Rightarrow> gval \<Rightarrow> bool \<Rightarrow> ('w, gval option) client_act" where
  "doAction T a schemaType url input wanted =
     with_type a schemaType (\<lambda>_ w.
       case (if input = VNil then Inr [] else t_marshal T input) of
         Inl e \<Rightarrow> (Inl (OtherClientErr e), w)
       | Inr body \<Rightarrow>
           (case send T a ''POST'' url [(''Content-Type'', ''application/json''), (''Content-Length'', ''0'')] body (\<lambda>c. c < 300) w of
              (Inl e, w1) \<Rightarrow> (Inl e, w1)
            | (Inr resp, w1) \<Rightarrow>
                (if wanted then map_sum id Some (decode T (cpBody resp)) else map_sum OtherClientErr (\<lambda>_. None) (cpBody resp), w1)))"

definition DoAction :: "'w transport \<Rightarrow> api_operations \<Rightarrow> string \<Rightarrow> string \<Rightarrow> client_resource option \<Rightarrow> gval \<Rightarrow> bool \<Rightarrow> ('w, gval option) client_act" where
  "DoAction T a schemaType action existing input wanted =
     (case existing of
        None \<Rightarrow> cfail ''Existing object is nil''
      | Some r \<Rightarrow>
          (case map_of (crActions r) action of
             None \<Rightarrow> cfail (''action ['' @ action @ ''] not available'')
           | Some url \<Rightarrow> doAction T a schemaType url input wanted))"

text \<open>The actions of a collection stand for the collection.\<close>

definition DoCollectionAction :: "'w transport \<Rightarrow> api_operations \<Rightarrow> string \<Rightarrow> string \<Rightarrow> (string \<times> string) list option \<Rightarrow> gval \<Rightarrow> bool \<Rightarrow> ('w, gval option) client_act" where
  "DoCollectionAction T a schemaType action existing input wanted =
     (case existing of
        None \<Rightarrow> cfail ''Existing object is nil''
      | Some actions \<Rightarrow>
          (case map_of actions action of
             None \<Rightarrow> cfail (''action ['' @ action @ ''] not available'')
           | Some url \<Rightarrow> doAction T a schemaType url input wanted))"

section \<open>The client\<close>

text \<open>Certificates that can not be read end \<^verbatim>\<open>NewAPIClient\<close> with a client that has no operations, and without an error: \<open>Inr None\<close>.\<close>

definition read_schemas :: "gval \<Rightarrow> (gval \<Rightarrow> client_schema list) \<Rightarrow> (string \<times> client_schema) list" where
  "read_schemas v schemas_of = fold (\<lambda>s m. mset_key (csID s) s m) (schemas_of v) []"

definition bare_get :: "'w transport \<Rightarrow> client_opts \<Rightarrow> string \<Rightarrow> ('w, client_response) client_act" where
  "bare_get T opts url = send T \<lparr>aoOpts = opts, aoTypes = []\<rparr> ''GET'' url [] [] (\<lambda>c. c = 200)"

definition NewAPIClient :: "'w transport \<Rightarrow> (string \<Rightarrow> bool) \<Rightarrow> (gval \<Rightarrow> client_schema list) \<Rightarrow> client_opts \<Rightarrow> ('w, api_operations option) client_act" where
  "NewAPIClient T certs_ok schemas_of opts w =
     (if coCACerts opts \<noteq> [] \<and> \<not> certs_ok (coCACerts opts) then (Inr None, w)
      else case bare_get T opts (coURL opts) w of
             (Inl e, w1) \<Rightarrow> (Inl e, w1)
           | (Inr resp, w1) \<Rightarrow>
               let url = (case map_of (cpHeader resp) ''X-API-Schemas'' of None \<Rightarrow> [] | Some u \<Rightarrow> u) in
               if url = [] then cfail (''Failed to find schema at ['' @ coURL opts @ '']'') w1
               else (case (if url \<noteq> coURL opts then bare_get T opts url w1 else (Inr resp, w1)) of
                       (Inl e, w2) \<Rightarrow> (Inl e, w2)
                     | (Inr resp2, w2) \<Rightarrow>
                         (case decode T (cpBody resp2) of
                            Inl e \<Rightarrow> (Inl e, w2)
                          | Inr v \<Rightarrow> (Inr (Some \<lparr>aoOpts = opts, aoTypes = read_schemas v schemas_of\<rparr>), w2))))"

definition GetLink :: "'w transport \<Rightarrow> api_operations \<Rightarrow> client_resource \<Rightarrow> string \<Rightarrow> ('w, gval) client_act" where
  "GetLink T a r link =
     (case map_of (crLinks r) link of
        None \<Rightarrow> cfail (''failed to find link: '' @ link)
      | Some url \<Rightarrow> if url = [] then cfail (''failed to find link: '' @ link) else DoGet T a url [])"

definition client_Delete :: "'w transport \<Rightarrow> api_operations \<Rightarrow> client_resource option \<Rightarrow> ('w, unit) client_act" where
  "client_Delete T a existing w = (case existing of None \<Rightarrow> (Inr (), w) | Some r \<Rightarrow> DoResourceDelete T a (crType r) r w)"

definition Reload :: "'w transport \<Rightarrow> api_operations \<Rightarrow> client_resource \<Rightarrow> ('w, gval) client_act" where
  "Reload T a existing =
     (case map_of (crLinks existing) ''self'' of None \<Rightarrow> cfail ''failed to find self URL'' | Some url \<Rightarrow> DoGet T a url [])"

text \<open>\<^verbatim>\<open>Websocket\<close> copies the empty header into itself, and not the headers of the caller.\<close>

definition websocket_header :: "'w transport \<Rightarrow> client_opts option \<Rightarrow> (string \<times> string list) list \<Rightarrow> (string \<times> string list) list" where
  "websocket_header T opts headers =
     (let h = put_all [] []
      in case opts of None \<Rightarrow> h | Some c \<Rightarrow> query_add ''Authorization'' (getAuthHeader T c) h)"

end
