(* ===== verification/Generator.thy ===== *)
theory Generator
  imports Access MapperSchema
begin

text \<open>
  The code generator, \<^verbatim>\<open>generator/generator.go\<close>, \<^verbatim>\<open>generator/funcs.go\<close> and \<^verbatim>\<open>generator/default.go\<close>: the Go types of fields, which schemas
  get a type, a client and a controller, and the files that are removed and written. Files, the templates, the
  generators of copies and mocks and the formatter are parameters.
\<close>

section \<open>Names and types\<close>

definition hasGet :: "Schema \<Rightarrow> bool" where
  "hasGet schema = ContainsString (CollectionMethods schema) ''GET''"

definition hasPost :: "Schema \<Rightarrow> bool" where
  "hasPost schema = ContainsString (CollectionMethods schema) ''POST''"

definition getCollectionOutput :: "string \<Rightarrow> string \<Rightarrow> string" where
  "getCollectionOutput out codeName = (if out = ''collection'' then codeName @ ''Collection'' else Capitalize out)"

definition is_lower_letter :: "char \<Rightarrow> bool" where
  "is_lower_letter c \<longleftrightarrow> CHR ''a'' \<le> c \<and> c \<le> CHR ''z''"

definition is_upper_letter :: "char \<Rightarrow> bool" where
  "is_upper_letter c \<longleftrightarrow> CHR ''A'' \<le> c \<and> c \<le> CHR ''Z''"

text \<open>The matches of \<^verbatim>\<open>([a-z])([A-Z])\<close> do not overlap, so an underscore goes into each.\<close>

fun split_words :: "string \<Rightarrow> string" where
  "split_words (c # d # s) = (if is_lower_letter c \<and> is_upper_letter d then c # CHR ''_'' # split_words (d # s) else c # split_words (d # s))"
| "split_words s = s"

definition addUnderscore :: "string \<Rightarrow> string" where
  "addUnderscore input = to_lower (split_words input)"

text \<open>The name of a type that is not a map, an array or a reference. Most of them are never pointers.\<close>

definition plain_go_type :: "bool \<Rightarrow> string \<Rightarrow> Schema option \<Rightarrow> Schemas option \<Rightarrow> string" where
  "plain_go_type nullable typeName schema reg0 =
     (let pointer = (\<lambda>name. if nullable then ''*'' @ name else name) in
      if typeName \<in> set [''base64'', ''multiline'', ''masked'', ''password'', ''date'', ''string'', ''enum'', ''dnsLabel'', ''dnsLabelRestricted'', ''hostname'']
      then ''string''
      else if typeName = ''json'' then ''interface{}''
      else if typeName = ''intOrString'' then ''intstr.IntOrString''
      else if typeName = ''boolean'' then pointer ''bool''
      else if typeName = ''float'' then pointer ''float64''
      else if typeName = ''int'' then pointer ''int64''
      else let name = (case (schema, reg0) of
                         (Some s, Some rs) \<Rightarrow> (case Schema_of rs (Some (SVersion s)) typeName of Some other \<Rightarrow> SCodeName other | None \<Rightarrow> [])
                       | _ \<Rightarrow> [])
           in pointer (if name = [] then Capitalize typeName else name))"

text \<open>The prefixes \<^verbatim>\<open>map[\<close> and \<^verbatim>\<open>array[\<close> are cut off together with the last character; there is none to cut off when the name
  is the prefix alone.\<close>

function getTypeString :: "bool \<Rightarrow> string \<Rightarrow> Schema option \<Rightarrow> Schemas option \<Rightarrow> string res" where
  "getTypeString nullable typeName schema reg0 =
     (if has_prefix typeName ''reference['' then Ok ''string''
      else if has_prefix typeName ''map['' then
        (if length typeName \<le> 4 then Panic
         else rbind (getTypeString False (butlast (drop 4 typeName)) schema reg0) (\<lambda>t. Ok (''map[string]'' @ t)))
      else if has_prefix typeName ''array['' then
        (if length typeName \<le> 6 then Panic
         else rbind (getTypeString False (butlast (drop 6 typeName)) schema reg0) (\<lambda>t. Ok (''[]'' @ t)))
      else Ok (plain_go_type nullable typeName schema reg0))"
  by pat_completeness auto

termination
  by (relation "measure (\<lambda>(_, t, _, _). length t)") auto

declare getTypeString.simps [simp del]

record fieldInfo =
  fiName :: string
  fiType :: string

definition getTypeMap :: "Schema \<Rightarrow> Schemas \<Rightarrow> (string \<times> fieldInfo) list res" where
  "getTypeMap schema rs =
     rfold (\<lambda>(name, f) m.
       if equal_fold name ''id'' then Ok m
       else rbind (getTypeString (Nullable f) (FType f) (Some schema) (Some rs)) (\<lambda>t.
              Ok (mset_key (FCodeName f) \<lparr>fiName = name, fiType = t\<rparr> m))) (ResourceFields schema) []"

definition getResourceActions :: "Schema \<Rightarrow> Schemas \<Rightarrow> (string \<times> action) list" where
  "getResourceActions schema rs =
     filter (\<lambda>(_, a). Output a = [] \<or> Schema_of rs (Some (SVersion schema)) (Output a) \<noteq> None) (ResourceActions schema)"

definition getCollectionActions :: "Schema \<Rightarrow> Schemas \<Rightarrow> (string \<times> action) list" where
  "getCollectionActions schema rs =
     filter (\<lambda>(_, a). Output a = [] \<or>
       Schema_of rs (Some (SVersion schema)) (if Output a = ''collection'' then to_lower (SCodeName schema) else Output a) \<noteq> None)
       (CollectionActions schema)"

section \<open>Files\<close>

text \<open>What a template is executed with.\<close>

datatype gen_data =
    TypeData Schema "(string \<times> fieldInfo) list" "(string \<times> action) list" "(string \<times> action) list"
  | AdapterData Schema string string
  | SchemeData APIVersion "Schema list" "string list"
  | K8sData APIVersion "Schema list"
  | ClientData "Schema list"

record 'w gen_api =
  g_mkdir :: "string \<Rightarrow> ('w, unit) act"
  g_readdir :: "string \<Rightarrow> ('w, string list) act"
  g_remove :: "string \<Rightarrow> ('w, unit) act"
  g_create :: "string \<Rightarrow> ('w, unit) act"
  g_parse :: "string \<Rightarrow> unit res"
  g_execute :: "string \<Rightarrow> string \<Rightarrow> gen_data \<Rightarrow> ('w, unit) act"
  g_write :: "string \<Rightarrow> string \<Rightarrow> ('w, unit) act"
  g_gofmt :: "string \<Rightarrow> string \<Rightarrow> ('w, unit) act"
  g_deepcopy :: "string \<Rightarrow> string \<Rightarrow> ('w, unit) act"
  g_moq :: "string \<Rightarrow> string \<Rightarrow> ('w, unit) act"
  g_mock :: "string list \<Rightarrow> ('w, string) act"
  g_source_tree :: string

definition path_joins :: "string list \<Rightarrow> string" where
  "path_joins ps = (let qs = filter (\<lambda>p. p \<noteq> []) ps in if qs = [] then [] else path_clean (str_join ''/'' qs))"

definition gen_file :: "'w gen_api \<Rightarrow> string \<Rightarrow> string \<Rightarrow> gen_data res \<Rightarrow> ('w, unit) act" where
  "gen_file G template file data =
     abind (g_create G file) (\<lambda>_.
     abind (alift (g_parse G template)) (\<lambda>_.
     abind (alift data) (g_execute G template file)))"

definition generateType :: "'w gen_api \<Rightarrow> string \<Rightarrow> Schema \<Rightarrow> Schemas \<Rightarrow> ('w, unit) act" where
  "generateType G dir schema rs =
     gen_file G ''type.template'' (path_joins [dir, to_lower (''zz_generated_'' @ addUnderscore (ID schema) @ ''.go'')])
       (rbind (getTypeMap schema rs) (\<lambda>m. Ok (TypeData schema m (getResourceActions schema rs) (getCollectionActions schema rs))))"

definition adapter_data :: "bool \<Rightarrow> Schema \<Rightarrow> gen_data" where
  "adapter_data external schema =
     (if external
      then AdapterData schema (''\"'' @ last (split_str (PkgName schema) ''/vendor/'') @ ''\"'') (Version (SVersion schema) @ ''.'')
      else AdapterData schema [] [])"

definition generateLifecycle :: "'w gen_api \<Rightarrow> bool \<Rightarrow> string \<Rightarrow> Schema \<Rightarrow> ('w, unit) act" where
  "generateLifecycle G external dir schema =
     gen_file G ''lifecycle.template'' (path_joins [dir, to_lower (''zz_generated_'' @ addUnderscore (ID schema) @ ''_lifecycle_adapter.go'')])
       (Ok (adapter_data external schema))"

definition generateController :: "'w gen_api \<Rightarrow> bool \<Rightarrow> string \<Rightarrow> Schema \<Rightarrow> ('w, unit) act" where
  "generateController G external dir schema =
     gen_file G ''controller.template'' (path_joins [dir, to_lower (''zz_generated_'' @ addUnderscore (ID schema) @ ''_controller.go'')])
       (Ok (adapter_data external schema))"

definition scheme_names :: "bool \<Rightarrow> Schema list \<Rightarrow> string list" where
  "scheme_names external ss =
     concat (map (\<lambda>s. (if external then [] else [SCodeName s]) @ (if CanList s = None then [SCodeName s @ ''List''] else [])) ss)"

definition generateScheme :: "'w gen_api \<Rightarrow> bool \<Rightarrow> string \<Rightarrow> APIVersion \<Rightarrow> Schema list \<Rightarrow> ('w, unit) act" where
  "generateScheme G external dir v ss =
     gen_file G ''scheme.template'' (path_joins [dir, ''zz_generated_scheme.go'']) (Ok (SchemeData v ss (scheme_names external ss)))"

definition generateK8sClient :: "'w gen_api \<Rightarrow> string \<Rightarrow> APIVersion \<Rightarrow> Schema list \<Rightarrow> ('w, unit) act" where
  "generateK8sClient G dir v ss =
     gen_file G ''k8sClient.template'' (path_joins [dir, ''zz_generated_k8s_client.go'']) (Ok (K8sData v ss))"

definition generateClient :: "'w gen_api \<Rightarrow> string \<Rightarrow> Schema list \<Rightarrow> ('w, unit) act" where
  "generateClient G dir ss =
     abind (alift (g_parse G ''client.template'')) (\<lambda>_.
     abind (g_create G (path_joins [dir, ''zz_generated_client.go''])) (\<lambda>_.
     g_execute G ''client.template'' (path_joins [dir, ''zz_generated_client.go'']) (ClientData ss)))"

definition prepare_dir :: "'w gen_api \<Rightarrow> string \<Rightarrow> ('w, unit) act" where
  "prepare_dir G dir =
     abind (g_mkdir G dir) (\<lambda>_.
     abind (g_readdir G dir) (\<lambda>files.
     afold (\<lambda>file _ w.
       if has_prefix file ''zz_generated'' then
         (case g_remove G (path_joins [dir, file]) w of
            (Err e, w1) \<Rightarrow> (Err (PlainErr (''failed to delete '' @ path_joins [dir, file] @ '': '' @ err_string e)), w1)
          | r \<Rightarrow> r)
       else (Ok (), w)) files ()))"

definition prepareDirs :: "'w gen_api \<Rightarrow> string list \<Rightarrow> ('w, unit) act" where
  "prepareDirs G dirs = afold (\<lambda>dir _. if dir = [] then areturn () else prepare_dir G dir) dirs ()"

definition generateFakes :: "'w gen_api \<Rightarrow> string \<Rightarrow> Schema list \<Rightarrow> ('w, unit) act" where
  "generateFakes G dir controllers =
     abind (g_moq G dir ''fakes'') (\<lambda>_.
     afold (\<lambda>c _.
       abind (g_mock G [SCodeName c @ ''Lister'', SCodeName c @ ''Controller'', SCodeName c @ ''Interface'', CodeNamePlural c @ ''Getter'']) (\<lambda>out.
       g_write G (path_joins [dir, ''fakes'', ''zz_generated_'' @ addUnderscore (ID c) @ ''_mock.go'']) out)) controllers ())"

section \<open>Generating\<close>

definition blackListTypes :: "string list" where
  "blackListTypes = [''schema'', ''resource'', ''collection'']"

definition has_controller :: "string list \<Rightarrow> Schema \<Rightarrow> bool" where
  "has_controller privateTypes s \<longleftrightarrow>
     ID s \<in> set privateTypes \<or> ContainsString (CollectionMethods s) ''GET'' \<and> \<not> has_prefix (PkgName s) ''k8s.io'' \<and> \<not> str_contains (PkgName s) ''/vendor/''"

text \<open>One schema: the controllers and the types of the client so far grow by it.\<close>

definition generate_schema :: "'w gen_api \<Rightarrow> Schemas \<Rightarrow> string list \<Rightarrow> string \<Rightarrow> string \<Rightarrow> Schema \<Rightarrow> Schema list \<times> Schema list \<Rightarrow> ('w, Schema list \<times> Schema list) act" where
  "generate_schema G rs privateTypes cattleDir k8sDir s st =
     (if ID s \<in> set blackListTypes then areturn st
      else
        abind (if cattleDir \<noteq> [] then generateType G cattleDir s rs else areturn ()) (\<lambda>_.
        abind (if has_controller privateTypes s
               then abind (generateController G False k8sDir s) (\<lambda>_. generateLifecycle G False k8sDir s)
               else areturn ()) (\<lambda>_.
        areturn (if has_controller privateTypes s then fst st @ [s] else fst st,
                 if ID s \<notin> set privateTypes then snd st @ [s] else snd st))))"

definition generate_controllers :: "'w gen_api \<Rightarrow> string \<Rightarrow> string \<Rightarrow> string \<Rightarrow> Schema list \<Rightarrow> ('w, unit) act" where
  "generate_controllers G baseDir k8sPackage k8sDir controllers =
     (case controllers of
        [] \<Rightarrow> areturn ()
      | c # _ \<Rightarrow>
          abind (g_deepcopy G baseDir k8sPackage) (\<lambda>_.
          abind (generateK8sClient G k8sDir (SVersion c) controllers) (\<lambda>_.
          abind (generateScheme G False k8sDir (SVersion c) controllers) (\<lambda>_.
          generateFakes G k8sDir controllers))))"

definition Generate :: "'w gen_api \<Rightarrow> Schemas \<Rightarrow> string list \<Rightarrow> string \<Rightarrow> string \<Rightarrow> ('w, unit) act" where
  "Generate G rs privateTypes cattlePackage k8sPackage =
     (let baseDir = g_source_tree G;
          cattleDir = (if cattlePackage = [] then [] else path_joins [baseDir, cattlePackage]);
          k8sDir = path_joins [baseDir, k8sPackage] in
      abind (prepareDirs G [cattleDir, k8sDir, path_joins [k8sDir, ''fakes'']]) (\<lambda>_.
      abind (afold (generate_schema G rs privateTypes cattleDir k8sDir) (map (deref rs) (schemas rs)) ([], [])) (\<lambda>(controllers, clientTypes).
      abind (if cattleDir \<noteq> [] then generateClient G cattleDir clientTypes else areturn ()) (\<lambda>_.
      abind (generate_controllers G baseDir k8sPackage k8sDir controllers) (\<lambda>_.
      abind (g_gofmt G baseDir k8sPackage) (\<lambda>_.
      if cattlePackage \<noteq> [] then g_gofmt G baseDir cattlePackage else areturn ()))))))"

text \<open>While the group is empty, the version of the next schema is taken without a comparison.\<close>

definition getVersion :: "Schemas \<Rightarrow> APIVersion res" where
  "getVersion rs =
     rfold (\<lambda>s v.
       if Group v = [] then Ok (SVersion s)
       else if Group v \<noteq> Group (SVersion s) \<or> Version v \<noteq> Version (SVersion s) then Panic
       else Ok v) (map (deref rs) (schemas rs)) version_zero"

definition DefaultGenerate :: "'w gen_api \<Rightarrow> Schemas \<Rightarrow> string \<Rightarrow> bool \<Rightarrow> string list \<Rightarrow> ('w, unit) act" where
  "DefaultGenerate G rs pkgPath publicAPI privateTypes =
     abind (alift (getVersion rs)) (\<lambda>v.
       Generate G rs privateTypes
         (if publicAPI then path_joins [pkgPath, ''client'', hd (split_str (Group v) ''.''), Version v] else [])
         (path_joins [pkgPath, ''apis'', Group v, Version v]))"

section \<open>The Go type of a field\<close>

datatype norman_type = NBase string | NRef string | NMap norman_type | NArray norman_type

primrec type_name :: "norman_type \<Rightarrow> string" where
  "type_name (NBase s) = s"
| "type_name (NRef s) = ''reference['' @ s @ '']''"
| "type_name (NMap t) = ''map['' @ type_name t @ '']''"
| "type_name (NArray t) = ''array['' @ type_name t @ '']''"

primrec base_names_ok :: "norman_type \<Rightarrow> bool" where
  "base_names_ok (NBase s) \<longleftrightarrow> \<not> has_prefix s ''reference['' \<and> \<not> has_prefix s ''map['' \<and> \<not> has_prefix s ''array[''"
| "base_names_ok (NRef s) \<longleftrightarrow> True"
| "base_names_ok (NMap t) \<longleftrightarrow> base_names_ok t"
| "base_names_ok (NArray t) \<longleftrightarrow> base_names_ok t"

primrec go_type :: "norman_type \<Rightarrow> bool \<Rightarrow> Schema option \<Rightarrow> Schemas option \<Rightarrow> string" where
  "go_type (NBase s) nullable schema rs = plain_go_type nullable s schema rs"
| "go_type (NRef s) nullable schema rs = ''string''"
| "go_type (NMap t) nullable schema rs = ''map[string]'' @ go_type t False schema rs"
| "go_type (NArray t) nullable schema rs = ''[]'' @ go_type t False schema rs"

text \<open>The name of a type is translated to the Go type of the same structure.\<close>

lemma getTypeString_structure:
  "base_names_ok t \<Longrightarrow> getTypeString nullable (type_name t) schema rs = Ok (go_type t nullable schema rs)"
  by (induction t arbitrary: nullable) (subst getTypeString.simps, simp add: has_prefix_def butlast_append)+

section \<open>Only generated files are removed\<close>

definition act_keeps :: "('w \<Rightarrow> bool) \<Rightarrow> ('w, 'a) act \<Rightarrow> bool" where
  "act_keeps P m \<longleftrightarrow> (\<forall>w. P w \<longrightarrow> P (snd (m w)))"

lemma keeps_abind: "act_keeps P m \<Longrightarrow> (\<And>v. act_keeps P (f v)) \<Longrightarrow> act_keeps P (abind m f)"
  by (auto simp: act_keeps_def abind_def split: prod.splits res.splits)

lemma keeps_areturn: "act_keeps P (areturn v)"
  by (simp add: act_keeps_def areturn_def)

lemma keeps_afold: "(\<And>x s. x \<in> set xs \<Longrightarrow> act_keeps P (f x s)) \<Longrightarrow> act_keeps P (afold f xs s)"
  by (induction xs arbitrary: s) (auto intro: keeps_areturn keeps_abind)

text \<open>What making and reading directories and removing files of the generator keep, the preparation of directories act_keeps:
  no other file is removed.\<close>

lemma prepareDirs_keeps:
  assumes "\<And>d. act_keeps P (g_mkdir G d)" "\<And>d. act_keeps P (g_readdir G d)"
    and "\<And>d f. has_prefix f ''zz_generated'' \<Longrightarrow> act_keeps P (g_remove G (path_joins [d, f]))"
  shows "act_keeps P (prepareDirs G dirs)"
proof -
  have "act_keeps P (prepare_dir G d)" for d
    unfolding prepare_dir_def
    by (intro keeps_abind keeps_afold assms(1,2)) (use assms(3) in \<open>auto simp: act_keeps_def split: prod.splits res.splits\<close>, (metis snd_conv)+)
  then show ?thesis unfolding prepareDirs_def by (intro keeps_afold) (simp add: keeps_areturn)
qed

end
