(* ===== verification/Spec2Isabelle.thy ===== *)
theory Spec2Isabelle
  imports RemoteServer BuilderLaws MapperLaws MergeLaws QueryLaws RequestLaws StoreLaws ServerLaws Broadcast Lifecycle
    Controllers Condition ObjectSets Crd ApiClient Generator
begin

text \<open>
  Norman is a framework for typed HTTP APIs over Kubernetes resources, written in Go. A program registers
  schemas, most of them read from Go struct types, and norman serves them: a request is parsed against the
  registry, checked, dispatched to a handler, its body is validated by the schema, a store reads or writes the
  object in Kubernetes, mappers translate between the stored form and the form of the API, and the response is
  written with links. Around this core are controllers that react to changes of objects, sets of objects that are
  kept in a desired state, and a tunnel that carries connections over a websocket.

  This library models these parts as functions of HOL that follow the code, one definition per function of the
  source, and proves what makes them correct. The paths below are relative to the root of the repository.

  \<^bold>\<open>Conventions.\<close> A Go string is a \<^typ>\<open>string\<close>, a map an association list with distinct keys, a nil map the option
  \<open>None\<close>. A result with an error is a \<open>res\<close>, whose third constructor is a run-time panic, so that the absence of
  panics is something that is proved. State is passed explicitly. Pointers are indices into a heap where
  sharing matters: schemas in the registry, connections in a session, the objects of conditions. Code that holds
  a lock is one step; goroutines are steps of their own. Integers that may wrap are words or reduced
  explicitly. Libraries of Kubernetes, JSON, YAML, digests, compression, clocks and random numbers are
  parameters, and a theorem that needs something of one says so.

  \<^bold>\<open>The theories, from the bottom up.\<close>

  \<^item> \<^verbatim>\<open>Prelude\<close>, \<^verbatim>\<open>GoStd\<close>: strings, maps, integers, doubles and times of Go; reachability and the locale \<open>invariant_system\<close>.
  \<^item> \<^verbatim>\<open>Errors\<close> (\<^verbatim>\<open>httperror/error.go\<close>), \<^verbatim>\<open>Values\<close> (\<^verbatim>\<open>types/convert\<close>, \<^verbatim>\<open>types/values\<close>), \<^verbatim>\<open>Helpers\<close> (\<^verbatim>\<open>pkg/kv\<close>, \<^verbatim>\<open>name\<close>, \<^verbatim>\<open>types/slice\<close>, \<^verbatim>\<open>types/set\<close>,
    \<^verbatim>\<open>types/definition\<close>): writing a value into nested maps and reading it back.
  \<^item> \<^verbatim>\<open>Mapper\<close>, \<^verbatim>\<open>MapperSchema\<close>, \<^verbatim>\<open>MapperLaws\<close> (\<^verbatim>\<open>types/mapper.go\<close>, \<^verbatim>\<open>types/mapper\<close>): both directions of every mapper and its change of the
    schema; a sequence of lossless mappers is undone by its opposite direction. The locale \<open>lossless_mapper\<close> is the
    contract of one mapper.
  \<^item> \<^verbatim>\<open>Registry\<close> (\<^verbatim>\<open>types/types.go\<close>, \<^verbatim>\<open>schema_funcs.go\<close>, \<^verbatim>\<open>schemas.go\<close>): the registry stays well formed under every operation, by
    the locale \<open>registry_invariant\<close>; adding, embedding and taking back; where embedding runs forever.
  \<^item> \<^verbatim>\<open>Reflection\<close> (\<^verbatim>\<open>types/reflection.go\<close>): schemas from Go types.
  \<^item> \<^verbatim>\<open>Builder\<close>, \<^verbatim>\<open>BuilderLaws\<close> (\<^verbatim>\<open>parse/builder/builder.go\<close>): an accepted body conforms to its schema, has what is required and hides
    what is secret, and the builder returns.
  \<^item> \<^verbatim>\<open>Merge\<close>, \<^verbatim>\<open>MergeLaws\<close> (\<^verbatim>\<open>types/convert/merge/merge.go\<close>): an update keeps what belongs to the server.
  \<^item> \<^verbatim>\<open>Query\<close>, \<^verbatim>\<open>QueryLaws\<close> (\<^verbatim>\<open>types/condition.go\<close>, \<^verbatim>\<open>parse/collection.go\<close>, \<^verbatim>\<open>api/handler/query.go\<close>): a query gives the valid items in order,
    given the contract \<open>slice_sort\<close> of \<^verbatim>\<open>sort.Slice\<close>, which insertion sort meets; pages are bounded and cover everything.
  \<^item> \<^verbatim>\<open>UrlBuilder\<close>, \<^verbatim>\<open>Request\<close>, \<^verbatim>\<open>RequestLaws\<close> (\<^verbatim>\<open>urlbuilder/url.go\<close>, \<^verbatim>\<open>parse\<close>): the links that are written are parsed back to what they
    link to; when the parser panics.
  \<^item> \<^verbatim>\<open>Access\<close>, \<^verbatim>\<open>Stores\<close>, \<^verbatim>\<open>StoreLaws\<close> (\<^verbatim>\<open>authorization/all.go\<close>, \<^verbatim>\<open>store\<close>): the stores as a datatype whose constructors wrap each other as in the
    code; the listing of schemas ends; what the sub context of a request does not protect.
  \<^item> \<^verbatim>\<open>Server\<close>, \<^verbatim>\<open>ServerLaws\<close> (\<^verbatim>\<open>api\<close>): handlers, checks, dispatch and writer; a refused request has no effect.
  \<^item> \<^verbatim>\<open>Broadcast\<close> (\<^verbatim>\<open>pkg/broadcast\<close>, \<^verbatim>\<open>pkg/subscribe\<close>): the broadcaster as a system of steps over \<open>invariant_system\<close>, and the subscription handler on
    top of the stores and the writer.
  \<^item> \<^verbatim>\<open>ObjectClient\<close> (\<^verbatim>\<open>objectclient\<close>): Kubernetes objects and the requests for them. \<^verbatim>\<open>Lifecycle\<close> (\<^verbatim>\<open>lifecycle/object.go\<close>): each handler runs in
    its phase, and the finalizer goes last. \<^verbatim>\<open>ObjectSets\<close> (\<^verbatim>\<open>pkg/objectset\<close>): a set deletes only its own stale objects; where it fails
    to tell owners apart and to see what exists.
  \<^item> \<^verbatim>\<open>Controllers\<close> (\<^verbatim>\<open>controller\<close>, \<^verbatim>\<open>pkg/changeset\<close>): handlers, generations and work items; a late handler sees the store; what the end of a
    handler's context leaves behind. \<^verbatim>\<open>Condition\<close> (\<^verbatim>\<open>condition/condition.go\<close>): repeated failures change a condition at most once.
  \<^item> \<^verbatim>\<open>RemoteMessage\<close>, \<^verbatim>\<open>RemoteSession\<close>, \<^verbatim>\<open>RemoteServer\<close> (\<^verbatim>\<open>pkg/remotedialer\<close>): the wire format, over the locale \<open>stream_codec\<close>, connections and
    sessions and the registry of sessions, the latter two over \<open>invariant_system\<close>.
  \<^item> \<^verbatim>\<open>Crd\<close> (\<^verbatim>\<open>store/crd/init.go\<close>): creating definitions for schemas and waiting for them; success leaves every schema with an
    established definition. \<^verbatim>\<open>Generator\<close> (\<^verbatim>\<open>generator\<close>): the Go types of fields and the files of the code generator; only generated files are
    removed. \<^verbatim>\<open>ApiClient\<close> (\<^verbatim>\<open>clientbase\<close>): the client for a norman API. The theorem at the end of this theory composes the
    client, the URL builder and the request parser.

  \<^bold>\<open>Fuel and bounds.\<close> The recursions of the code that need not end take fuel, and \<open>None\<close> is running out of it. For the registry
  two levels are enough for an embedding into a schema that is not itself embedded, nothing is proved for longer chains,
  and a schema that embeds into itself exhausts every fuel. For
  the builder with flat defaults, twice the depth of the input is enough, and more gives the same answer. The
  listing of schemas gets one more than there are schemas, which is proved to be enough. A client that follows
  markers needs at most one page per item. The finalizer is removed in three tries and a proxy update in five,
  as in the code; the polls for a custom resource definition are as many as the library makes in a minute.
  Reading a struct type by reflection, and a worker that runs until its queue is shut down, have
  fuel without such a theorem, since a recursive type and an endless queue need not end.

  \<^bold>\<open>Not modelled.\<close> The templates of the code generator and its run for foreign types, the dialing of websockets by the API client, the construction of clients and
  contexts from configuration, leader election, metrics, signals and debugging output: they call libraries and have no
  state of their own. The reading and writing of sockets, the ping timers and the goroutine that keeps a peer
  connected: pure I/O. Conversions through the JSON encoding of arbitrary Go structs, and the watch of the object
  client, which decodes a stream of the library. The concurrency of listing several namespaces, whose result is a
  permutation of the one here. The page of HTML around a response. A condition on an object without the fields that
  reflection looks for.
\<close>

section \<open>A client of a norman server\<close>

definition get_request :: "'w transport \<Rightarrow> api_operations \<Rightarrow> string \<Rightarrow> client_request" where
  "get_request T a url = \<lparr>cqMethod = ''GET'', cqURL = url, cqHeader = [(''Authorization'', getAuthHeader T (aoOpts a))], cqBody = []\<rparr>"

lemma DoByID_sends:
  assumes "map_of (aoTypes a) t = Some cs" "ContainsString (csResourceMethods cs) ''GET''" "map_of (csLinks cs) ''collection'' = Some link"
    and "t_request_error T (link @ ''/'' @ i) = None" "t_do T (get_request T a (link @ ''/'' @ i)) w = (Inr resp, w')" "cpCode resp = 200"
  shows "DoByID T a t i w = (decode_wrapped T (cpBody resp), w')"
  using assms by (simp add: DoByID_def with_type_def DoGet_def appendFilters_def send_def get_request_def)

lemma CollectionLink_path:
  assumes "Path v \<noteq> []" "getPluralName schema \<noteq> []" "subContext u = []"
  shows "drop (length (responseURLBase u)) (CollectionLink u schema (Some v) @ ''/'' @ i) = Path v @ slashed [getPluralName schema, i]"
  using assms by (simp add: CollectionLink_def constructBasicURL_def slashed_def)

lemma plain_get:
  assumes "uQuery (rURL req) = []" "rMethod req = ''GET''" "''GET'' \<in> set (ResourceMethods schema)"
  shows "resource_request req schema \<and> parseMethod req = ''GET''"
  using assms by (simp add: resource_request_def parseMethod_def query_get_def)

text \<open>C11. A lookup by ID with the client reaches the resource on the server. The client takes the collection link that the
  server wrote for a schema, appends the ID and sends a GET, whose answer it decodes and returns. The server parses
  a request with that method and the path of that URL to the version, the schema and the ID. The plural name in
  the collection link is in lower case, so the registry has to know the schema by that name.\<close>

theorem client_ByID_reaches_server:
  assumes u: "NewURLBuilder urlParse r w0 = Ok u" and url: "url = CollectionLink u schema (Some v) @ ''/'' @ i"
    and types: "map_of (aoTypes a) t = Some cs" "ContainsString (csResourceMethods cs) ''GET''"
      "map_of (csLinks cs) ''collection'' = Some (CollectionLink u schema (Some v))"
    and sent: "t_request_error T url = None" "t_do T (get_request T a url) w = (Inr resp, w')" "cpCode resp = 200"
    and req: "uEscapedPath (rURL req) = drop (length (responseURLBase u)) url" "uQuery (rURL req) = []"
      "rMethod req = cqMethod (get_request T a url)"
    and v: "Path v \<noteq> []" "plain_path (Path v)" "\<not> SubContext v" "longest_match s (uEscapedPath (rURL req)) v"
    and plain: "plain_segment (getPluralName schema)" "plain_segment i"
    and schema: "Schema_of s (Some v) (getPluralName schema) = Some schema" "''GET'' \<in> set (ResourceMethods schema)"
  shows "DoByID T a t i w = (decode_wrapped T (cpBody resp), w')
    \<and> (\<exists>x. Parse urlParse req s default_url_parser DefaultResolver = Ok (x, None)
      \<and> xSchema x = Some schema \<and> xType x = ID schema \<and> xID x = i \<and> xVersion x = Some v \<and> xMethod x = ''GET'')"
proof (rule conjI)
  show "DoByID T a t i w = (decode_wrapped T (cpBody resp), w')" by (rule DoByID_sends [OF types sent [unfolded url]])
  let ?segs = "[getPluralName schema, i]"
  have segs: "?segs \<noteq> []" "list_all plain_segment ?segs" and ne: "getPluralName schema \<noteq> []" "i \<noteq> []"
    using plain by (simp_all add: plain_segment_def)
  have "subContext u = []" using NewURLBuilder_base [of urlParse r w0] u by auto
  then have path: "uEscapedPath (rURL req) = Path v @ slashed ?segs" using CollectionLink_path [OF v(1) ne(1)] req(1) url by simp
  have get: "resource_request req schema" "parseMethod req = ''GET''"
    using plain_get [OF req(2) _ schema(2)] req(3) by (simp_all add: get_request_def)
  have "\<exists>x. Parse urlParse req s default_url_parser DefaultResolver = Ok (x, None)
      \<and> xSchema x = Some schema \<and> xType x = ID schema \<and> xID x = i \<and> xLink x = [] \<and> xVersion x = Some v \<and> xMethod x = parseMethod req"
  proof (rule Parse_resource [OF _ _ schema(1) ne(1) get(1) ne(2)])
    show "squeeze_slashes (uEscapedPath (rURL req)) = Path v @ slashed ?segs" unfolding path by (rule squeeze_path [OF v(2) segs(2)])
    show "parseVersionAndSubContext s (Path v @ slashed ?segs) = Ok (None, Some v, [], ?segs, [])"
      by (rule parse_plain_version [OF v(4) [unfolded path] v(3) segs])
  qed
  then show "\<exists>x. Parse urlParse req s default_url_parser DefaultResolver = Ok (x, None)
      \<and> xSchema x = Some schema \<and> xType x = ID schema \<and> xID x = i \<and> xVersion x = Some v \<and> xMethod x = ''GET''"
    unfolding get(2) by blast
qed

definition echo_transport :: "client_request list transport" where
  "echo_transport = \<lparr>t_do = \<lambda>q w. (Inr \<lparr>cpCode = 200, cpStatus = ''200 OK'', cpHeader = [], cpContents = ''p1'', cpReadError = None\<rparr>, w @ [q]),
     t_request_error = \<lambda>_. None, t_marshal = \<lambda>_. Inr [], t_unmarshal = \<lambda>s. Inr (VStr s), t_base64 = id,
     t_parse_url = \<lambda>s. Inr \<lparr>puBase = s, puQuery = []\<rparr>, t_url_string = puBase\<rparr>"

definition sample_client :: "string \<Rightarrow> api_operations" where
  "sample_client link = \<lparr>aoOpts = \<lparr>coURL = [], coAccessKey = [], coSecretKey = [], coTokenKey = ''t'', coCACerts = []\<rparr>,
     aoTypes = [(''pod'', \<lparr>csID = ''pod'', csPluralName = ''pods'', csCollectionMethods = [''GET''], csResourceMethods = [''GET''],
       csLinks = [(''collection'', link)]\<rparr>)]\<rparr>"

lemma client_ByID_reaches_server_witness:
  "\<exists>link x. DoByID echo_transport (sample_client link) ''pod'' ''p1'' [] = (Inr (VStr ''p1''), [get_request echo_transport (sample_client link) (link @ ''/p1'')])
     \<and> Parse (\<lambda>_. Panic) (sample_request ''/v3/pods/p1'') sample_registry default_url_parser DefaultResolver = Ok (x, None)
     \<and> xSchema x = Some sample_pod \<and> xID x = ''p1'' \<and> xMethod x = ''GET''"
proof -
  let ?req = "sample_request ''/v3/pods/p1''"
  obtain u where u: "NewURLBuilder (\<lambda>_. Panic) (sample_request ''/'') sample_version = Ok u" "subContext u = []"
    using NewURLBuilder_base by blast
  define link where "link = CollectionLink u sample_pod (Some sample_version)"
  define url where "url = link @ ''/'' @ ''p1''"
  define a where "a = sample_client link"
  have plural: "getPluralName sample_pod = ''pods''" by code_simp
  have path: "drop (length (responseURLBase u)) url = ''/v3/pods/p1''"
    using CollectionLink_path [of sample_version sample_pod u "''p1''"] u(2) plural unfolding url_def link_def by (simp add: slashed_def)
  have req: "uEscapedPath (rURL ?req) = ''/v3/pods/p1''" "uQuery (rURL ?req) = []" "rMethod ?req = ''GET''"
    by (simp_all add: sample_request_def)
  have match: "longest_match sample_registry ''/v3/pods/p1'' sample_version"
    by (simp add: longest_match_def sample_registry_def path_matches_def has_prefix_def str_contains_def)
  have v: "\<not> SubContext sample_version" "Path sample_version = ''/v3''" by (simp_all add: sample_version_def version_zero_def)
  have p: "plain_path ''/v3''" by (simp add: plain_path_def has_suffix_def)
  have s: "plain_segment ''pods''" "plain_segment ''p1''" by (simp_all add: plain_segment_def)
  have reg: "Schema_of sample_registry (Some sample_version) ''pods'' = Some sample_pod" by code_simp
  have cs: "map_of (aoTypes a) ''pod'' = Some \<lparr>csID = ''pod'', csPluralName = ''pods'', csCollectionMethods = [''GET''], csResourceMethods = [''GET''],
       csLinks = [(''collection'', link)]\<rparr>" by (simp add: a_def sample_client_def)
  have T: "t_request_error echo_transport url = None"
    "t_do echo_transport (get_request echo_transport a url) [] = (Inr \<lparr>cpCode = 200, cpStatus = ''200 OK'', cpHeader = [], cpContents = ''p1'', cpReadError = None\<rparr>, [get_request echo_transport a url])"
    by (simp_all add: echo_transport_def)
  note r = client_ByID_reaches_server [OF u(1) url_def [unfolded link_def] cs _ _ T, of ?req sample_registry]
  have "DoByID echo_transport a ''pod'' ''p1'' [] = (decode_wrapped echo_transport (Inr ''p1''), [get_request echo_transport a url])"
    and "\<exists>x. Parse (\<lambda>_. Panic) ?req sample_registry default_url_parser DefaultResolver = Ok (x, None)
      \<and> xSchema x = Some sample_pod \<and> xType x = ID sample_pod \<and> xID x = ''p1'' \<and> xVersion x = Some sample_version \<and> xMethod x = ''GET''"
    using r path req match v p s reg plural by (simp_all add: link_def get_request_def cpBody_def)
  moreover have "decode_wrapped echo_transport (Inr ''p1'') = Inr (VStr ''p1'')" by (simp add: decode_wrapped_def echo_transport_def)
  ultimately show ?thesis unfolding a_def url_def by auto
qed

end
